(* ===== verification/Prelude.thy ===== *)
theory Prelude
  imports Main "HOL-Library.AList" "HOL-Library.Char_ord" "HOL-Library.List_Lexorder"
begin

text \<open>
  What every component shares: Python's exceptions as values, programs that pass a state and may
  raise (a raise keeps the state reached so far, as a Python method does), a weakest-precondition
  calculus for them, dictionaries that remember insertion order, loops over collections, and the
  decimal identifiers that the trust core hands out.
\<close>

section \<open>Automation\<close>

named_theorems wp "weakest preconditions of the program combinators"
named_theorems run "running the program combinators"
named_theorems dict "lookups and key sets of updated dictionaries"

section \<open>Errors and programs\<close>

datatype error =
    TrustCoreError string
  | ValueError string
  | RuntimeError string
  | TypeError string
  | KeyError string
  | DurableStateError string
  | IntegrityError string
  | FileExistsError string
  | FileNotFoundError string
  | OSError string
  | EOFError string
  | ActionAuthorizationError string
  | HTTPException int

type_synonym ('s, 'a) prog = "'s \<Rightarrow> (error + 'a) \<times> 's"

definition ret :: "'a \<Rightarrow> ('s, 'a) prog" where
  "ret x = (\<lambda>s. (Inr x, s))"

definition raise :: "error \<Rightarrow> ('s, 'a) prog" where
  "raise e = (\<lambda>s. (Inl e, s))"

definition bind :: "('s, 'a) prog \<Rightarrow> ('a \<Rightarrow> ('s, 'b) prog) \<Rightarrow> ('s, 'b) prog" where
  "bind m f = (\<lambda>s. case m s of (Inl e, t) \<Rightarrow> (Inl e, t) | (Inr x, t) \<Rightarrow> f x t)"

definition gets :: "('s \<Rightarrow> 'a) \<Rightarrow> ('s, 'a) prog" where
  "gets f = (\<lambda>s. (Inr (f s), s))"

definition modify :: "('s \<Rightarrow> 's) \<Rightarrow> ('s, unit) prog" where
  "modify f = (\<lambda>s. (Inr (), f s))"

text \<open>\<open>if condition: raise TrustCoreError(message)\<close>.\<close>

definition reject_if :: "bool \<Rightarrow> string \<Rightarrow> ('s, unit) prog" where
  "reject_if b message = (if b then raise (TrustCoreError message) else ret ())"

text \<open>A dictionary lookup whose \<open>KeyError\<close> is turned into another error.\<close>

definition fetch :: "error \<Rightarrow> 'a option \<Rightarrow> ('s, 'a) prog" where
  "fetch e v = (case v of None \<Rightarrow> raise e | Some x \<Rightarrow> ret x)"

primrec for_each :: "('x \<Rightarrow> ('s, unit) prog) \<Rightarrow> 'x list \<Rightarrow> ('s, unit) prog" where
  "for_each f [] = ret ()"
| "for_each f (x # xs) = bind (f x) (\<lambda>_. for_each f xs)"

primrec collect :: "('x \<Rightarrow> ('s, 'a) prog) \<Rightarrow> 'x list \<Rightarrow> ('s, 'a list) prog" where
  "collect f [] = ret []"
| "collect f (x # xs) = bind (f x) (\<lambda>y. bind (collect f xs) (\<lambda>ys. ret (y # ys)))"

lemma bind_ret [simp]: "bind (ret x) f = f x"
  by (simp add: bind_def ret_def fun_eq_iff)

lemma bind_raise [simp]: "bind (raise e) f = raise e"
  by (simp add: bind_def raise_def fun_eq_iff)

lemma bind_assoc: "bind (bind m f) g = bind m (\<lambda>x. bind (f x) g)"
  by (auto simp: bind_def fun_eq_iff split: prod.splits sum.splits)

lemma bind_run [run]:
  "bind m f s = (case m s of (Inl e, t) \<Rightarrow> (Inl e, t) | (Inr x, t) \<Rightarrow> f x t)"
  by (simp add: bind_def)

lemma bind_success: "m s = (Inr x, t) \<Longrightarrow> bind m f s = f x t"
  by (simp add: bind_def)

lemma bind_failure: "m s = (Inl e, t) \<Longrightarrow> bind m f s = (Inl e, t)"
  by (simp add: bind_def)

lemma bind_eq_Inr:
  "bind m f s = (Inr y, u) \<longleftrightarrow> (\<exists>x t. m s = (Inr x, t) \<and> f x t = (Inr y, u))"
  by (auto simp: bind_def split: prod.splits sum.splits)

text \<open>Running a program on a state, for evaluation: not simp rules, because they eta-contract.\<close>

lemma run_eqs [run]:
  "ret x s = (Inr x, s)"
  "raise e s = (Inl e, s)"
  "gets f s = (Inr (f s), s)"
  "modify g s = (Inr (), g s)"
  by (simp_all add: ret_def raise_def gets_def modify_def)

section \<open>Weakest preconditions\<close>

text \<open>
  \<open>wp m Q E s\<close>: run from \<open>s\<close>, the program \<open>m\<close> ends with \<open>Q\<close> if it returns and with \<open>E\<close> if it
  raises. Programs are total, so there is no third outcome.
\<close>

definition wp :: "('s, 'a) prog \<Rightarrow> ('a \<Rightarrow> 's \<Rightarrow> bool) \<Rightarrow> (error \<Rightarrow> 's \<Rightarrow> bool) \<Rightarrow> 's \<Rightarrow> bool" where
  "wp m Q E s = (case m s of (Inl e, t) \<Rightarrow> E e t | (Inr x, t) \<Rightarrow> Q x t)"

abbreviation anyerr :: "error \<Rightarrow> 's \<Rightarrow> bool" where
  "anyerr \<equiv> \<lambda>_ _. True"

text \<open>The rules leave the state out on the left, so that they also fire under a continuation.\<close>

lemma wp_ret [wp]: "wp (ret x) Q E = Q x"
  by (simp add: wp_def ret_def fun_eq_iff)

lemma wp_raise [wp]: "wp (raise e) Q E = E e"
  by (simp add: wp_def raise_def fun_eq_iff)

lemma wp_gets [wp]: "wp (gets f) Q E = (\<lambda>s. Q (f s) s)"
  by (simp add: wp_def gets_def fun_eq_iff)

lemma wp_modify [wp]: "wp (modify f) Q E = (\<lambda>s. Q () (f s))"
  by (simp add: wp_def modify_def fun_eq_iff)

lemma wp_bind [wp]: "wp (bind m f) Q E = wp m (\<lambda>x. wp (f x) Q E) E"
  by (auto simp add: wp_def bind_def fun_eq_iff split: prod.splits sum.splits)

lemma wp_if [wp]: "wp (if b then m else n) Q E = (\<lambda>s. if b then wp m Q E s else wp n Q E s)"
  by (simp add: fun_eq_iff)

lemma wp_reject_if [wp]:
  "wp (reject_if b msg) Q E = (\<lambda>s. if b then E (TrustCoreError msg) s else Q () s)"
  by (simp add: reject_if_def wp fun_eq_iff)

lemma wp_fetch [wp]:
  "wp (fetch e v) Q E = (\<lambda>s. case v of None \<Rightarrow> E e s | Some x \<Rightarrow> Q x s)"
  by (simp add: fetch_def wp fun_eq_iff split: option.splits)

lemma wp_case_option [wp]:
  "wp (case v of None \<Rightarrow> m | Some x \<Rightarrow> f x) Q E
   = (\<lambda>s. case v of None \<Rightarrow> wp m Q E s | Some x \<Rightarrow> wp (f x) Q E s)"
  by (simp add: fun_eq_iff split: option.splits)

lemma wpD: "wp m Q E s \<Longrightarrow> m s = (Inr x, t) \<Longrightarrow> Q x t"
  by (simp add: wp_def)

lemma wpE: "wp m Q E s \<Longrightarrow> m s = (Inl e, t) \<Longrightarrow> E e t"
  by (simp add: wp_def)

lemma wpI: "(\<And>x t. m s = (Inr x, t) \<Longrightarrow> Q x t) \<Longrightarrow> (\<And>e t. m s = (Inl e, t) \<Longrightarrow> E e t) \<Longrightarrow> wp m Q E s"
  by (auto simp: wp_def split: prod.splits sum.splits)

lemma wp_run: "m s = (Inr x, t) \<Longrightarrow> Q x t \<Longrightarrow> wp m Q E s"
  by (simp add: wp_def)

lemma wp_mono:
  assumes "wp m Q E s"
    and "\<And>x t. Q x t \<Longrightarrow> Q' x t" and "\<And>e t. E e t \<Longrightarrow> E' e t"
  shows "wp m Q' E' s"
  using assms by (auto simp: wp_def split: prod.splits sum.splits)

lemma wp_conj: "wp m Q E s \<Longrightarrow> wp m Q' E s \<Longrightarrow> wp m (\<lambda>x t. Q x t \<and> Q' x t) E s"
  by (auto simp: wp_def split: prod.splits sum.splits)

text \<open>
  The same rules in the form of a verification condition generator: \<open>intro vcg\<close> walks down a program
  and leaves one goal per way out, with the conditions met on the way as its hypotheses.
\<close>

named_theorems vcg "verification conditions of the program combinators"

lemma wp_ret_vc [vcg]: "Q x s \<Longrightarrow> wp (ret x) Q E s"
  and wp_raise_vc [vcg]: "E er s \<Longrightarrow> wp (raise er) Q E s"
  and wp_gets_vc [vcg]: "Q (f s) s \<Longrightarrow> wp (gets f) Q E s"
  and wp_modify_vc [vcg]: "Q' () (g s) \<Longrightarrow> wp (modify g) Q' E s"
  and wp_bind_vc [vcg]: "wp m (\<lambda>x. wp (h x) R E) E s \<Longrightarrow> wp (bind m h) R E s"
  and wp_reject_vc [vcg]: "(b \<Longrightarrow> E (TrustCoreError msg) s) \<Longrightarrow> (\<not> b \<Longrightarrow> Q' () s) \<Longrightarrow> wp (reject_if b msg) Q' E s"
  and wp_fetch_vc [vcg]: "(v = None \<Longrightarrow> E er s) \<Longrightarrow> (\<And>x. v = Some x \<Longrightarrow> Q x s) \<Longrightarrow> wp (fetch er v) Q E s"
  and wp_if_vc [vcg]: "(b \<Longrightarrow> wp m Q E s) \<Longrightarrow> (\<not> b \<Longrightarrow> wp m' Q E s) \<Longrightarrow> wp (if b then m else m') Q E s"
  and wp_case_option_vc [vcg]:
    "(o' = None \<Longrightarrow> wp m Q E s) \<Longrightarrow> (\<And>y. o' = Some y \<Longrightarrow> wp (k y) Q E s)
     \<Longrightarrow> wp (case o' of None \<Rightarrow> m | Some y \<Rightarrow> k y) Q E s"
  and wp_case_prod_vc [vcg]:
    "(\<And>a b. p = (a, b) \<Longrightarrow> wp (l a b) Q E s) \<Longrightarrow> wp (case p of (a, b) \<Rightarrow> l a b) Q E s"
  and wp_let_vc [vcg]: "(\<And>y. y = w \<Longrightarrow> wp (n y) Q E s) \<Longrightarrow> wp (let y = w in n y) Q E s"
  by (simp_all add: wp split: option.split prod.split)

text \<open>Loops keep what each turn keeps.\<close>

lemma wp_for_each:
  assumes "\<And>x t. x \<in> set xs \<Longrightarrow> I t \<Longrightarrow> wp (f x) (\<lambda>_. I) E t" and "I s"
  shows "wp (for_each f xs) (\<lambda>_. I) E s"
  using assms
proof (induction xs arbitrary: s)
  case Nil
  then show ?case by (simp add: wp)
next
  case (Cons x xs)
  from Cons.prems have "wp (f x) (\<lambda>_. I) E s" by simp
  then show ?case using Cons by (auto simp: wp intro: wp_mono)
qed

lemma wp_collect:
  assumes "\<And>x t. x \<in> set xs \<Longrightarrow> I t \<Longrightarrow> wp (f x) (\<lambda>_. I) E t" and "I s"
  shows "wp (collect f xs) (\<lambda>_. I) E s"
  using assms
proof (induction xs arbitrary: s)
  case Nil
  then show ?case by (simp add: wp)
next
  case (Cons x xs)
  from Cons.prems have "wp (f x) (\<lambda>_. I) E s" by simp
  then have "wp (f x) (\<lambda>_ t. wp (collect f xs) (\<lambda>_. I) E t) E s"
    using Cons by (auto intro: wp_mono)
  then show ?case by (simp add: wp)
qed

text \<open>
  \<open>keeps m I\<close>: whether \<open>m\<close> returns or raises, the state it leaves satisfies \<open>I\<close> if the state it
  started in did. It is proved by following the structure of the program, without computing the
  intermediate states, so it is how an operation is shown to leave alone what it does not write.
\<close>

definition keeps :: "('s, 'a) prog \<Rightarrow> ('s \<Rightarrow> bool) \<Rightarrow> bool" where
  "keeps m I \<longleftrightarrow> (\<forall>s. I s \<longrightarrow> I (snd (m s)))"

text \<open>A predicate that does not look at the field an update function writes.\<close>

abbreviation blind :: "(('x \<Rightarrow> 'x) \<Rightarrow> 's \<Rightarrow> 's) \<Rightarrow> ('s \<Rightarrow> bool) \<Rightarrow> bool" where
  "blind u I \<equiv> \<forall>f s. I s \<longrightarrow> I (u f s)"

named_theorems keeps "programs that keep a predicate on states"

lemma keepsD: "keeps m I \<Longrightarrow> I s \<Longrightarrow> I (snd (m s))"
  by (simp add: keeps_def)

lemma keeps_wp: "keeps m I \<longleftrightarrow> (\<forall>s. I s \<longrightarrow> wp m (\<lambda>_. I) (\<lambda>_. I) s)"
  by (simp add: keeps_def wp_def split: prod.splits sum.splits)
    (metis old.sum.exhaust prod.collapse snd_conv)

lemma keepsI: "(\<And>s. I s \<Longrightarrow> wp m (\<lambda>_. I) (\<lambda>_. I) s) \<Longrightarrow> keeps m I"
  by (simp add: keeps_wp)

lemma wp_keeps:
  assumes "keeps m I" "I s" "\<And>x t. I t \<Longrightarrow> Q x t" "\<And>er t. I t \<Longrightarrow> E er t"
  shows "wp m Q E s"
  using assms by (auto simp: keeps_wp intro: wp_mono)

lemma keeps_ret [keeps]: "keeps (ret x) I"
  by (simp add: keeps_def ret_def)

lemma keeps_raise [keeps]: "keeps (raise e) I"
  by (simp add: keeps_def raise_def)

lemma keeps_gets [keeps]: "keeps (gets f) I"
  by (simp add: keeps_def gets_def)

lemma keeps_reject_if [keeps]: "keeps (reject_if b msg) I"
  by (simp add: reject_if_def keeps)

lemma keeps_fetch [keeps]: "keeps (fetch e v) I"
  by (simp add: fetch_def keeps split: option.split)

lemma keeps_bind [keeps]: "keeps m I \<Longrightarrow> (\<And>x. keeps (f x) I) \<Longrightarrow> keeps (bind m f) I"
  by (simp add: keeps_def bind_def split: prod.split sum.split) (metis snd_conv)

lemma keeps_modify [keeps]: "(\<And>s. I s \<Longrightarrow> I (f s)) \<Longrightarrow> keeps (modify f) I"
  by (simp add: keeps_def modify_def)

lemma keeps_if [keeps]: "(b \<Longrightarrow> keeps m I) \<Longrightarrow> (\<not> b \<Longrightarrow> keeps n I) \<Longrightarrow> keeps (if b then m else n) I"
  by simp

lemma keeps_case_option [keeps]:
  "(v = None \<Longrightarrow> keeps m I) \<Longrightarrow> (\<And>x. v = Some x \<Longrightarrow> keeps (f x) I)
   \<Longrightarrow> keeps (case v of None \<Rightarrow> m | Some x \<Rightarrow> f x) I"
  by (cases v) auto

lemma keeps_case_prod [keeps]:
  "(\<And>a b. p = (a, b) \<Longrightarrow> keeps (f a b) I) \<Longrightarrow> keeps (case p of (a, b) \<Rightarrow> f a b) I"
  by (cases p) auto

lemma keeps_let [keeps]: "(\<And>x. x = v \<Longrightarrow> keeps (f x) I) \<Longrightarrow> keeps (let x = v in f x) I"
  by simp

lemma keeps_for_each [keeps]:
  "(\<And>x. x \<in> set xs \<Longrightarrow> keeps (f x) I) \<Longrightarrow> keeps (for_each f xs) I"
  by (induction xs) (auto intro!: keeps)

lemma keeps_collect [keeps]:
  "(\<And>x. x \<in> set xs \<Longrightarrow> keeps (f x) I) \<Longrightarrow> keeps (collect f xs) I"
  by (induction xs) (auto intro!: keeps)

lemma keeps_conj: "keeps m I \<Longrightarrow> keeps m J \<Longrightarrow> keeps m (\<lambda>s. I s \<and> J s)"
  by (simp add: keeps_def)

section \<open>Dictionaries in insertion order\<close>

text \<open>
  A Python dictionary is an association list with each key once: \<open>d[k] = v\<close> replaces the value in
  place or appends, which is \<open>AList.update\<close>; \<open>d.values()\<close> is in insertion order.
\<close>

type_synonym ('k, 'v) dict = "('k \<times> 'v) list"

abbreviation dget :: "('k, 'v) dict \<Rightarrow> 'k \<Rightarrow> 'v option" where
  "dget \<equiv> map_of"

abbreviation dput :: "'k \<Rightarrow> 'v \<Rightarrow> ('k, 'v) dict \<Rightarrow> ('k, 'v) dict" where
  "dput \<equiv> AList.update"

abbreviation dkeys :: "('k, 'v) dict \<Rightarrow> 'k list" where
  "dkeys d \<equiv> map fst d"

abbreviation dvals :: "('k, 'v) dict \<Rightarrow> 'v list" where
  "dvals d \<equiv> map snd d"

text \<open>\<open>for k, v in d.items(): if p(v): d[k] = f(v)\<close>.\<close>

definition dreplace :: "('v \<Rightarrow> bool) \<Rightarrow> ('v \<Rightarrow> 'v) \<Rightarrow> ('k, 'v) dict \<Rightarrow> ('k, 'v) dict" where
  "dreplace p f d = map (\<lambda>(k, v). (k, if p v then f v else v)) d"

lemma dget_dput [dict]: "dget (dput k v d) k' = (if k' = k then Some v else dget d k')"
  by (simp add: update_conv')

lemma dkeys_dput [dict]:
  "dkeys (dput k v d) = (if k \<in> set (dkeys d) then dkeys d else dkeys d @ [k])"
  by (induction d) auto

lemma distinct_dput [simp]: "distinct (dkeys d) \<Longrightarrow> distinct (dkeys (dput k v d))"
  by (rule distinct_update)

lemma dput_fresh: "k \<notin> set (dkeys d) \<Longrightarrow> dput k v d = d @ [(k, v)]"
  by (induction d) auto

lemma dget_fresh: "dget d k = None \<longleftrightarrow> k \<notin> set (dkeys d)"
  by (induction d) auto

lemma dget_dreplace [dict]:
  "dget (dreplace p f d) k = map_option (\<lambda>v. if p v then f v else v) (dget d k)"
  by (induction d) (auto simp: dreplace_def)

lemma dkeys_dreplace [dict, simp]: "dkeys (dreplace p f d) = dkeys d"
  by (induction d) (auto simp: dreplace_def)

lemma in_dvals:
  assumes "distinct (dkeys d)"
  shows "v \<in> set (dvals d) \<longleftrightarrow> (\<exists>k. dget d k = Some v)"
  using assms by (force simp: map_of_eq_Some_iff)

lemma dget_in_dvals: "dget d k = Some v \<Longrightarrow> v \<in> set (dvals d)"
  by (auto dest!: map_of_SomeD intro: image_eqI [where x = "(k, v)"])

lemma dget_in_dkeys: "dget d k = Some v \<Longrightarrow> k \<in> set (dkeys d)"
  by (auto dest!: map_of_SomeD intro: image_eqI [where x = "(k, v)"])

text \<open>A predicate on the live values decides the same as one on the lookups.\<close>

lemma dvals_all_iff:
  assumes "distinct (dkeys d)"
  shows "(\<forall>v \<in> set (dvals d). P v) \<longleftrightarrow> (\<forall>k v. dget d k = Some v \<longrightarrow> P v)"
  using in_dvals [OF assms] by blast

text \<open>Rewriting the values at a set of keys, the effect of a loop that writes back each of them.\<close>

definition dmark :: "'k set \<Rightarrow> ('v \<Rightarrow> 'v) \<Rightarrow> ('k, 'v) dict \<Rightarrow> ('k, 'v) dict" where
  "dmark K f d = map (\<lambda>(k, v). (k, if k \<in> K then f v else v)) d"

lemma dmark_empty [simp]: "dmark {} f d = d"
  by (induction d) (auto simp: dmark_def)

lemma dget_dmark [dict]: "dget (dmark K f d) k = map_option (\<lambda>v. if k \<in> K then f v else v) (dget d k)"
  by (induction d) (auto simp: dmark_def)

lemma dkeys_dmark [dict, simp]: "dkeys (dmark K f d) = dkeys d"
  by (induction d) (auto simp: dmark_def)

lemma dmark_outside: "\<forall>k \<in> set (dkeys d). k \<notin> K \<Longrightarrow> dmark K f d = d"
  by (induction d) (auto simp: dmark_def)

lemma dput_dmark:
  assumes "distinct (dkeys d)" "dget d k = Some v"
  shows "dput k (f v) (dmark K f d) = dmark (insert k K) f d"
  using assms
proof (induction d)
  case Nil
  then show ?case by simp
next
  case (Cons kv d)
  obtain k' v' where kv: "kv = (k', v')" by (cases kv)
  show ?case
  proof (cases "k = k'")
    case True
    then have "dmark K f d = dmark (insert k K) f d"
      using Cons.prems kv by (force simp: dmark_def)
    with True Cons.prems kv show ?thesis by (simp add: dmark_def)
  next
    case False
    with Cons kv show ?thesis by (simp add: dmark_def)
  qed
qed

section \<open>Decimal identifiers\<close>

definition digit_char :: "nat \<Rightarrow> char" where
  "digit_char n = char_of (48 + n)"

fun decimal :: "nat \<Rightarrow> string" where
  "decimal n = (if n < 10 then [digit_char n] else decimal (n div 10) @ [digit_char (n mod 10)])"

declare decimal.simps [simp del]

definition pad0 :: "nat \<Rightarrow> string \<Rightarrow> string" where
  "pad0 w t = replicate (w - length t) CHR ''0'' @ t"

text \<open>\<open>f"{n:08d}"\<close>: zero padding to eight characters, after the sign if there is one.\<close>

definition format_08d :: "int \<Rightarrow> string" where
  "format_08d n = (if n < 0 then CHR ''-'' # pad0 7 (decimal (nat (- n))) else pad0 8 (decimal (nat n)))"

definition ident :: "string \<Rightarrow> int \<Rightarrow> string" where
  "ident prefix n = prefix @ ''_'' @ format_08d n"

text \<open>Reading a decimal back, to show that the format loses nothing.\<close>

definition decimal_value :: "string \<Rightarrow> nat" where
  "decimal_value t = foldl (\<lambda>acc c. 10 * acc + (of_char c - 48)) 0 t"

lemma of_char_digit [simp]: "d < 10 \<Longrightarrow> of_char (digit_char d) = (48 + d :: nat)"
  by (simp add: digit_char_def)

lemma digit_0: "digit_char 0 = CHR ''0''"
  by (simp add: digit_char_def char_of_def bit_iff_odd)

lemma decimal_value_snoc:
  "decimal_value (t @ [c]) = 10 * decimal_value t + (of_char c - 48)"
  by (simp add: decimal_value_def)

lemma decimal_value_decimal: "decimal_value (decimal n) = n"
proof (induction n rule: decimal.induct)
  case (1 n)
  show ?case
  proof (cases "n < 10")
    case True
    then show ?thesis by (subst decimal.simps) (simp add: decimal_value_def)
  next
    case False
    with 1 show ?thesis by (subst decimal.simps) (simp add: decimal_value_snoc)
  qed
qed

lemma decimal_value_zeros: "decimal_value (replicate k CHR ''0'' @ t) = decimal_value t"
proof (induction k)
  case 0
  then show ?case by simp
next
  case (Suc k)
  then show ?case by (simp add: decimal_value_def)
qed

lemma decimal_value_pad0: "decimal_value (pad0 w t) = decimal_value t"
  by (simp add: pad0_def decimal_value_zeros)

lemma format_08d_inj:
  assumes "0 \<le> m" "0 \<le> n" "format_08d m = format_08d n"
  shows "m = n"
proof -
  from assms have "decimal_value (pad0 8 (decimal (nat m))) = decimal_value (pad0 8 (decimal (nat n)))"
    by (simp add: format_08d_def)
  then have "nat m = nat n" by (simp add: decimal_value_pad0 decimal_value_decimal)
  with assms show ?thesis by simp
qed

lemma ident_inj: "0 \<le> m \<Longrightarrow> 0 \<le> n \<Longrightarrow> ident p m = ident p n \<longleftrightarrow> m = n"
  by (auto simp: ident_def dest: format_08d_inj)

text \<open>The prefixes all have three letters, so the prefix of an identifier can be read off it.\<close>

lemma ident_prefix: "length p = length q \<Longrightarrow> ident p m = ident q n \<Longrightarrow> p = q"
  by (simp add: ident_def)

section \<open>Sorted sets of strings\<close>

lemma sorted_set_eq: "finite A \<Longrightarrow> set (sorted_list_of_set A) = A"
  by simp

end
