(* ===== verification/Models.thy ===== *)
theory Models
  imports Prelude
begin

text \<open>
  The records and enumerations of \<open>src/kyn/models.py\<close>, one record per dataclass. A field carries
  the three letters of its record's identifier prefix, because Isabelle's selectors are global:
  \<open>Attestation.request_id\<close> is \<open>att_request_id\<close>. Strings are character lists over the code
  points 0 to 255. A timezone-aware \<open>datetime\<close> is its instant in microseconds since the epoch,
  which is all that Python's comparisons and arithmetic on aware values look at; a naive one is
  kept apart, since comparing it with an aware one raises. A \<open>timedelta\<close> is microseconds.
\<close>

section \<open>Values\<close>

type_synonym time = int
type_synonym timedelta = int

datatype datetime = Naive int | Aware time

datatype json =
    JNull
  | JBool bool
  | JInt int
  | JStr string
  | JList "json list"
  | JObject "(string \<times> json) list"

definition seconds :: "int \<Rightarrow> timedelta" where
  "seconds n = n * 1000000"

definition minutes :: "int \<Rightarrow> timedelta" where
  "minutes n = seconds (60 * n)"

definition days :: "int \<Rightarrow> timedelta" where
  "days n = seconds (86400 * n)"

section \<open>Enumerations\<close>

datatype assurance_state = ASSURE_PROVISIONAL | ASSURE_ACTIVE | ASSURE_SUSPENDED | ASSURE_REVOKED | ASSURE_EXPIRED
datatype attestation_state = ATT_ACTIVE | ATT_INVALIDATED | ATT_EXPIRED
datatype audit_basis = RANDOM | RISK
datatype audit_state = AUDIT_PENDING | AUDIT_PASSED | AUDIT_FAILED
datatype challenge_state = OPEN | RESPONDED | DECIDED | APPEALED | CLOSED
datatype challenge_decision = DISMISSED | SUSTAINED
datatype appeal_decision = AFFIRMED | REVERSED
datatype credential_state = CRED_PROVISIONAL | CRED_ACTIVE | CRED_SUSPENDED | CRED_REVOKED | CRED_EXPIRED

datatype verification_basis =
    SELF_ASSERTED | BOOTSTRAP_VOUCHED | PEER_ATTESTED | OFFICIAL_SOURCE_CHECKED
  | INDEPENDENTLY_REVIEWED | AUDIT_CORROBORATED

datatype authority_capability =
    MANAGE_CLAIMS | INVITE_ATTESTOR | INTRODUCE_ATTESTOR | ATTEST_CLAIM | SELECT_AUDIT
  | DECIDE_AUDIT | DECIDE_CHALLENGE | DECIDE_APPEAL | GRANT_AUTHORITY | REVOKE_AUTHORITY
  | DECIDE_RECOVERY | PROCESS_PRIVACY | MANAGE_RELEASE | OPERATE_SERVICE

datatype authority_tier = PARTICIPANT | PROVISIONAL_VERIFIER | VERIFIER | STEWARD | OPERATOR
datatype authority_basis = BOOTSTRAP_DESIGNATION | DELEGATED | INDEPENDENT_REVIEW | AUDITED_PROMOTION
datatype storage_posture = PROVISIONAL_BETA | DURABLE_PRODUCTION
datatype recovery_state = RCV_PENDING | RCV_APPROVED | RCV_REJECTED
datatype privacy_request_kind = EXPORT | CORRECTION | DELETION | CONSENT_WITHDRAWAL
datatype privacy_request_state = PRV_PENDING | PRV_COMPLETED | PRV_REJECTED

text \<open>\<open>frozenset(AuthorityCapability)\<close>: every member of the enumeration.\<close>

definition all_capabilities :: "authority_capability set" where
  "all_capabilities = set [MANAGE_CLAIMS, INVITE_ATTESTOR, INTRODUCE_ATTESTOR, ATTEST_CLAIM,
     SELECT_AUDIT, DECIDE_AUDIT, DECIDE_CHALLENGE, DECIDE_APPEAL, GRANT_AUTHORITY,
     REVOKE_AUTHORITY, DECIDE_RECOVERY, PROCESS_PRIVACY, MANAGE_RELEASE, OPERATE_SERVICE]"

lemma in_all_capabilities [simp]: "c \<in> all_capabilities"
  by (cases c) (simp_all add: all_capabilities_def)

text \<open>The wire values (\<open>item.value\<close>) that the service publishes, sorts by, hashes or stores.\<close>

fun audit_basis_value :: "audit_basis \<Rightarrow> string" where
  "audit_basis_value RANDOM = ''random''"
| "audit_basis_value RISK = ''risk''"

fun audit_state_value :: "audit_state \<Rightarrow> string" where
  "audit_state_value AUDIT_PENDING = ''pending''"
| "audit_state_value AUDIT_PASSED = ''passed''"
| "audit_state_value AUDIT_FAILED = ''failed''"

fun challenge_decision_value :: "challenge_decision \<Rightarrow> string" where
  "challenge_decision_value DISMISSED = ''dismissed''"
| "challenge_decision_value SUSTAINED = ''sustained''"

fun appeal_decision_value :: "appeal_decision \<Rightarrow> string" where
  "appeal_decision_value AFFIRMED = ''affirmed''"
| "appeal_decision_value REVERSED = ''reversed''"

fun credential_state_value :: "credential_state \<Rightarrow> string" where
  "credential_state_value CRED_PROVISIONAL = ''provisional''"
| "credential_state_value CRED_ACTIVE = ''active''"
| "credential_state_value CRED_SUSPENDED = ''suspended''"
| "credential_state_value CRED_REVOKED = ''revoked''"
| "credential_state_value CRED_EXPIRED = ''expired''"

fun assurance_state_value :: "assurance_state \<Rightarrow> string" where
  "assurance_state_value ASSURE_PROVISIONAL = ''provisional''"
| "assurance_state_value ASSURE_ACTIVE = ''active''"
| "assurance_state_value ASSURE_SUSPENDED = ''suspended''"
| "assurance_state_value ASSURE_REVOKED = ''revoked''"
| "assurance_state_value ASSURE_EXPIRED = ''expired''"

text \<open>\<open>AssuranceState(credential.state.value)\<close>: the two enumerations have the same values.\<close>

fun assurance_of :: "credential_state \<Rightarrow> assurance_state" where
  "assurance_of CRED_PROVISIONAL = ASSURE_PROVISIONAL"
| "assurance_of CRED_ACTIVE = ASSURE_ACTIVE"
| "assurance_of CRED_SUSPENDED = ASSURE_SUSPENDED"
| "assurance_of CRED_REVOKED = ASSURE_REVOKED"
| "assurance_of CRED_EXPIRED = ASSURE_EXPIRED"

lemma assurance_of_value: "assurance_state_value (assurance_of st) = credential_state_value st"
  by (cases st) simp_all

fun basis_value :: "verification_basis \<Rightarrow> string" where
  "basis_value SELF_ASSERTED = ''self_asserted''"
| "basis_value BOOTSTRAP_VOUCHED = ''bootstrap_vouched''"
| "basis_value PEER_ATTESTED = ''peer_attested''"
| "basis_value OFFICIAL_SOURCE_CHECKED = ''official_source_checked''"
| "basis_value INDEPENDENTLY_REVIEWED = ''independently_reviewed''"
| "basis_value AUDIT_CORROBORATED = ''audit_corroborated''"

fun recovery_state_value :: "recovery_state \<Rightarrow> string" where
  "recovery_state_value RCV_PENDING = ''pending''"
| "recovery_state_value RCV_APPROVED = ''approved''"
| "recovery_state_value RCV_REJECTED = ''rejected''"

fun privacy_kind_value :: "privacy_request_kind \<Rightarrow> string" where
  "privacy_kind_value EXPORT = ''export''"
| "privacy_kind_value CORRECTION = ''correction''"
| "privacy_kind_value DELETION = ''deletion''"
| "privacy_kind_value CONSENT_WITHDRAWAL = ''consent_withdrawal''"

fun privacy_state_value :: "privacy_request_state \<Rightarrow> string" where
  "privacy_state_value PRV_PENDING = ''pending''"
| "privacy_state_value PRV_COMPLETED = ''completed''"
| "privacy_state_value PRV_REJECTED = ''rejected''"

fun attestation_state_value :: "attestation_state \<Rightarrow> string" where
  "attestation_state_value ATT_ACTIVE = ''active''"
| "attestation_state_value ATT_INVALIDATED = ''invalidated''"
| "attestation_state_value ATT_EXPIRED = ''expired''"

fun challenge_state_value :: "challenge_state \<Rightarrow> string" where
  "challenge_state_value OPEN = ''open''"
| "challenge_state_value RESPONDED = ''responded''"
| "challenge_state_value DECIDED = ''decided''"
| "challenge_state_value APPEALED = ''appealed''"
| "challenge_state_value CLOSED = ''closed''"

fun capability_value :: "authority_capability \<Rightarrow> string" where
  "capability_value MANAGE_CLAIMS = ''manage_claims''"
| "capability_value INVITE_ATTESTOR = ''invite_attestor''"
| "capability_value INTRODUCE_ATTESTOR = ''introduce_attestor''"
| "capability_value ATTEST_CLAIM = ''attest_claim''"
| "capability_value SELECT_AUDIT = ''select_audit''"
| "capability_value DECIDE_AUDIT = ''decide_audit''"
| "capability_value DECIDE_CHALLENGE = ''decide_challenge''"
| "capability_value DECIDE_APPEAL = ''decide_appeal''"
| "capability_value GRANT_AUTHORITY = ''grant_authority''"
| "capability_value REVOKE_AUTHORITY = ''revoke_authority''"
| "capability_value DECIDE_RECOVERY = ''decide_recovery''"
| "capability_value PROCESS_PRIVACY = ''process_privacy''"
| "capability_value MANAGE_RELEASE = ''manage_release''"
| "capability_value OPERATE_SERVICE = ''operate_service''"

fun tier_value :: "authority_tier \<Rightarrow> string" where
  "tier_value PARTICIPANT = ''participant''"
| "tier_value PROVISIONAL_VERIFIER = ''provisional_verifier''"
| "tier_value VERIFIER = ''verifier''"
| "tier_value STEWARD = ''steward''"
| "tier_value OPERATOR = ''operator''"

fun authority_basis_value :: "authority_basis \<Rightarrow> string" where
  "authority_basis_value BOOTSTRAP_DESIGNATION = ''bootstrap_designation''"
| "authority_basis_value DELEGATED = ''delegated''"
| "authority_basis_value INDEPENDENT_REVIEW = ''independent_review''"
| "authority_basis_value AUDITED_PROMOTION = ''audited_promotion''"

fun posture_value :: "storage_posture \<Rightarrow> string" where
  "posture_value PROVISIONAL_BETA = ''provisional_beta''"
| "posture_value DURABLE_PRODUCTION = ''durable_production''"

text \<open>\<open>AUTHORITY_TIER_ORDER\<close>.\<close>

fun tier_order :: "authority_tier \<Rightarrow> int" where
  "tier_order PARTICIPANT = 0"
| "tier_order PROVISIONAL_VERIFIER = 1"
| "tier_order VERIFIER = 2"
| "tier_order STEWARD = 3"
| "tier_order OPERATOR = 4"

lemma tier_order_eq_iff: "tier_order a = tier_order b \<longleftrightarrow> a = b"
  by (cases a; cases b) simp_all

lemma basis_value_eq_iff: "basis_value a = basis_value b \<longleftrightarrow> a = b"
  by (cases a; cases b) simp_all

text \<open>
  Tiers are ordered by \<open>AUTHORITY_TIER_ORDER\<close> and verification bases by their wire value, the two
  sort keys of the service, so that the library's order facts and sorted sets apply to them.
\<close>

instantiation authority_tier :: linorder
begin

definition less_eq_authority_tier :: "authority_tier \<Rightarrow> authority_tier \<Rightarrow> bool" where
  "less_eq_authority_tier a b \<longleftrightarrow> tier_order a \<le> tier_order b"

definition less_authority_tier :: "authority_tier \<Rightarrow> authority_tier \<Rightarrow> bool" where
  "less_authority_tier a b \<longleftrightarrow> tier_order a < tier_order b"

instance
  by standard (auto simp: less_eq_authority_tier_def less_authority_tier_def tier_order_eq_iff)

end

instantiation verification_basis :: linorder
begin

definition less_eq_verification_basis :: "verification_basis \<Rightarrow> verification_basis \<Rightarrow> bool" where
  "less_eq_verification_basis a b \<longleftrightarrow> basis_value a \<le> basis_value b"

definition less_verification_basis :: "verification_basis \<Rightarrow> verification_basis \<Rightarrow> bool" where
  "less_verification_basis a b \<longleftrightarrow> basis_value a < basis_value b"

instance
  by standard
    (auto simp: less_eq_verification_basis_def less_verification_basis_def basis_value_eq_iff
      dest: order_antisym intro: order_trans)

end

text \<open>\<open>tuple(sorted(bases, key=lambda item: item.value))\<close>.\<close>

definition sorted_bases :: "verification_basis set \<Rightarrow> verification_basis list" where
  "sorted_bases bases = sorted_list_of_set bases"

instance authority_capability :: finite
proof
  have "(UNIV :: authority_capability set) \<subseteq> all_capabilities"
    by (rule subsetI) (rule in_all_capabilities)
  then show "finite (UNIV :: authority_capability set)"
    by (rule finite_subset) (simp add: all_capabilities_def)
qed

instance verification_basis :: finite
proof
  have "(UNIV :: verification_basis set) \<subseteq> {SELF_ASSERTED, BOOTSTRAP_VOUCHED, PEER_ATTESTED,
      OFFICIAL_SOURCE_CHECKED, INDEPENDENTLY_REVIEWED, AUDIT_CORROBORATED}"
    by (auto intro: verification_basis.exhaust)
  then show "finite (UNIV :: verification_basis set)"
    by (rule finite_subset) simp
qed

section \<open>Records\<close>

record trust_policy =
  pol_profile_id :: string
  pol_required_attestations :: int
  pol_required_independent_paths :: int
  pol_required_passed_audits :: int
  pol_credential_ttl :: timedelta
  pol_presentation_ttl :: timedelta
  pol_enforce_authority :: bool
  pol_enforce_release :: bool
  pol_require_consent :: bool
  pol_bootstrap_public_label :: "string option"

text \<open>\<open>TrustPolicy()\<close> and \<open>SyntheticPolicy()\<close>: the field defaults.\<close>

definition synthetic_policy :: trust_policy where
  "synthetic_policy = \<lparr>pol_profile_id = ''kyn-000a-synthetic-v1'',
     pol_required_attestations = 2, pol_required_independent_paths = 2,
     pol_required_passed_audits = 1, pol_credential_ttl = days 30,
     pol_presentation_ttl = minutes 10, pol_enforce_authority = False,
     pol_enforce_release = False, pol_require_consent = False,
     pol_bootstrap_public_label = None\<rparr>"

text \<open>\<open>TrustPolicy.__post_init__\<close>.\<close>

definition check_trust_policy :: "trust_policy \<Rightarrow> error + trust_policy" where
  "check_trust_policy p =
     (if pol_required_attestations p < 1
      then Inl (ValueError ''required_attestations must be positive'')
      else if \<not> (1 \<le> pol_required_independent_paths p
                \<and> pol_required_independent_paths p \<le> pol_required_attestations p)
      then Inl (ValueError ''independent paths must fit within required attestations'')
      else if pol_required_passed_audits p < 0
      then Inl (ValueError ''required_passed_audits cannot be negative'')
      else Inr p)"

record claim_definition =
  cd_claim_type :: string
  cd_definition_version :: string
  cd_policy_version :: string
  cd_method_class :: string
  cd_allowed_verification_bases :: "verification_basis set"
  cd_required_verification_bases :: "verification_basis set"
  cd_minimum_attestations :: "int option"
  cd_minimum_independent_paths :: "int option"
  cd_minimum_passed_audits :: "int option"

text \<open>\<open>ClaimDefinition.__post_init__\<close>.\<close>

definition negative_threshold :: "int option \<Rightarrow> bool" where
  "negative_threshold v = (case v of None \<Rightarrow> False | Some n \<Rightarrow> n < 0)"

definition check_claim_definition :: "claim_definition \<Rightarrow> error + claim_definition" where
  "check_claim_definition d =
     (if cd_allowed_verification_bases d = {}
      then Inl (ValueError ''claim definition requires an allowed verification basis'')
      else if \<not> cd_required_verification_bases d
                \<subseteq> cd_allowed_verification_bases d \<union> {AUDIT_CORROBORATED}
      then Inl (ValueError ''required verification bases must be allowed'')
      else if list_ex negative_threshold
                [cd_minimum_attestations d, cd_minimum_independent_paths d, cd_minimum_passed_audits d]
      then Inl (ValueError ''claim assurance thresholds cannot be negative'')
      else (case (cd_minimum_attestations d, cd_minimum_independent_paths d) of
              (Some a, Some p) \<Rightarrow>
                if p > a then Inl (ValueError ''independent paths cannot exceed attestations'')
                else Inr d
            | _ \<Rightarrow> Inr d))"

record subject =
  sub_subject_id :: string
  sub_participant_key :: "string option"
  sub_created_at :: time
  sub_deleted_at :: "time option"

record operator_release =
  rel_release_id :: string
  rel_release_version :: string
  rel_notice_version :: string
  rel_terms_url :: string
  rel_privacy_url :: string
  rel_operator_contact :: string
  rel_storage_posture :: storage_posture
  rel_backup_evidence_reference :: string
  rel_sensitive_evidence_enabled :: bool
  rel_activated_by_authority_grant_id :: string
  rel_activated_at :: time
  rel_supersedes_release_id :: "string option"
  rel_suspended_at :: "time option"

record consent_record =
  cns_consent_id :: string
  cns_subject_id :: string
  cns_notice_version :: string
  cns_purposes :: "string set"
  cns_granted_at :: time
  cns_withdrawn_at :: "time option"

record recovery_commitment =
  rcm_recovery_commitment_id :: string
  rcm_subject_id :: string
  rcm_commitment :: string
  rcm_created_at :: time
  rcm_consumed_at :: "time option"

record recovery_case =
  rcv_recovery_case_id :: string
  rcv_subject_id :: string
  rcv_recovery_commitment_id :: string
  rcv_prior_key_digest :: string
  rcv_replacement_participant_key :: string
  rcv_requested_at :: time
  rcv_state :: recovery_state
  rcv_decided_by_authority_grant_id :: "string option"
  rcv_decided_at :: "time option"
  rcv_decision_reason_code :: "string option"

record privacy_request =
  prv_privacy_request_id :: string
  prv_subject_id :: string
  prv_kind :: privacy_request_kind
  prv_reason_code :: string
  prv_requested_at :: time
  prv_state :: privacy_request_state
  prv_decided_by_authority_grant_id :: "string option"
  prv_decided_at :: "time option"
  prv_decision_reason_code :: "string option"

record claim_request =
  clm_request_id :: string
  clm_subject_id :: string
  clm_definition :: claim_definition
  clm_requested_at :: time

record verifier_grant =
  grt_grant_id :: string
  grt_verifier_subject_id :: string
  grt_claim_type :: string
  grt_method_classes :: "string set"
  grt_attestation_cap :: int
  grt_issued_at :: time
  grt_expires_at :: time
  grt_authority_basis :: string
  grt_revoked_at :: "time option"

record bootstrap_authority =
  bst_bootstrap_id :: string
  bst_policy_version :: string
  bst_authority_subject_id :: string
  bst_public_label :: string
  bst_designation_reference :: string
  bst_activated_at :: time
  bst_expires_at :: time
  bst_non_transitive :: bool

record authority_grant =
  agr_authority_grant_id :: string
  agr_holder_subject_id :: string
  agr_issuer_authority_grant_id :: "string option"
  agr_capabilities :: "authority_capability set"
  agr_claim_types :: "string set"
  agr_method_classes :: "string set"
  agr_tier :: authority_tier
  agr_basis :: authority_basis
  agr_issued_at :: time
  agr_expires_at :: time
  agr_usage_cap :: "int option"
  agr_used_count :: int
  agr_can_delegate :: bool
  agr_delegation_depth :: int
  agr_max_delegation_depth :: int
  agr_public_accountability_label :: "string option"
  agr_revoked_at :: "time option"
  agr_revocation_reason :: "string option"

record authority_promotion =
  prm_promotion_id :: string
  prm_subject_id :: string
  prm_source_authority_grant_ids :: "string list"
  prm_resulting_authority_grant_id :: string
  prm_prior_tier :: authority_tier
  prm_resulting_tier :: authority_tier
  prm_passed_audit_ids :: "string list"
  prm_decided_by_authority_grant_id :: string
  prm_decided_at :: time

record attestor_invitation =
  inv_invitation_id :: string
  inv_request_id :: string
  inv_verifier_subject_id :: string
  inv_created_at :: time
  inv_expires_at :: time

record introduction =
  int_introduction_id :: string
  int_request_id :: string
  int_introducer_subject_id :: string
  int_invited_verifier_subject_id :: string
  int_created_at :: time
  int_expires_at :: time

record attestation =
  att_attestation_id :: string
  att_request_id :: string
  att_grant_id :: string
  att_verifier_subject_id :: string
  att_independence_path :: string
  att_method_class :: string
  att_issued_at :: time
  att_expires_at :: time
  att_verification_basis :: verification_basis
  att_state :: attestation_state
  att_invalidation_reason :: "string option"

record audit =
  aud_audit_id :: string
  aud_attestation_id :: string
  aud_basis :: audit_basis
  aud_selection_receipt :: string
  aud_selected_at :: time
  aud_state :: audit_state
  aud_decided_at :: "time option"

record challenge =
  chg_challenge_id :: string
  chg_attestation_id :: string
  chg_reason_code :: string
  chg_opened_at :: time
  chg_state :: challenge_state
  chg_response_code :: "string option"
  chg_decision :: "challenge_decision option"
  chg_appeal_reason_code :: "string option"
  chg_appeal_decision :: "appeal_decision option"
  chg_decided_at :: "time option"
  chg_challenger_subject_id :: "string option"

record credential =
  crd_credential_id :: string
  crd_request_id :: string
  crd_definition :: claim_definition
  crd_state :: credential_state
  crd_dependency_attestation_ids :: "string list"
  crd_issued_at :: time
  crd_expires_at :: time
  crd_status_reference :: string
  crd_updated_at :: time
  crd_verification_bases :: "verification_basis list"

record credential_status_record =
  cst_status_reference :: string
  cst_state :: credential_state
  cst_updated_at :: time

record public_event =
  evt_event_id :: string
  evt_event_type :: string
  evt_aggregate_type :: string
  evt_occurred_at :: time
  evt_policy_profile :: string
  evt_public_attributes :: "(string \<times> json) list"

record receipt =
  rcp_receipt_id :: string
  rcp_operation :: string
  rcp_outcome :: string
  rcp_occurred_at :: time
  rcp_event_id :: string
  rcp_policy_profile :: string

record credential_presentation =
  prs_presentation_id :: string
  prs_issuer :: string
  prs_audience :: string
  prs_pairwise_subject :: string
  prs_claim_type :: string
  prs_definition_version :: string
  prs_policy_version :: string
  prs_assurance_state :: assurance_state
  prs_method_class :: string
  prs_verification_bases :: "verification_basis list"
  prs_issued_at :: time
  prs_expires_at :: time
  prs_status_reference :: string
  prs_receipt_id :: string
  prs_proof :: "(string \<times> string) list"

record member_snapshot_record =
  mss_release_version :: string
  mss_notice_version :: string
  mss_eligible_member_count :: int
  mss_generated_at :: time
  mss_snapshot_digest :: string
  mss_proof :: "(string \<times> string) list"

record member_presentation =
  mpr_presentation_id :: string
  mpr_issuer :: string
  mpr_audience :: string
  mpr_pairwise_subject :: string
  mpr_determination_version_id :: string
  mpr_manifest_hash :: string
  mpr_member_snapshot_digest :: string
  mpr_release_version :: string
  mpr_verification_basis :: string
  mpr_issued_at :: time
  mpr_expires_at :: time
  mpr_receipt_id :: string
  mpr_proof :: "(string \<times> string) list"

section \<open>Validated policies and definitions\<close>

lemma check_trust_policy_accepts:
  "check_trust_policy p = Inr q \<longleftrightarrow>
     q = p \<and> 1 \<le> pol_required_independent_paths p
     \<and> pol_required_independent_paths p \<le> pol_required_attestations p
     \<and> 0 \<le> pol_required_passed_audits p"
  by (auto simp: check_trust_policy_def)

lemma synthetic_policy_accepted: "check_trust_policy synthetic_policy = Inr synthetic_policy"
  by (simp add: check_trust_policy_accepts synthetic_policy_def)

lemma check_claim_definition_accepts:
  "check_claim_definition d = Inr d' \<Longrightarrow>
     d' = d \<and> cd_allowed_verification_bases d \<noteq> {}
     \<and> cd_required_verification_bases d \<subseteq> insert AUDIT_CORROBORATED (cd_allowed_verification_bases d)"
  by (auto simp: check_claim_definition_def split: if_splits option.splits)

end
