(* ===== verification/Encoding.thy ===== *)
theory Encoding
  imports Models
begin

text \<open>
  The text and byte formats the service relies on, from Python's standard library as the sources
  use it: UTF-8 of the strings of the model, unpadded URL-safe base64, hexadecimal digests,
  \<open>datetime.isoformat\<close> of a UTC instant, and the canonical JSON that gets signed and hashed
  (\<open>src/kyn/crypto.py\<close>). Bytes are characters, a byte being one of 256 values.
\<close>

type_synonym bytes = "char list"

section \<open>Strings\<close>

definition startswith :: "string \<Rightarrow> string \<Rightarrow> bool" where
  "startswith p t \<longleftrightarrow> take (length p) t = p"

definition rstrip :: "char \<Rightarrow> string \<Rightarrow> string" where
  "rstrip c t = rev (dropWhile (\<lambda>x. x = c) (rev t))"

fun join :: "string \<Rightarrow> string list \<Rightarrow> string" where
  "join sep [] = []"
| "join sep [x] = x"
| "join sep (x # y # zs) = x @ sep @ join sep (y # zs)"

definition utf8_char :: "char \<Rightarrow> bytes" where
  "utf8_char c = (let n = of_char c :: nat in
     if n < 128 then [c] else [char_of (192 + n div 64), char_of (128 + n mod 64)])"

definition encode :: "string \<Rightarrow> bytes" where
  "encode t = concat (map utf8_char t)"

definition is_ascii :: "string \<Rightarrow> bool" where
  "is_ascii t \<longleftrightarrow> list_all (\<lambda>c. (of_char c :: nat) < 128) t"

lemma encode_ascii: "is_ascii t \<Longrightarrow> encode t = t"
  by (induction t) (auto simp: is_ascii_def encode_def utf8_char_def)

lemma startswith_append [simp]: "startswith p (p @ t)"
  by (simp add: startswith_def)

section \<open>Base64 and hexadecimal\<close>

definition b64_alphabet :: string where
  "b64_alphabet = ''ABCDEFGHIJKLMNOPQRSTUVWXYZabcdefghijklmnopqrstuvwxyz0123456789-_''"

definition b64_char :: "nat \<Rightarrow> char" where
  "b64_char n = b64_alphabet ! (n mod 64)"

text \<open>\<open>base64.urlsafe_b64encode\<close>, padded to a multiple of four characters.\<close>

fun urlsafe_b64encode :: "bytes \<Rightarrow> string" where
  "urlsafe_b64encode [] = []"
| "urlsafe_b64encode [a] =
     (let x = of_char a in [b64_char (x div 4), b64_char (x mod 4 * 16), CHR ''='', CHR ''=''])"
| "urlsafe_b64encode [a, b] =
     (let x = of_char a; y = of_char b in
      [b64_char (x div 4), b64_char (x mod 4 * 16 + y div 16), b64_char (y mod 16 * 4), CHR ''=''])"
| "urlsafe_b64encode (a # b # c # r) =
     (let x = of_char a; y = of_char b; z = of_char c in
      [b64_char (x div 4), b64_char (x mod 4 * 16 + y div 16),
       b64_char (y mod 16 * 4 + z div 64), b64_char (z mod 64)] @ urlsafe_b64encode r)"

text \<open>\<open>_encode\<close> of \<open>crypto.py\<close> and \<open>activation.py\<close>: base64 without its padding.\<close>

definition b64_encode :: "bytes \<Rightarrow> string" where
  "b64_encode v = rstrip CHR ''='' (urlsafe_b64encode v)"

text \<open>\<open>_token\<close> of \<open>service.py\<close>.\<close>

definition token :: "string \<Rightarrow> bytes \<Rightarrow> string" where
  "token prefix digest = prefix @ ''_'' @ b64_encode digest"

definition hex_char :: "nat \<Rightarrow> char" where
  "hex_char n = ''0123456789abcdef'' ! (n mod 16)"

definition hexdigest :: "bytes \<Rightarrow> string" where
  "hexdigest v = concat (map (\<lambda>c. let n = of_char c in [hex_char (n div 16), hex_char n]) v)"

lemma length_hexdigest [simp]: "length (hexdigest v) = 2 * length v"
  by (induction v) (simp_all add: hexdigest_def Let_def)

section \<open>Instants as text\<close>

text \<open>
  The proleptic Gregorian date of a day number (days since 1970-01-01), counting years from March:
  the calendar that Python's \<open>datetime\<close> uses for the years it supports.
\<close>

definition civil_from_days :: "int \<Rightarrow> int \<times> int \<times> int" where
  "civil_from_days d =
     (let z = d + 719468;
          era = z div 146097;
          doe = z mod 146097;
          yoe = (doe - doe div 1460 + doe div 36524 - doe div 146096) div 365;
          doy = doe - (365 * yoe + yoe div 4 - yoe div 100);
          mp = (5 * doy + 2) div 153;
          day = doy - (153 * mp + 2) div 5 + 1;
          month = (if mp < 10 then mp + 3 else mp - 9);
          year = yoe + era * 400 + (if month \<le> 2 then 1 else 0)
      in (year, month, day))"

definition pad_int :: "nat \<Rightarrow> int \<Rightarrow> string" where
  "pad_int w n = pad0 w (decimal (nat n))"

text \<open>\<open>isoformat()\<close> of an aware UTC instant: the fraction only when it is not zero.\<close>

definition isoformat :: "time \<Rightarrow> string" where
  "isoformat t =
     (let us = t mod 1000000; sec = t div 1000000;
          s = sec mod 86400; (y, m, d) = civil_from_days (sec div 86400)
      in pad_int 4 y @ ''-'' @ pad_int 2 m @ ''-'' @ pad_int 2 d @ ''T''
         @ pad_int 2 (s div 3600) @ '':'' @ pad_int 2 (s mod 3600 div 60) @ '':'' @ pad_int 2 (s mod 60)
         @ (if us = 0 then '''' else ''.'' @ pad_int 6 us) @ ''+00:00'')"

text \<open>\<open>isoformat().replace("+00:00", "Z")\<close>: the offset is the only place where that text occurs.\<close>

definition isoformat_z :: "time \<Rightarrow> string" where
  "isoformat_z t = (let iso = isoformat t in take (length iso - 6) iso @ ''Z'')"

lemma isoformat_2030: "isoformat_z 1893456000000000 = ''2030-01-01T00:00:00Z''"
  by code_simp

lemma isoformat_fraction: "isoformat 951782399000250 = ''2000-02-28T23:59:59.000250+00:00''"
  by code_simp

section \<open>Canonical JSON\<close>

definition json_escape_char :: "char \<Rightarrow> string" where
  "json_escape_char c = (let n = of_char c :: nat in
     if n = 34 then [CHR 92, CHR 34]
     else if n = 92 then [CHR 92, CHR 92]
     else if n = 10 then CHR 92 # ''n''
     else if n = 13 then CHR 92 # ''r''
     else if n = 9 then CHR 92 # ''t''
     else if n = 12 then CHR 92 # ''f''
     else if n = 8 then CHR 92 # ''b''
     else if 32 \<le> n \<and> n < 127 then [c]
     else CHR 92 # ''u00'' @ [hex_char (n div 16), hex_char n])"

definition json_string :: "string \<Rightarrow> string" where
  "json_string t = CHR 34 # concat (map json_escape_char t) @ [CHR 34]"

definition int_text :: "int \<Rightarrow> string" where
  "int_text n = (if n < 0 then CHR ''-'' # decimal (nat (- n)) else decimal (nat n))"

text \<open>\<open>json.dumps(payload, sort_keys=True, separators=(",", ":"), ensure_ascii=True)\<close>.\<close>

primrec json_dumps :: "json \<Rightarrow> string" where
  "json_dumps JNull = ''null''"
| "json_dumps (JBool b) = (if b then ''true'' else ''false'')"
| "json_dumps (JInt n) = int_text n"
| "json_dumps (JStr t) = json_string t"
| "json_dumps (JList xs) = ''['' @ join '','' (map json_dumps xs) @ '']''"
| "json_dumps (JObject kvs) =
     ''{'' @ join '','' (map (\<lambda>(k, v). json_string k @ '':'' @ v)
                        (sort_key fst (map (map_prod (\<lambda>k. k) json_dumps) kvs))) @ ''}''"

definition canonical_json :: "(string \<times> json) list \<Rightarrow> bytes" where
  "canonical_json payload = encode (json_dumps (JObject payload))"

lemma canonical_json_example:
  "canonical_json [(''b'', JList [JInt (-12), JBool True, JNull]), (''a'', JStr [CHR 34, CHR 10])]
   = ''{'' @ [CHR 34] @ ''a'' @ [CHR 34] @ '':'' @ [CHR 34, CHR 92, CHR 34, CHR 92] @ ''n'' @ [CHR 34]
     @ '','' @ [CHR 34] @ ''b'' @ [CHR 34] @ '':[-12,true,null]}''"
  by code_simp

text \<open>Equal objects have one canonical form: the order of insertion into the dictionary is lost.\<close>

lemma sort_key_map_prod:
  "sort_key fst (map (map_prod (\<lambda>k. k) f) kvs) = map (map_prod (\<lambda>k. k) f) (sort_key fst kvs)"
proof -
  have ins: "insort_key fst (map_prod (\<lambda>k. k) f x) (map (map_prod (\<lambda>k. k) f) ys)
      = map (map_prod (\<lambda>k. k) f) (insort_key fst x ys)" for x ys
    by (induction ys) auto
  show ?thesis by (induction kvs) (simp_all add: ins)
qed

lemma sort_key_unique:
  fixes xs ys :: "(string \<times> json) list"
  assumes "set xs = set ys" and "distinct (map fst xs)" and "distinct (map fst ys)"
  shows "sort_key fst xs = sort_key fst ys"
proof (rule map_sorted_distinct_set_unique [of fst])
  show "inj_on fst (set (sort_key fst xs) \<union> set (sort_key fst ys))"
    using assms by (simp add: distinct_map)
  show "sorted (map fst (sort_key fst xs))" and "sorted (map fst (sort_key fst ys))"
    by (rule sorted_sort_key)+
  have perm: "distinct (map fst (sort_key fst zs)) = distinct (map fst zs)"
    for zs :: "(string \<times> json) list"
    by (simp add: distinct_map)
  show "distinct (map fst (sort_key fst xs))" and "distinct (map fst (sort_key fst ys))"
    using assms by (simp_all add: perm)
  show "set (sort_key fst xs) = set (sort_key fst ys)"
    using assms by simp
qed

lemma canonical_json_order_independent:
  assumes "set p = set q" and "distinct (map fst p)" and "distinct (map fst q)"
  shows "canonical_json p = canonical_json q"
  using sort_key_unique [OF assms] by (simp add: canonical_json_def sort_key_map_prod)

end
