(* ===== verification/TrustState.thy ===== *)
theory TrustState
  imports Encoding
begin

text \<open>
  The state of \<open>TrustCore\<close> (\<open>src/kyn/service.py\<close>): its constructor arguments as an environment,
  its dictionaries and logs as a record, and the three private helpers every operation is built
  from: \<open>_now\<close>, \<open>_id\<close> and \<open>_publish\<close>. The clock, HMAC-SHA-256, SHA-256 and the Ed25519 key are
  fields of the environment: the clock is the caller's, and the primitives are libraries', so a
  theorem holds for every choice of them that its hypotheses allow.
\<close>

section \<open>Environment and state\<close>

record env =
  env_issuer :: string
  env_key_id :: string
  env_ed25519_sign :: "bytes \<Rightarrow> bytes"
  env_policy :: trust_policy
  env_pairwise_secret :: bytes
  env_receipt_secret :: bytes
  env_hmac :: "bytes \<Rightarrow> bytes \<Rightarrow> bytes"
  env_sha256 :: "bytes \<Rightarrow> bytes"
  env_clock :: "nat \<Rightarrow> datetime"

text \<open>
  \<open>clock_reads\<close> counts the calls of the clock, so that each reading of \<open>env_clock\<close> may differ
  from the one before; the other fields are the attributes of \<open>TrustCore\<close>.
\<close>

record core =
  clock_reads :: nat
  counters :: "(string, int) dict"
  subjects :: "(string, subject) dict"
  operator_releases :: "(string, operator_release) dict"
  consents :: "(string, consent_record) dict"
  recovery_commitments :: "(string, recovery_commitment) dict"
  recovery_cases :: "(string, recovery_case) dict"
  privacy_requests :: "(string, privacy_request) dict"
  claims :: "(string \<times> string \<times> string, claim_definition) dict"
  requests :: "(string, claim_request) dict"
  grants :: "(string, verifier_grant) dict"
  bootstrap_authorities :: "(string, bootstrap_authority) dict"
  authority_grants :: "(string, authority_grant) dict"
  authority_promotions :: "(string, authority_promotion) dict"
  invitations :: "(string, attestor_invitation) dict"
  introductions :: "(string, introduction) dict"
  attestations :: "(string, attestation) dict"
  audits :: "(string, audit) dict"
  challenges :: "(string, challenge) dict"
  credentials :: "(string, credential) dict"
  credential_by_request :: "(string, string) dict"
  events :: "public_event list"
  receipts :: "receipt list"

type_synonym 'a action = "(core, 'a) prog"

definition new_core :: core where
  "new_core = \<lparr>clock_reads = 0, counters = [], subjects = [], operator_releases = [], consents = [],
     recovery_commitments = [], recovery_cases = [], privacy_requests = [], claims = [],
     requests = [], grants = [], bootstrap_authorities = [], authority_grants = [],
     authority_promotions = [], invitations = [], introductions = [], attestations = [],
     audits = [], challenges = [], credentials = [], credential_by_request = [],
     events = [], receipts = []\<rparr>"

definition minimum_secret_bytes :: nat where
  "minimum_secret_bytes = 32"

definition sha256_reference_length :: nat where
  "sha256_reference_length = 71"

text \<open>\<open>TrustCore.__init__\<close>: the given environment with its issuer trimmed, and an empty state.\<close>

definition trust_core :: "env \<Rightarrow> error + (env \<times> core)" where
  "trust_core e =
     (if length (env_pairwise_secret e) < minimum_secret_bytes
         \<or> length (env_receipt_secret e) < minimum_secret_bytes
      then Inl (ValueError ''KYN secrets must contain at least 32 bytes'')
      else Inr (e\<lparr>env_issuer := rstrip CHR ''/'' (env_issuer e)\<rparr>, new_core))"

section \<open>Clock, identifiers and the public log\<close>

definition now :: "env \<Rightarrow> time action" where
  "now e = (\<lambda>s. case env_clock e (clock_reads s) of
       Naive _ \<Rightarrow> (Inl (RuntimeError ''clock must return a timezone-aware datetime''),
                   s\<lparr>clock_reads := Suc (clock_reads s)\<rparr>)
     | Aware t \<Rightarrow> (Inr t, s\<lparr>clock_reads := Suc (clock_reads s)\<rparr>))"

text \<open>\<open>self._counters.get(prefix, 0)\<close>.\<close>

definition counter :: "(string, int) dict \<Rightarrow> string \<Rightarrow> int" where
  "counter c p = (case dget c p of None \<Rightarrow> 0 | Some n \<Rightarrow> n)"

definition new_id :: "string \<Rightarrow> string action" where
  "new_id p = (\<lambda>s. let n = counter (counters s) p + 1 in
     (Inr (ident p n), s\<lparr>counters := dput p n (counters s)\<rparr>))"

text \<open>An argument compared with the clock: a naive \<open>datetime\<close> makes the comparison raise.\<close>

definition comparable :: "datetime \<Rightarrow> time action" where
  "comparable d = (case d of
       Naive _ \<Rightarrow> raise (TypeError ''offset-naive and offset-aware datetimes'')
     | Aware t \<Rightarrow> ret t)"

text \<open>\<open>hmac.compare_digest\<close> on two strings: it refuses text beyond ASCII.\<close>

definition compare_digest :: "string \<Rightarrow> string \<Rightarrow> bool action" where
  "compare_digest a b =
     (if is_ascii a \<and> is_ascii b then ret (a = b)
      else raise (TypeError ''comparing strings with non-ASCII characters is not supported''))"

definition sha256_ref :: "env \<Rightarrow> string \<Rightarrow> string" where
  "sha256_ref e t = ''sha256:'' @ hexdigest (env_sha256 e (encode t))"

definition receipt_token :: "env \<Rightarrow> string \<Rightarrow> string \<Rightarrow> string" where
  "receipt_token e prefix t = token prefix (env_hmac e (env_receipt_secret e) (encode t))"

definition pairwise_token :: "env \<Rightarrow> string \<Rightarrow> string \<Rightarrow> string" where
  "pairwise_token e prefix t = token prefix (env_hmac e (env_pairwise_secret e) (encode t))"

definition receipt_message :: "string \<Rightarrow> string \<Rightarrow> string \<Rightarrow> time \<Rightarrow> string" where
  "receipt_message event_id operation outcome t =
     event_id @ ''|'' @ operation @ ''|'' @ outcome @ ''|'' @ isoformat t"

definition event_of :: "env \<Rightarrow> string \<Rightarrow> string \<Rightarrow> string \<Rightarrow> string \<Rightarrow> time \<Rightarrow> public_event" where
  "event_of e event_id operation outcome aggregate_type t =
     \<lparr>evt_event_id = event_id, evt_event_type = operation, evt_aggregate_type = aggregate_type,
      evt_occurred_at = t, evt_policy_profile = pol_profile_id (env_policy e),
      evt_public_attributes = [(''outcome'', JStr outcome)]\<rparr>"

definition receipt_of :: "env \<Rightarrow> string \<Rightarrow> string \<Rightarrow> string \<Rightarrow> time \<Rightarrow> receipt" where
  "receipt_of e event_id operation outcome t =
     \<lparr>rcp_receipt_id = receipt_token e ''rcp'' (receipt_message event_id operation outcome t),
      rcp_operation = operation, rcp_outcome = outcome, rcp_occurred_at = t,
      rcp_event_id = event_id, rcp_policy_profile = pol_profile_id (env_policy e)\<rparr>"

definition publish :: "env \<Rightarrow> string \<Rightarrow> string \<Rightarrow> string \<Rightarrow> receipt action" where
  "publish e operation outcome aggregate_type =
     bind (now e) (\<lambda>t.
     bind (new_id ''evt'') (\<lambda>event_id.
     let event = event_of e event_id operation outcome aggregate_type t;
         rcp = receipt_of e event_id operation outcome t
     in bind (modify (\<lambda>s. s\<lparr>events := events s @ [event], receipts := receipts s @ [rcp]\<rparr>)) (\<lambda>_.
        ret rcp)))"

text \<open>\<open>Ed25519Signer.sign\<close> (\<open>crypto.py\<close>).\<close>

definition sign :: "env \<Rightarrow> (string \<times> json) list \<Rightarrow> (string \<times> string) list" where
  "sign e payload = [(''type'', ''Ed25519Signature2020''), (''key_id'', env_key_id e),
     (''value'', b64_encode (env_ed25519_sign e (canonical_json payload)))]"

section \<open>Lookups that raise\<close>

definition require_subject :: "string \<Rightarrow> subject action" where
  "require_subject i = bind (gets subjects) (\<lambda>d. fetch (TrustCoreError ''subject is unknown'') (dget d i))"

definition require_request :: "string \<Rightarrow> claim_request action" where
  "require_request i =
     bind (gets requests) (\<lambda>d. fetch (TrustCoreError ''claim request is unknown'') (dget d i))"

definition require_attestation :: "string \<Rightarrow> attestation action" where
  "require_attestation i =
     bind (gets attestations) (\<lambda>d. fetch (TrustCoreError ''attestation is unknown'') (dget d i))"

definition require_challenge :: "string \<Rightarrow> challenge action" where
  "require_challenge i =
     bind (gets challenges) (\<lambda>d. fetch (TrustCoreError ''challenge is unknown'') (dget d i))"

definition require_authority_grant :: "string \<Rightarrow> authority_grant action" where
  "require_authority_grant i =
     bind (gets authority_grants) (\<lambda>d. fetch (TrustCoreError ''authority grant is unknown'') (dget d i))"

section \<open>Their weakest preconditions\<close>

definition tick :: "core \<Rightarrow> core" where
  "tick s = s\<lparr>clock_reads := Suc (clock_reads s)\<rparr>"

definition bump :: "string \<Rightarrow> core \<Rightarrow> core" where
  "bump p s = s\<lparr>counters := dput p (counter (counters s) p + 1) (counters s)\<rparr>"

text \<open>The identifier that the next call of \<open>_id\<close> hands out.\<close>

definition next_id :: "string \<Rightarrow> (string, int) dict \<Rightarrow> string" where
  "next_id p c = ident p (counter c p + 1)"

lemma wp_now [wp]:
  "wp (now e) Q E = (\<lambda>s. case env_clock e (clock_reads s) of
      Naive _ \<Rightarrow> E (RuntimeError ''clock must return a timezone-aware datetime'') (tick s)
    | Aware t \<Rightarrow> Q t (tick s))"
  by (simp add: wp_def now_def tick_def fun_eq_iff split: datetime.splits)

lemma wp_new_id [wp]: "wp (new_id p) Q E = (\<lambda>s. Q (next_id p (counters s)) (bump p s))"
  by (simp add: wp_def new_id_def next_id_def bump_def Let_def fun_eq_iff)

lemma wp_comparable [wp]:
  "wp (comparable d) Q E = (\<lambda>s. case d of
      Naive _ \<Rightarrow> E (TypeError ''offset-naive and offset-aware datetimes'') s | Aware t \<Rightarrow> Q t s)"
  by (simp add: comparable_def wp fun_eq_iff split: datetime.splits)

lemma wp_compare_digest [wp]:
  "wp (compare_digest a b) Q E = (\<lambda>s. if is_ascii a \<and> is_ascii b then Q (a = b) s
     else E (TypeError ''comparing strings with non-ASCII characters is not supported'') s)"
  by (auto simp add: compare_digest_def wp fun_eq_iff)

lemmas require_defs = require_subject_def require_request_def require_attestation_def
  require_challenge_def require_authority_grant_def

lemma wp_require [wp]:
  "wp (require_subject i) Q E = (\<lambda>s. case dget (subjects s) i of
     None \<Rightarrow> E (TrustCoreError ''subject is unknown'') s | Some x \<Rightarrow> Q x s)"
  "wp (require_request i) Q' E = (\<lambda>s. case dget (requests s) i of
     None \<Rightarrow> E (TrustCoreError ''claim request is unknown'') s | Some x' \<Rightarrow> Q' x' s)"
  "wp (require_attestation i) Q'' E = (\<lambda>s. case dget (attestations s) i of
     None \<Rightarrow> E (TrustCoreError ''attestation is unknown'') s | Some x'' \<Rightarrow> Q'' x'' s)"
  "wp (require_challenge i) R E = (\<lambda>s. case dget (challenges s) i of
     None \<Rightarrow> E (TrustCoreError ''challenge is unknown'') s | Some y \<Rightarrow> R y s)"
  "wp (require_authority_grant i) R' E = (\<lambda>s. case dget (authority_grants s) i of
     None \<Rightarrow> E (TrustCoreError ''authority grant is unknown'') s | Some y' \<Rightarrow> R' y' s)"
  by (simp_all add: require_defs wp)

text \<open>
  \<open>tick\<close> and \<open>bump\<close> write one field each: every other selector reads through them, and every
  other update commutes with them.
\<close>

lemma tick_simps [simp]:
  "clock_reads (tick s) = Suc (clock_reads s)" "counters (tick s) = counters s"
  "subjects (tick s) = subjects s" "operator_releases (tick s) = operator_releases s"
  "consents (tick s) = consents s" "recovery_commitments (tick s) = recovery_commitments s"
  "recovery_cases (tick s) = recovery_cases s" "privacy_requests (tick s) = privacy_requests s"
  "claims (tick s) = claims s" "requests (tick s) = requests s" "grants (tick s) = grants s"
  "bootstrap_authorities (tick s) = bootstrap_authorities s"
  "authority_grants (tick s) = authority_grants s"
  "authority_promotions (tick s) = authority_promotions s" "invitations (tick s) = invitations s"
  "introductions (tick s) = introductions s" "attestations (tick s) = attestations s"
  "audits (tick s) = audits s" "challenges (tick s) = challenges s"
  "credentials (tick s) = credentials s" "credential_by_request (tick s) = credential_by_request s"
  "events (tick s) = events s" "receipts (tick s) = receipts s"
  by (simp_all add: tick_def)

lemma bump_simps [simp]:
  "clock_reads (bump p s) = clock_reads s"
  "subjects (bump p s) = subjects s" "operator_releases (bump p s) = operator_releases s"
  "consents (bump p s) = consents s" "recovery_commitments (bump p s) = recovery_commitments s"
  "recovery_cases (bump p s) = recovery_cases s" "privacy_requests (bump p s) = privacy_requests s"
  "claims (bump p s) = claims s" "requests (bump p s) = requests s" "grants (bump p s) = grants s"
  "bootstrap_authorities (bump p s) = bootstrap_authorities s"
  "authority_grants (bump p s) = authority_grants s"
  "authority_promotions (bump p s) = authority_promotions s" "invitations (bump p s) = invitations s"
  "introductions (bump p s) = introductions s" "attestations (bump p s) = attestations s"
  "audits (bump p s) = audits s" "challenges (bump p s) = challenges s"
  "credentials (bump p s) = credentials s" "credential_by_request (bump p s) = credential_by_request s"
  "events (bump p s) = events s" "receipts (bump p s) = receipts s"
  by (simp_all add: bump_def)

lemma counters_bump [simp]: "counters (bump p s) = dput p (counter (counters s) p + 1) (counters s)"
  by (simp add: bump_def)

lemma counter_dput [simp]: "counter (dput p n c) q = (if q = p then n else counter c q)"
  by (simp add: counter_def dict)

lemma next_id_dput [simp]: "p \<noteq> q \<Longrightarrow> next_id p (dput q n c) = next_id p c"
  by (simp add: next_id_def)

section \<open>The effect of publishing\<close>

text \<open>The state after \<open>_publish\<close> when the clock read \<open>t\<close>.\<close>

definition published :: "env \<Rightarrow> string \<Rightarrow> string \<Rightarrow> string \<Rightarrow> time \<Rightarrow> core \<Rightarrow> core" where
  "published e operation outcome agg t s =
     (bump ''evt'' s)\<lparr>
       events := events s @ [event_of e (next_id ''evt'' (counters s)) operation outcome agg t],
       receipts := receipts s @ [receipt_of e (next_id ''evt'' (counters s)) operation outcome t]\<rparr>"

lemma wp_publish [wp]:
  "wp (publish e operation outcome agg) Q E = (\<lambda>s. case env_clock e (clock_reads s) of
      Naive _ \<Rightarrow> E (RuntimeError ''clock must return a timezone-aware datetime'') (tick s)
    | Aware t \<Rightarrow> Q (receipt_of e (next_id ''evt'' (counters s)) operation outcome t)
                   (published e operation outcome agg t (tick s)))"
  by (simp add: publish_def wp Let_def published_def fun_eq_iff split: datetime.splits)

lemma published_simps [simp]:
  "clock_reads (published e op out agg t s) = clock_reads s"
  "counters (published e op out agg t s)
    = dput ''evt'' (counter (counters s) ''evt'' + 1) (counters s)"
  "subjects (published e op out agg t s) = subjects s"
  "operator_releases (published e op out agg t s) = operator_releases s"
  "consents (published e op out agg t s) = consents s"
  "recovery_commitments (published e op out agg t s) = recovery_commitments s"
  "recovery_cases (published e op out agg t s) = recovery_cases s"
  "privacy_requests (published e op out agg t s) = privacy_requests s"
  "claims (published e op out agg t s) = claims s"
  "requests (published e op out agg t s) = requests s"
  "grants (published e op out agg t s) = grants s"
  "bootstrap_authorities (published e op out agg t s) = bootstrap_authorities s"
  "authority_grants (published e op out agg t s) = authority_grants s"
  "authority_promotions (published e op out agg t s) = authority_promotions s"
  "invitations (published e op out agg t s) = invitations s"
  "introductions (published e op out agg t s) = introductions s"
  "attestations (published e op out agg t s) = attestations s"
  "audits (published e op out agg t s) = audits s"
  "challenges (published e op out agg t s) = challenges s"
  "credentials (published e op out agg t s) = credentials s"
  "credential_by_request (published e op out agg t s) = credential_by_request s"
  by (simp_all add: published_def)

lemma wp_now_vc [vcg]:
  "(\<And>x. env_clock e (clock_reads s) = Naive x
      \<Longrightarrow> E (RuntimeError ''clock must return a timezone-aware datetime'') (tick s))
   \<Longrightarrow> (\<And>t. env_clock e (clock_reads s) = Aware t \<Longrightarrow> Q t (tick s)) \<Longrightarrow> wp (now e) Q E s"
  by (simp add: wp split: datetime.split)

lemma wp_new_id_vc [vcg]: "Q (next_id p (counters s)) (bump p s) \<Longrightarrow> wp (new_id p) Q E s"
  by (simp add: wp)

lemma wp_comparable_vc [vcg]:
  "(\<And>x. d = Naive x \<Longrightarrow> E (TypeError ''offset-naive and offset-aware datetimes'') s)
   \<Longrightarrow> (\<And>t. d = Aware t \<Longrightarrow> Q t s) \<Longrightarrow> wp (comparable d) Q E s"
  by (simp add: wp split: datetime.split)

lemma wp_compare_digest_vc [vcg]:
  "(\<not> (is_ascii a \<and> is_ascii b)
      \<Longrightarrow> E (TypeError ''comparing strings with non-ASCII characters is not supported'') s)
   \<Longrightarrow> (is_ascii a \<Longrightarrow> is_ascii b \<Longrightarrow> Q (a = b) s) \<Longrightarrow> wp (compare_digest a b) Q E s"
  by (simp add: wp)

lemma wp_publish_vc [vcg]:
  "(\<And>x. env_clock e (clock_reads s) = Naive x
      \<Longrightarrow> E (RuntimeError ''clock must return a timezone-aware datetime'') (tick s))
   \<Longrightarrow> (\<And>t. env_clock e (clock_reads s) = Aware t
      \<Longrightarrow> Q (receipt_of e (next_id ''evt'' (counters s)) op out t) (published e op out agg t (tick s)))
   \<Longrightarrow> wp (publish e op out agg) Q E s"
  by (simp add: wp split: datetime.split)

lemma wp_require_vc [vcg]:
  "(dget (subjects s) i = None \<Longrightarrow> E (TrustCoreError ''subject is unknown'') s)
   \<Longrightarrow> (\<And>x. dget (subjects s) i = Some x \<Longrightarrow> Q x s) \<Longrightarrow> wp (require_subject i) Q E s"
  "(dget (requests s) i = None \<Longrightarrow> E (TrustCoreError ''claim request is unknown'') s)
   \<Longrightarrow> (\<And>x. dget (requests s) i = Some x \<Longrightarrow> Q1 x s) \<Longrightarrow> wp (require_request i) Q1 E s"
  "(dget (attestations s) i = None \<Longrightarrow> E (TrustCoreError ''attestation is unknown'') s)
   \<Longrightarrow> (\<And>x. dget (attestations s) i = Some x \<Longrightarrow> Q2 x s) \<Longrightarrow> wp (require_attestation i) Q2 E s"
  "(dget (challenges s) i = None \<Longrightarrow> E (TrustCoreError ''challenge is unknown'') s)
   \<Longrightarrow> (\<And>x. dget (challenges s) i = Some x \<Longrightarrow> Q3 x s) \<Longrightarrow> wp (require_challenge i) Q3 E s"
  "(dget (authority_grants s) i = None \<Longrightarrow> E (TrustCoreError ''authority grant is unknown'') s)
   \<Longrightarrow> (\<And>x. dget (authority_grants s) i = Some x \<Longrightarrow> Q4 x s) \<Longrightarrow> wp (require_authority_grant i) Q4 E s"
  by (simp_all add: wp split: option.split)

section \<open>Views that the log does not disturb\<close>

text \<open>
  The interface between the operations and the invariants: a predicate that survives the clock,
  the identifier counters and the public log. Each component shows, inside this locale, which
  further fields its operations write; an invariant then interprets the locale once and inherits
  the preservation by every operation that leaves its fields alone.
\<close>

locale quiet =
  fixes e :: env and I :: "core \<Rightarrow> bool"
  assumes tick_kept: "I s \<Longrightarrow> I (tick s)"
    and bump_kept: "I s \<Longrightarrow> I (bump p s)"
    and published_kept: "I s \<Longrightarrow> I (published e op out agg t s)"
begin

lemma now_keeps [keeps]: "keeps (now e) I"
  by (rule keepsI) (simp add: wp tick_kept split: datetime.split)

lemma new_id_keeps [keeps]: "keeps (new_id p) I"
  by (rule keepsI) (simp add: wp bump_kept)

lemma comparable_keeps [keeps]: "keeps (comparable d) I"
  by (simp add: comparable_def keeps split: datetime.split)

lemma compare_digest_keeps [keeps]: "keeps (compare_digest a b) I"
  by (simp add: compare_digest_def keeps)

lemma publish_keeps [keeps]: "keeps (publish e op out agg) I"
  by (rule keepsI) (simp add: wp published_kept tick_kept split: datetime.split)

lemma require_keeps [keeps]:
  "keeps (require_subject i) I" "keeps (require_request i) I" "keeps (require_attestation i) I"
  "keeps (require_challenge i) I" "keeps (require_authority_grant i) I"
  by (simp_all add: require_defs keeps)

end

text \<open>A part of the state that the clock, the counters and the log leave alone.\<close>

locale observation =
  fixes get :: "core \<Rightarrow> 'x"
  assumes get_tick: "get (tick s) = get s"
    and get_bump: "get (bump q s) = get s"
    and get_published: "get (published e op out agg t s) = get s"

sublocale observation \<subseteq> observed: quiet e "\<lambda>s. get s = x" for e x
  by unfold_locales (simp_all add: get_tick get_bump get_published)

end
