(* ===== verification/Credentials.thy ===== *)
theory Credentials
  imports TrustState
begin

text \<open>
  Credentials (\<open>TrustCore._active_attestations\<close>, \<open>_grant_is_active\<close>, \<open>_recalculate\<close> and
  \<open>credential_status\<close> of \<open>src/kyn/service.py\<close>): which attestations count at an instant, when they
  qualify a claim, and how the one credential of a request is recomputed from them.
\<close>

section \<open>What counts\<close>

definition grant_is_active :: "core \<Rightarrow> string \<Rightarrow> time \<Rightarrow> bool" where
  "grant_is_active s i t =
     (case dget (grants s) i of
        Some g \<Rightarrow> grt_revoked_at g = None \<and> grt_expires_at g > t
      | None \<Rightarrow> (case dget (authority_grants s) i of
            Some a \<Rightarrow> agr_revoked_at a = None \<and> agr_expires_at a > t
          | None \<Rightarrow> False))"

definition active_attestations :: "core \<Rightarrow> string \<Rightarrow> time \<Rightarrow> attestation list" where
  "active_attestations s request_id t =
     filter (\<lambda>a. att_request_id a = request_id \<and> att_state a = ATT_ACTIVE
               \<and> att_expires_at a > t \<and> grant_is_active s (att_grant_id a) t)
       (dvals (attestations s))"

definition passed_audits :: "core \<Rightarrow> string set" where
  "passed_audits s = set (map aud_attestation_id
     (filter (\<lambda>a. aud_state a = AUDIT_PASSED) (dvals (audits s))))"

section \<open>When a claim qualifies\<close>

text \<open>A claim definition's threshold, or the policy's where it has none.\<close>

definition threshold :: "int option \<Rightarrow> int \<Rightarrow> int" where
  "threshold minimum policy_default = (case minimum of Some n \<Rightarrow> n | None \<Rightarrow> policy_default)"

definition audited_ids :: "attestation list \<Rightarrow> string set \<Rightarrow> string set" where
  "audited_ids active passed = set (map att_attestation_id active) \<inter> passed"

definition credential_bases :: "attestation list \<Rightarrow> string set \<Rightarrow> verification_basis set" where
  "credential_bases active passed =
     (let bases = set (map att_verification_basis active) in
      if audited_ids active passed \<noteq> {} then insert AUDIT_CORROBORATED bases else bases)"

definition qualifies :: "trust_policy \<Rightarrow> claim_definition \<Rightarrow> attestation list \<Rightarrow> string set \<Rightarrow> bool" where
  "qualifies p d active passed \<longleftrightarrow>
     threshold (cd_minimum_attestations d) (pol_required_attestations p) \<le> int (length active)
     \<and> threshold (cd_minimum_independent_paths d) (pol_required_independent_paths p)
         \<le> int (card (set (map att_independence_path active)))
     \<and> threshold (cd_minimum_passed_audits d) (pol_required_passed_audits p)
         \<le> int (card (audited_ids active passed))
     \<and> cd_required_verification_bases d \<subseteq> credential_bases active passed"

text \<open>The state a recalculation assigns, given the state the credential had before, if any.\<close>

definition recalculated_state :: "bool \<Rightarrow> credential_state option \<Rightarrow> bool \<Rightarrow> credential_state" where
  "recalculated_state qualified prior no_active =
     (if qualified then CRED_ACTIVE
      else if prior = Some CRED_ACTIVE \<or> prior = Some CRED_REVOKED \<or> no_active then CRED_REVOKED
      else CRED_PROVISIONAL)"

section \<open>Recalculation\<close>

text \<open>Identity of the credential to write: a new one, or that of the existing credential.\<close>

definition credential_identity ::
  "env \<Rightarrow> time \<Rightarrow> string option \<Rightarrow> (string \<times> time \<times> string \<times> credential option) action" where
  "credential_identity e t existing_id =
     (case existing_id of
        None \<Rightarrow> bind (new_id ''crd'') (\<lambda>i. ret (i, t, env_issuer e @ ''/status/'' @ i, None))
      | Some i \<Rightarrow> bind (gets credentials) (\<lambda>d. bind (fetch (KeyError i) (dget d i)) (\<lambda>c.
          ret (crd_credential_id c, crd_issued_at c, crd_status_reference c, Some c))))"

definition credential_unchanged ::
  "credential option \<Rightarrow> credential_state \<Rightarrow> string list \<Rightarrow> verification_basis list \<Rightarrow> bool" where
  "credential_unchanged existing st deps bases =
     (case existing of None \<Rightarrow> False
      | Some c \<Rightarrow> crd_state c = st \<and> crd_dependency_attestation_ids c = deps
                 \<and> crd_verification_bases c = bases)"

definition recalculate :: "env \<Rightarrow> string \<Rightarrow> credential option action" where
  "recalculate e request_id =
     bind (require_request request_id) (\<lambda>request.
     bind (now e) (\<lambda>t.
     bind (gets (\<lambda>s. active_attestations s request_id t)) (\<lambda>active.
     bind (gets (\<lambda>s. dget (credential_by_request s) request_id)) (\<lambda>existing_id.
     if active = [] \<and> existing_id = None then ret None else
     bind (gets passed_audits) (\<lambda>passed.
     bind (credential_identity e t existing_id) (\<lambda>(i, issued_at, status_reference, existing).
     let definition = clm_definition request;
         bases = sorted_bases (credential_bases active passed);
         st = recalculated_state (qualifies (env_policy e) definition active passed)
                (map_option crd_state existing) (active = []);
         deps = sort (map att_attestation_id active)
     in if credential_unchanged existing st deps bases then ret existing
        else
          let c = \<lparr>crd_credential_id = i, crd_request_id = request_id, crd_definition = definition,
                   crd_state = st, crd_dependency_attestation_ids = deps,
                   crd_issued_at = issued_at,
                   crd_expires_at = issued_at + pol_credential_ttl (env_policy e),
                   crd_status_reference = status_reference, crd_updated_at = t,
                   crd_verification_bases = bases\<rparr>
          in bind (modify (\<lambda>s. s\<lparr>credentials := dput i c (credentials s),
                                 credential_by_request := dput request_id i (credential_by_request s)\<rparr>))
               (\<lambda>_. ret (Some c))))))))"

text \<open>
  \<open>tuple(credential for request_id in sorted(ids) if (credential := self._recalculate(request_id))
  is not None)\<close>.
\<close>

definition recalculate_all :: "env \<Rightarrow> string set \<Rightarrow> credential list action" where
  "recalculate_all e ids =
     bind (collect (recalculate e) (sorted_list_of_set ids)) (\<lambda>cs. ret (concat (map (case_option [] (\<lambda>c. [c])) cs)))"

section \<open>Status\<close>

definition credential_status :: "env \<Rightarrow> string \<Rightarrow> credential_status_record action" where
  "credential_status e status_reference =
     bind (gets (\<lambda>s. filter (\<lambda>c. crd_status_reference c = status_reference) (dvals (credentials s)))) (\<lambda>matches.
     bind (reject_if (length matches \<noteq> 1) ''credential status is unavailable'') (\<lambda>_.
     let found = hd matches in
     bind (recalculate e (crd_request_id found)) (\<lambda>recalculated.
     let c = (case recalculated of Some r \<Rightarrow> r | None \<Rightarrow> found) in
     bind (now e) (\<lambda>t.
     ret \<lparr>cst_status_reference = status_reference,
          cst_state = (if crd_expires_at c \<le> t then CRED_EXPIRED else crd_state c),
          cst_updated_at = crd_updated_at c\<rparr>))))"

definition credential_status_by_id :: "env \<Rightarrow> string \<Rightarrow> credential_status_record action" where
  "credential_status_by_id e credential_id =
     bind (gets credentials) (\<lambda>d.
     bind (fetch (TrustCoreError ''credential is unknown'') (dget d credential_id)) (\<lambda>c.
     credential_status e (crd_status_reference c)))"

section \<open>What recalculation writes\<close>

context quiet
begin

lemma credential_identity_keeps [keeps]: "keeps (credential_identity e t i) I"
  unfolding credential_identity_def by (intro keeps)

lemma recalculate_keeps:
  assumes "blind credentials_update I" "blind credential_by_request_update I"
  shows "keeps (recalculate e r) I"
  unfolding recalculate_def by (intro keeps assms [rule_format])

lemma recalculate_all_keeps [keeps]:
  assumes "\<And>r. keeps (recalculate e r) I"
  shows "keeps (recalculate_all e ids) I"
  unfolding recalculate_all_def by (intro keeps assms)

lemma credential_status_keeps:
  assumes "\<And>r. keeps (recalculate e r) I"
  shows "keeps (credential_status e ref) I"
  unfolding credential_status_def by (intro keeps assms)

lemma credential_status_by_id_keeps:
  assumes "\<And>r. keeps (recalculate e r) I"
  shows "keeps (credential_status_by_id e i) I"
  unfolding credential_status_by_id_def by (intro keeps credential_status_keeps assms)

end

end
