(* ===== verification/Authority.thy ===== *)
theory Authority
  imports Credentials
begin

text \<open>
  Scoped authority of \<open>TrustCore\<close> (\<open>src/kyn/service.py\<close>): validating and consuming a grant, the
  one-time bootstrap root, delegation, audited promotion, and revocation with its cascade.
\<close>

section \<open>Checking and consuming a grant\<close>

definition scope_subset :: "string set \<Rightarrow> string set \<Rightarrow> bool" where
  "scope_subset requested permitted \<longleftrightarrow> ''*'' \<in> permitted \<or> requested \<subseteq> permitted"

definition out_of_scope :: "string option \<Rightarrow> string set \<Rightarrow> bool" where
  "out_of_scope wanted permitted =
     (case wanted of None \<Rightarrow> False | Some c \<Rightarrow> \<not> scope_subset {c} permitted)"

definition cap_reached :: "authority_grant \<Rightarrow> bool" where
  "cap_reached g = (case agr_usage_cap g of None \<Rightarrow> False | Some n \<Rightarrow> agr_used_count g \<ge> n)"

definition validate_authority ::
  "env \<Rightarrow> string \<Rightarrow> authority_capability \<Rightarrow> string option \<Rightarrow> string option \<Rightarrow> authority_grant action" where
  "validate_authority e grant_id capability claim_type method_class =
     bind (require_authority_grant grant_id) (\<lambda>g.
     bind (now e) (\<lambda>t.
     bind (reject_if (agr_revoked_at g \<noteq> None \<or> agr_expires_at g \<le> t)
             ''authority grant is not active'') (\<lambda>_.
     bind (reject_if (capability \<notin> agr_capabilities g)
             ''authority grant lacks the required capability'') (\<lambda>_.
     bind (reject_if (out_of_scope claim_type (agr_claim_types g))
             ''authority grant does not cover the claim'') (\<lambda>_.
     bind (reject_if (out_of_scope method_class (agr_method_classes g))
             ''authority grant does not cover the method'') (\<lambda>_.
     bind (reject_if (cap_reached g) ''authority usage cap has been reached'') (\<lambda>_.
     ret g)))))))"

definition put_authority_grant :: "string \<Rightarrow> authority_grant \<Rightarrow> unit action" where
  "put_authority_grant i g = modify (\<lambda>s. s\<lparr>authority_grants := dput i g (authority_grants s)\<rparr>)"

definition consume_authority ::
  "env \<Rightarrow> string \<Rightarrow> authority_capability \<Rightarrow> string option \<Rightarrow> string option \<Rightarrow> authority_grant action" where
  "consume_authority e grant_id capability claim_type method_class =
     bind (validate_authority e grant_id capability claim_type method_class) (\<lambda>g.
     let updated = g\<lparr>agr_used_count := agr_used_count g + 1\<rparr> in
     bind (put_authority_grant grant_id updated) (\<lambda>_. ret updated))"

definition authorize_if_required ::
  "env \<Rightarrow> string option \<Rightarrow> authority_capability \<Rightarrow> string option \<Rightarrow> string option \<Rightarrow> unit action" where
  "authorize_if_required e grant_id capability claim_type method_class =
     (case grant_id of
        None \<Rightarrow> reject_if (pol_enforce_authority (env_policy e)) ''active policy requires explicit authority''
      | Some i \<Rightarrow> bind (consume_authority e i capability claim_type method_class) (\<lambda>_. ret ()))"

section \<open>The bootstrap root\<close>

definition bootstrap_authority ::
  "env \<Rightarrow> string \<Rightarrow> string \<Rightarrow> string \<Rightarrow> string \<Rightarrow> datetime
   \<Rightarrow> (bootstrap_authority \<times> authority_grant \<times> receipt) action" where
  "bootstrap_authority e authority_subject_id public_label designation_reference policy_version expires_at =
     bind (require_subject authority_subject_id) (\<lambda>_.
     bind (now e) (\<lambda>t.
     bind (gets (\<lambda>s. bootstrap_authorities s \<noteq> [] \<or> authority_grants s \<noteq> [])) (\<lambda>activated.
     bind (reject_if activated ''bootstrap authority is already activated'') (\<lambda>_.
     bind (fetch (TrustCoreError ''active policy does not authorize a bootstrap authority'')
             (pol_bootstrap_public_label (env_policy e))) (\<lambda>accepted.
     bind (compare_digest public_label accepted) (\<lambda>same.
     bind (reject_if (\<not> same) ''bootstrap public label does not match the accepted policy'') (\<lambda>_.
     bind (reject_if (\<not> startswith ''sha256:'' designation_reference
                      \<or> length designation_reference \<noteq> sha256_reference_length)
             ''bootstrap designation requires a sha256 reference'') (\<lambda>_.
     bind (comparable expires_at) (\<lambda>expires.
     bind (reject_if (expires \<le> t) ''bootstrap authority must expire in the future'') (\<lambda>_.
     bind (new_id ''bst'') (\<lambda>bootstrap_id.
     bind (new_id ''agr'') (\<lambda>grant_id.
     let bootstrap = \<lparr>bst_bootstrap_id = bootstrap_id, bst_policy_version = policy_version,
                      bst_authority_subject_id = authority_subject_id, bst_public_label = public_label,
                      bst_designation_reference = designation_reference, bst_activated_at = t,
                      bst_expires_at = expires, bst_non_transitive = True\<rparr>;
         grant = \<lparr>agr_authority_grant_id = grant_id, agr_holder_subject_id = authority_subject_id,
                  agr_issuer_authority_grant_id = None, agr_capabilities = all_capabilities,
                  agr_claim_types = {''*''}, agr_method_classes = {''*''}, agr_tier = OPERATOR,
                  agr_basis = BOOTSTRAP_DESIGNATION, agr_issued_at = t, agr_expires_at = expires,
                  agr_usage_cap = None, agr_used_count = 0, agr_can_delegate = True,
                  agr_delegation_depth = 0, agr_max_delegation_depth = 4,
                  agr_public_accountability_label = Some public_label,
                  agr_revoked_at = None, agr_revocation_reason = None\<rparr>
     in bind (modify (\<lambda>s. s\<lparr>bootstrap_authorities := dput bootstrap_id bootstrap (bootstrap_authorities s)\<rparr>)) (\<lambda>_.
        bind (put_authority_grant grant_id grant) (\<lambda>_.
        bind (publish e ''authority.bootstrap_activated'' ''active'' ''authority'') (\<lambda>r.
        ret (bootstrap, grant, r))))))))))))))))"

section \<open>Delegation\<close>

text \<open>The keyword arguments of \<open>grant_authority\<close>.\<close>

record delegation =
  dlg_actor_authority_grant_id :: string
  dlg_holder_subject_id :: string
  dlg_capabilities :: "authority_capability set"
  dlg_claim_types :: "string set"
  dlg_method_classes :: "string set"
  dlg_tier :: authority_tier
  dlg_expires_at :: datetime
  dlg_usage_cap :: "int option"
  dlg_can_delegate :: bool
  dlg_max_delegation_depth :: int
  dlg_public_accountability_label :: "string option"
  dlg_basis :: authority_basis

text \<open>Python's truth value of an optional string.\<close>

definition blank :: "string option \<Rightarrow> bool" where
  "blank v \<longleftrightarrow> v = None \<or> v = Some ''''"

definition below_one :: "int option \<Rightarrow> bool" where
  "below_one v = (case v of None \<Rightarrow> False | Some n \<Rightarrow> n < 1)"

definition grant_authority :: "env \<Rightarrow> delegation \<Rightarrow> (authority_grant \<times> receipt) action" where
  "grant_authority e a =
     bind (require_subject (dlg_holder_subject_id a)) (\<lambda>_.
     bind (validate_authority e (dlg_actor_authority_grant_id a) GRANT_AUTHORITY None None) (\<lambda>actor.
     bind (now e) (\<lambda>t.
     bind (reject_if (dlg_capabilities a = {}) ''authority grant requires at least one capability'') (\<lambda>_.
     bind (reject_if (dlg_claim_types a = {} \<or> dlg_method_classes a = {})
             ''authority scope requires claim and method classes'') (\<lambda>_.
     bind (comparable (dlg_expires_at a)) (\<lambda>expires.
     bind (reject_if (expires \<le> t \<or> expires > agr_expires_at actor)
             ''delegated authority expiry must fit within issuer authority'') (\<lambda>_.
     bind (reject_if (below_one (dlg_usage_cap a)) ''authority usage cap must be positive'') (\<lambda>_.
     bind (reject_if (tier_order (dlg_tier a) > tier_order (agr_tier actor))
             ''delegation cannot raise authority above the issuer tier'') (\<lambda>_.
     bind (reject_if (\<not> dlg_capabilities a \<subseteq> agr_capabilities actor)
             ''delegated capabilities must be a subset of issuer authority'') (\<lambda>_.
     bind (reject_if (\<not> scope_subset (dlg_claim_types a) (agr_claim_types actor))
             ''delegated claim scope exceeds issuer authority'') (\<lambda>_.
     bind (reject_if (\<not> scope_subset (dlg_method_classes a) (agr_method_classes actor))
             ''delegated method scope exceeds issuer authority'') (\<lambda>_.
     let depth = agr_delegation_depth actor + 1 in
     bind (reject_if (\<not> agr_can_delegate actor \<or> depth > agr_max_delegation_depth actor)
             ''issuer authority cannot delegate at this depth'') (\<lambda>_.
     bind (reject_if (dlg_max_delegation_depth a < depth
                      \<or> dlg_max_delegation_depth a > agr_max_delegation_depth actor)
             ''delegation depth exceeds the issuer limit'') (\<lambda>_.
     bind (reject_if (dlg_tier a \<in> {STEWARD, OPERATOR} \<and> blank (dlg_public_accountability_label a))
             ''higher authority requires a public accountability label'') (\<lambda>_.
     bind (consume_authority e (dlg_actor_authority_grant_id a) GRANT_AUTHORITY None None) (\<lambda>consumed.
     bind (new_id ''agr'') (\<lambda>grant_id.
     let grant = \<lparr>agr_authority_grant_id = grant_id, agr_holder_subject_id = dlg_holder_subject_id a,
                  agr_issuer_authority_grant_id = Some (agr_authority_grant_id consumed),
                  agr_capabilities = dlg_capabilities a, agr_claim_types = dlg_claim_types a,
                  agr_method_classes = dlg_method_classes a, agr_tier = dlg_tier a,
                  agr_basis = dlg_basis a, agr_issued_at = t, agr_expires_at = expires,
                  agr_usage_cap = dlg_usage_cap a, agr_used_count = 0,
                  agr_can_delegate = dlg_can_delegate a, agr_delegation_depth = depth,
                  agr_max_delegation_depth = dlg_max_delegation_depth a,
                  agr_public_accountability_label = dlg_public_accountability_label a,
                  agr_revoked_at = None, agr_revocation_reason = None\<rparr>
     in bind (put_authority_grant grant_id grant) (\<lambda>_.
        bind (publish e ''authority.granted'' ''active'' ''authority'') (\<lambda>r.
        ret (grant, r))))))))))))))))))))"

section \<open>Audited promotion\<close>

text \<open>
  \<open>any(item.revoked_at is not None or item.expires_at <= self._now() for item in sources)\<close>: the
  clock is read once per grant that is not revoked, and the search stops at the first hit.
\<close>

primrec any_inactive :: "env \<Rightarrow> authority_grant list \<Rightarrow> bool action" where
  "any_inactive e [] = ret False"
| "any_inactive e (g # gs) =
     (if agr_revoked_at g \<noteq> None then ret True
      else bind (now e) (\<lambda>t. if agr_expires_at g \<le> t then ret True else any_inactive e gs))"

text \<open>Identifiers of the passed audits of active attestations that these subjects made.\<close>

primrec passed_audit_ids :: "string set \<Rightarrow> audit list \<Rightarrow> string list action" where
  "passed_audit_ids verifiers [] = ret []"
| "passed_audit_ids verifiers (a # as) =
     (if aud_state a \<noteq> AUDIT_PASSED then passed_audit_ids verifiers as
      else bind (gets attestations) (\<lambda>d.
           bind (fetch (KeyError (aud_attestation_id a)) (dget d (aud_attestation_id a))) (\<lambda>t.
           bind (passed_audit_ids verifiers as) (\<lambda>rest.
           ret (if att_verifier_subject_id t \<in> verifiers \<and> att_state t = ATT_ACTIVE
                then aud_audit_id a # rest else rest)))))"

definition promote_authority ::
  "env \<Rightarrow> string \<Rightarrow> string list \<Rightarrow> authority_tier \<Rightarrow> authority_capability set \<Rightarrow> datetime \<Rightarrow> string option
   \<Rightarrow> (authority_promotion \<times> authority_grant \<times> receipt) action" where
  "promote_authority e actor_id source_ids resulting_tier capabilities expires_at label =
     bind (validate_authority e actor_id GRANT_AUTHORITY None None) (\<lambda>actor.
     bind (reject_if (source_ids = []) ''promotion requires source authority'') (\<lambda>_.
     bind (collect require_authority_grant source_ids) (\<lambda>sources.
     bind (any_inactive e sources) (\<lambda>inactive.
     bind (reject_if inactive ''promotion sources must be active'') (\<lambda>_.
     let holders = set (map agr_holder_subject_id sources) in
     bind (reject_if (card holders \<noteq> 1) ''promotion sources must belong to one subject'') (\<lambda>_.
     let prior_tier = Max (set (map agr_tier sources)) in
     bind (reject_if (tier_order resulting_tier \<noteq> tier_order prior_tier + 1)
             ''promotion must advance exactly one authority tier'') (\<lambda>_.
     bind (gets (\<lambda>s. dvals (audits s))) (\<lambda>all_audits.
     bind (passed_audit_ids holders all_audits) (\<lambda>unsorted.
     let passed = sort unsorted in
     bind (reject_if (passed = []) ''promotion requires passed audits of the subject's procedure'') (\<lambda>_.
     bind (grant_authority e
             \<lparr>dlg_actor_authority_grant_id = agr_authority_grant_id actor,
              dlg_holder_subject_id = agr_holder_subject_id (hd sources),
              dlg_capabilities = capabilities,
              dlg_claim_types = \<Union> (set (map agr_claim_types sources)),
              dlg_method_classes = \<Union> (set (map agr_method_classes sources)),
              dlg_tier = resulting_tier, dlg_expires_at = expires_at, dlg_usage_cap = None,
              dlg_can_delegate = (resulting_tier \<in> {STEWARD, OPERATOR}),
              dlg_max_delegation_depth =
                min (agr_max_delegation_depth actor) (agr_delegation_depth actor + 2),
              dlg_public_accountability_label = label, dlg_basis = AUDITED_PROMOTION\<rparr>) (\<lambda>(grant, _).
     bind (new_id ''prm'') (\<lambda>promotion_id.
     bind (now e) (\<lambda>t.
     let promotion = \<lparr>prm_promotion_id = promotion_id, prm_subject_id = agr_holder_subject_id grant,
                      prm_source_authority_grant_ids = sort source_ids,
                      prm_resulting_authority_grant_id = agr_authority_grant_id grant,
                      prm_prior_tier = prior_tier, prm_resulting_tier = resulting_tier,
                      prm_passed_audit_ids = passed,
                      prm_decided_by_authority_grant_id = agr_authority_grant_id actor,
                      prm_decided_at = t\<rparr>
     in bind (modify (\<lambda>s. s\<lparr>authority_promotions := dput promotion_id promotion (authority_promotions s)\<rparr>)) (\<lambda>_.
        bind (publish e ''authority.promoted'' ''active'' ''authority'') (\<lambda>r.
        ret (promotion, grant, r))))))))))))))))"

section \<open>Revocation\<close>

text \<open>
  One pass of the \<open>for\<close> loop inside \<open>while changed\<close>: the set grows during the pass, and the flag
  says whether it did.
\<close>

fun revocation_pass :: "authority_grant list \<Rightarrow> string set \<Rightarrow> bool \<Rightarrow> string set \<times> bool" where
  "revocation_pass [] ids changed = (ids, changed)"
| "revocation_pass (g # gs) ids changed =
     (if (case agr_issuer_authority_grant_id g of None \<Rightarrow> False | Some i \<Rightarrow> i \<in> ids)
         \<and> agr_authority_grant_id g \<notin> ids
      then revocation_pass gs (insert (agr_authority_grant_id g) ids) True
      else revocation_pass gs ids changed)"

lemma revocation_pass_grows: "ids \<subseteq> fst (revocation_pass gs ids ch)"
  by (induction gs ids ch rule: revocation_pass.induct) (auto split: if_splits)

lemma revocation_pass_bound:
  "fst (revocation_pass gs ids ch) \<subseteq> ids \<union> set (map agr_authority_grant_id gs)"
  by (induction gs ids ch rule: revocation_pass.induct) auto

lemma revocation_pass_kept_flag: "snd (revocation_pass gs ids True)"
  by (induction gs arbitrary: ids) auto

lemma revocation_pass_changed:
  "snd (revocation_pass gs ids False) \<Longrightarrow>
     \<exists>i \<in> set (map agr_authority_grant_id gs). i \<notin> ids \<and> i \<in> fst (revocation_pass gs ids False)"
proof (induction gs arbitrary: ids)
  case Nil
  then show ?case by simp
next
  case (Cons g gs)
  then show ?case
    using revocation_pass_grows [of "insert (agr_authority_grant_id g) ids" gs True]
    by (auto split: if_splits option.splits)
qed

text \<open>The \<open>while changed\<close> loop: each turn that changes the set adds a grant to it.\<close>

function revocation_closure :: "authority_grant list \<Rightarrow> string set \<Rightarrow> string set" where
  "revocation_closure gs ids =
     (case revocation_pass gs ids False of
        (ids', changed) \<Rightarrow> if changed then revocation_closure gs ids' else ids')"
  by pat_completeness auto
termination
proof (relation "measure (\<lambda>(gs, ids). card (set (map agr_authority_grant_id gs) - ids))", goal_cases)
  case 1
  then show ?case by simp
next
  case (2 gs ids ids' changed)
  let ?K = "set (map agr_authority_grant_id gs)"
  from 2 have eq: "revocation_pass gs ids False = (ids', True)" by simp
  then obtain i where "i \<in> ?K" "i \<notin> ids" "i \<in> ids'"
    using revocation_pass_changed [of gs ids] by auto
  moreover have "ids \<subseteq> ids'" using revocation_pass_grows [of ids gs False] eq by simp
  ultimately have "?K - ids' \<subset> ?K - ids" by auto
  then have "card (?K - ids') < card (?K - ids)" by (intro psubset_card_mono) auto
  then show ?case by simp
qed

declare revocation_closure.simps [simp del]

text \<open>Marking one grant of \<open>sorted(revoked_ids)\<close>.\<close>

definition revoke_one :: "time \<Rightarrow> string \<Rightarrow> string \<Rightarrow> authority_grant action" where
  "revoke_one t reason_code i =
     bind (gets authority_grants) (\<lambda>d.
     bind (fetch (KeyError i) (dget d i)) (\<lambda>g.
     let updated = g\<lparr>agr_revoked_at := Some t, agr_revocation_reason := Some reason_code\<rparr> in
     bind (put_authority_grant i updated) (\<lambda>_. ret updated)))"

definition invalidate :: "string \<Rightarrow> attestation \<Rightarrow> attestation" where
  "invalidate reason a = a\<lparr>att_state := ATT_INVALIDATED, att_invalidation_reason := Some reason\<rparr>"

text \<open>Invalidating the active attestations made under the given grants; the requests they concern.\<close>

definition rests_on :: "string set \<Rightarrow> attestation \<Rightarrow> bool" where
  "rests_on ids a \<longleftrightarrow> att_grant_id a \<in> ids \<and> att_state a = ATT_ACTIVE"

definition invalidate_under :: "string set \<Rightarrow> string \<Rightarrow> string set action" where
  "invalidate_under ids reason =
     bind (gets attestations) (\<lambda>d.
     bind (modify (\<lambda>s. s\<lparr>attestations := dreplace (rests_on ids) (invalidate reason) d\<rparr>)) (\<lambda>_.
     ret (set (map att_request_id (filter (rests_on ids) (dvals d))))))"

definition revoke_authority ::
  "env \<Rightarrow> string \<Rightarrow> string \<Rightarrow> string
   \<Rightarrow> (authority_grant list \<times> credential list \<times> receipt) action" where
  "revoke_authority e actor_id authority_grant_id reason_code =
     bind (consume_authority e actor_id REVOKE_AUTHORITY None None) (\<lambda>actor.
     bind (require_authority_grant authority_grant_id) (\<lambda>target.
     bind (reject_if (agr_revoked_at target \<noteq> None) ''authority grant is already revoked'') (\<lambda>_.
     bind (reject_if (agr_issuer_authority_grant_id target \<noteq> Some (agr_authority_grant_id actor)
                      \<and> tier_order (agr_tier actor) \<le> tier_order (agr_tier target))
             ''actor cannot revoke peer or higher authority'') (\<lambda>_.
     bind (now e) (\<lambda>t.
     bind (gets (\<lambda>s. dvals (authority_grants s))) (\<lambda>all_grants.
     let revoked_ids = revocation_closure all_grants {authority_grant_id} in
     bind (collect (revoke_one t reason_code) (sorted_list_of_set revoked_ids)) (\<lambda>revoked.
     bind (invalidate_under revoked_ids reason_code) (\<lambda>affected.
     bind (recalculate_all e affected) (\<lambda>creds.
     bind (publish e ''authority.revoked'' ''revoked'' ''authority'') (\<lambda>r.
     ret (revoked, creds, r)))))))))))"

section \<open>What a valid authority is\<close>

text \<open>A grant that may be used at an instant, for a capability, on a claim and a method.\<close>

definition usable ::
  "time \<Rightarrow> authority_capability \<Rightarrow> string option \<Rightarrow> string option \<Rightarrow> authority_grant \<Rightarrow> bool" where
  "usable t c ct mc g \<longleftrightarrow> agr_revoked_at g = None \<and> t < agr_expires_at g \<and> c \<in> agr_capabilities g
     \<and> \<not> out_of_scope ct (agr_claim_types g) \<and> \<not> out_of_scope mc (agr_method_classes g)
     \<and> \<not> cap_reached g"

lemma wp_validate_vc [vcg]:
  assumes "\<And>er. E er s" "\<And>er. E er (tick s)"
    and "\<And>g t. dget (authority_grants s) i = Some g \<Longrightarrow> env_clock e (clock_reads s) = Aware t
           \<Longrightarrow> usable t c ct mc g \<Longrightarrow> Q g (tick s)"
  shows "wp (validate_authority e i c ct mc) Q E s"
  unfolding validate_authority_def by (intro vcg) (simp_all add: assms usable_def)

text \<open>The state after a use of a grant.\<close>

definition used :: "string \<Rightarrow> authority_grant \<Rightarrow> core \<Rightarrow> core" where
  "used i g s = s\<lparr>authority_grants := dput i (g\<lparr>agr_used_count := agr_used_count g + 1\<rparr>) (authority_grants s)\<rparr>"

lemma wp_consume_vc [vcg]:
  assumes "\<And>er. E er s" "\<And>er. E er (tick s)"
    and "\<And>g t. dget (authority_grants s) i = Some g \<Longrightarrow> env_clock e (clock_reads s) = Aware t
           \<Longrightarrow> usable t c ct mc g
           \<Longrightarrow> Q (g\<lparr>agr_used_count := agr_used_count g + 1\<rparr>) (used i g (tick s))"
  shows "wp (consume_authority e i c ct mc) Q E s"
  unfolding consume_authority_def put_authority_grant_def
  by (intro vcg) (use assms in \<open>simp_all add: used_def\<close>)

text \<open>Why a grant is refused, in the order of the checks; a use computed from it.\<close>

definition refusal :: "time \<Rightarrow> authority_capability \<Rightarrow> string option \<Rightarrow> string option \<Rightarrow> authority_grant \<Rightarrow> string option" where
  "refusal t c ct mc g =
     (if agr_revoked_at g \<noteq> None \<or> agr_expires_at g \<le> t then Some ''authority grant is not active''
      else if c \<notin> agr_capabilities g then Some ''authority grant lacks the required capability''
      else if out_of_scope ct (agr_claim_types g) then Some ''authority grant does not cover the claim''
      else if out_of_scope mc (agr_method_classes g) then Some ''authority grant does not cover the method''
      else if cap_reached g then Some ''authority usage cap has been reached'' else None)"

lemma refusal_None: "refusal t c ct mc g = None \<longleftrightarrow> usable t c ct mc g"
  by (auto simp: refusal_def usable_def)

lemma consume_authority_runs:
  "consume_authority e i c ct mc s =
     (case dget (authority_grants s) i of
        None \<Rightarrow> (Inl (TrustCoreError ''authority grant is unknown''), s)
      | Some g \<Rightarrow> (case env_clock e (clock_reads s) of
          Naive x \<Rightarrow> (Inl (RuntimeError ''clock must return a timezone-aware datetime''), tick s)
        | Aware t \<Rightarrow> (case refusal t c ct mc g of
            Some why \<Rightarrow> (Inl (TrustCoreError why), tick s)
          | None \<Rightarrow> (Inr (g\<lparr>agr_used_count := agr_used_count g + 1\<rparr>), used i g (tick s)))))"
  by (cases "dget (authority_grants s) i"; cases "env_clock e (clock_reads s)")
    (simp_all add: consume_authority_def validate_authority_def put_authority_grant_def require_defs run Let_def
      fetch_def now_def tick_def reject_if_def refusal_def used_def)

section \<open>What the authority operations write\<close>

context quiet
begin

lemma validate_authority_keeps [keeps]: "keeps (validate_authority e i c ct mc) I"
  unfolding validate_authority_def by (intro keeps)

lemma put_authority_grant_keeps:
  assumes "blind authority_grants_update I"
  shows "keeps (put_authority_grant i g) I"
  unfolding put_authority_grant_def by (intro keeps assms [rule_format])

lemma consume_authority_keeps:
  assumes "blind authority_grants_update I"
  shows "keeps (consume_authority e i c ct mc) I"
  unfolding consume_authority_def by (intro keeps put_authority_grant_keeps assms)

lemma bootstrap_authority_keeps:
  assumes "blind authority_grants_update I" "blind bootstrap_authorities_update I"
  shows "keeps (bootstrap_authority e x label ref v expires) I"
  unfolding bootstrap_authority_def
  by (intro keeps put_authority_grant_keeps assms(1) assms(2) [rule_format])

lemma grant_authority_keeps:
  assumes "blind authority_grants_update I"
  shows "keeps (grant_authority e a) I"
  unfolding grant_authority_def
  by (intro keeps consume_authority_keeps put_authority_grant_keeps assms)

lemma any_inactive_keeps [keeps]: "keeps (any_inactive e gs) I"
  by (induction gs) (auto intro!: keeps)

lemma passed_audit_ids_keeps [keeps]: "keeps (passed_audit_ids vs as) I"
  by (induction as) (auto intro!: keeps)

lemma promote_authority_keeps:
  assumes "\<And>a. keeps (grant_authority e a) I" "blind authority_promotions_update I"
  shows "keeps (promote_authority e actor sources tier caps expires label) I"
  unfolding promote_authority_def by (intro keeps assms(1) assms(2) [rule_format])

lemma invalidate_under_keeps:
  assumes "blind attestations_update I"
  shows "keeps (invalidate_under ids reason) I"
  unfolding invalidate_under_def by (intro keeps assms [rule_format])

lemma revoke_one_keeps:
  assumes "blind authority_grants_update I"
  shows "keeps (revoke_one t reason i) I"
  unfolding revoke_one_def by (intro keeps put_authority_grant_keeps assms)

end

text \<open>A view that also survives the consumption of authority, and one that survives recalculation too.\<close>

locale governed = quiet +
  assumes consume_kept: "keeps (consume_authority e i c ct mc) I"
begin

lemmas consume_kept' [keeps] = consume_kept

lemma authorize_if_required_keeps [keeps]: "keeps (authorize_if_required e actor c ct mc) I"
  unfolding authorize_if_required_def by (intro keeps)

lemmas consume_wp = wp_keeps [OF consume_kept]
lemmas authorize_wp = wp_keeps [OF authorize_if_required_keeps]

end

locale settled = governed +
  assumes recalculate_kept: "keeps (recalculate e r) I"
begin

lemmas recalculate_kept' [keeps] = recalculate_kept
lemmas recalculate_wp = wp_keeps [OF recalculate_kept]
lemmas recalculate_all_wp = wp_keeps [OF recalculate_all_keeps [OF recalculate_kept]]

lemma revoke_authority_keeps:
  assumes "\<And>t reason i. keeps (revoke_one t reason i) I"
    and "\<And>ids reason. keeps (invalidate_under ids reason) I"
  shows "keeps (revoke_authority e actor i reason) I"
  unfolding revoke_authority_def by (intro keeps assms)

end

end
