(* ===== verification/Enrollment.thy ===== *)
theory Enrollment
  imports Authority
begin

text \<open>
  Subjects, operator releases, consents and claim requests of \<open>TrustCore\<close>
  (\<open>src/kyn/service.py\<close>).
\<close>

section \<open>The operator release in force\<close>

definition unsuspended :: "core \<Rightarrow> operator_release list" where
  "unsuspended s = filter (\<lambda>r. rel_suspended_at r = None) (dvals (operator_releases s))"

definition current_operator_release :: "bool \<Rightarrow> operator_release option action" where
  "current_operator_release required =
     bind (gets unsuspended) (\<lambda>active.
     if length active = 1 then ret (Some (hd active))
     else if required then raise (TrustCoreError ''KYN operator release is not active'')
     else ret None)"

definition require_active_release :: "env \<Rightarrow> unit action" where
  "require_active_release e =
     (if pol_enforce_release (env_policy e)
      then bind (current_operator_release True) (\<lambda>_. ret ()) else ret ())"

text \<open>The keyword arguments of \<open>register_operator_release\<close>.\<close>

record release_form =
  rf_actor_authority_grant_id :: string
  rf_release_version :: string
  rf_notice_version :: string
  rf_terms_url :: string
  rf_privacy_url :: string
  rf_operator_contact :: string
  rf_storage_posture :: storage_posture
  rf_backup_evidence_reference :: string
  rf_sensitive_evidence_enabled :: bool

definition put_release :: "string \<Rightarrow> operator_release \<Rightarrow> unit action" where
  "put_release i r = modify (\<lambda>s. s\<lparr>operator_releases := dput i r (operator_releases s)\<rparr>)"

definition register_operator_release :: "env \<Rightarrow> release_form \<Rightarrow> (operator_release \<times> receipt) action" where
  "register_operator_release e f =
     bind (consume_authority e (rf_actor_authority_grant_id f) MANAGE_RELEASE None None) (\<lambda>actor.
     bind (reject_if (rf_sensitive_evidence_enabled f)
             ''KYN-000C does not authorize sensitive evidence'') (\<lambda>_.
     bind (reject_if (\<not> startswith ''https://'' (rf_terms_url f) \<or> \<not> startswith ''https://'' (rf_privacy_url f))
             ''release terms and privacy URLs must use https'') (\<lambda>_.
     bind (reject_if (rf_operator_contact f = '''' \<or> CHR ''@'' \<notin> set (rf_operator_contact f))
             ''release requires a public operator contact'') (\<lambda>_.
     bind (reject_if (\<not> startswith ''sha256:'' (rf_backup_evidence_reference f)
                      \<or> length (rf_backup_evidence_reference f) \<noteq> sha256_reference_length)
             ''release requires a sha256 backup evidence reference'') (\<lambda>_.
     bind (current_operator_release False) (\<lambda>active.
     bind (reject_if (case active of None \<Rightarrow> False
                      | Some a \<Rightarrow> rel_release_version a = rf_release_version f)
             ''operator release version is already active'') (\<lambda>_.
     bind (new_id ''rel'') (\<lambda>release_id.
     bind (now e) (\<lambda>t.
     let release = \<lparr>rel_release_id = release_id, rel_release_version = rf_release_version f,
                    rel_notice_version = rf_notice_version f, rel_terms_url = rf_terms_url f,
                    rel_privacy_url = rf_privacy_url f, rel_operator_contact = rf_operator_contact f,
                    rel_storage_posture = rf_storage_posture f,
                    rel_backup_evidence_reference = rf_backup_evidence_reference f,
                    rel_sensitive_evidence_enabled = False,
                    rel_activated_by_authority_grant_id = agr_authority_grant_id actor,
                    rel_activated_at = t,
                    rel_supersedes_release_id = map_option rel_release_id active,
                    rel_suspended_at = None\<rparr>
     in bind (case active of None \<Rightarrow> ret ()
              | Some a \<Rightarrow> bind (now e) (\<lambda>u.
                  put_release (rel_release_id a) (a\<lparr>rel_suspended_at := Some u\<rparr>))) (\<lambda>_.
        bind (put_release release_id release) (\<lambda>_.
        bind (publish e ''operator_release.activated'' ''active'' ''release'') (\<lambda>r.
        ret (release, r)))))))))))))"

section \<open>Subjects\<close>

definition create_subject :: "env \<Rightarrow> string \<Rightarrow> bool \<Rightarrow> (subject \<times> receipt) action" where
  "create_subject e participant_key bootstrap =
     bind (if pol_enforce_release (env_policy e) \<and> \<not> bootstrap
           then bind (current_operator_release True) (\<lambda>release.
                reject_if (case release of None \<Rightarrow> True | Some r \<Rightarrow> rel_release_version r \<noteq> ''2.0.0'')
                  ''ordinary enrollment is not active'')
           else ret ()) (\<lambda>_.
     bind (reject_if (\<not> startswith ''did:key:'' participant_key)
             ''participant key must use did:key'') (\<lambda>_.
     bind (gets (\<lambda>s. list_ex (\<lambda>x. sub_participant_key x = Some participant_key) (dvals (subjects s)))) (\<lambda>enrolled.
     bind (reject_if enrolled ''participant key is already enrolled'') (\<lambda>_.
     bind (new_id ''sub'') (\<lambda>i.
     bind (now e) (\<lambda>t.
     let x = \<lparr>sub_subject_id = i, sub_participant_key = Some participant_key,
              sub_created_at = t, sub_deleted_at = None\<rparr>
     in bind (modify (\<lambda>s. s\<lparr>subjects := dput i x (subjects s)\<rparr>)) (\<lambda>_.
        bind (publish e ''subject.created'' ''created'' ''subject'') (\<lambda>r.
        ret (x, r)))))))))"

definition participant_key_for_subject :: "string \<Rightarrow> string action" where
  "participant_key_for_subject subject_id =
     bind (require_subject subject_id) (\<lambda>x.
     fetch (TrustCoreError ''subject key binding has been deleted'') (sub_participant_key x))"

section \<open>Consents\<close>

definition has_active_consent :: "core \<Rightarrow> string \<Rightarrow> string \<Rightarrow> bool" where
  "has_active_consent s subject_id purpose \<longleftrightarrow>
     list_ex (\<lambda>c. cns_subject_id c = subject_id \<and> cns_withdrawn_at c = None \<and> purpose \<in> cns_purposes c)
       (dvals (consents s))"

text \<open>The body of the withdrawal loops; each withdrawal reads the clock.\<close>

definition withdraw_if_active :: "env \<Rightarrow> string \<Rightarrow> string \<times> consent_record \<Rightarrow> unit action" where
  "withdraw_if_active e subject_id kc =
     (if cns_subject_id (snd kc) = subject_id \<and> cns_withdrawn_at (snd kc) = None
      then bind (now e) (\<lambda>t. modify (\<lambda>s. s\<lparr>consents :=
             dput (fst kc) ((snd kc)\<lparr>cns_withdrawn_at := Some t\<rparr>) (consents s)\<rparr>))
      else ret ())"

definition withdraw_consents :: "env \<Rightarrow> string \<Rightarrow> unit action" where
  "withdraw_consents e subject_id =
     bind (gets consents) (\<lambda>items. for_each (withdraw_if_active e subject_id) items)"

definition accept_consent ::
  "env \<Rightarrow> string \<Rightarrow> string \<Rightarrow> string set \<Rightarrow> (consent_record \<times> receipt) action" where
  "accept_consent e subject_id notice_version purposes =
     bind (require_active_release e) (\<lambda>_.
     bind (require_subject subject_id) (\<lambda>_.
     bind (current_operator_release True) (\<lambda>release.
     bind (reject_if (case release of None \<Rightarrow> True | Some r \<Rightarrow> notice_version \<noteq> rel_notice_version r)
             ''consent must bind the active notice version'') (\<lambda>_.
     bind (reject_if (purposes = {} \<or> \<not> Ball purposes (startswith ''kyn_''))
             ''consent requires explicit KYN purposes'') (\<lambda>_.
     bind (withdraw_consents e subject_id) (\<lambda>_.
     bind (new_id ''cns'') (\<lambda>i.
     bind (now e) (\<lambda>t.
     let c = \<lparr>cns_consent_id = i, cns_subject_id = subject_id, cns_notice_version = notice_version,
              cns_purposes = purposes, cns_granted_at = t, cns_withdrawn_at = None\<rparr>
     in bind (modify (\<lambda>s. s\<lparr>consents := dput i c (consents s)\<rparr>)) (\<lambda>_.
        bind (publish e ''consent.accepted'' ''active'' ''consent'') (\<lambda>r.
        ret (c, r)))))))))))"

section \<open>Claims\<close>

definition register_claim :: "env \<Rightarrow> claim_definition \<Rightarrow> string option \<Rightarrow> receipt action" where
  "register_claim e d actor_id =
     bind (authorize_if_required e actor_id MANAGE_CLAIMS (Some (cd_claim_type d)) None) (\<lambda>_.
     let key = (cd_claim_type d, cd_definition_version d, cd_policy_version d) in
     bind (gets (\<lambda>s. dget (claims s) key \<noteq> None)) (\<lambda>known.
     bind (reject_if known ''claim version is already registered'') (\<lambda>_.
     bind (modify (\<lambda>s. s\<lparr>claims := dput key d (claims s)\<rparr>)) (\<lambda>_.
     publish e ''claim_definition.registered'' ''registered'' ''claim_definition''))))"

definition request_claim ::
  "env \<Rightarrow> string \<Rightarrow> string \<Rightarrow> string \<Rightarrow> string \<Rightarrow> (claim_request \<times> receipt) action" where
  "request_claim e subject_id claim_type definition_version policy_version =
     bind (require_active_release e) (\<lambda>_.
     bind (require_subject subject_id) (\<lambda>_.
     bind (gets (\<lambda>s. has_active_consent s subject_id ''kyn_claim_processing'')) (\<lambda>consented.
     bind (reject_if (pol_require_consent (env_policy e) \<and> \<not> consented)
             ''claim request requires active claim-processing consent'') (\<lambda>_.
     bind (gets (\<lambda>s. dget (claims s) (claim_type, definition_version, policy_version))) (\<lambda>found.
     bind (fetch (TrustCoreError ''claim definition is not registered'') found) (\<lambda>d.
     bind (new_id ''clm'') (\<lambda>i.
     bind (now e) (\<lambda>t.
     let q = \<lparr>clm_request_id = i, clm_subject_id = subject_id, clm_definition = d, clm_requested_at = t\<rparr>
     in bind (modify (\<lambda>s. s\<lparr>requests := dput i q (requests s)\<rparr>)) (\<lambda>_.
        bind (publish e ''claim.requested'' ''pending'' ''claim_request'') (\<lambda>r.
        ret (q, r)))))))))))"

section \<open>What these operations write\<close>

context quiet
begin

lemma current_operator_release_keeps [keeps]: "keeps (current_operator_release b) I"
  unfolding current_operator_release_def by (intro keeps)

lemma require_active_release_keeps [keeps]: "keeps (require_active_release e) I"
  unfolding require_active_release_def by (intro keeps)

lemma create_subject_keeps:
  assumes "blind subjects_update I"
  shows "keeps (create_subject e k b) I"
  unfolding create_subject_def by (intro keeps assms [rule_format])

lemma participant_key_for_subject_keeps [keeps]: "keeps (participant_key_for_subject i) I"
  unfolding participant_key_for_subject_def by (intro keeps)

lemma withdraw_consents_keeps:
  assumes "blind consents_update I"
  shows "keeps (withdraw_consents e i) I"
  unfolding withdraw_consents_def withdraw_if_active_def by (intro keeps assms [rule_format])

lemma accept_consent_keeps:
  assumes "blind consents_update I"
  shows "keeps (accept_consent e i v ps) I"
  unfolding accept_consent_def by (intro keeps withdraw_consents_keeps assms assms [rule_format])

lemma request_claim_keeps:
  assumes "blind requests_update I"
  shows "keeps (request_claim e i ct dv pv) I"
  unfolding request_claim_def by (intro keeps assms [rule_format])

end

context governed
begin

lemma register_operator_release_keeps:
  assumes "blind operator_releases_update I"
  shows "keeps (register_operator_release e f) I"
  unfolding register_operator_release_def put_release_def by (intro keeps assms [rule_format])

lemma register_claim_keeps:
  assumes "blind claims_update I"
  shows "keeps (register_claim e d actor) I"
  unfolding register_claim_def by (intro keeps assms [rule_format])

end

end
