(* ===== verification/Attestations.thy ===== *)
theory Attestations
  imports Enrollment
begin

text \<open>
  Verifier grants, invitations, introductions and attestations of \<open>TrustCore\<close>
  (\<open>src/kyn/service.py\<close>).
\<close>

section \<open>Verifier grants of the synthetic profile\<close>

definition grant_verifier ::
  "env \<Rightarrow> string \<Rightarrow> string \<Rightarrow> string set \<Rightarrow> int \<Rightarrow> datetime \<Rightarrow> string \<Rightarrow> (verifier_grant \<times> receipt) action" where
  "grant_verifier e verifier claim_type method_classes attestation_cap expires_at authority_basis =
     bind (reject_if (pol_enforce_authority (env_policy e)) ''live policy requires a scoped authority grant'') (\<lambda>_.
     bind (require_subject verifier) (\<lambda>_.
     bind (reject_if (attestation_cap < 1) ''verifier cap must be positive'') (\<lambda>_.
     bind (reject_if (method_classes = {}) ''verifier grant requires a method class'') (\<lambda>_.
     bind (now e) (\<lambda>t.
     bind (comparable expires_at) (\<lambda>expires.
     bind (reject_if (expires \<le> t) ''verifier grant must expire in the future'') (\<lambda>_.
     bind (reject_if (authority_basis \<notin> {''synthetic_root_review'', ''audited_procedure''})
             ''authority basis must be approved procedure, not influence'') (\<lambda>_.
     bind (new_id ''grt'') (\<lambda>i.
     bind (now e) (\<lambda>issued.
     let g = \<lparr>grt_grant_id = i, grt_verifier_subject_id = verifier, grt_claim_type = claim_type,
              grt_method_classes = method_classes, grt_attestation_cap = attestation_cap,
              grt_issued_at = issued, grt_expires_at = expires,
              grt_authority_basis = authority_basis, grt_revoked_at = None\<rparr>
     in bind (modify (\<lambda>s. s\<lparr>grants := dput i g (grants s)\<rparr>)) (\<lambda>_.
        bind (publish e ''verifier_grant.issued'' ''active'' ''verifier_grant'') (\<lambda>r.
        ret (g, r)))))))))))))"

definition revoke_verifier_grant ::
  "env \<Rightarrow> string \<Rightarrow> string \<Rightarrow> (verifier_grant \<times> credential list \<times> receipt) action" where
  "revoke_verifier_grant e grant_id reason_code =
     bind (gets grants) (\<lambda>d.
     bind (fetch (TrustCoreError ''verifier grant is unknown'') (dget d grant_id)) (\<lambda>g.
     bind (reject_if (grt_revoked_at g \<noteq> None) ''verifier grant is already revoked'') (\<lambda>_.
     bind (now e) (\<lambda>t.
     let updated = g\<lparr>grt_revoked_at := Some t\<rparr> in
     bind (modify (\<lambda>s. s\<lparr>grants := dput grant_id updated (grants s)\<rparr>)) (\<lambda>_.
     bind (invalidate_under {grant_id} reason_code) (\<lambda>affected.
     bind (recalculate_all e affected) (\<lambda>creds.
     bind (publish e ''verifier_grant.revoked'' ''revoked'' ''verifier_grant'') (\<lambda>r.
     ret (updated, creds, r)))))))))"

section \<open>Invitations and introductions\<close>

definition invite_attestor ::
  "env \<Rightarrow> string \<Rightarrow> string \<Rightarrow> datetime \<Rightarrow> (attestor_invitation \<times> receipt) action" where
  "invite_attestor e request_id verifier expires_at =
     bind (require_request request_id) (\<lambda>q.
     bind (require_subject verifier) (\<lambda>_.
     bind (reject_if (clm_subject_id q = verifier) ''a subject cannot attest its own claim'') (\<lambda>_.
     bind (now e) (\<lambda>t.
     bind (comparable expires_at) (\<lambda>expires.
     bind (reject_if (expires \<le> t) ''invitation must expire in the future'') (\<lambda>_.
     bind (new_id ''inv'') (\<lambda>i.
     bind (now e) (\<lambda>created.
     let v = \<lparr>inv_invitation_id = i, inv_request_id = request_id, inv_verifier_subject_id = verifier,
              inv_created_at = created, inv_expires_at = expires\<rparr>
     in bind (modify (\<lambda>s. s\<lparr>invitations := dput i v (invitations s)\<rparr>)) (\<lambda>_.
        bind (publish e ''attestor.invited'' ''pending'' ''invitation'') (\<lambda>r.
        ret (v, r)))))))))))"

definition introduce_attestor ::
  "env \<Rightarrow> string \<Rightarrow> string \<Rightarrow> string \<Rightarrow> datetime \<Rightarrow> string option \<Rightarrow> (introduction \<times> receipt) action" where
  "introduce_attestor e request_id introducer invited expires_at actor_id =
     bind (authorize_if_required e actor_id INTRODUCE_ATTESTOR None None) (\<lambda>_.
     bind (require_request request_id) (\<lambda>q.
     bind (require_subject introducer) (\<lambda>_.
     bind (require_subject invited) (\<lambda>_.
     bind (reject_if (clm_subject_id q \<in> {introducer, invited})
             ''a claim subject cannot create its own verification path'') (\<lambda>_.
     bind (reject_if (introducer = invited) ''introduction requires two distinct parties'') (\<lambda>_.
     bind (now e) (\<lambda>t.
     bind (comparable expires_at) (\<lambda>expires.
     bind (reject_if (expires \<le> t) ''introduction must expire in the future'') (\<lambda>_.
     bind (new_id ''int'') (\<lambda>i.
     bind (now e) (\<lambda>created.
     let n = \<lparr>int_introduction_id = i, int_request_id = request_id,
              int_introducer_subject_id = introducer, int_invited_verifier_subject_id = invited,
              int_created_at = created, int_expires_at = expires\<rparr>
     in bind (modify (\<lambda>s. s\<lparr>introductions := dput i n (introductions s)\<rparr>)) (\<lambda>_.
        bind (publish e ''attestor.introduced'' ''pending'' ''introduction'') (\<lambda>r.
        ret (n, r))))))))))))))"

section \<open>Issuing attestations\<close>

text \<open>Who attests under the grant, until when, and under which cap.\<close>

definition resolve_attestation_authority ::
  "env \<Rightarrow> string \<Rightarrow> claim_request \<Rightarrow> string \<Rightarrow> time \<Rightarrow> (string \<times> time \<times> int option) action" where
  "resolve_attestation_authority e grant_id q method_class t =
     bind (gets (\<lambda>s. dget (authority_grants s) grant_id)) (\<lambda>scoped.
     case scoped of
       Some g \<Rightarrow>
         bind (consume_authority e (agr_authority_grant_id g) ATTEST_CLAIM
                 (Some (cd_claim_type (clm_definition q))) (Some method_class)) (\<lambda>c.
         ret (agr_holder_subject_id c, agr_expires_at c, agr_usage_cap c))
     | None \<Rightarrow>
         bind (gets (\<lambda>s. dget (grants s) grant_id)) (\<lambda>legacy.
         bind (fetch (TrustCoreError ''verifier authority is unknown'') legacy) (\<lambda>g.
         bind (reject_if (grt_revoked_at g \<noteq> None \<or> grt_expires_at g \<le> t)
                 ''verifier grant is not active'') (\<lambda>_.
         bind (reject_if (cd_claim_type (clm_definition q) \<noteq> grt_claim_type g)
                 ''verifier grant does not cover the requested claim'') (\<lambda>_.
         bind (reject_if (method_class \<notin> grt_method_classes g)
                 ''verifier grant does not cover the selected method'') (\<lambda>_.
         ret (grt_verifier_subject_id g, grt_expires_at g, Some (grt_attestation_cap g))))))))"

definition resolve_independence_path ::
  "env \<Rightarrow> claim_request \<Rightarrow> string \<Rightarrow> verification_basis \<Rightarrow> string option \<Rightarrow> string option \<Rightarrow> time \<Rightarrow> string action" where
  "resolve_independence_path e q verifier basis introduction_id fallback t =
     (if \<not> (pol_enforce_authority (env_policy e) \<and> basis = PEER_ATTESTED)
      then fetch (TrustCoreError ''attestation requires an independence path'') fallback
      else
        bind (fetch (TrustCoreError ''live peer attestation requires an introduction'') introduction_id) (\<lambda>i.
        bind (gets introductions) (\<lambda>d.
        bind (fetch (TrustCoreError ''live peer attestation requires an introduction'') (dget d i)) (\<lambda>n.
        bind (reject_if (int_request_id n \<noteq> clm_request_id q
                         \<or> int_invited_verifier_subject_id n \<noteq> verifier)
                ''introduction does not match the invitation'') (\<lambda>_.
        bind (reject_if (int_expires_at n \<le> t) ''introduction has expired'') (\<lambda>_.
        ret (receipt_token e ''path''
               (clm_request_id q @ ''|'' @ int_introducer_subject_id n))))))))"

text \<open>The keyword arguments of \<open>issue_attestation\<close>.\<close>

record attestation_form =
  af_invitation_id :: string
  af_grant_id :: string
  af_method_class :: string
  af_expires_at :: datetime
  af_verification_basis :: verification_basis
  af_introduction_id :: "string option"
  af_independence_path :: "string option"

definition put_attestation :: "string \<Rightarrow> attestation \<Rightarrow> unit action" where
  "put_attestation i a = modify (\<lambda>s. s\<lparr>attestations := dput i a (attestations s)\<rparr>)"

definition live_under_grant :: "core \<Rightarrow> string \<Rightarrow> time \<Rightarrow> attestation list" where
  "live_under_grant s grant_id t =
     filter (\<lambda>a. att_grant_id a = grant_id \<and> att_state a = ATT_ACTIVE \<and> att_expires_at a > t)
       (dvals (attestations s))"

definition issue_attestation ::
  "env \<Rightarrow> attestation_form \<Rightarrow> (attestation \<times> credential \<times> receipt) action" where
  "issue_attestation e f =
     bind (now e) (\<lambda>t.
     bind (gets invitations) (\<lambda>d.
     bind (fetch (TrustCoreError ''attestor invitation is unknown'') (dget d (af_invitation_id f))) (\<lambda>v.
     bind (require_request (inv_request_id v)) (\<lambda>q.
     bind (reject_if (af_verification_basis f \<notin> cd_allowed_verification_bases (clm_definition q))
             ''verification basis is not allowed by the claim policy'') (\<lambda>_.
     bind (reject_if (af_verification_basis f = AUDIT_CORROBORATED)
             ''audit-corroborated basis can only result from an audit'') (\<lambda>_.
     bind (resolve_attestation_authority e (af_grant_id f) q (af_method_class f) t)
       (\<lambda>(verifier, grant_expires_at, cap).
     bind (reject_if (inv_expires_at v \<le> t) ''attestor invitation has expired'') (\<lambda>_.
     bind (reject_if (inv_verifier_subject_id v \<noteq> verifier) ''invitation and verifier grant do not match'') (\<lambda>_.
     bind (resolve_independence_path e q verifier (af_verification_basis f) (af_introduction_id f)
             (af_independence_path f) t) (\<lambda>path.
     bind (comparable (af_expires_at f)) (\<lambda>expires.
     bind (reject_if (expires \<le> t \<or> expires > grant_expires_at)
             ''attestation expiry must fit within the verifier grant'') (\<lambda>_.
     bind (gets (\<lambda>s. active_attestations s (clm_request_id q) t)) (\<lambda>existing.
     bind (reject_if (list_ex (\<lambda>a. att_verifier_subject_id a = verifier) existing)
             ''the same verifier cannot corroborate a request twice'') (\<lambda>_.
     bind (gets (\<lambda>s. live_under_grant s (af_grant_id f) t)) (\<lambda>grant_active.
     bind (reject_if (case cap of None \<Rightarrow> False | Some n \<Rightarrow> int (length grant_active) \<ge> n)
             ''verifier attestation cap has been reached'') (\<lambda>_.
     bind (new_id ''att'') (\<lambda>i.
     let a = \<lparr>att_attestation_id = i, att_request_id = clm_request_id q, att_grant_id = af_grant_id f,
              att_verifier_subject_id = verifier, att_independence_path = path,
              att_method_class = af_method_class f, att_issued_at = t, att_expires_at = expires,
              att_verification_basis = af_verification_basis f, att_state = ATT_ACTIVE,
              att_invalidation_reason = None\<rparr>
     in bind (put_attestation i a) (\<lambda>_.
        bind (recalculate e (clm_request_id q)) (\<lambda>credential.
        bind (fetch (RuntimeError ''an attestation must produce a provisional credential'') credential) (\<lambda>c.
        bind (publish e ''attestation.issued'' (credential_state_value (crd_state c)) ''attestation'') (\<lambda>r.
        ret (a, c, r))))))))))))))))))))))"

definition issue_bootstrap_attestation ::
  "env \<Rightarrow> string \<Rightarrow> string \<Rightarrow> datetime \<Rightarrow> (attestation \<times> credential \<times> receipt) action" where
  "issue_bootstrap_attestation e request_id grant_id expires_at =
     bind (require_request request_id) (\<lambda>q.
     bind (consume_authority e grant_id ATTEST_CLAIM (Some (cd_claim_type (clm_definition q)))
             (Some (cd_method_class (clm_definition q)))) (\<lambda>g.
     bind (reject_if (agr_basis g \<noteq> BOOTSTRAP_DESIGNATION)
             ''only the designated bootstrap authority may use this path'') (\<lambda>_.
     bind (reject_if (clm_subject_id q \<noteq> agr_holder_subject_id g)
             ''bootstrap attestation is limited to the designated subject'') (\<lambda>_.
     bind (reject_if (BOOTSTRAP_VOUCHED \<notin> cd_allowed_verification_bases (clm_definition q))
             ''claim policy does not allow bootstrap-vouched assurance'') (\<lambda>_.
     bind (now e) (\<lambda>t.
     bind (comparable expires_at) (\<lambda>expires.
     bind (reject_if (expires \<le> t \<or> expires > agr_expires_at g)
             ''bootstrap attestation expiry must fit within authority'') (\<lambda>_.
     bind (gets (\<lambda>s. active_attestations s request_id t)) (\<lambda>existing.
     bind (reject_if (existing \<noteq> []) ''bootstrap claim already has an active attestation'') (\<lambda>_.
     bind (new_id ''att'') (\<lambda>i.
     let a = \<lparr>att_attestation_id = i, att_request_id = request_id,
              att_grant_id = agr_authority_grant_id g,
              att_verifier_subject_id = agr_holder_subject_id g,
              att_independence_path = ''path_bootstrap_designation'',
              att_method_class = cd_method_class (clm_definition q), att_issued_at = t,
              att_expires_at = expires, att_verification_basis = BOOTSTRAP_VOUCHED,
              att_state = ATT_ACTIVE, att_invalidation_reason = None\<rparr>
     in bind (put_attestation i a) (\<lambda>_.
        bind (recalculate e request_id) (\<lambda>credential.
        bind (fetch (RuntimeError ''bootstrap attestation must produce a credential'') credential) (\<lambda>c.
        bind (publish e ''attestation.bootstrap_issued'' (credential_state_value (crd_state c)) ''attestation'') (\<lambda>r.
        ret (a, c, r))))))))))))))))"

section \<open>What these operations write\<close>

context quiet
begin

lemma grant_verifier_keeps:
  assumes "blind grants_update I"
  shows "keeps (grant_verifier e v ct ms n expires basis) I"
  unfolding grant_verifier_def by (intro keeps assms [rule_format])

lemma invite_attestor_keeps:
  assumes "blind invitations_update I"
  shows "keeps (invite_attestor e r v expires) I"
  unfolding invite_attestor_def by (intro keeps assms [rule_format])

lemma resolve_independence_path_keeps [keeps]:
  "keeps (resolve_independence_path e q v b i p t) I"
  unfolding resolve_independence_path_def by (intro keeps)

lemma put_attestation_keeps:
  assumes "blind attestations_update I"
  shows "keeps (put_attestation i a) I"
  unfolding put_attestation_def by (intro keeps assms [rule_format])

end

context governed
begin

lemma introduce_attestor_keeps:
  assumes "blind introductions_update I"
  shows "keeps (introduce_attestor e r i v expires actor) I"
  unfolding introduce_attestor_def by (intro keeps assms [rule_format])

lemma resolve_attestation_authority_keeps [keeps]:
  "keeps (resolve_attestation_authority e g q m t) I"
  unfolding resolve_attestation_authority_def by (intro keeps)

end

context settled
begin

lemma revoke_verifier_grant_keeps:
  assumes "blind grants_update I" "\<And>ids reason. keeps (invalidate_under ids reason) I"
  shows "keeps (revoke_verifier_grant e i reason) I"
  unfolding revoke_verifier_grant_def by (intro keeps assms(1) [rule_format] assms(2))

lemma issue_attestation_keeps:
  assumes "\<And>i a. keeps (put_attestation i a) I"
  shows "keeps (issue_attestation e f) I"
  unfolding issue_attestation_def by (intro keeps assms)

lemma issue_bootstrap_attestation_keeps:
  assumes "\<And>i a. keeps (put_attestation i a) I"
  shows "keeps (issue_bootstrap_attestation e r g expires) I"
  unfolding issue_bootstrap_attestation_def by (intro keeps assms)

end

end
