(* ===== verification/Reviews.thy ===== *)
theory Reviews
  imports Attestations
begin

text \<open>
  Audits, challenges and appeals of \<open>TrustCore\<close> (\<open>src/kyn/service.py\<close>), each a small state
  machine whose decisions invalidate or restore an attestation and recompute its credential.
\<close>

section \<open>Audits\<close>

definition select_audit ::
  "env \<Rightarrow> string \<Rightarrow> audit_basis \<Rightarrow> string \<Rightarrow> string option \<Rightarrow> (audit \<times> receipt) action" where
  "select_audit e attestation_id basis selection_seed actor_id =
     bind (authorize_if_required e actor_id SELECT_AUDIT None None) (\<lambda>_.
     bind (require_attestation attestation_id) (\<lambda>a.
     bind (reject_if (att_state a \<noteq> ATT_ACTIVE) ''only active attestations can be audited'') (\<lambda>_.
     bind (gets (\<lambda>s. list_ex (\<lambda>x. aud_attestation_id x = attestation_id) (dvals (audits s)))) (\<lambda>selected.
     bind (reject_if selected ''attestation is already selected for audit'') (\<lambda>_.
     let selection_receipt = receipt_token e ''sel''
           (attestation_id @ ''|'' @ audit_basis_value basis @ ''|'' @ selection_seed) in
     bind (new_id ''aud'') (\<lambda>i.
     bind (now e) (\<lambda>t.
     let x = \<lparr>aud_audit_id = i, aud_attestation_id = attestation_id, aud_basis = basis,
              aud_selection_receipt = selection_receipt, aud_selected_at = t,
              aud_state = AUDIT_PENDING, aud_decided_at = None\<rparr>
     in bind (modify (\<lambda>s. s\<lparr>audits := dput i x (audits s)\<rparr>)) (\<lambda>_.
        bind (publish e ''audit.selected'' ''pending'' ''audit'') (\<lambda>r.
        ret (x, r))))))))))"

definition decide_audit ::
  "env \<Rightarrow> string \<Rightarrow> bool \<Rightarrow> string option \<Rightarrow> (audit \<times> credential \<times> receipt) action" where
  "decide_audit e audit_id passed actor_id =
     bind (authorize_if_required e actor_id DECIDE_AUDIT None None) (\<lambda>_.
     bind (gets audits) (\<lambda>d.
     bind (fetch (TrustCoreError ''audit is unknown'') (dget d audit_id)) (\<lambda>x.
     bind (reject_if (aud_state x \<noteq> AUDIT_PENDING) ''audit is already decided'') (\<lambda>_.
     bind (now e) (\<lambda>t.
     let decided = x\<lparr>aud_state := (if passed then AUDIT_PASSED else AUDIT_FAILED), aud_decided_at := Some t\<rparr> in
     bind (modify (\<lambda>s. s\<lparr>audits := dput audit_id decided (audits s)\<rparr>)) (\<lambda>_.
     bind (require_attestation (aud_attestation_id x)) (\<lambda>a.
     bind (if passed then ret ()
           else put_attestation (att_attestation_id a) (invalidate ''audit_failed'' a)) (\<lambda>_.
     bind (recalculate e (att_request_id a)) (\<lambda>credential.
     bind (fetch (RuntimeError ''audited attestation must have a dependent credential'') credential) (\<lambda>c.
     bind (publish e ''audit.decided'' (audit_state_value (aud_state decided)) ''audit'') (\<lambda>r.
     ret (decided, c, r))))))))))))"

section \<open>Challenges and appeals\<close>

definition put_challenge :: "string \<Rightarrow> challenge \<Rightarrow> unit action" where
  "put_challenge i c = modify (\<lambda>s. s\<lparr>challenges := dput i c (challenges s)\<rparr>)"

definition open_challenge ::
  "env \<Rightarrow> string \<Rightarrow> string \<Rightarrow> string option \<Rightarrow> (challenge \<times> receipt) action" where
  "open_challenge e attestation_id reason_code challenger =
     bind (require_attestation attestation_id) (\<lambda>a.
     bind (case challenger of None \<Rightarrow> ret () | Some i \<Rightarrow> bind (require_subject i) (\<lambda>_. ret ())) (\<lambda>_.
     bind (reject_if (att_state a \<noteq> ATT_ACTIVE) ''only active attestations can be challenged'') (\<lambda>_.
     bind (new_id ''chg'') (\<lambda>i.
     bind (now e) (\<lambda>t.
     let c = \<lparr>chg_challenge_id = i, chg_attestation_id = attestation_id, chg_reason_code = reason_code,
              chg_opened_at = t, chg_state = OPEN, chg_response_code = None, chg_decision = None,
              chg_appeal_reason_code = None, chg_appeal_decision = None, chg_decided_at = None,
              chg_challenger_subject_id = challenger\<rparr>
     in bind (put_challenge i c) (\<lambda>_.
        bind (publish e ''challenge.opened'' ''open'' ''challenge'') (\<lambda>r.
        ret (c, r))))))))"

definition respond_to_challenge :: "env \<Rightarrow> string \<Rightarrow> string \<Rightarrow> (challenge \<times> receipt) action" where
  "respond_to_challenge e challenge_id response_code =
     bind (require_challenge challenge_id) (\<lambda>c.
     bind (reject_if (chg_state c \<noteq> OPEN) ''challenge is not awaiting a response'') (\<lambda>_.
     let updated = c\<lparr>chg_state := RESPONDED, chg_response_code := Some response_code\<rparr> in
     bind (put_challenge challenge_id updated) (\<lambda>_.
     bind (publish e ''challenge.responded'' ''responded'' ''challenge'') (\<lambda>r.
     ret (updated, r)))))"

definition decide_challenge ::
  "env \<Rightarrow> string \<Rightarrow> challenge_decision \<Rightarrow> string option \<Rightarrow> (challenge \<times> credential \<times> receipt) action" where
  "decide_challenge e challenge_id decision actor_id =
     bind (authorize_if_required e actor_id DECIDE_CHALLENGE None None) (\<lambda>_.
     bind (require_challenge challenge_id) (\<lambda>c.
     bind (reject_if (chg_state c \<notin> {OPEN, RESPONDED})
             ''challenge cannot be decided in its current state'') (\<lambda>_.
     bind (now e) (\<lambda>t.
     let updated = c\<lparr>chg_state := DECIDED, chg_decision := Some decision, chg_decided_at := Some t\<rparr> in
     bind (put_challenge challenge_id updated) (\<lambda>_.
     bind (require_attestation (chg_attestation_id c)) (\<lambda>a.
     bind (if decision = SUSTAINED
           then put_attestation (att_attestation_id a) (invalidate ''challenge_sustained'' a)
           else ret ()) (\<lambda>_.
     bind (recalculate e (att_request_id a)) (\<lambda>credential.
     bind (fetch (RuntimeError ''challenged attestation must have a dependent credential'') credential) (\<lambda>k.
     bind (publish e ''challenge.decided'' (challenge_decision_value decision) ''challenge'') (\<lambda>r.
     ret (updated, k, r)))))))))))"

definition appeal_challenge :: "env \<Rightarrow> string \<Rightarrow> string \<Rightarrow> (challenge \<times> receipt) action" where
  "appeal_challenge e challenge_id appeal_reason_code =
     bind (require_challenge challenge_id) (\<lambda>c.
     bind (reject_if (chg_state c \<noteq> DECIDED) ''only a decided challenge can be appealed'') (\<lambda>_.
     let updated = c\<lparr>chg_state := APPEALED, chg_appeal_reason_code := Some appeal_reason_code\<rparr> in
     bind (put_challenge challenge_id updated) (\<lambda>_.
     bind (publish e ''challenge.appealed'' ''appealed'' ''challenge'') (\<lambda>r.
     ret (updated, r)))))"

text \<open>
  The condition of a restoration, evaluated left to right: each of its two clock readings happens
  only when the conjuncts before it hold.
\<close>

definition may_restore :: "env \<Rightarrow> appeal_decision \<Rightarrow> challenge \<Rightarrow> attestation \<Rightarrow> bool action" where
  "may_restore e decision c a =
     (if decision = REVERSED \<and> chg_decision c = Some SUSTAINED
      then bind (now e) (\<lambda>t.
           bind (gets (\<lambda>s. grant_is_active s (att_grant_id a) t)) (\<lambda>granted.
           if granted then bind (now e) (\<lambda>u. ret (att_expires_at a > u)) else ret False))
      else ret False)"

definition restored :: "attestation \<Rightarrow> attestation" where
  "restored a = a\<lparr>att_state := ATT_ACTIVE, att_invalidation_reason := None\<rparr>"

definition decide_appeal ::
  "env \<Rightarrow> string \<Rightarrow> appeal_decision \<Rightarrow> string option \<Rightarrow> (challenge \<times> credential \<times> receipt) action" where
  "decide_appeal e challenge_id decision actor_id =
     bind (authorize_if_required e actor_id DECIDE_APPEAL None None) (\<lambda>_.
     bind (require_challenge challenge_id) (\<lambda>c.
     bind (reject_if (chg_state c \<noteq> APPEALED) ''challenge is not under appeal'') (\<lambda>_.
     bind (now e) (\<lambda>t.
     let updated = c\<lparr>chg_state := CLOSED, chg_appeal_decision := Some decision, chg_decided_at := Some t\<rparr> in
     bind (put_challenge challenge_id updated) (\<lambda>_.
     bind (require_attestation (chg_attestation_id c)) (\<lambda>a.
     bind (may_restore e decision c a) (\<lambda>restore.
     bind (if restore then put_attestation (att_attestation_id a) (restored a) else ret ()) (\<lambda>_.
     bind (recalculate e (att_request_id a)) (\<lambda>credential.
     bind (fetch (RuntimeError ''appealed attestation must have a dependent credential'') credential) (\<lambda>k.
     bind (publish e ''appeal.decided'' (appeal_decision_value decision) ''challenge'') (\<lambda>r.
     ret (updated, k, r))))))))))))"

section \<open>What these operations write\<close>

context quiet
begin

lemma put_challenge_keeps:
  assumes "blind challenges_update I"
  shows "keeps (put_challenge i c) I"
  unfolding put_challenge_def by (intro keeps assms [rule_format])

lemma open_challenge_keeps:
  assumes "\<And>i c. keeps (put_challenge i c) I"
  shows "keeps (open_challenge e a reason who) I"
  unfolding open_challenge_def by (intro keeps assms)

lemma respond_to_challenge_keeps:
  assumes "\<And>i c. keeps (put_challenge i c) I"
  shows "keeps (respond_to_challenge e i code) I"
  unfolding respond_to_challenge_def by (intro keeps assms)

lemma appeal_challenge_keeps:
  assumes "\<And>i c. keeps (put_challenge i c) I"
  shows "keeps (appeal_challenge e i reason) I"
  unfolding appeal_challenge_def by (intro keeps assms)

lemma may_restore_keeps [keeps]: "keeps (may_restore e d c a) I"
  unfolding may_restore_def by (intro keeps)

end

context governed
begin

lemma select_audit_keeps:
  assumes "blind audits_update I"
  shows "keeps (select_audit e a basis seed actor) I"
  unfolding select_audit_def by (intro keeps assms [rule_format])

end

context settled
begin

lemma decide_audit_keeps:
  assumes "blind audits_update I" "\<And>i a. keeps (put_attestation i a) I"
  shows "keeps (decide_audit e i ok actor) I"
  unfolding decide_audit_def by (intro keeps assms(1) [rule_format] assms(2))

lemma decide_challenge_keeps:
  assumes "\<And>i c. keeps (put_challenge i c) I" "\<And>i a. keeps (put_attestation i a) I"
  shows "keeps (decide_challenge e i d actor) I"
  unfolding decide_challenge_def by (intro keeps assms)

lemma decide_appeal_keeps:
  assumes "\<And>i c. keeps (put_challenge i c) I" "\<And>i a. keeps (put_attestation i a) I"
  shows "keeps (decide_appeal e i d actor) I"
  unfolding decide_appeal_def by (intro keeps assms)

end

end
