(* ===== verification/Recovery.thy ===== *)
theory Recovery
  imports Enrollment
begin

text \<open>
  Key recovery of \<open>TrustCore\<close> (\<open>src/kyn/service.py\<close>): a subject commits to a secret, asks for a
  replacement key by showing it, and an authority decides.
\<close>

definition register_recovery_commitment ::
  "env \<Rightarrow> string \<Rightarrow> string \<Rightarrow> (recovery_commitment \<times> receipt) action" where
  "register_recovery_commitment e subject_id commitment =
     bind (require_active_release e) (\<lambda>_.
     bind (require_subject subject_id) (\<lambda>_.
     bind (reject_if (\<not> startswith ''sha256:'' commitment \<or> length commitment \<noteq> sha256_reference_length)
             ''recovery commitment must be a sha256 reference'') (\<lambda>_.
     bind (gets (\<lambda>s. list_ex (\<lambda>x. rcm_subject_id x = subject_id \<and> rcm_consumed_at x = None)
                      (dvals (recovery_commitments s)))) (\<lambda>committed.
     bind (reject_if committed ''subject already has an active recovery commitment'') (\<lambda>_.
     bind (new_id ''rcm'') (\<lambda>i.
     bind (now e) (\<lambda>t.
     let c = \<lparr>rcm_recovery_commitment_id = i, rcm_subject_id = subject_id, rcm_commitment = commitment,
              rcm_created_at = t, rcm_consumed_at = None\<rparr>
     in bind (modify (\<lambda>s. s\<lparr>recovery_commitments := dput i c (recovery_commitments s)\<rparr>)) (\<lambda>_.
        bind (publish e ''recovery.commitment_registered'' ''active'' ''recovery'') (\<lambda>r.
        ret (c, r))))))))))"

definition request_recovery ::
  "env \<Rightarrow> string \<Rightarrow> string \<Rightarrow> string \<Rightarrow> (recovery_case \<times> receipt) action" where
  "request_recovery e subject_id replacement_key recovery_secret =
     bind (require_active_release e) (\<lambda>_.
     bind (require_subject subject_id) (\<lambda>x.
     bind (fetch (TrustCoreError ''deleted subject cannot be recovered'') (sub_participant_key x)) (\<lambda>prior_key.
     bind (reject_if (\<not> startswith ''did:key:ed25519:'' replacement_key)
             ''replacement participant key is invalid'') (\<lambda>_.
     bind (gets (\<lambda>s. list_ex (\<lambda>y. sub_participant_key y = Some replacement_key) (dvals (subjects s)))) (\<lambda>enrolled.
     bind (reject_if enrolled ''replacement participant key is already enrolled'') (\<lambda>_.
     bind (gets (\<lambda>s. filter (\<lambda>c. rcm_subject_id c = subject_id \<and> rcm_consumed_at c = None)
                      (dvals (recovery_commitments s)))) (\<lambda>open_commitments.
     bind (reject_if (length open_commitments \<noteq> 1) ''active recovery commitment is unavailable'') (\<lambda>_.
     let commitment = hd open_commitments in
     bind (compare_digest (rcm_commitment commitment) (sha256_ref e recovery_secret)) (\<lambda>same.
     bind (reject_if (\<not> same) ''recovery secret does not match'') (\<lambda>_.
     bind (gets (\<lambda>s. list_ex (\<lambda>c. rcv_subject_id c = subject_id \<and> rcv_state c = RCV_PENDING)
                      (dvals (recovery_cases s)))) (\<lambda>waiting.
     bind (reject_if waiting ''subject already has a pending recovery'') (\<lambda>_.
     bind (new_id ''rcv'') (\<lambda>i.
     bind (now e) (\<lambda>t.
     let c = \<lparr>rcv_recovery_case_id = i, rcv_subject_id = subject_id,
              rcv_recovery_commitment_id = rcm_recovery_commitment_id commitment,
              rcv_prior_key_digest = sha256_ref e prior_key,
              rcv_replacement_participant_key = replacement_key, rcv_requested_at = t,
              rcv_state = RCV_PENDING, rcv_decided_by_authority_grant_id = None,
              rcv_decided_at = None, rcv_decision_reason_code = None\<rparr>
     in bind (modify (\<lambda>s. s\<lparr>recovery_cases := dput i c (recovery_cases s)\<rparr>)) (\<lambda>_.
        bind (publish e ''recovery.requested'' ''pending'' ''recovery'') (\<lambda>r.
        ret (c, r)))))))))))))))))"

text \<open>What an approval does to the subject and to the commitment of the case.\<close>

definition apply_recovery :: "env \<Rightarrow> recovery_case \<Rightarrow> subject \<Rightarrow> subject action" where
  "apply_recovery e c x =
     (let x' = x\<lparr>sub_participant_key := Some (rcv_replacement_participant_key c)\<rparr> in
      bind (modify (\<lambda>s. s\<lparr>subjects := dput (sub_subject_id x') x' (subjects s)\<rparr>)) (\<lambda>_.
      bind (gets recovery_commitments) (\<lambda>d.
      bind (fetch (KeyError (rcv_recovery_commitment_id c)) (dget d (rcv_recovery_commitment_id c))) (\<lambda>k.
      bind (now e) (\<lambda>t.
      bind (modify (\<lambda>s. s\<lparr>recovery_commitments :=
              dput (rcm_recovery_commitment_id k) (k\<lparr>rcm_consumed_at := Some t\<rparr>)
                (recovery_commitments s)\<rparr>)) (\<lambda>_.
      ret x'))))))"

definition decide_recovery ::
  "env \<Rightarrow> string \<Rightarrow> string \<Rightarrow> bool \<Rightarrow> string \<Rightarrow> (recovery_case \<times> subject \<times> receipt) action" where
  "decide_recovery e recovery_case_id actor_id approve reason_code =
     bind (consume_authority e actor_id DECIDE_RECOVERY None None) (\<lambda>actor.
     bind (gets recovery_cases) (\<lambda>d.
     bind (fetch (TrustCoreError ''recovery case is unknown'') (dget d recovery_case_id)) (\<lambda>c.
     bind (reject_if (rcv_state c \<noteq> RCV_PENDING) ''recovery case is already decided'') (\<lambda>_.
     bind (require_subject (rcv_subject_id c)) (\<lambda>x.
     let st = (if approve then RCV_APPROVED else RCV_REJECTED) in
     bind (now e) (\<lambda>t.
     let decided = c\<lparr>rcv_state := st, rcv_decided_by_authority_grant_id := Some (agr_authority_grant_id actor),
                     rcv_decided_at := Some t, rcv_decision_reason_code := Some reason_code\<rparr>
     in bind (modify (\<lambda>s. s\<lparr>recovery_cases := dput (rcv_recovery_case_id c) decided (recovery_cases s)\<rparr>)) (\<lambda>_.
        bind (if approve then apply_recovery e c x else ret x) (\<lambda>x'.
        bind (publish e ''recovery.decided'' (recovery_state_value st) ''recovery'') (\<lambda>r.
        ret (decided, x', r))))))))))"

section \<open>What these operations write\<close>

context quiet
begin

lemma register_recovery_commitment_keeps:
  assumes "blind recovery_commitments_update I"
  shows "keeps (register_recovery_commitment e i c) I"
  unfolding register_recovery_commitment_def by (intro keeps assms [rule_format])

lemma request_recovery_keeps:
  assumes "blind recovery_cases_update I"
  shows "keeps (request_recovery e i k secret) I"
  unfolding request_recovery_def by (intro keeps assms [rule_format])

lemma apply_recovery_keeps:
  assumes "blind subjects_update I" "blind recovery_commitments_update I"
  shows "keeps (apply_recovery e c x) I"
  unfolding apply_recovery_def by (intro keeps assms [rule_format])

end

context governed
begin

lemma decide_recovery_keeps:
  assumes "blind recovery_cases_update I" "\<And>c x. keeps (apply_recovery e c x) I"
  shows "keeps (decide_recovery e i actor ok reason) I"
  unfolding decide_recovery_def by (intro keeps assms(1) [rule_format] assms(2))

end

end
