(* ===== verification/Privacy.thy ===== *)
theory Privacy
  imports Reviews Recovery
begin

text \<open>
  Privacy requests of \<open>TrustCore\<close> (\<open>src/kyn/service.py\<close>): opening, deciding (with the
  invalidation of a subject's trust state) and exporting a subject's records.
\<close>

section \<open>The records of the trust core\<close>

datatype trust_record =
    RSubject subject
  | ROperatorRelease operator_release
  | RConsentRecord consent_record
  | RRecoveryCommitment recovery_commitment
  | RRecoveryCase recovery_case
  | RPrivacyRequest privacy_request
  | RClaimDefinition claim_definition
  | RClaimRequest claim_request
  | RVerifierGrant verifier_grant
  | RBootstrapAuthority bootstrap_authority
  | RAuthorityGrant authority_grant
  | RAuthorityPromotion authority_promotion
  | RAttestorInvitation attestor_invitation
  | RIntroduction introduction
  | RAttestation attestation
  | RAudit audit
  | RChallenge challenge
  | RCredential credential
  | RCredentialStatus credential_status_record
  | RPublicEvent public_event
  | RReceipt receipt

section \<open>Requests\<close>

definition open_privacy_request ::
  "env \<Rightarrow> string \<Rightarrow> privacy_request_kind \<Rightarrow> string \<Rightarrow> (privacy_request \<times> receipt) action" where
  "open_privacy_request e subject_id kind reason_code =
     bind (require_subject subject_id) (\<lambda>_.
     bind (gets (\<lambda>s. list_ex (\<lambda>p. prv_subject_id p = subject_id \<and> prv_kind p = kind \<and> prv_state p = PRV_PENDING)
                      (dvals (privacy_requests s)))) (\<lambda>waiting.
     bind (reject_if waiting ''matching privacy request is already pending'') (\<lambda>_.
     bind (new_id ''prv'') (\<lambda>i.
     bind (now e) (\<lambda>t.
     let p = \<lparr>prv_privacy_request_id = i, prv_subject_id = subject_id, prv_kind = kind,
              prv_reason_code = reason_code, prv_requested_at = t, prv_state = PRV_PENDING,
              prv_decided_by_authority_grant_id = None, prv_decided_at = None,
              prv_decision_reason_code = None\<rparr>
     in bind (modify (\<lambda>s. s\<lparr>privacy_requests := dput i p (privacy_requests s)\<rparr>)) (\<lambda>_.
        bind (publish e ''privacy.requested'' ''pending'' ''privacy'') (\<lambda>r.
        ret (p, r))))))))"

section \<open>Invalidating a subject's trust state\<close>

definition requests_of :: "core \<Rightarrow> string \<Rightarrow> string set" where
  "requests_of s subject_id =
     set (map clm_request_id (filter (\<lambda>q. clm_subject_id q = subject_id) (dvals (requests s))))"

text \<open>
  The loop over the attestations. The set of affected requests grows while it runs, and membership
  in it is part of the condition, so a later item may match because of an earlier one.
\<close>

fun invalidate_loop ::
  "string \<Rightarrow> string \<Rightarrow> (string \<times> attestation) list \<Rightarrow> (string, attestation) dict \<Rightarrow> string set
   \<Rightarrow> (string, attestation) dict \<times> string set" where
  "invalidate_loop subject_id reason [] d affected = (d, affected)"
| "invalidate_loop subject_id reason ((i, a) # items) d affected =
     (if att_verifier_subject_id a = subject_id \<or> att_request_id a \<in> affected
      then invalidate_loop subject_id reason items (dput i (invalidate reason a) d)
             (insert (att_request_id a) affected)
      else invalidate_loop subject_id reason items d affected)"

definition revoke_if_held :: "env \<Rightarrow> string \<Rightarrow> string \<Rightarrow> string \<times> authority_grant \<Rightarrow> unit action" where
  "revoke_if_held e subject_id reason kg =
     (if agr_holder_subject_id (snd kg) = subject_id \<and> agr_revoked_at (snd kg) = None
      then bind (now e) (\<lambda>t. put_authority_grant (fst kg)
             ((snd kg)\<lparr>agr_revoked_at := Some t, agr_revocation_reason := Some reason\<rparr>))
      else ret ())"

definition invalidate_subject_state :: "env \<Rightarrow> string \<Rightarrow> string \<Rightarrow> credential list action" where
  "invalidate_subject_state e subject_id reason =
     bind (gets (\<lambda>s. requests_of s subject_id)) (\<lambda>own.
     bind (gets attestations) (\<lambda>d.
     let (d', affected) = invalidate_loop subject_id reason d d own in
     bind (modify (\<lambda>s. s\<lparr>attestations := d'\<rparr>)) (\<lambda>_.
     bind (gets authority_grants) (\<lambda>held.
     bind (for_each (revoke_if_held e subject_id reason) held) (\<lambda>_.
     recalculate_all e affected)))))"

section \<open>Decisions\<close>

definition erase_subject :: "env \<Rightarrow> string \<Rightarrow> unit action" where
  "erase_subject e subject_id =
     bind (require_subject subject_id) (\<lambda>x.
     bind (now e) (\<lambda>t.
     modify (\<lambda>s. s\<lparr>subjects := dput (sub_subject_id x)
       (x\<lparr>sub_participant_key := None, sub_deleted_at := Some t\<rparr>) (subjects s)\<rparr>)))"

definition process_privacy_request ::
  "env \<Rightarrow> string \<Rightarrow> string \<Rightarrow> bool \<Rightarrow> string \<Rightarrow> (privacy_request \<times> credential list \<times> receipt) action" where
  "process_privacy_request e privacy_request_id actor_id approve reason_code =
     bind (consume_authority e actor_id PROCESS_PRIVACY None None) (\<lambda>actor.
     bind (gets privacy_requests) (\<lambda>d.
     bind (fetch (TrustCoreError ''privacy request is unknown'') (dget d privacy_request_id)) (\<lambda>p.
     bind (reject_if (prv_state p \<noteq> PRV_PENDING) ''privacy request is already decided'') (\<lambda>_.
     let st = (if approve then PRV_COMPLETED else PRV_REJECTED) in
     bind (now e) (\<lambda>t.
     let decided = p\<lparr>prv_state := st, prv_decided_by_authority_grant_id := Some (agr_authority_grant_id actor),
                     prv_decided_at := Some t, prv_decision_reason_code := Some reason_code\<rparr> in
     bind (modify (\<lambda>s. s\<lparr>privacy_requests := dput privacy_request_id decided (privacy_requests s)\<rparr>)) (\<lambda>_.
     bind (if approve \<and> prv_kind p \<in> {CONSENT_WITHDRAWAL, DELETION, CORRECTION}
           then invalidate_subject_state e (prv_subject_id p) (''privacy_'' @ privacy_kind_value (prv_kind p))
           else ret []) (\<lambda>creds.
     bind (if approve \<and> prv_kind p \<in> {CONSENT_WITHDRAWAL, DELETION}
           then withdraw_consents e (prv_subject_id p) else ret ()) (\<lambda>_.
     bind (if approve \<and> prv_kind p = DELETION then erase_subject e (prv_subject_id p) else ret ()) (\<lambda>_.
     bind (publish e ''privacy.processed'' (privacy_state_value st) ''privacy'') (\<lambda>r.
     ret (decided, creds, r)))))))))))"

section \<open>Export\<close>

record subject_export =
  exp_version :: int
  exp_generated_at :: time
  exp_records :: "trust_record list"

text \<open>The records of \<open>privacy_export\<close>, in the order the code appends them.\<close>

definition export_records :: "core \<Rightarrow> string \<Rightarrow> subject \<Rightarrow> trust_record list" where
  "export_records s subject_id x =
     (let request_ids = requests_of s subject_id;
          mine = (\<lambda>request_id verifier. request_id \<in> request_ids \<or> verifier = subject_id);
          attestation_ids = set (map att_attestation_id (filter (\<lambda>a.
            mine (att_request_id a) (att_verifier_subject_id a)) (dvals (attestations s))))
      in [RSubject x]
         @ map RConsentRecord (filter (\<lambda>c. cns_subject_id c = subject_id) (dvals (consents s)))
         @ map RClaimRequest (filter (\<lambda>q. clm_subject_id q = subject_id) (dvals (requests s)))
         @ map RAttestorInvitation (filter (\<lambda>v. mine (inv_request_id v) (inv_verifier_subject_id v))
             (dvals (invitations s)))
         @ map RAuthorityGrant (filter (\<lambda>g. agr_holder_subject_id g = subject_id)
             (dvals (authority_grants s)))
         @ map RAttestation (filter (\<lambda>a. mine (att_request_id a) (att_verifier_subject_id a))
             (dvals (attestations s)))
         @ map RAudit (filter (\<lambda>a. aud_attestation_id a \<in> attestation_ids) (dvals (audits s)))
         @ map RChallenge (filter (\<lambda>c. chg_attestation_id c \<in> attestation_ids) (dvals (challenges s)))
         @ map RCredential (filter (\<lambda>c. crd_request_id c \<in> request_ids) (dvals (credentials s)))
         @ map RRecoveryCommitment (filter (\<lambda>c. rcm_subject_id c = subject_id)
             (dvals (recovery_commitments s)))
         @ map RRecoveryCase (filter (\<lambda>c. rcv_subject_id c = subject_id) (dvals (recovery_cases s)))
         @ map RPrivacyRequest (filter (\<lambda>p. prv_subject_id p = subject_id)
             (dvals (privacy_requests s))))"

definition privacy_export :: "env \<Rightarrow> string \<Rightarrow> (subject_export \<times> receipt) action" where
  "privacy_export e privacy_request_id =
     bind (gets privacy_requests) (\<lambda>d.
     bind (fetch (TrustCoreError ''privacy request is unknown'') (dget d privacy_request_id)) (\<lambda>p.
     bind (reject_if (prv_kind p \<noteq> EXPORT \<or> prv_state p \<noteq> PRV_COMPLETED)
             ''completed export request is required'') (\<lambda>_.
     bind (require_subject (prv_subject_id p)) (\<lambda>x.
     bind (gets (\<lambda>s. export_records s (prv_subject_id p) x)) (\<lambda>records.
     bind (publish e ''privacy.exported'' ''completed'' ''privacy'') (\<lambda>r.
     bind (now e) (\<lambda>t.
     ret (\<lparr>exp_version = 1, exp_generated_at = t, exp_records = records\<rparr>, r))))))))"

section \<open>What these operations write\<close>

context quiet
begin

lemma open_privacy_request_keeps:
  assumes "blind privacy_requests_update I"
  shows "keeps (open_privacy_request e i kind reason) I"
  unfolding open_privacy_request_def by (intro keeps assms [rule_format])

lemma revoke_if_held_keeps:
  assumes "blind authority_grants_update I"
  shows "keeps (revoke_if_held e x reason kg) I"
  unfolding revoke_if_held_def by (intro keeps put_authority_grant_keeps assms)

lemma erase_subject_keeps:
  assumes "blind subjects_update I"
  shows "keeps (erase_subject e x) I"
  unfolding erase_subject_def by (intro keeps assms [rule_format])

lemma privacy_export_keeps [keeps]: "keeps (privacy_export e i) I"
  unfolding privacy_export_def by (intro keeps)

end

context settled
begin

lemma invalidate_subject_state_keeps:
  assumes "blind attestations_update I" "\<And>x reason kg. keeps (revoke_if_held e x reason kg) I"
  shows "keeps (invalidate_subject_state e x reason) I"
  unfolding invalidate_subject_state_def by (intro keeps assms(1) [rule_format] assms(2))

lemma process_privacy_request_keeps:
  assumes "blind privacy_requests_update I"
    and "\<And>x reason. keeps (invalidate_subject_state e x reason) I"
    and "\<And>x. keeps (withdraw_consents e x) I" "\<And>x. keeps (erase_subject e x) I"
  shows "keeps (process_privacy_request e i actor ok reason) I"
  unfolding process_privacy_request_def by (intro keeps assms(1) [rule_format] assms(2,3,4))

end

end
