(* ===== verification/Presentation.thy ===== *)
theory Presentation
  imports Enrollment
begin

text \<open>
  What leaves the trust core towards relying parties (\<open>src/kyn/service.py\<close>, with the signing
  payloads of \<open>src/kyn/models.py\<close>): credential presentations, the member snapshot, member
  presentations, public receipts.
\<close>

section \<open>Credential presentations\<close>

definition presentation_payload :: "credential_presentation \<Rightarrow> (string \<times> json) list" where
  "presentation_payload p =
     [(''presentation_id'', JStr (prs_presentation_id p)),
      (''issuer'', JStr (prs_issuer p)),
      (''audience'', JStr (prs_audience p)),
      (''pairwise_subject'', JStr (prs_pairwise_subject p)),
      (''claim'', JObject
        [(''type'', JStr (prs_claim_type p)),
         (''definition_version'', JStr (prs_definition_version p)),
         (''policy_version'', JStr (prs_policy_version p))]),
      (''assurance'', JObject
        [(''state'', JStr (assurance_state_value (prs_assurance_state p))),
         (''method_class'', JStr (prs_method_class p)),
         (''verification_bases'', JList (map (\<lambda>b. JStr (basis_value b)) (prs_verification_bases p)))]),
      (''issued_at'', JStr (isoformat_z (prs_issued_at p))),
      (''expires_at'', JStr (isoformat_z (prs_expires_at p))),
      (''status_reference'', JStr (prs_status_reference p)),
      (''receipt_id'', JStr (prs_receipt_id p))]"

text \<open>The message whose HMAC names a subject towards one audience.\<close>

definition pairwise_message :: "string \<Rightarrow> string \<Rightarrow> string" where
  "pairwise_message subject_id audience = subject_id @ ''|'' @ audience"

definition present_credential :: "env \<Rightarrow> string \<Rightarrow> string \<Rightarrow> (credential_presentation \<times> receipt) action" where
  "present_credential e credential_id audience =
     bind (gets credentials) (\<lambda>cs.
     bind (fetch (TrustCoreError ''credential is unknown'') (dget cs credential_id)) (\<lambda>c.
     bind (gets requests) (\<lambda>qs.
     bind (fetch (TrustCoreError ''credential is unknown'') (dget qs (crd_request_id c))) (\<lambda>q.
     bind (now e) (\<lambda>t.
     bind (reject_if (crd_state c \<notin> {CRED_PROVISIONAL, CRED_ACTIVE}) ''credential is not presentable'') (\<lambda>_.
     bind (reject_if (crd_expires_at c \<le> t) ''credential has expired'') (\<lambda>_.
     let pairwise = pairwise_token e ''pws'' (pairwise_message (clm_subject_id q) audience) in
     bind (publish e ''credential.presented'' ''issued'' ''presentation'') (\<lambda>r.
     bind (new_id ''prs'') (\<lambda>i.
     let unsigned = \<lparr>prs_presentation_id = i, prs_issuer = env_issuer e, prs_audience = audience,
                     prs_pairwise_subject = pairwise,
                     prs_claim_type = cd_claim_type (crd_definition c),
                     prs_definition_version = cd_definition_version (crd_definition c),
                     prs_policy_version = cd_policy_version (crd_definition c),
                     prs_assurance_state = assurance_of (crd_state c),
                     prs_method_class = cd_method_class (crd_definition c),
                     prs_verification_bases = crd_verification_bases c, prs_issued_at = t,
                     prs_expires_at = min (crd_expires_at c) (t + pol_presentation_ttl (env_policy e)),
                     prs_status_reference = crd_status_reference c,
                     prs_receipt_id = rcp_receipt_id r, prs_proof = []\<rparr>
     in ret (unsigned\<lparr>prs_proof := sign e (presentation_payload unsigned)\<rparr>, r))))))))))"

section \<open>The member snapshot\<close>

definition member_purpose :: string where
  "member_purpose = ''kyn_campaign_member_ballot''"

definition consented_at :: "core \<Rightarrow> string \<Rightarrow> time \<Rightarrow> bool" where
  "consented_at s subject_id t \<longleftrightarrow>
     list_ex (\<lambda>c. cns_subject_id c = subject_id \<and> cns_granted_at c \<le> t
               \<and> (case cns_withdrawn_at c of None \<Rightarrow> True | Some w \<Rightarrow> w > t)
               \<and> member_purpose \<in> cns_purposes c) (dvals (consents s))"

definition eligible_at :: "core \<Rightarrow> time \<Rightarrow> subject \<Rightarrow> bool" where
  "eligible_at s t x \<longleftrightarrow>
     sub_created_at x \<le> t
     \<and> (case sub_deleted_at x of None \<Rightarrow> True | Some w \<Rightarrow> w > t)
     \<and> consented_at s (sub_subject_id x) t"

definition eligible_subjects :: "core \<Rightarrow> time \<Rightarrow> string list" where
  "eligible_subjects s t = sort (map sub_subject_id (filter (eligible_at s t) (dvals (subjects s))))"

definition member_snapshot_digest :: "env \<Rightarrow> string \<Rightarrow> string \<Rightarrow> string list \<Rightarrow> string" where
  "member_snapshot_digest e release_version notice_version eligible =
     sha256_ref e (join ''|'' (release_version # notice_version #
       map (\<lambda>i. pairwise_token e ''mem'' (''member-snapshot|'' @ release_version @ ''|'' @ i)) eligible))"

definition member_snapshot_values ::
  "env \<Rightarrow> core \<Rightarrow> string \<Rightarrow> string \<Rightarrow> time \<Rightarrow> string list \<times> string" where
  "member_snapshot_values e s release_version notice_version t =
     (let eligible = eligible_subjects s t
      in (eligible, member_snapshot_digest e release_version notice_version eligible))"

definition snapshot_payload :: "member_snapshot_record \<Rightarrow> (string \<times> json) list" where
  "snapshot_payload m =
     [(''release_version'', JStr (mss_release_version m)),
      (''notice_version'', JStr (mss_notice_version m)),
      (''eligible_member_count'', JInt (mss_eligible_member_count m)),
      (''generated_at'', JStr (isoformat_z (mss_generated_at m))),
      (''snapshot_digest'', JStr (mss_snapshot_digest m))]"

text \<open>The guard of both member operations: a current release, in its version 2.0.0.\<close>

definition member_release :: "string \<Rightarrow> operator_release action" where
  "member_release message =
     bind (current_operator_release True) (\<lambda>found.
     bind (fetch (TrustCoreError message) found) (\<lambda>release.
     bind (reject_if (rel_release_version release \<noteq> ''2.0.0'') message) (\<lambda>_.
     ret release)))"

definition member_snapshot :: "env \<Rightarrow> member_snapshot_record action" where
  "member_snapshot e =
     bind (member_release ''ordinary member enrollment is not active'') (\<lambda>release.
     bind (now e) (\<lambda>t.
     bind (gets (\<lambda>s. member_snapshot_values e s (rel_release_version release)
                      (rel_notice_version release) t)) (\<lambda>(eligible, digest).
     let unsigned = \<lparr>mss_release_version = rel_release_version release,
                     mss_notice_version = rel_notice_version release,
                     mss_eligible_member_count = int (length eligible), mss_generated_at = t,
                     mss_snapshot_digest = digest, mss_proof = []\<rparr>
     in ret (unsigned\<lparr>mss_proof := sign e (snapshot_payload unsigned)\<rparr>))))"

section \<open>Member presentations\<close>

definition member_payload :: "member_presentation \<Rightarrow> (string \<times> json) list" where
  "member_payload p =
     [(''presentation_id'', JStr (mpr_presentation_id p)),
      (''issuer'', JStr (mpr_issuer p)),
      (''audience'', JStr (mpr_audience p)),
      (''pairwise_subject'', JStr (mpr_pairwise_subject p)),
      (''determination_version_id'', JStr (mpr_determination_version_id p)),
      (''manifest_hash'', JStr (mpr_manifest_hash p)),
      (''member_snapshot_digest'', JStr (mpr_member_snapshot_digest p)),
      (''release_version'', JStr (mpr_release_version p)),
      (''verification_basis'', JStr (mpr_verification_basis p)),
      (''issued_at'', JStr (isoformat_z (mpr_issued_at p))),
      (''expires_at'', JStr (isoformat_z (mpr_expires_at p))),
      (''receipt_id'', JStr (mpr_receipt_id p))]"

text \<open>The keyword arguments of \<open>present_member\<close>.\<close>

record member_form =
  mf_subject_id :: string
  mf_audience :: string
  mf_determination_version_id :: string
  mf_manifest_hash :: string
  mf_member_snapshot_digest :: string
  mf_member_snapshot_generated_at :: datetime
  mf_requested_expires_at :: datetime

text \<open>A \<open>datetime\<close> whose time zone is checked before it is used.\<close>

definition aware_or :: "string \<Rightarrow> datetime \<Rightarrow> time action" where
  "aware_or message d = (case d of Naive _ \<Rightarrow> raise (TrustCoreError message) | Aware t \<Rightarrow> ret t)"

lemma wp_aware_or [wp]:
  "wp (aware_or m d) Q E = (\<lambda>s. case d of Naive _ \<Rightarrow> E (TrustCoreError m) s | Aware t \<Rightarrow> Q t s)"
  by (simp add: aware_or_def wp fun_eq_iff split: datetime.splits)

definition member_pairwise_message :: "member_form \<Rightarrow> string" where
  "member_pairwise_message f =
     ''campaign-member|'' @ mf_subject_id f @ ''|'' @ mf_audience f @ ''|''
     @ mf_determination_version_id f @ ''|'' @ mf_manifest_hash f"

definition present_member :: "env \<Rightarrow> member_form \<Rightarrow> (member_presentation \<times> receipt) action" where
  "present_member e f =
     bind (member_release ''ordinary member ballot presentations are not active'') (\<lambda>release.
     bind (require_subject (mf_subject_id f)) (\<lambda>x.
     bind (reject_if (sub_deleted_at x \<noteq> None \<or> sub_participant_key x = None)
             ''member subject is unavailable'') (\<lambda>_.
     bind (gets (\<lambda>s. has_active_consent s (mf_subject_id f) member_purpose)) (\<lambda>consented.
     bind (reject_if (\<not> consented) ''member ballot consent is not active'') (\<lambda>_.
     bind (reject_if (\<not> startswith ''https://'' (mf_audience f))
             ''member presentation audience must use https'') (\<lambda>_.
     bind (reject_if (\<not> startswith ''sha256:'' (mf_manifest_hash f)
                      \<or> length (mf_manifest_hash f) \<noteq> sha256_reference_length)
             ''member presentation requires the immutable manifest hash'') (\<lambda>_.
     bind (aware_or ''member snapshot time must be timezone aware'' (mf_member_snapshot_generated_at f)) (\<lambda>snapshot_at.
     bind (now e) (\<lambda>t.
     bind (reject_if (snapshot_at > t + minutes 2 \<or> t - snapshot_at > days 8)
             ''member snapshot is outside the accepted poll window'') (\<lambda>_.
     bind (gets (\<lambda>s. member_snapshot_values e s (rel_release_version release)
                      (rel_notice_version release) snapshot_at)) (\<lambda>(eligible, expected).
     bind (reject_if (mf_member_snapshot_digest f \<noteq> expected \<or> mf_subject_id f \<notin> set eligible)
             ''member subject was not eligible in the frozen snapshot'') (\<lambda>_.
     bind (aware_or ''member presentation expiry must be timezone aware'' (mf_requested_expires_at f)) (\<lambda>requested.
     let expires_at = min requested (t + minutes 10) in
     bind (reject_if (expires_at \<le> t) ''member presentation expiry must be in the future'') (\<lambda>_.
     let pairwise = pairwise_token e ''pws'' (member_pairwise_message f) in
     bind (publish e ''member.presented'' ''issued'' ''member_presentation'') (\<lambda>r.
     bind (new_id ''mpr'') (\<lambda>i.
     let unsigned = \<lparr>mpr_presentation_id = i, mpr_issuer = env_issuer e, mpr_audience = mf_audience f,
                     mpr_pairwise_subject = pairwise,
                     mpr_determination_version_id = mf_determination_version_id f,
                     mpr_manifest_hash = mf_manifest_hash f,
                     mpr_member_snapshot_digest = mf_member_snapshot_digest f,
                     mpr_release_version = rel_release_version release,
                     mpr_verification_basis = ''self_asserted'', mpr_issued_at = t,
                     mpr_expires_at = expires_at, mpr_receipt_id = rcp_receipt_id r, mpr_proof = []\<rparr>
     in ret (unsigned\<lparr>mpr_proof := sign e (member_payload unsigned)\<rparr>, r)))))))))))))))))"

section \<open>Public receipts\<close>

definition public_receipt :: "string \<Rightarrow> receipt action" where
  "public_receipt receipt_id =
     bind (gets (\<lambda>s. filter (\<lambda>r. rcp_receipt_id r = receipt_id) (receipts s))) (\<lambda>matches.
     bind (reject_if (length matches \<noteq> 1) ''receipt is unavailable'') (\<lambda>_.
     ret (hd matches)))"

section \<open>What these operations write\<close>

context quiet
begin

lemma present_credential_keeps [keeps]: "keeps (present_credential e i audience) I"
  unfolding present_credential_def by (intro keeps)

lemma member_release_keeps [keeps]: "keeps (member_release message) I"
  unfolding member_release_def by (intro keeps)

lemma member_snapshot_keeps [keeps]: "keeps (member_snapshot e) I"
  unfolding member_snapshot_def by (intro keeps)

lemma aware_or_keeps [keeps]: "keeps (aware_or message d) I"
  by (simp add: aware_or_def keeps split: datetime.split)

lemma present_member_keeps [keeps]: "keeps (present_member e f) I"
  unfolding present_member_def by (intro keeps)

lemma public_receipt_keeps [keeps]: "keeps (public_receipt i) I"
  unfolding public_receipt_def by (intro keeps)

end

end
