(* ===== verification/Service.thy ===== *)
theory Service
  imports Privacy Presentation
begin

text \<open>
  \<open>TrustCore\<close> (\<open>src/kyn/service.py\<close>) as its adapters see it: the key lookups, the calls that can
  change its state as one type of commands, and the states that some sequence of calls reaches.
\<close>

section \<open>Lookups of the service adapter\<close>

definition public_events :: "core \<Rightarrow> public_event list" where
  "public_events s = events s"

definition public_receipts :: "core \<Rightarrow> receipt list" where
  "public_receipts s = receipts s"

definition participant_key_for_authority :: "string \<Rightarrow> string action" where
  "participant_key_for_authority i =
     bind (require_authority_grant i) (\<lambda>g. participant_key_for_subject (agr_holder_subject_id g))"

definition participant_key_for_credential :: "string \<Rightarrow> string action" where
  "participant_key_for_credential i =
     bind (gets credentials) (\<lambda>d.
     bind (fetch (TrustCoreError ''credential is unknown'') (dget d i)) (\<lambda>c.
     bind (require_request (crd_request_id c)) (\<lambda>q.
     participant_key_for_subject (clm_subject_id q))))"

definition participant_key_for_request :: "string \<Rightarrow> string action" where
  "participant_key_for_request i =
     bind (require_request i) (\<lambda>q. participant_key_for_subject (clm_subject_id q))"

definition participant_key_for_invitation :: "string \<Rightarrow> string action" where
  "participant_key_for_invitation i =
     bind (gets invitations) (\<lambda>d.
     bind (fetch (TrustCoreError ''attestor invitation is unknown'') (dget d i)) (\<lambda>v.
     participant_key_for_subject (inv_verifier_subject_id v)))"

definition participant_key_for_challenge_party :: "string \<Rightarrow> string action" where
  "participant_key_for_challenge_party i =
     bind (require_challenge i) (\<lambda>c.
     bind (require_attestation (chg_attestation_id c)) (\<lambda>a.
     participant_key_for_subject (att_verifier_subject_id a)))"

definition participant_key_for_privacy_request :: "string \<Rightarrow> string action" where
  "participant_key_for_privacy_request i =
     bind (gets privacy_requests) (\<lambda>d.
     bind (fetch (TrustCoreError ''privacy request is unknown'') (dget d i)) (\<lambda>p.
     participant_key_for_subject (prv_subject_id p)))"

section \<open>Commands\<close>

datatype command =
    Register_Claim claim_definition "string option"
  | Create_Subject string bool
  | Register_Operator_Release release_form
  | Accept_Consent string string "string set"
  | Register_Recovery_Commitment string string
  | Request_Recovery string string string
  | Decide_Recovery string string bool string
  | Bootstrap_Authority string string string string datetime
  | Grant_Authority delegation
  | Promote_Authority string "string list" authority_tier "authority_capability set" datetime "string option"
  | Revoke_Authority string string string
  | Request_Claim string string string string
  | Open_Privacy_Request string privacy_request_kind string
  | Process_Privacy_Request string string bool string
  | Privacy_Export string
  | Grant_Verifier string string "string set" int datetime string
  | Invite_Attestor string string datetime
  | Introduce_Attestor string string string datetime "string option"
  | Issue_Attestation attestation_form
  | Issue_Bootstrap_Attestation string string datetime
  | Select_Audit string audit_basis string "string option"
  | Decide_Audit string bool "string option"
  | Open_Challenge string string "string option"
  | Respond_To_Challenge string string
  | Decide_Challenge string challenge_decision "string option"
  | Appeal_Challenge string string
  | Decide_Appeal string appeal_decision "string option"
  | Revoke_Verifier_Grant string string
  | Credential_Status string
  | Credential_Status_By_Id string
  | Present_Credential string string
  | Member_Snapshot
  | Present_Member member_form

text \<open>A call whose result is dropped.\<close>

definition call :: "('s, 'a) prog \<Rightarrow> ('s, unit) prog" where
  "call m = bind m (\<lambda>_. ret ())"

fun exec :: "env \<Rightarrow> command \<Rightarrow> unit action" where
  "exec e (Register_Claim d actor) = call (register_claim e d actor)"
| "exec e (Create_Subject key bootstrap) = call (create_subject e key bootstrap)"
| "exec e (Register_Operator_Release f) = call (register_operator_release e f)"
| "exec e (Accept_Consent x notice ps) = call (accept_consent e x notice ps)"
| "exec e (Register_Recovery_Commitment x c) = call (register_recovery_commitment e x c)"
| "exec e (Request_Recovery x key secret) = call (request_recovery e x key secret)"
| "exec e (Decide_Recovery i actor approve reason) = call (decide_recovery e i actor approve reason)"
| "exec e (Bootstrap_Authority x label ref version expires) =
     call (bootstrap_authority e x label ref version expires)"
| "exec e (Grant_Authority a) = call (grant_authority e a)"
| "exec e (Promote_Authority actor sources tier caps expires label) =
     call (promote_authority e actor sources tier caps expires label)"
| "exec e (Revoke_Authority actor i reason) = call (revoke_authority e actor i reason)"
| "exec e (Request_Claim x ct dv pv) = call (request_claim e x ct dv pv)"
| "exec e (Open_Privacy_Request x kind reason) = call (open_privacy_request e x kind reason)"
| "exec e (Process_Privacy_Request i actor approve reason) =
     call (process_privacy_request e i actor approve reason)"
| "exec e (Privacy_Export i) = call (privacy_export e i)"
| "exec e (Grant_Verifier v ct ms n expires basis) = call (grant_verifier e v ct ms n expires basis)"
| "exec e (Invite_Attestor r v expires) = call (invite_attestor e r v expires)"
| "exec e (Introduce_Attestor r n v expires actor) = call (introduce_attestor e r n v expires actor)"
| "exec e (Issue_Attestation f) = call (issue_attestation e f)"
| "exec e (Issue_Bootstrap_Attestation r g expires) = call (issue_bootstrap_attestation e r g expires)"
| "exec e (Select_Audit a basis seed actor) = call (select_audit e a basis seed actor)"
| "exec e (Decide_Audit i passed actor) = call (decide_audit e i passed actor)"
| "exec e (Open_Challenge a reason who) = call (open_challenge e a reason who)"
| "exec e (Respond_To_Challenge i code) = call (respond_to_challenge e i code)"
| "exec e (Decide_Challenge i d actor) = call (decide_challenge e i d actor)"
| "exec e (Appeal_Challenge i reason) = call (appeal_challenge e i reason)"
| "exec e (Decide_Appeal i d actor) = call (decide_appeal e i d actor)"
| "exec e (Revoke_Verifier_Grant i reason) = call (revoke_verifier_grant e i reason)"
| "exec e (Credential_Status ref) = call (credential_status e ref)"
| "exec e (Credential_Status_By_Id i) = call (credential_status_by_id e i)"
| "exec e (Present_Credential i audience) = call (present_credential e i audience)"
| "exec e Member_Snapshot = call (member_snapshot e)"
| "exec e (Present_Member f) = call (present_member e f)"

lemma keeps_call [simp]: "keeps (call m) I = keeps m I"
proof -
  have "snd (call m s) = snd (m s)" for s
    by (simp add: call_def bind_def ret_def split: prod.split sum.split)
  then show ?thesis by (simp add: keeps_def)
qed

lemma call_result: "call m s = (Inr (), t) \<longleftrightarrow> (\<exists>x. m s = (Inr x, t))"
  by (auto simp: call_def bind_def ret_def split: prod.splits sum.splits)

section \<open>Reachable states\<close>

text \<open>
  Any number of calls, each with arguments and a clock of its own, from a fresh core. A call that
  raises counts with whatever it had written before it raised: a caller that keeps using the same
  \<open>TrustCore\<close> sees those states. The durable service only keeps states after calls that return.
\<close>

inductive reachable :: "env \<Rightarrow> core \<Rightarrow> bool" for e where
  fresh: "reachable e new_core"
| called: "reachable e s \<Longrightarrow>
     reachable e (snd (exec (e\<lparr>env_clock := clock\<rparr>) c (s\<lparr>clock_reads := n\<rparr>)))"

inductive_cases reachable_cases: "reachable e s"

theorem reachable_invariant:
  assumes "reachable e s" and "I new_core"
    and "\<And>s n. I s \<Longrightarrow> I (s\<lparr>clock_reads := n\<rparr>)"
    and "\<And>clock c. keeps (exec (e\<lparr>env_clock := clock\<rparr>) c) I"
  shows "I s"
  using assms(1) by induction (auto intro: assms keepsD)

text \<open>The clock of the environment is immaterial, since every call brings its own.\<close>

lemma reachable_clock: "reachable (e\<lparr>env_clock := k\<rparr>) s \<longleftrightarrow> reachable e s"
proof
  show "reachable e s" if "reachable (e\<lparr>env_clock := k\<rparr>) s"
    using that by (induction rule: reachable.induct) (auto intro: reachable.fresh dest: reachable.called)
  show "reachable (e\<lparr>env_clock := k\<rparr>) s" if "reachable e s"
    using that by (induction rule: reachable.induct)
      (auto intro: reachable.fresh dest: reachable.called [where e = "e\<lparr>env_clock := k\<rparr>"])
qed

text \<open>A list of commands that all return, for closed examples.\<close>

primrec run_commands :: "env \<Rightarrow> command list \<Rightarrow> unit action" where
  "run_commands e [] = ret ()"
| "run_commands e (c # cs) = bind (exec e c) (\<lambda>_. run_commands e cs)"

lemma reachable_exec:
  assumes "reachable e s" "exec e c s = (r, t)"
  shows "reachable e t"
  using called [OF assms(1), of "env_clock e" c "clock_reads s"] assms(2) by simp

lemma reachable_run:
  assumes "reachable e s" "run_commands e cs s = (r, t)"
  shows "reachable e t"
  using assms
proof (induction cs arbitrary: s)
  case Nil
  then show ?case by (simp add: ret_def)
next
  case (Cons c cs)
  then show ?case
    by (auto simp: bind_def split: prod.splits sum.splits intro: reachable_exec)
qed

section \<open>What each command may write\<close>

context settled
begin

lemmas operations_keep =
  register_claim_keeps create_subject_keeps register_operator_release_keeps accept_consent_keeps
  register_recovery_commitment_keeps request_recovery_keeps decide_recovery_keeps
  bootstrap_authority_keeps grant_authority_keeps promote_authority_keeps revoke_authority_keeps
  request_claim_keeps open_privacy_request_keeps process_privacy_request_keeps privacy_export_keeps
  grant_verifier_keeps invite_attestor_keeps introduce_attestor_keeps issue_attestation_keeps
  issue_bootstrap_attestation_keeps select_audit_keeps decide_audit_keeps open_challenge_keeps
  respond_to_challenge_keeps decide_challenge_keeps appeal_challenge_keeps decide_appeal_keeps
  revoke_verifier_grant_keeps credential_status_keeps credential_status_by_id_keeps
  present_credential_keeps member_snapshot_keeps present_member_keeps
  recalculate_kept apply_recovery_keeps revoke_one_keeps invalidate_under_keeps
  put_attestation_keeps put_challenge_keeps invalidate_subject_state_keeps revoke_if_held_keeps
  withdraw_consents_keeps erase_subject_keeps

end

end
