(* ===== verification/Identifiers.thy ===== *)
theory Identifiers
  imports Service
begin

text \<open>
  Every dictionary of the trust core files a record under the record's own identifier, each
  identifier once, and every identifier was handed out by the counter of its prefix: in every
  reachable state, a new identifier is fresh.
\<close>

section \<open>Stores\<close>

text \<open>An identifier that the counter of its prefix has handed out.\<close>

definition issued :: "string \<Rightarrow> (string, int) dict \<Rightarrow> string \<Rightarrow> bool" where
  "issued p c i \<longleftrightarrow> (\<exists>m. i = ident p m \<and> 1 \<le> m \<and> m \<le> counter c p)"

definition store_ok :: "('v \<Rightarrow> string) \<Rightarrow> string \<Rightarrow> (string, int) dict \<Rightarrow> (string, 'v) dict \<Rightarrow> bool" where
  "store_ok sel p c d \<longleftrightarrow>
     0 \<le> counter c p \<and> distinct (dkeys d) \<and> (\<forall>(k, v) \<in> set d. sel v = k \<and> issued p c k)"

lemma store_ok_empty [simp]: "store_ok sel p [] []"
  by (simp add: store_ok_def counter_def)

lemma store_ok_distinct: "store_ok sel p c d \<Longrightarrow> distinct (dkeys d)"
  by (simp add: store_ok_def)

lemma store_ok_key: "store_ok sel p c d \<Longrightarrow> dget d k = Some v \<Longrightarrow> sel v = k"
  by (auto simp: store_ok_def dest!: map_of_SomeD)

lemma store_ok_value: "store_ok sel p c d \<Longrightarrow> v \<in> set (dvals d) \<Longrightarrow> dget d (sel v) = Some v"
  by (force simp: store_ok_def map_of_eq_Some_iff)

lemma store_ok_issued: "store_ok sel p c d \<Longrightarrow> dget d k = Some v \<Longrightarrow> issued p c k"
  by (auto simp: store_ok_def dest!: map_of_SomeD)

lemma next_id_not_issued: "0 \<le> counter c p \<Longrightarrow> \<not> issued p c (next_id p c)"
  by (auto simp: issued_def next_id_def ident_inj)

text \<open>The identifier that the next call hands out is not in the dictionary.\<close>

lemma store_ok_fresh: "store_ok sel p c d \<Longrightarrow> dget d (next_id p c) = None"
  using next_id_not_issued [of c p] store_ok_issued [of sel p c d "next_id p c"]
  by (cases "dget d (next_id p c)") (auto simp: store_ok_def)

text \<open>Counting on with any prefix, filing a new record, and replacing a record keep the store.\<close>

lemma store_ok_other [simp]: "p \<noteq> q \<Longrightarrow> store_ok sel p (dput q n c) d = store_ok sel p c d"
  by (simp add: store_ok_def issued_def)

lemma issued_bump: "issued p c i \<Longrightarrow> issued p (dput q (counter c q + 1) c) i"
  by (fastforce simp: issued_def)

lemma issued_next: "0 \<le> counter c p \<Longrightarrow> issued p (dput p (counter c p + 1) c) (next_id p c)"
  unfolding issued_def next_id_def by (rule exI [of _ "counter c p + 1"]) simp

lemma store_ok_bump: "store_ok sel p c d \<Longrightarrow> store_ok sel p (dput q (counter c q + 1) c) d"
  by (auto simp: store_ok_def intro: issued_bump)

lemma in_set_dput: "kv \<in> set (dput k v d) \<Longrightarrow> kv = (k, v) \<or> kv \<in> set d"
  by (induction d) (auto split: if_splits)

lemma store_ok_put:
  assumes "store_ok sel p c d" "sel v = k" "issued p c k"
  shows "store_ok sel p c (dput k v d)"
  using assms by (auto simp: store_ok_def simp del: set_map dest!: in_set_dput)

lemma store_ok_insert:
  assumes "store_ok sel p c d" "sel v = next_id p c"
  shows "store_ok sel p (dput p (counter c p + 1) c) (dput (next_id p c) v d)"
  using assms store_ok_bump [OF assms(1), of p]
  by (intro store_ok_put) (auto simp: issued_next store_ok_def)

lemma store_ok_counter: "counter c p = counter c' p \<Longrightarrow> store_ok sel p c d = store_ok sel p c' d"
  by (simp add: store_ok_def issued_def)

text \<open>Filing in terms of the counter after all of an operation's identifiers were drawn.\<close>

lemma store_ok_file:
  assumes "store_ok sel p c d" "sel v = next_id p c" "counter c' p = counter c p + 1"
  shows "store_ok sel p c' (dput (next_id p c) v d)"
proof -
  have "counter (dput p (counter c p + 1) c) p = counter c' p" using assms(3) by simp
  from store_ok_counter [OF this] store_ok_insert [OF assms(1,2)] show ?thesis by blast
qed

lemma store_ok_replace:
  "store_ok sel p c d \<Longrightarrow> dget d k = Some v \<Longrightarrow> sel v' = sel v \<Longrightarrow> store_ok sel p c (dput k v' d)"
  by (intro store_ok_put) (auto dest: store_ok_issued store_ok_key)

lemma store_ok_replace':
  "store_ok sel p c d \<Longrightarrow> dget d k = Some v \<Longrightarrow> sel v' = sel v \<Longrightarrow> store_ok sel p c (dput (sel v) v' d)"
  using store_ok_replace [of sel p c d k v v'] by (simp add: store_ok_key)

lemma store_ok_replace_in:
  assumes "store_ok sel p c d" "store_ok sel p c d'" "(k, v) \<in> set d" "sel v' = sel v"
  shows "store_ok sel p c (dput k v' d')"
  using assms by (intro store_ok_put) (auto simp: store_ok_def)

lemma store_ok_dreplace:
  assumes "store_ok sel p c d" "\<And>v. sel (f v) = sel v"
  shows "store_ok sel p c (dreplace q f d)"
  using assms by (auto simp: store_ok_def dreplace_def comp_def case_prod_unfold)

section \<open>The store of a dictionary of the core\<close>

definition kept :: "('v \<Rightarrow> string) \<Rightarrow> string \<Rightarrow> (core \<Rightarrow> (string, 'v) dict) \<Rightarrow> core \<Rightarrow> bool" where
  "kept sel p get s = store_ok sel p (counters s) (get s)"

text \<open>
  A dictionary of the core that the log does not touch. Its store is a quiet view, so that every
  operation that does not write the dictionary keeps it.
\<close>

locale id_store = observation get
  for get :: "core \<Rightarrow> (string, 'v) dict" +
  fixes sel :: "'v \<Rightarrow> string" and p :: string

sublocale id_store \<subseteq> quiet e "kept sel p get" for e
  by unfold_locales (simp_all add: kept_def get_tick get_bump get_published store_ok_bump)

text \<open>
  What an identifier's having been issued needs: nothing takes it back. So after a call of
  \<open>_id\<close> or a successful lookup, a record may be filed under the identifier at any later point of
  the same operation.
\<close>

interpretation issuing: settled e "\<lambda>s. issued p (counters s) i" for e p i
proof
  show "keeps (consume_authority e i' c ct mc) (\<lambda>s. issued p (counters s) i)" for i' c ct mc
    by (rule keepsI) (auto simp: consume_authority_def validate_authority_def put_authority_grant_def wp Let_def
       split: datetime.split option.split)
  show "keeps (recalculate e r) (\<lambda>s. issued p (counters s) i)" for r
    by (rule keepsI) (auto simp: recalculate_def credential_identity_def wp Let_def
       intro: issued_bump split: datetime.split option.split)
qed (auto simp: intro: issued_bump)

locale governed_store = id_store +
  assumes consume_stored: "keeps (consume_authority e i c ct mc) (kept sel p get)"
    and recalculate_stored: "keeps (recalculate e r) (kept sel p get)"

sublocale governed_store \<subseteq> settled e "kept sel p get" for e
  by unfold_locales (rule consume_stored recalculate_stored)+

sublocale governed_store \<subseteq> filing: settled e "\<lambda>s. kept sel p get s \<and> issued p (counters s) i" for e i
  by unfold_locales
    (auto intro: keeps_conj consume_stored recalculate_stored issuing.consume_kept issuing.recalculate_kept
       tick_kept bump_kept published_kept issued_bump)

context governed_store
begin

lemma files:
  assumes "\<And>i. keeps (f i) (\<lambda>s. kept sel p get s \<and> issued p (counters s) i)"
  shows "keeps (bind (new_id p) f) (kept sel p get)"
proof (rule keepsI)
  fix s assume ok: "kept sel p get s"
  then have "kept sel p get (bump p s) \<and> issued p (counters (bump p s)) (next_id p (counters s))"
    by (simp add: bump_kept issued_next) (simp add: kept_def store_ok_def issued_next)
  then show "wp (bind (new_id p) f) (\<lambda>_. kept sel p get) (\<lambda>_. kept sel p get) s"
    by (auto simp: wp intro: wp_keeps [OF assms])
qed

lemma looks_up:
  assumes "\<And>x. sel x = k \<Longrightarrow> keeps (f x) (\<lambda>s. kept sel p get s \<and> issued p (counters s) k)"
  shows "keeps (bind (gets get) (\<lambda>d. bind (fetch er (dget d k)) f)) (kept sel p get)"
  by (rule keepsI)
    (auto simp: wp kept_def store_ok_key store_ok_issued split: option.split
       intro!: wp_keeps [OF assms])

end

section \<open>The seventeen stores\<close>

interpretation subject_store: id_store subjects sub_subject_id "''sub''"
  by unfold_locales simp_all

interpretation release_store: id_store operator_releases rel_release_id "''rel''"
  by unfold_locales simp_all

interpretation consent_store: id_store consents cns_consent_id "''cns''"
  by unfold_locales simp_all

interpretation commitment_store: id_store recovery_commitments rcm_recovery_commitment_id "''rcm''"
  by unfold_locales simp_all

interpretation case_store: id_store recovery_cases rcv_recovery_case_id "''rcv''"
  by unfold_locales simp_all

interpretation privacy_store: id_store privacy_requests prv_privacy_request_id "''prv''"
  by unfold_locales simp_all

interpretation request_store: id_store requests clm_request_id "''clm''"
  by unfold_locales simp_all

interpretation grant_store: id_store grants grt_grant_id "''grt''"
  by unfold_locales simp_all

interpretation bootstrap_store: id_store bootstrap_authorities bst_bootstrap_id "''bst''"
  by unfold_locales simp_all

interpretation authority_store: id_store authority_grants agr_authority_grant_id "''agr''"
  by unfold_locales simp_all

interpretation promotion_store: id_store authority_promotions prm_promotion_id "''prm''"
  by unfold_locales simp_all

interpretation invitation_store: id_store invitations inv_invitation_id "''inv''"
  by unfold_locales simp_all

interpretation introduction_store: id_store introductions int_introduction_id "''int''"
  by unfold_locales simp_all

interpretation attestation_store: id_store attestations att_attestation_id "''att''"
  by unfold_locales simp_all

interpretation audit_store: id_store audits aud_audit_id "''aud''"
  by unfold_locales simp_all

interpretation challenge_store: id_store challenges chg_challenge_id "''chg''"
  by unfold_locales simp_all

interpretation credential_store: id_store credentials crd_credential_id "''crd''"
  by unfold_locales simp_all

text \<open>Consuming authority and recalculation write a store each; they keep the others by not touching them.\<close>

lemma consume_authority_store:
  "keeps (consume_authority e i c ct mc) (kept agr_authority_grant_id ''agr'' authority_grants)"
  by (rule keepsI)
    (auto simp: consume_authority_def validate_authority_def put_authority_grant_def kept_def wp Let_def
       intro: store_ok_replace split: datetime.split option.split)

lemma recalculate_store: "keeps (recalculate e r) (kept crd_credential_id ''crd'' credentials)"
  by (rule keepsI)
    (auto simp: recalculate_def credential_identity_def kept_def wp Let_def
       intro: store_ok_replace' store_ok_insert store_ok_bump split: datetime.split option.split)

interpretation subject_store: governed_store subjects sub_subject_id "''sub''"
  by unfold_locales (simp_all add: subject_store.consume_authority_keeps subject_store.recalculate_keeps kept_def)

interpretation release_store: governed_store operator_releases rel_release_id "''rel''"
  by unfold_locales (simp_all add: release_store.consume_authority_keeps release_store.recalculate_keeps kept_def)

interpretation consent_store: governed_store consents cns_consent_id "''cns''"
  by unfold_locales (simp_all add: consent_store.consume_authority_keeps consent_store.recalculate_keeps kept_def)

interpretation commitment_store: governed_store recovery_commitments rcm_recovery_commitment_id "''rcm''"
  by unfold_locales (simp_all add: commitment_store.consume_authority_keeps commitment_store.recalculate_keeps kept_def)

interpretation case_store: governed_store recovery_cases rcv_recovery_case_id "''rcv''"
  by unfold_locales (simp_all add: case_store.consume_authority_keeps case_store.recalculate_keeps kept_def)

interpretation privacy_store: governed_store privacy_requests prv_privacy_request_id "''prv''"
  by unfold_locales (simp_all add: privacy_store.consume_authority_keeps privacy_store.recalculate_keeps kept_def)

interpretation request_store: governed_store requests clm_request_id "''clm''"
  by unfold_locales (simp_all add: request_store.consume_authority_keeps request_store.recalculate_keeps kept_def)

interpretation grant_store: governed_store grants grt_grant_id "''grt''"
  by unfold_locales (simp_all add: grant_store.consume_authority_keeps grant_store.recalculate_keeps kept_def)

interpretation bootstrap_store: governed_store bootstrap_authorities bst_bootstrap_id "''bst''"
  by unfold_locales (simp_all add: bootstrap_store.consume_authority_keeps bootstrap_store.recalculate_keeps kept_def)

interpretation authority_store: governed_store authority_grants agr_authority_grant_id "''agr''"
  by unfold_locales (simp_all add: consume_authority_store authority_store.recalculate_keeps kept_def)

interpretation promotion_store: governed_store authority_promotions prm_promotion_id "''prm''"
  by unfold_locales (simp_all add: promotion_store.consume_authority_keeps promotion_store.recalculate_keeps kept_def)

interpretation invitation_store: governed_store invitations inv_invitation_id "''inv''"
  by unfold_locales (simp_all add: invitation_store.consume_authority_keeps invitation_store.recalculate_keeps kept_def)

interpretation introduction_store: governed_store introductions int_introduction_id "''int''"
  by unfold_locales (simp_all add: introduction_store.consume_authority_keeps introduction_store.recalculate_keeps kept_def)

interpretation attestation_store: governed_store attestations att_attestation_id "''att''"
  by unfold_locales (simp_all add: attestation_store.consume_authority_keeps attestation_store.recalculate_keeps kept_def)

interpretation audit_store: governed_store audits aud_audit_id "''aud''"
  by unfold_locales (simp_all add: audit_store.consume_authority_keeps audit_store.recalculate_keeps kept_def)

interpretation challenge_store: governed_store challenges chg_challenge_id "''chg''"
  by unfold_locales (simp_all add: challenge_store.consume_authority_keeps challenge_store.recalculate_keeps kept_def)

interpretation credential_store: governed_store credentials crd_credential_id "''crd''"
  by unfold_locales (simp_all add: credential_store.consume_authority_keeps recalculate_store kept_def)

section \<open>The operations that write each store\<close>

text \<open>
  Each proof follows the program: \<open>files\<close> at the call of \<open>_id\<close>, \<open>looks_up\<close> at the lookup of the
  record to replace, and at each write only the selector of the written record is left to compare.
\<close>

lemma create_subject_store:
  "keeps (create_subject e k b) (kept sub_subject_id ''sub'' subjects)"
  unfolding create_subject_def bind_assoc
  by (intro subject_store.files subject_store.looks_up keeps)
    (simp_all add: kept_def store_ok_put)

lemma erase_subject_store:
  "keeps (erase_subject e x) (kept sub_subject_id ''sub'' subjects)"
  unfolding erase_subject_def require_subject_def bind_assoc
  by (intro subject_store.files subject_store.looks_up keeps)
    (simp_all add: kept_def store_ok_put)

lemma decide_recovery_subject_store:
  "keeps (decide_recovery e i actor ok reason) (kept sub_subject_id ''sub'' subjects)"
  unfolding decide_recovery_def apply_recovery_def require_subject_def bind_assoc
  by (intro subject_store.files subject_store.looks_up keeps)
    (simp_all add: kept_def store_ok_put)

lemma in_unsuspended: "r \<in> set (unsuspended s) \<Longrightarrow> r \<in> set (dvals (operator_releases s)) \<and> rel_suspended_at r = None"
  by (auto simp: unsuspended_def)

lemma register_release_store:
  "keeps (register_operator_release e f) (kept rel_release_id ''rel'' operator_releases)"
proof (rule keepsI)
  fix s assume ok: "kept rel_release_id ''rel'' operator_releases s"
  have suspended: "store_ok rel_release_id ''rel'' (counters t)
      (dput (rel_release_id (hd (unsuspended t))) (hd (unsuspended t)\<lparr>rel_suspended_at := Some u\<rparr>)
        (operator_releases t))"
    if "store_ok rel_release_id ''rel'' (counters t) (operator_releases t)" "length (unsuspended t) = Suc 0" for t u
    using that in_unsuspended [of "hd (unsuspended t)" t]
    by (cases "unsuspended t") (auto simp del: set_map intro: store_ok_replace' dest: store_ok_value)
  from ok show "wp (register_operator_release e f) (\<lambda>_. kept rel_release_id ''rel'' operator_releases)
      (\<lambda>_. kept rel_release_id ''rel'' operator_releases) s"
    by (auto simp: register_operator_release_def current_operator_release_def put_release_def wp Let_def
         kept_def store_ok_insert store_ok_bump suspended intro!: release_store.consume_wp
         split: datetime.split)
qed

lemma register_commitment_store:
  "keeps (register_recovery_commitment e i c) (kept rcm_recovery_commitment_id ''rcm'' recovery_commitments)"
  unfolding register_recovery_commitment_def bind_assoc
  by (intro commitment_store.files commitment_store.looks_up keeps)
    (simp_all add: kept_def store_ok_put)

lemma decide_recovery_commitment_store:
  "keeps (decide_recovery e i actor ok reason) (kept rcm_recovery_commitment_id ''rcm'' recovery_commitments)"
  unfolding decide_recovery_def apply_recovery_def bind_assoc
  by (intro commitment_store.files commitment_store.looks_up keeps)
    (simp_all add: kept_def store_ok_put)

lemma request_recovery_store:
  "keeps (request_recovery e i k secret) (kept rcv_recovery_case_id ''rcv'' recovery_cases)"
  unfolding request_recovery_def bind_assoc
  by (intro case_store.files case_store.looks_up keeps)
    (simp_all add: kept_def store_ok_put)

lemma decide_recovery_case_store:
  "keeps (decide_recovery e i actor ok reason) (kept rcv_recovery_case_id ''rcv'' recovery_cases)"
  unfolding decide_recovery_def apply_recovery_def bind_assoc
  by (intro case_store.files case_store.looks_up keeps)
    (simp_all add: kept_def store_ok_put)

lemma withdraw_consents_store:
  "keeps (withdraw_consents e x) (kept cns_consent_id ''cns'' consents)"
proof (rule keepsI)
  fix s assume ok: "kept cns_consent_id ''cns'' consents s"
  let ?I = "\<lambda>t. kept cns_consent_id ''cns'' consents t \<and> counters t = counters s"
  have "wp (for_each (withdraw_if_active e x) (consents s)) (\<lambda>_. ?I) (\<lambda>_. ?I) s"
    using ok by (intro wp_for_each)
      (auto simp: withdraw_if_active_def wp kept_def
         intro: store_ok_replace_in [of _ _ _ "consents s"] split: datetime.split)
  then show "wp (withdraw_consents e x) (\<lambda>_. kept cns_consent_id ''cns'' consents)
      (\<lambda>_. kept cns_consent_id ''cns'' consents) s"
    by (auto simp: withdraw_consents_def wp intro: wp_mono)
qed

lemma accept_consent_store:
  "keeps (accept_consent e i v ps) (kept cns_consent_id ''cns'' consents)"
  unfolding accept_consent_def bind_assoc
  by (intro consent_store.files consent_store.looks_up keeps withdraw_consents_store)
    (simp_all add: kept_def store_ok_put)

lemma open_privacy_request_store:
  "keeps (open_privacy_request e i kind reason) (kept prv_privacy_request_id ''prv'' privacy_requests)"
  unfolding open_privacy_request_def bind_assoc
  by (intro privacy_store.files privacy_store.looks_up keeps)
    (simp_all add: kept_def store_ok_put)

lemma process_privacy_request_store:
  "keeps (process_privacy_request e i actor ok reason) (kept prv_privacy_request_id ''prv'' privacy_requests)"
  unfolding process_privacy_request_def bind_assoc
  by (intro privacy_store.files privacy_store.looks_up keeps privacy_store.filing.invalidate_subject_state_keeps privacy_store.filing.revoke_if_held_keeps
       privacy_store.filing.withdraw_consents_keeps privacy_store.filing.erase_subject_keeps)
    (simp_all add: kept_def store_ok_put)

lemma request_claim_store:
  "keeps (request_claim e i ct dv pv) (kept clm_request_id ''clm'' requests)"
  unfolding request_claim_def bind_assoc
  by (intro request_store.files request_store.looks_up keeps)
    (simp_all add: kept_def store_ok_put)

lemma grant_verifier_store:
  "keeps (grant_verifier e v ct ms n expires basis) (kept grt_grant_id ''grt'' grants)"
  unfolding grant_verifier_def bind_assoc
  by (intro grant_store.files grant_store.looks_up keeps)
    (simp_all add: kept_def store_ok_put)

lemma revoke_verifier_grant_store:
  "keeps (revoke_verifier_grant e i reason) (kept grt_grant_id ''grt'' grants)"
  unfolding revoke_verifier_grant_def bind_assoc
  by (intro grant_store.files grant_store.looks_up keeps grant_store.filing.invalidate_under_keeps)
    (simp_all add: kept_def store_ok_put)

lemma bootstrap_authority_store:
  "keeps (bootstrap_authority e x label ref v expires) (kept bst_bootstrap_id ''bst'' bootstrap_authorities)"
  unfolding bootstrap_authority_def put_authority_grant_def bind_assoc
  by (intro bootstrap_store.files bootstrap_store.looks_up keeps)
    (simp_all add: kept_def store_ok_put)

lemma bootstrap_grant_store:
  "keeps (bootstrap_authority e x label ref v expires) (kept agr_authority_grant_id ''agr'' authority_grants)"
  unfolding bootstrap_authority_def put_authority_grant_def bind_assoc
  by (intro authority_store.files authority_store.looks_up keeps)
    (simp_all add: kept_def store_ok_put)

lemma grant_authority_store:
  "keeps (grant_authority e a) (kept agr_authority_grant_id ''agr'' authority_grants)"
  unfolding grant_authority_def put_authority_grant_def bind_assoc
  by (intro authority_store.files authority_store.looks_up keeps)
    (simp_all add: kept_def store_ok_put)

lemma promote_authority_store:
  "keeps (promote_authority e actor sources tier caps expires label) (kept prm_promotion_id ''prm'' authority_promotions)"
  unfolding promote_authority_def bind_assoc
  by (intro promotion_store.files promotion_store.looks_up keeps promotion_store.grant_authority_keeps)
    (simp_all add: kept_def store_ok_put)

lemma revoke_one_store:
  "keeps (revoke_one t reason i) (kept agr_authority_grant_id ''agr'' authority_grants)"
  unfolding revoke_one_def put_authority_grant_def bind_assoc
  by (intro authority_store.files authority_store.looks_up keeps)
    (simp_all add: kept_def store_ok_put)

lemma revoke_held_store:
  "keeps (bind (gets authority_grants) (\<lambda>held. bind (for_each (revoke_if_held e x reason) held) f))
     (kept agr_authority_grant_id ''agr'' authority_grants)"
  if kept: "keeps (f ()) (kept agr_authority_grant_id ''agr'' authority_grants)"
proof (rule keepsI)
  let ?K = "kept agr_authority_grant_id ''agr'' authority_grants"
  fix s assume ok: "?K s"
  let ?I = "\<lambda>t. ?K t \<and> counters t = counters s"
  have "wp (for_each (revoke_if_held e x reason) (authority_grants s)) (\<lambda>_. ?I) (\<lambda>_. ?I) s"
    using ok by (intro wp_for_each)
      (auto simp: revoke_if_held_def put_authority_grant_def wp kept_def
         intro: store_ok_replace_in [of _ _ _ "authority_grants s"] split: datetime.split)
  then show "wp (bind (gets authority_grants) (\<lambda>held. bind (for_each (revoke_if_held e x reason) held) f))
      (\<lambda>_. ?K) (\<lambda>_. ?K) s"
    by (auto simp: wp intro: wp_mono wp_keeps [OF kept])
qed

lemma invalidate_subject_grant_store:
  "keeps (invalidate_subject_state e x reason) (kept agr_authority_grant_id ''agr'' authority_grants)"
  unfolding invalidate_subject_state_def bind_assoc
  by (intro authority_store.files authority_store.looks_up keeps revoke_held_store)
    (simp_all add: kept_def store_ok_put)

lemma invite_attestor_store:
  "keeps (invite_attestor e r v expires) (kept inv_invitation_id ''inv'' invitations)"
  unfolding invite_attestor_def bind_assoc
  by (intro invitation_store.files invitation_store.looks_up keeps)
    (simp_all add: kept_def store_ok_put)

lemma introduce_attestor_store:
  "keeps (introduce_attestor e r n v expires actor) (kept int_introduction_id ''int'' introductions)"
  unfolding introduce_attestor_def bind_assoc
  by (intro introduction_store.files introduction_store.looks_up keeps)
    (simp_all add: kept_def store_ok_put)

lemma issue_attestation_store:
  "keeps (issue_attestation e f) (kept att_attestation_id ''att'' attestations)"
  unfolding issue_attestation_def put_attestation_def bind_assoc
  by (intro attestation_store.files attestation_store.looks_up keeps)
    (simp_all add: kept_def store_ok_put)

lemma issue_bootstrap_attestation_store:
  "keeps (issue_bootstrap_attestation e r g expires) (kept att_attestation_id ''att'' attestations)"
  unfolding issue_bootstrap_attestation_def put_attestation_def bind_assoc
  by (intro attestation_store.files attestation_store.looks_up keeps)
    (simp_all add: kept_def store_ok_put)

lemma invalidate_loop_store:
  assumes "store_ok att_attestation_id ''att'' c d" "store_ok att_attestation_id ''att'' c d0" "set items \<subseteq> set d0"
  shows "store_ok att_attestation_id ''att'' c (fst (invalidate_loop x reason items d affected))"
  using assms
  by (induction x reason items d affected rule: invalidate_loop.induct)
    (auto simp: invalidate_def dest!: meta_mp [OF _ store_ok_replace_in])

lemma invalidate_subject_attestation_store:
  "keeps (invalidate_subject_state e x reason) (kept att_attestation_id ''att'' attestations)"
proof (rule keepsI)
  let ?K = "kept att_attestation_id ''att'' attestations"
  fix s assume "?K s"
  then show "wp (invalidate_subject_state e x reason) (\<lambda>_. ?K) (\<lambda>_. ?K) s"
    using invalidate_loop_store [of "counters s" "attestations s" "attestations s" "attestations s" x reason "requests_of s x"]
    by (auto simp: invalidate_subject_state_def wp Let_def split: prod.split
        intro!: attestation_store.recalculate_all_wp
          wp_keeps [OF keeps_for_each [OF attestation_store.revoke_if_held_keeps]])
      (auto simp: kept_def)
qed

lemma invalidate_under_store:
  "keeps (invalidate_under ids reason) (kept att_attestation_id ''att'' attestations)"
  by (rule keepsI) (simp add: invalidate_under_def wp kept_def store_ok_dreplace invalidate_def)

lemma decide_audit_attestation_store:
  "keeps (decide_audit e i ok actor) (kept att_attestation_id ''att'' attestations)"
  unfolding decide_audit_def require_attestation_def put_attestation_def bind_assoc
  by (intro attestation_store.files attestation_store.looks_up keeps)
    (simp_all add: kept_def store_ok_put invalidate_def)

lemma decide_challenge_attestation_store:
  "keeps (decide_challenge e i d actor) (kept att_attestation_id ''att'' attestations)"
  unfolding decide_challenge_def require_attestation_def put_attestation_def bind_assoc
  by (intro attestation_store.files attestation_store.looks_up keeps attestation_store.put_challenge_keeps)
    (simp_all add: kept_def store_ok_put invalidate_def)

lemma decide_appeal_attestation_store:
  "keeps (decide_appeal e i d actor) (kept att_attestation_id ''att'' attestations)"
  unfolding decide_appeal_def require_attestation_def put_attestation_def bind_assoc
  by (intro attestation_store.files attestation_store.looks_up keeps attestation_store.put_challenge_keeps)
    (simp_all add: kept_def store_ok_put restored_def)

lemma select_audit_store:
  "keeps (select_audit e a basis seed actor) (kept aud_audit_id ''aud'' audits)"
  unfolding select_audit_def bind_assoc
  by (intro audit_store.files audit_store.looks_up keeps)
    (simp_all add: kept_def store_ok_put)

lemma decide_audit_store:
  "keeps (decide_audit e i ok actor) (kept aud_audit_id ''aud'' audits)"
  unfolding decide_audit_def bind_assoc
  by (intro audit_store.files audit_store.looks_up keeps audit_store.filing.put_attestation_keeps)
    (simp_all add: kept_def store_ok_put)

lemma open_challenge_store:
  "keeps (open_challenge e a reason who) (kept chg_challenge_id ''chg'' challenges)"
  unfolding open_challenge_def put_challenge_def require_challenge_def bind_assoc
  by (intro challenge_store.files challenge_store.looks_up keeps)
    (simp_all add: kept_def store_ok_put)

lemma respond_to_challenge_store:
  "keeps (respond_to_challenge e i code) (kept chg_challenge_id ''chg'' challenges)"
  unfolding respond_to_challenge_def put_challenge_def require_challenge_def bind_assoc
  by (intro challenge_store.files challenge_store.looks_up keeps)
    (simp_all add: kept_def store_ok_put)

lemma appeal_challenge_store:
  "keeps (appeal_challenge e i reason) (kept chg_challenge_id ''chg'' challenges)"
  unfolding appeal_challenge_def put_challenge_def require_challenge_def bind_assoc
  by (intro challenge_store.files challenge_store.looks_up keeps)
    (simp_all add: kept_def store_ok_put)

lemma decide_challenge_store:
  "keeps (decide_challenge e i d actor) (kept chg_challenge_id ''chg'' challenges)"
  unfolding decide_challenge_def put_challenge_def require_challenge_def bind_assoc
  by (intro challenge_store.files challenge_store.looks_up keeps challenge_store.filing.put_attestation_keeps)
    (simp_all add: kept_def store_ok_put)

lemma decide_appeal_store:
  "keeps (decide_appeal e i d actor) (kept chg_challenge_id ''chg'' challenges)"
  unfolding decide_appeal_def put_challenge_def require_challenge_def bind_assoc
  by (intro challenge_store.files challenge_store.looks_up keeps challenge_store.filing.put_attestation_keeps)
    (simp_all add: kept_def store_ok_put)

section \<open>Every call keeps every store\<close>

lemma subject_exec: "keeps (exec e c) (kept sub_subject_id ''sub'' subjects)"
  by (cases c)
    (simp_all add: kept_def subject_store.operations_keep create_subject_store erase_subject_store
      decide_recovery_subject_store)

lemma release_exec: "keeps (exec e c) (kept rel_release_id ''rel'' operator_releases)"
  by (cases c)
    (simp_all add: kept_def release_store.operations_keep register_release_store)

lemma consent_exec: "keeps (exec e c) (kept cns_consent_id ''cns'' consents)"
  by (cases c)
    (simp_all add: kept_def consent_store.operations_keep withdraw_consents_store accept_consent_store)

lemma commitment_exec: "keeps (exec e c) (kept rcm_recovery_commitment_id ''rcm'' recovery_commitments)"
  by (cases c)
    (simp_all add: kept_def commitment_store.operations_keep register_commitment_store
      decide_recovery_commitment_store)

lemma case_exec: "keeps (exec e c) (kept rcv_recovery_case_id ''rcv'' recovery_cases)"
  by (cases c)
    (simp_all add: kept_def case_store.operations_keep request_recovery_store decide_recovery_case_store)

lemma privacy_exec: "keeps (exec e c) (kept prv_privacy_request_id ''prv'' privacy_requests)"
  by (cases c)
    (simp_all add: kept_def privacy_store.operations_keep open_privacy_request_store process_privacy_request_store)

lemma request_exec: "keeps (exec e c) (kept clm_request_id ''clm'' requests)"
  by (cases c)
    (simp_all add: kept_def request_store.operations_keep request_claim_store)

lemma grant_exec: "keeps (exec e c) (kept grt_grant_id ''grt'' grants)"
  by (cases c)
    (simp_all add: kept_def grant_store.operations_keep grant_verifier_store revoke_verifier_grant_store)

lemma bootstrap_exec: "keeps (exec e c) (kept bst_bootstrap_id ''bst'' bootstrap_authorities)"
  by (cases c)
    (simp_all add: kept_def bootstrap_store.operations_keep bootstrap_authority_store)

lemma authority_exec: "keeps (exec e c) (kept agr_authority_grant_id ''agr'' authority_grants)"
  by (cases c)
    (simp_all add: kept_def authority_store.operations_keep bootstrap_grant_store grant_authority_store
      revoke_one_store invalidate_subject_grant_store)

lemma promotion_exec: "keeps (exec e c) (kept prm_promotion_id ''prm'' authority_promotions)"
  by (cases c)
    (simp_all add: kept_def promotion_store.operations_keep promote_authority_store)

lemma invitation_exec: "keeps (exec e c) (kept inv_invitation_id ''inv'' invitations)"
  by (cases c)
    (simp_all add: kept_def invitation_store.operations_keep invite_attestor_store)

lemma introduction_exec: "keeps (exec e c) (kept int_introduction_id ''int'' introductions)"
  by (cases c)
    (simp_all add: kept_def introduction_store.operations_keep introduce_attestor_store)

lemma attestation_exec: "keeps (exec e c) (kept att_attestation_id ''att'' attestations)"
  by (cases c)
    (simp_all add: kept_def attestation_store.operations_keep issue_attestation_store
      issue_bootstrap_attestation_store invalidate_subject_attestation_store
      invalidate_under_store decide_audit_attestation_store
      decide_challenge_attestation_store decide_appeal_attestation_store)

lemma audit_exec: "keeps (exec e c) (kept aud_audit_id ''aud'' audits)"
  by (cases c)
    (simp_all add: kept_def audit_store.operations_keep select_audit_store decide_audit_store)

lemma challenge_exec: "keeps (exec e c) (kept chg_challenge_id ''chg'' challenges)"
  by (cases c)
    (simp_all add: kept_def challenge_store.operations_keep open_challenge_store respond_to_challenge_store
      appeal_challenge_store decide_challenge_store decide_appeal_store)

lemma credential_exec: "keeps (exec e c) (kept crd_credential_id ''crd'' credentials)"
  by (cases c)
    (simp_all add: kept_def credential_store.operations_keep)

text \<open>The registered claims are filed under their three-part key.\<close>

definition claim_key :: "claim_definition \<Rightarrow> string \<times> string \<times> string" where
  "claim_key d = (cd_claim_type d, cd_definition_version d, cd_policy_version d)"

definition claims_ok :: "core \<Rightarrow> bool" where
  "claims_ok s \<longleftrightarrow> distinct (dkeys (claims s)) \<and> (\<forall>(k, d) \<in> set (claims s). claim_key d = k)"

interpretation claims_view: quiet e claims_ok for e
  by unfold_locales (simp_all add: claims_ok_def)

interpretation claims_view: settled e claims_ok for e
  by unfold_locales
    (simp_all add: claims_view.consume_authority_keeps claims_view.recalculate_keeps claims_ok_def)

lemma register_claim_claims: "keeps (register_claim e d actor) claims_ok"
proof -
  have "claims_ok (s\<lparr>claims := dput (claim_key d) d (claims s)\<rparr>)" if "claims_ok s" for s
    using that by (auto simp: claims_ok_def simp del: set_map dest!: in_set_dput)
  then show ?thesis
    unfolding register_claim_def by (intro keeps) (simp_all add: claim_key_def)
qed

lemma claims_exec: "keeps (exec e c) claims_ok"
  by (cases c) (simp_all add: claims_ok_def claims_view.operations_keep register_claim_claims)

text \<open>The index of credentials lists, in the same order, the request of each credential.\<close>

definition index_of :: "(string, credential) dict \<Rightarrow> (string, string) dict" where
  "index_of d = map (\<lambda>(i, c). (crd_request_id c, i)) d"

definition indexed ::
  "(string, int) dict \<Rightarrow> (string, credential) dict \<Rightarrow> (string, string) dict \<Rightarrow> bool" where
  "indexed c d idx \<longleftrightarrow> store_ok crd_credential_id ''crd'' c d \<and> idx = index_of d \<and> distinct (dkeys idx)"

definition index_ok :: "core \<Rightarrow> bool" where
  "index_ok s = indexed (counters s) (credentials s) (credential_by_request s)"

lemma indexed_bump: "indexed c d idx \<Longrightarrow> indexed (dput q (counter c q + 1) c) d idx"
  by (auto simp: indexed_def intro: store_ok_bump)

interpretation index_view: quiet e index_ok for e
  by unfold_locales (simp_all add: index_ok_def indexed_bump)

lemma index_of_lookup:
  assumes "distinct (dkeys (index_of d))"
  shows "dget (index_of d) r = Some i \<longleftrightarrow> (\<exists>c. (i, c) \<in> set d \<and> crd_request_id c = r)"
  using assms by (auto simp: index_of_def)

lemma index_of_append: "index_of (d @ [(i, c)]) = index_of d @ [(crd_request_id c, i)]"
  by (simp add: index_of_def)

lemma index_of_replace:
  "dget d i = Some c \<Longrightarrow> crd_request_id c' = crd_request_id c \<Longrightarrow> index_of (dput i c' d) = index_of d"
  by (induction d) (auto simp: index_of_def)

lemma dput_same: "dget d k = Some v \<Longrightarrow> dput k v d = d"
  by (induction d) auto

text \<open>The two ways in which recalculation writes: a first credential, and the next version of one.\<close>

lemma indexed_insert:
  assumes ok: "indexed c d idx" and new: "dget idx r = None"
    and k: "crd_credential_id k = next_id ''crd'' c" "crd_request_id k = r"
  shows "indexed (dput ''crd'' (counter c ''crd'' + 1) c) (dput (next_id ''crd'' c) k d)
    (dput r (next_id ''crd'' c) idx)"
proof -
  have store: "store_ok crd_credential_id ''crd'' c d" and idx: "idx = index_of d" "distinct (dkeys idx)"
    using ok by (auto simp: indexed_def)
  have "dput (next_id ''crd'' c) k d = d @ [(next_id ''crd'' c, k)]"
    using store_ok_fresh [OF store] by (intro dput_fresh) (simp add: dget_fresh)
  moreover have "dput r (next_id ''crd'' c) idx = idx @ [(r, next_id ''crd'' c)]"
    using new by (intro dput_fresh) (simp add: dget_fresh)
  ultimately have "dput r (next_id ''crd'' c) idx = index_of (dput (next_id ''crd'' c) k d)"
    using idx(1) k(2) by (simp add: index_of_append)
  then show ?thesis
    using distinct_dput [OF idx(2)] store_ok_insert [OF store k(1)] unfolding indexed_def by metis
qed

lemma indexed_replace:
  assumes ok: "indexed c d idx" and old: "dget idx r = Some i" "dget d i = Some x"
    and k: "crd_credential_id k = crd_credential_id x" "crd_request_id k = r"
  shows "indexed c (dput (crd_credential_id x) k d) (dput r (crd_credential_id x) idx)"
proof -
  have store: "store_ok crd_credential_id ''crd'' c d" and idx: "idx = index_of d" "distinct (dkeys idx)"
    using ok by (auto simp: indexed_def)
  have i: "crd_credential_id x = i" using store old(2) by (rule store_ok_key)
  have "(r, i) \<in> set (index_of d)" using old(1) idx(1) by (auto dest: map_of_SomeD)
  then obtain y where "(i, y) \<in> set d" "crd_request_id y = r"
    by (auto simp: index_of_def)
  with store_ok_distinct [OF store] have "dget d i = Some y" by simp
  with old(2) \<open>crd_request_id y = r\<close> have "crd_request_id x = r" by simp
  with idx old i k show ?thesis
    using store_ok_replace [OF store old(2) k(1)]
    by (simp add: indexed_def index_of_replace dput_same)
qed

lemma recalculate_index: "keeps (recalculate e r) index_ok"
  by (rule keepsI)
    (auto simp: recalculate_def credential_identity_def wp Let_def index_ok_def
       intro: indexed_bump indexed_insert indexed_replace
       split: datetime.split option.split)

interpretation index_view: settled e index_ok for e
  by unfold_locales
    (simp_all add: index_view.consume_authority_keeps recalculate_index index_ok_def)

lemma index_exec: "keeps (exec e c) index_ok"
  by (cases c) (simp_all add: index_ok_def index_view.operations_keep)

section \<open>Reachable states\<close>

text \<open>All the stores at once.\<close>

definition identifiers_ok :: "core \<Rightarrow> bool" where
  "identifiers_ok s \<longleftrightarrow>
kept sub_subject_id ''sub'' subjects s
     \<and> kept rel_release_id ''rel'' operator_releases s
     \<and> kept cns_consent_id ''cns'' consents s
     \<and> kept rcm_recovery_commitment_id ''rcm'' recovery_commitments s
     \<and> kept rcv_recovery_case_id ''rcv'' recovery_cases s
     \<and> kept prv_privacy_request_id ''prv'' privacy_requests s
     \<and> kept clm_request_id ''clm'' requests s
     \<and> kept grt_grant_id ''grt'' grants s
     \<and> kept bst_bootstrap_id ''bst'' bootstrap_authorities s
     \<and> kept agr_authority_grant_id ''agr'' authority_grants s
     \<and> kept prm_promotion_id ''prm'' authority_promotions s
     \<and> kept inv_invitation_id ''inv'' invitations s
     \<and> kept int_introduction_id ''int'' introductions s
     \<and> kept att_attestation_id ''att'' attestations s
     \<and> kept aud_audit_id ''aud'' audits s
     \<and> kept chg_challenge_id ''chg'' challenges s
     \<and> kept crd_credential_id ''crd'' credentials s
    \<and> claims_ok s \<and> index_ok s"

theorem identifiers_reachable: "reachable e s \<Longrightarrow> identifiers_ok s"
proof (rule reachable_invariant [where I = identifiers_ok])
  show "identifiers_ok new_core"
    by (simp add: identifiers_ok_def kept_def claims_ok_def index_ok_def indexed_def index_of_def new_core_def)
  show "identifiers_ok (s\<lparr>clock_reads := n\<rparr>)" if "identifiers_ok s" for s n
    using that by (simp add: identifiers_ok_def kept_def claims_ok_def index_ok_def)
  show "keeps (exec (e\<lparr>env_clock := clock\<rparr>) c) identifiers_ok" for clock c
    unfolding identifiers_ok_def
    by (intro keeps_conj claims_exec index_exec
      subject_exec release_exec consent_exec commitment_exec case_exec privacy_exec
      request_exec grant_exec bootstrap_exec authority_exec promotion_exec invitation_exec
      introduction_exec attestation_exec audit_exec challenge_exec credential_exec)
qed

lemmas identifiers_okD = identifiers_ok_def [THEN iffD1, unfolded kept_def]

end
