(* ===== verification/Ledger.thy ===== *)
theory Ledger
  imports Identifiers
begin

text \<open>
  The public log of \<open>TrustCore\<close>: an append-only list of events, each with one receipt that is a
  function of the event, none carrying anything but the operation, its outcome and the time.
\<close>

section \<open>Receipts are functions of events\<close>

text \<open>The outcome that an event publishes; every event has exactly this one attribute.\<close>

definition outcome_of :: "public_event \<Rightarrow> string" where
  "outcome_of v = (case evt_public_attributes v of [(_, JStr w)] \<Rightarrow> w | _ \<Rightarrow> '''')"

definition receipt_for :: "env \<Rightarrow> public_event \<Rightarrow> receipt" where
  "receipt_for e v = receipt_of e (evt_event_id v) (evt_event_type v) (outcome_of v) (evt_occurred_at v)"

definition minimal_event :: "env \<Rightarrow> public_event \<Rightarrow> bool" where
  "minimal_event e v \<longleftrightarrow> evt_policy_profile v = pol_profile_id (env_policy e)
     \<and> evt_public_attributes v = [(''outcome'', JStr (outcome_of v))]"

definition ledger_ok :: "env \<Rightarrow> core \<Rightarrow> bool" where
  "ledger_ok e s \<longleftrightarrow>
     0 \<le> counter (counters s) ''evt''
     \<and> receipts s = map (receipt_for e) (events s)
     \<and> distinct (map evt_event_id (events s))
     \<and> (\<forall>v \<in> set (events s). minimal_event e v \<and> issued ''evt'' (counters s) (evt_event_id v))"

lemma event_of_minimal:
  "minimal_event e (event_of e i op out agg t)"
  "receipt_for e (event_of e i op out agg t) = receipt_of e i op out t"
  by (simp_all add: minimal_event_def receipt_for_def outcome_of_def event_of_def)

lemma receipt_of_clock [simp]: "receipt_of (e\<lparr>env_clock := k\<rparr>) i op out t = receipt_of e i op out t"
  by (simp add: receipt_of_def receipt_token_def)

lemma ledger_clock [simp]: "ledger_ok (e\<lparr>env_clock := k\<rparr>) s = ledger_ok e s"
  by (simp add: ledger_ok_def minimal_event_def receipt_for_def [abs_def])

text \<open>Publishing appends an event with a fresh identifier, and its receipt.\<close>

lemma ledger_bump: "ledger_ok e s \<Longrightarrow> ledger_ok e (bump p s)"
  by (auto simp: ledger_ok_def intro: issued_bump)

lemma ledger_published:
  assumes ok: "ledger_ok e s"
  shows "ledger_ok e (published e op out agg t s)"
proof -
  let ?i = "next_id ''evt'' (counters s)"
  let ?v = "event_of e ?i op out agg t"
  have c: "0 \<le> counter (counters s) ''evt''" using ok by (simp add: ledger_ok_def)
  then have "?i \<notin> set (map evt_event_id (events s))"
    using ok next_id_not_issued [OF c] by (auto simp: ledger_ok_def)
  moreover have "evt_event_id ?v = ?i" by (simp add: event_of_def)
  moreover have "issued ''evt'' (dput ''evt'' (counter (counters s) ''evt'' + 1) (counters s)) ?i"
    using c by (rule issued_next)
  ultimately show ?thesis
    using ok by (auto simp: ledger_ok_def published_def event_of_minimal intro: issued_bump)
qed

lemma ledger_tick: "ledger_ok e s \<Longrightarrow> ledger_ok e (tick s)"
  by (simp add: ledger_ok_def)

text \<open>Two quiet views that every call keeps: the log is well formed, and it only grows.\<close>

definition extends_log :: "public_event list \<Rightarrow> receipt list \<Rightarrow> core \<Rightarrow> bool" where
  "extends_log vs rs s \<longleftrightarrow> (\<exists>vs' rs'. events s = vs @ vs' \<and> receipts s = rs @ rs' \<and> length vs' = length rs')"

interpretation ledger: quiet e "ledger_ok e" for e
  by unfold_locales (rule ledger_tick ledger_bump ledger_published, assumption)+

interpretation growing: quiet e "extends_log vs rs" for e vs rs
  by unfold_locales (auto simp: extends_log_def published_def)

lemma log_blind:
  "blind credentials_update (ledger_ok e)" "blind credential_by_request_update (ledger_ok e)"
  "blind authority_grants_update (ledger_ok e)"
  "blind credentials_update (extends_log vs rs)" "blind credential_by_request_update (extends_log vs rs)"
  "blind authority_grants_update (extends_log vs rs)"
  by (simp_all add: ledger_ok_def extends_log_def)

interpretation ledger: settled e "ledger_ok e" for e
  by unfold_locales (simp_all add: ledger.consume_authority_keeps ledger.recalculate_keeps log_blind)

interpretation growing: settled e "extends_log vs rs" for e vs rs
  by unfold_locales (simp_all add: growing.consume_authority_keeps growing.recalculate_keeps log_blind)

lemma ledger_exec: "keeps (exec e c) (ledger_ok e)"
  by (cases c) (simp_all add: ledger.operations_keep, (simp_all add: ledger_ok_def ledger.operations_keep)?)

lemma growing_exec: "keeps (exec e c) (extends_log vs rs)"
  by (cases c) (simp_all add: extends_log_def growing.operations_keep)

lemma ledger_reachable: "reachable e s \<Longrightarrow> ledger_ok e s"
proof (rule reachable_invariant [where I = "ledger_ok e"])
  show "ledger_ok e new_core" by (simp add: ledger_ok_def new_core_def counter_def)
  show "ledger_ok e (s\<lparr>clock_reads := n\<rparr>)" if "ledger_ok e s" for s n
    using that by (simp add: ledger_ok_def)
  show "keeps (exec (e\<lparr>env_clock := clock\<rparr>) c) (ledger_ok e)" for clock c
    using ledger_exec [of "e\<lparr>env_clock := clock\<rparr>" c] by (simp add: keeps_def)
qed

end
