(* ===== verification/Delegation.thy ===== *)
theory Delegation
  imports Ledger
begin

text \<open>
  Delegated authority never grows: every grant of a reachable state is the bootstrap root or is
  bounded, in capabilities, scope, tier, time and depth, by the grant that issued it, and is never
  used more often than its cap. The bounds compose along chains of delegation.
\<close>

section \<open>What a delegation is bounded by\<close>

definition attenuated :: "authority_grant \<Rightarrow> authority_grant \<Rightarrow> bool" where
  "attenuated p g \<longleftrightarrow>
     agr_capabilities g \<subseteq> agr_capabilities p \<and> agr_capabilities g \<noteq> {}
     \<and> scope_subset (agr_claim_types g) (agr_claim_types p)
     \<and> scope_subset (agr_method_classes g) (agr_method_classes p)
     \<and> agr_tier g \<le> agr_tier p \<and> agr_expires_at g \<le> agr_expires_at p
     \<and> agr_delegation_depth g = agr_delegation_depth p + 1
     \<and> agr_max_delegation_depth g \<le> agr_max_delegation_depth p
     \<and> agr_delegation_depth g \<le> agr_max_delegation_depth g
     \<and> agr_can_delegate p \<and> GRANT_AUTHORITY \<in> agr_capabilities p
     \<and> (agr_tier g \<in> {STEWARD, OPERATOR} \<longrightarrow> \<not> blank (agr_public_accountability_label g))"

definition root_grant :: "authority_grant \<Rightarrow> bool" where
  "root_grant g \<longleftrightarrow> agr_issuer_authority_grant_id g = None \<and> agr_basis g = BOOTSTRAP_DESIGNATION
     \<and> agr_tier g = OPERATOR \<and> agr_delegation_depth g = 0 \<and> agr_max_delegation_depth g = 4"

text \<open>The uses of a grant stay within its cap, which is positive.\<close>

definition usage_ok :: "authority_grant \<Rightarrow> bool" where
  "usage_ok g \<longleftrightarrow> 0 \<le> agr_used_count g
     \<and> (case agr_usage_cap g of None \<Rightarrow> True | Some n \<Rightarrow> 1 \<le> n \<and> agr_used_count g \<le> n)"

definition grant_ok :: "(string, authority_grant) dict \<Rightarrow> authority_grant \<Rightarrow> bool" where
  "grant_ok d g \<longleftrightarrow> usage_ok g \<and> agr_issued_at g < agr_expires_at g \<and>
     (case agr_issuer_authority_grant_id g of
        None \<Rightarrow> root_grant g
      | Some i \<Rightarrow> (\<exists>p. dget d i = Some p \<and> attenuated p g))"

definition roots :: "(string, authority_grant) dict \<Rightarrow> string set" where
  "roots d = {i. \<exists>g. dget d i = Some g \<and> agr_issuer_authority_grant_id g = None}"

definition single_root :: "(string, authority_grant) dict \<Rightarrow> bool" where
  "single_root d \<longleftrightarrow> (\<forall>i j. i \<in> roots d \<longrightarrow> j \<in> roots d \<longrightarrow> i = j)"

definition delegations_ok :: "(string, authority_grant) dict \<Rightarrow> bool" where
  "delegations_ok d \<longleftrightarrow> (\<forall>i g. dget d i = Some g \<longrightarrow> grant_ok d g) \<and> single_root d"

section \<open>Changing a grant without changing its terms\<close>

text \<open>Use and revocation touch three fields; everything a delegation is bounded by stays.\<close>

definition same_terms :: "authority_grant \<Rightarrow> authority_grant \<Rightarrow> bool" where
  "same_terms g h \<longleftrightarrow> h = g\<lparr>agr_used_count := agr_used_count h, agr_revoked_at := agr_revoked_at h,
                           agr_revocation_reason := agr_revocation_reason h\<rparr>"

lemma same_terms_eqs:
  assumes "same_terms g h"
  shows "agr_authority_grant_id h = agr_authority_grant_id g"
    "agr_issuer_authority_grant_id h = agr_issuer_authority_grant_id g"
    "agr_capabilities h = agr_capabilities g" "agr_claim_types h = agr_claim_types g"
    "agr_method_classes h = agr_method_classes g" "agr_tier h = agr_tier g"
    "agr_basis h = agr_basis g" "agr_issued_at h = agr_issued_at g"
    "agr_expires_at h = agr_expires_at g" "agr_usage_cap h = agr_usage_cap g"
    "agr_can_delegate h = agr_can_delegate g" "agr_delegation_depth h = agr_delegation_depth g"
    "agr_max_delegation_depth h = agr_max_delegation_depth g"
    "agr_public_accountability_label h = agr_public_accountability_label g"
    "agr_holder_subject_id h = agr_holder_subject_id g"
  by (subst assms [unfolded same_terms_def], simp)+

lemma same_terms_attenuated:
  assumes "same_terms g h"
  shows "attenuated h x = attenuated g x" "attenuated x h = attenuated x g" "root_grant h = root_grant g"
  by (simp_all add: attenuated_def root_grant_def same_terms_eqs [OF assms])

lemma delegations_ok_update:
  assumes ok: "delegations_ok d" and old: "dget d i = Some g" and same: "same_terms g h" and usage: "usage_ok h"
  shows "delegations_ok (dput i h d)"
proof -
  have "grant_ok (dput i h d) x" if x: "dget (dput i h d) j = Some x" for j x
  proof -
    have "\<exists>y. dget d j = Some y \<and> same_terms y x \<and> usage_ok x"
      using x old same usage ok by (auto simp: dict same_terms_def delegations_ok_def grant_ok_def split: if_splits)
    then obtain y where "grant_ok d y" "same_terms y x" "usage_ok x"
      using ok by (auto simp: delegations_ok_def)
    then show ?thesis
      using old same by (auto simp: grant_ok_def same_terms_eqs same_terms_attenuated dict split: option.splits)
  qed
  moreover have "roots (dput i h d) = roots d"
    using old by (auto simp: roots_def dict same_terms_eqs [OF same])
  ultimately show ?thesis using ok by (simp add: delegations_ok_def single_root_def)
qed

text \<open>A new grant that its issuer bounds, under an identifier not in use.\<close>

lemma delegations_ok_insert:
  assumes ok: "delegations_ok d" and fresh: "dget d i = None" and parent: "dget d p = Some g"
    and h: "agr_issuer_authority_grant_id h = Some p" "attenuated g h" "usage_ok h"
      "agr_issued_at h < agr_expires_at h"
  shows "delegations_ok (dput i h d)"
proof -
  have "grant_ok (dput i h d) x" if x: "dget (dput i h d) j = Some x" for j x
  proof (cases "j = i")
    case True
    then show ?thesis using x h parent fresh by (auto simp: dict grant_ok_def)
  next
    case False
    then have "grant_ok d x" using x ok by (auto simp: dict delegations_ok_def)
    then show ?thesis using fresh by (auto simp: grant_ok_def dict split: option.splits)
  qed
  moreover have "roots (dput i h d) = roots d"
    using fresh h(1) by (auto simp: roots_def dict)
  ultimately show ?thesis using ok by (simp add: delegations_ok_def single_root_def)
qed

lemma usage_ok_revoked [simp]:
  "usage_ok (g\<lparr>agr_revoked_at := a, agr_revocation_reason := b\<rparr>) = usage_ok g"
  by (simp add: usage_ok_def split: option.split)

lemma same_terms_revoked:
  "same_terms g h \<Longrightarrow> same_terms h (g\<lparr>agr_revoked_at := a, agr_revocation_reason := b\<rparr>)"
  by (cases g; cases h) (simp add: same_terms_def)

lemma usable_once_more:
  "usage_ok g \<Longrightarrow> usable t c ct mc g \<Longrightarrow> usage_ok (g\<lparr>agr_used_count := agr_used_count g + 1\<rparr>)"
  by (auto simp: usage_ok_def usable_def cap_reached_def split: option.splits)

section \<open>Every call keeps the bounds\<close>

text \<open>The grants are well filed and bounded by their issuers.\<close>

definition authority_ok :: "core \<Rightarrow> bool" where
  "authority_ok s \<longleftrightarrow>
     store_ok agr_authority_grant_id ''agr'' (counters s) (authority_grants s) \<and> delegations_ok (authority_grants s)"

interpretation delegation: quiet e authority_ok for e
  by unfold_locales (simp_all add: authority_ok_def store_ok_bump)

lemma authority_ok_update:
  assumes "authority_ok s" "dget (authority_grants s) i = Some g" "same_terms g h" "usage_ok h"
  shows "authority_ok (s\<lparr>authority_grants := dput i h (authority_grants s)\<rparr>)"
  using assms by (simp add: authority_ok_def delegations_ok_update store_ok_replace same_terms_eqs)

lemma authority_ok_usage: "authority_ok s \<Longrightarrow> dget (authority_grants s) i = Some g \<Longrightarrow> usage_ok g"
  by (auto simp: authority_ok_def delegations_ok_def grant_ok_def)

lemma authority_ok_used:
  assumes "authority_ok s" "dget (authority_grants s) i = Some g" "usable t c ct mc g"
  shows "authority_ok (used i g s)"
  unfolding used_def using assms
  by (intro authority_ok_update) (auto simp: same_terms_def intro: usable_once_more authority_ok_usage)

lemma consume_authority_delegations: "keeps (consume_authority e i c ct mc) authority_ok"
  by (rule keepsI, intro vcg) (auto simp: delegation.tick_kept intro: authority_ok_used)

interpretation delegation: settled e authority_ok for e
  by unfold_locales
    (simp_all add: consume_authority_delegations delegation.recalculate_keeps authority_ok_def)

lemma authority_ok_files:
  assumes "authority_ok s" "authority_grants t = dput (next_id ''agr'' (counters s)) g (authority_grants s)"
    and "counter (counters t) ''agr'' = counter (counters s) ''agr'' + 1"
    and "agr_authority_grant_id g = next_id ''agr'' (counters s)"
    and "delegations_ok (dput (next_id ''agr'' (counters s)) g (authority_grants s))"
  shows "authority_ok t"
  using assms by (simp add: authority_ok_def store_ok_file)

lemma authority_ok_fresh: "authority_ok s \<Longrightarrow> dget (authority_grants s) (next_id ''agr'' (counters s)) = None"
  by (auto simp: authority_ok_def intro: store_ok_fresh)

lemma authority_ok_key: "authority_ok s \<Longrightarrow> dget (authority_grants s) i = Some g \<Longrightarrow> agr_authority_grant_id g = i"
  by (auto simp: authority_ok_def intro: store_ok_key)

lemmas store_ok_first = store_ok_file [where d = "[]", simplified]

lemma bootstrap_authority_delegations: "keeps (bootstrap_authority e x label ref v expires) authority_ok"
proof (rule keepsI)
  fix s assume ok: "authority_ok s"
  show "wp (bootstrap_authority e x label ref v expires) (\<lambda>_. authority_ok) (\<lambda>_. authority_ok) s"
    unfolding bootstrap_authority_def put_authority_grant_def
    by (intro vcg)
      (use ok in \<open>auto simp: authority_ok_def store_ok_bump delegations_ok_def grant_ok_def root_grant_def
         usage_ok_def single_root_def roots_def
         intro!: store_ok_first\<close>)
qed

text \<open>The last step of a delegation: the issuer was used, the new grant is filed.\<close>

lemma authority_ok_delegated:
  assumes ok: "authority_ok u" and parent: "dget (authority_grants u) p = Some g"
    and h: "agr_authority_grant_id h = next_id ''agr'' (counters u)"
      "agr_issuer_authority_grant_id h = Some (agr_authority_grant_id g)"
      "attenuated g h" "usage_ok h" "agr_issued_at h < agr_expires_at h"
  shows "authority_ok ((bump ''agr'' u)\<lparr>authority_grants :=
           dput (next_id ''agr'' (counters u)) h (authority_grants u)\<rparr>)"
proof (rule authority_ok_files [OF ok])
  show "delegations_ok (dput (next_id ''agr'' (counters u)) h (authority_grants u))"
    using assms authority_ok_fresh [OF ok] authority_ok_key [OF ok parent]
    by (intro delegations_ok_insert [OF _ _ parent]) (auto simp: authority_ok_def)
qed (use h in simp_all)

lemma used_simps [simp]:
  "authority_grants (used i g s) = dput i (g\<lparr>agr_used_count := agr_used_count g + 1\<rparr>) (authority_grants s)"
  "counters (used i g s) = counters s" "clock_reads (used i g s) = clock_reads s"
  "subjects (used i g s) = subjects s" "attestations (used i g s) = attestations s"
  by (simp_all add: used_def)

lemma grant_authority_delegations: "keeps (grant_authority e a) authority_ok"
proof (rule keepsI)
  fix s assume ok: "authority_ok s"
  have fits: "authority_ok ((bump ''agr'' (used i g s'))\<lparr>authority_grants :=
        dput (next_id ''agr'' c) h (dput i (g\<lparr>agr_used_count := agr_used_count g + 1\<rparr>) d)\<rparr>)"
    if "authority_ok s'" "usable t x ct mc g" "c = counters s'" "d = authority_grants s'"
      "dget d i = Some g" "agr_authority_grant_id h = next_id ''agr'' c"
      "agr_issuer_authority_grant_id h = Some (agr_authority_grant_id g)"
      "attenuated g h" "usage_ok h" "agr_issued_at h < agr_expires_at h" for i g s' t x ct mc h c d
    using authority_ok_delegated [OF authority_ok_used [OF that(1), of i g t x ct mc], of i _ h] that
    by (simp add: dict attenuated_def)
  show "wp (grant_authority e a) (\<lambda>_. authority_ok) (\<lambda>_. authority_ok) s"
    unfolding grant_authority_def put_authority_grant_def
    by (intro vcg)
      (simp_all add: ok delegation.tick_kept delegation.bump_kept delegation.published_kept authority_ok_used,
       auto simp: ok usable_def attenuated_def usage_ok_def below_one_def less_eq_authority_tier_def delegation.tick_kept
         intro!: fits delegation.published_kept delegation.tick_kept split: option.splits)
qed

lemma revoke_one_delegations: "keeps (revoke_one t reason i) authority_ok"
  unfolding revoke_one_def put_authority_grant_def
  by (rule keepsI, intro vcg)
    (auto simp: same_terms_def intro!: authority_ok_update dest: authority_ok_usage)

text \<open>
  The loop over the grants a subject holds walks over a copy of the dictionary, so it may write back
  the terms of a grant as they were, but each grant at most once and never a use count of later.
\<close>

lemma revoke_held_delegations:
  assumes kept: "keeps (f ()) authority_ok"
  shows "keeps (bind (gets authority_grants) (\<lambda>held. bind (for_each (revoke_if_held e x reason) held) f)) authority_ok"
proof (rule keepsI)
  fix s assume ok: "authority_ok s"
  let ?I = "\<lambda>t. authority_ok t \<and> (\<forall>i g. dget (authority_grants s) i = Some g
              \<longrightarrow> (\<exists>h. dget (authority_grants t) i = Some h \<and> same_terms g h))"
  have "wp (for_each (revoke_if_held e x reason) (authority_grants s)) (\<lambda>_. ?I) (\<lambda>_. ?I) s"
  proof (rule wp_for_each)
    show "?I s" using ok by (simp add: same_terms_def)
    fix kg t assume kg: "kg \<in> set (authority_grants s)" and I: "?I t"
    obtain i g where eq: "kg = (i, g)" by (cases kg)
    have g: "dget (authority_grants s) i = Some g"
      using kg eq ok by (auto simp: authority_ok_def dest: store_ok_distinct)
    then obtain h where h: "dget (authority_grants t) i = Some h" "same_terms g h" using I by blast
    let ?g' = "\<lambda>u. g\<lparr>agr_revoked_at := Some u, agr_revocation_reason := Some reason\<rparr>"
    have terms: "same_terms h (?g' u)" "same_terms g (?g' u)" "usage_ok (?g' u)" for u
      using h(2) authority_ok_usage [OF ok g] by (simp_all add: same_terms_revoked) (simp add: same_terms_def)
    have J: "?I (tick t)" using I by (simp add: delegation.tick_kept)
    then have "?I (tick t\<lparr>authority_grants := dput i (?g' u) (authority_grants (tick t))\<rparr>)" for u
      using h terms g authority_ok_update [of "tick t" i h "?g' u"] by (auto simp: dict)
    then show "wp (revoke_if_held e x reason kg) (\<lambda>_. ?I) (\<lambda>_. ?I) t"
      using I J unfolding eq revoke_if_held_def put_authority_grant_def by (intro vcg) simp_all
  qed
  then show "wp (bind (gets authority_grants) (\<lambda>held. bind (for_each (revoke_if_held e x reason) held) f))
      (\<lambda>_. authority_ok) (\<lambda>_. authority_ok) s"
    by (intro vcg) (auto intro: wp_mono wp_keeps [OF kept])
qed

lemma invalidate_subject_delegations: "keeps (invalidate_subject_state e x reason) authority_ok"
  unfolding invalidate_subject_state_def
  by (intro revoke_held_delegations keeps) (simp add: authority_ok_def)

lemma delegations_exec: "keeps (exec e c) authority_ok"
  by (cases c)
    (simp_all add: authority_ok_def delegation.operations_keep bootstrap_authority_delegations
       grant_authority_delegations revoke_one_delegations invalidate_subject_delegations)

lemma delegations_reachable: "reachable e s \<Longrightarrow> authority_ok s"
  by (erule reachable_invariant)
    (simp_all add: delegations_exec, simp_all add: authority_ok_def new_core_def delegations_ok_def single_root_def roots_def)

section \<open>Chains of delegation\<close>

text \<open>\<open>a\<close> is \<open>g\<close> or issued it, directly or through other grants.\<close>

inductive descends :: "(string, authority_grant) dict \<Rightarrow> string \<Rightarrow> string \<Rightarrow> bool" for d where
  itself: "dget d i = Some g \<Longrightarrow> descends d i i"
| issued_by: "dget d i = Some g \<Longrightarrow> agr_issuer_authority_grant_id g = Some p \<Longrightarrow> descends d p a \<Longrightarrow> descends d i a"

inductive_cases descends_cases: "descends d i a"

definition within :: "authority_grant \<Rightarrow> authority_grant \<Rightarrow> bool" where
  "within p g \<longleftrightarrow>
     agr_capabilities g \<subseteq> agr_capabilities p
     \<and> scope_subset (agr_claim_types g) (agr_claim_types p)
     \<and> scope_subset (agr_method_classes g) (agr_method_classes p)
     \<and> agr_tier g \<le> agr_tier p \<and> agr_expires_at g \<le> agr_expires_at p
     \<and> agr_delegation_depth p \<le> agr_delegation_depth g
     \<and> agr_max_delegation_depth g \<le> agr_max_delegation_depth p"

lemma scope_subset_refl [simp]: "scope_subset a a"
  by (simp add: scope_subset_def)

lemma scope_subset_trans: "scope_subset a b \<Longrightarrow> scope_subset b c \<Longrightarrow> scope_subset a c"
  by (auto simp: scope_subset_def)

lemma within_refl [simp]: "within g g"
  by (simp add: within_def)

lemma within_trans: "within a b \<Longrightarrow> within b c \<Longrightarrow> within a c"
  unfolding within_def by (auto intro: scope_subset_trans order_trans)

lemma attenuated_within: "attenuated p g \<Longrightarrow> within p g"
  by (simp add: attenuated_def within_def)

lemma descends_within:
  assumes "descends d i a" "delegations_ok d" "dget d i = Some g" "dget d a = Some p"
  shows "within p g"
  using assms
proof (induction arbitrary: g rule: descends.induct)
  case (itself i)
  then show ?case by simp
next
  case (issued_by i g' q a)
  then have "grant_ok d g'" by (simp add: delegations_ok_def)
  with issued_by.hyps obtain m where "dget d q = Some m" "attenuated m g'" by (auto simp: grant_ok_def)
  with issued_by show ?case by (auto dest: attenuated_within intro: within_trans)
qed

text \<open>Every chain ends in the one root, after at most four steps.\<close>

lemma grant_depth:
  assumes ok: "delegations_ok d" and g: "dget d i = Some g"
  shows "0 \<le> agr_delegation_depth g \<and> agr_delegation_depth g \<le> agr_max_delegation_depth g
    \<and> agr_max_delegation_depth g \<le> 4 \<and> (\<exists>r p. descends d i r \<and> dget d r = Some p \<and> root_grant p)"
proof -
  define m where "m = Min (agr_delegation_depth ` set (dvals d))"
  have low: "m \<le> agr_delegation_depth h" if "dget d j = Some h" for j h
    unfolding m_def using that by (intro Min_le) (auto dest: dget_in_dvals simp del: set_map)
  from g show ?thesis
  proof (induction "nat (agr_delegation_depth g - m)" arbitrary: i g rule: less_induct)
    case less
    then have valid: "grant_ok d g" using ok by (simp add: delegations_ok_def)
    show ?case
    proof (cases "agr_issuer_authority_grant_id g")
      case None
      with valid have "root_grant g" by (simp add: grant_ok_def)
      with less.prems show ?thesis by (auto simp: root_grant_def intro: descends.itself)
    next
      case (Some q)
      with valid obtain p where p: "dget d q = Some p" "attenuated p g" by (auto simp: grant_ok_def)
      then have "nat (agr_delegation_depth p - m) < nat (agr_delegation_depth g - m)"
        using low [OF p(1)] by (simp add: attenuated_def)
      from less.hyps [OF this p(1)] show ?thesis
        using p(2) Some less.prems by (auto simp: attenuated_def intro: descends.issued_by)
    qed
  qed
qed

end
