(* ===== verification/Revocation.thy ===== *)
theory Revocation
  imports Delegation
begin

text \<open>
  Revoking authority takes back a grant with everything issued under it, directly or through
  other grants, and withdraws the attestations made under any of them.
\<close>

section \<open>The closure loop\<close>

text \<open>
  How often the loop turns: once for every grant that a pass adds, at most, and once more to see that
  nothing changes.
\<close>

lemma closure_passes:
  "\<exists>n \<le> card (set (map agr_authority_grant_id gs) - ids).
     revocation_pass gs (((\<lambda>S. fst (revocation_pass gs S False)) ^^ n) ids) False = (revocation_closure gs ids, False)"
proof (induction gs ids rule: revocation_closure.induct)
  case (1 gs ids)
  let ?K = "set (map agr_authority_grant_id gs)"
  obtain ids' changed where pass: "revocation_pass gs ids False = (ids', changed)" by force
  show ?case
  proof (cases changed)
    case False
    with pass show ?thesis by (subst revocation_closure.simps) (auto intro!: exI [of _ 0])
  next
    case True
    with pass have closure: "revocation_closure gs ids = revocation_closure gs ids'" by (subst revocation_closure.simps) simp
    from "1.IH" [OF pass [symmetric] True] obtain n where n: "n \<le> card (?K - ids')"
      "revocation_pass gs (((\<lambda>S. fst (revocation_pass gs S False)) ^^ n) ids') False = (revocation_closure gs ids', False)" by blast
    from pass True obtain i where "i \<in> ?K" "i \<notin> ids" "i \<in> ids'" using revocation_pass_changed [of gs ids] by auto
    moreover have "ids \<subseteq> ids'" using revocation_pass_grows [of ids gs False] pass by simp
    ultimately have "?K - ids' \<subset> ?K - ids" by auto
    then have "card (?K - ids') < card (?K - ids)" by (intro psubset_card_mono) auto
    with n closure pass show ?thesis by (intro exI [of _ "Suc n"]) (simp del: funpow.simps add: funpow_Suc_right)
  qed
qed


definition closed_under_issue :: "authority_grant list \<Rightarrow> string set \<Rightarrow> bool" where
  "closed_under_issue gs ids \<longleftrightarrow>
     (\<forall>g \<in> set gs. case agr_issuer_authority_grant_id g of None \<Rightarrow> True
                   | Some i \<Rightarrow> i \<in> ids \<longrightarrow> agr_authority_grant_id g \<in> ids)"

lemma revocation_pass_within:
  "closed_under_issue gs S \<Longrightarrow> ids \<subseteq> S \<Longrightarrow> fst (revocation_pass gs ids ch) \<subseteq> S"
proof (induction gs ids ch rule: revocation_pass.induct)
  case (2 g gs ids ch)
  then show ?case by (auto simp: closed_under_issue_def split: option.splits)
qed simp

lemma revocation_pass_unchanged:
  "\<not> snd (revocation_pass gs ids False) \<Longrightarrow> fst (revocation_pass gs ids False) = ids \<and> closed_under_issue gs ids"
proof (induction gs arbitrary: ids)
  case Nil
  then show ?case by (simp add: closed_under_issue_def)
next
  case (Cons g gs)
  then show ?case
    using revocation_pass_kept_flag [of gs] by (auto simp: closed_under_issue_def split: if_splits option.splits)
qed

lemma revocation_closure_least:
  "ids \<subseteq> revocation_closure gs ids \<and> closed_under_issue gs (revocation_closure gs ids)
   \<and> (\<forall>S. ids \<subseteq> S \<longrightarrow> closed_under_issue gs S \<longrightarrow> revocation_closure gs ids \<subseteq> S)"
proof (induction gs ids rule: revocation_closure.induct)
  case (1 gs ids)
  obtain ids' changed where pass: "revocation_pass gs ids False = (ids', changed)" by force
  have grows: "ids \<subseteq> ids'" using revocation_pass_grows [of ids gs False] pass by simp
  have within: "ids' \<subseteq> S" if "ids \<subseteq> S" "closed_under_issue gs S" for S
    using revocation_pass_within [OF that(2,1), of False] pass by simp
  show ?case
  proof (cases changed)
    case True
    then have "revocation_closure gs ids = revocation_closure gs ids'"
      by (subst revocation_closure.simps) (simp add: pass)
    with 1 [OF pass [symmetric] True] grows within show ?thesis by auto
  next
    case False
    then have "revocation_closure gs ids = ids'"
      by (subst revocation_closure.simps) (simp add: pass)
    with revocation_pass_unchanged [of gs ids] pass False show ?thesis by auto
  qed
qed

text \<open>In a well-filed dictionary, the closure of one grant is the set of grants that descend from it.\<close>

lemma closure_is_descendants:
  assumes store: "store_ok agr_authority_grant_id p c d" and i: "dget d i = Some g"
  shows "revocation_closure (dvals d) {i} = {k. descends d k i}"
proof
  let ?C = "revocation_closure (dvals d) {i}"
  have "closed_under_issue (dvals d) {k. descends d k i}"
    unfolding closed_under_issue_def
  proof
    fix h assume "h \<in> set (dvals d)"
    then have "dget d (agr_authority_grant_id h) = Some h" by (rule store_ok_value [OF store])
    then show "case agr_issuer_authority_grant_id h of None \<Rightarrow> True
        | Some q \<Rightarrow> q \<in> {k. descends d k i} \<longrightarrow> agr_authority_grant_id h \<in> {k. descends d k i}"
      by (auto split: option.split intro: descends.issued_by)
  qed
  moreover have "{i} \<subseteq> {k. descends d k i}" using i by (auto intro: descends.itself)
  ultimately show "?C \<subseteq> {k. descends d k i}" using revocation_closure_least [of "{i}" "dvals d"] by blast
  have "k \<in> ?C" if "descends d k j" "j = i" for k j
    using that
  proof (induction rule: descends.induct)
    case (itself k)
    then show ?case using revocation_closure_least [of "{i}" "dvals d"] by auto
  next
    case (issued_by k h q j)
    then have "q \<in> ?C" by simp
    moreover have "agr_authority_grant_id h = k" using issued_by store by (auto intro: store_ok_key)
    moreover have "h \<in> set (dvals d)" using issued_by.hyps(1) by (rule dget_in_dvals)
    moreover have "closed_under_issue (dvals d) ?C" using revocation_closure_least by blast
    ultimately show ?case using issued_by.hyps(2) by (force simp: closed_under_issue_def split: option.splits)
  qed
  then show "{k. descends d k i} \<subseteq> ?C" by auto
qed

lemma closure_finite: "finite (revocation_closure gs {i})"
proof -
  have "closed_under_issue gs (insert i (set (map agr_authority_grant_id gs)))"
    by (auto simp: closed_under_issue_def split: option.split)
  then have "revocation_closure gs {i} \<subseteq> insert i (set (map agr_authority_grant_id gs))"
    using revocation_closure_least [of "{i}" gs] by auto
  then show ?thesis by (rule finite_subset) simp
qed

section \<open>The effect of a revocation\<close>

definition revoked :: "time \<Rightarrow> string \<Rightarrow> authority_grant \<Rightarrow> authority_grant" where
  "revoked t reason g = g\<lparr>agr_revoked_at := Some t, agr_revocation_reason := Some reason\<rparr>"

lemma revoke_all_runs:
  assumes "distinct (dkeys (authority_grants s))" "distinct ks" "\<forall>k \<in> set ks. dget (authority_grants s) k \<noteq> None"
    and "set ks \<inter> K = {}"
  shows "collect (revoke_one t reason) ks (s\<lparr>authority_grants := dmark K (revoked t reason) (authority_grants s)\<rparr>)
    = (Inr (map (\<lambda>k. revoked t reason (the (dget (authority_grants s) k))) ks),
       s\<lparr>authority_grants := dmark (K \<union> set ks) (revoked t reason) (authority_grants s)\<rparr>)"
  using assms
proof (induction ks arbitrary: K)
  case Nil
  then show ?case by (simp add: ret_def)
next
  case (Cons k ks)
  then obtain g where g: "dget (authority_grants s) k = Some g" by auto
  have one: "revoke_one t reason k (s\<lparr>authority_grants := dmark K (revoked t reason) (authority_grants s)\<rparr>)
    = (Inr (revoked t reason g), s\<lparr>authority_grants := dmark (insert k K) (revoked t reason) (authority_grants s)\<rparr>)"
    using Cons.prems g dput_dmark [OF Cons.prems(1) g, of "revoked t reason" K]
    by (simp add: revoke_one_def put_authority_grant_def run Let_def dict revoked_def fetch_def)
  show ?case
    using Cons.IH [of "insert k K"] Cons.prems g one
    by (simp add: bind_def ret_def)
qed

lemma wp_revoke_all:
  assumes "distinct (dkeys (authority_grants s))" "distinct ks" "\<forall>k \<in> set ks. dget (authority_grants s) k \<noteq> None"
    and "Q (map (\<lambda>k. revoked t reason (the (dget (authority_grants s) k))) ks)
           (s\<lparr>authority_grants := dmark (set ks) (revoked t reason) (authority_grants s)\<rparr>)"
  shows "wp (collect (revoke_one t reason) ks) Q E s"
  using revoke_all_runs [OF assms(1-3), of "{}" t reason] assms(4) by (simp add: wp_def)

text \<open>Using a grant changes no chain of delegation.\<close>

lemma descends_update:
  assumes old: "dget d j = Some g" and same: "agr_issuer_authority_grant_id h = agr_issuer_authority_grant_id g"
  shows "descends (dput j h d) k i = descends d k i"
proof
  show "descends d k i" if "descends (dput j h d) k i"
    using that
  proof (induction rule: descends.induct)
    case (itself k x)
    then show ?case using old by (auto simp: dict intro: descends.itself split: if_splits)
  next
    case (issued_by k x p a)
    then have "\<exists>y. dget d k = Some y \<and> agr_issuer_authority_grant_id y = Some p"
      using old same by (auto simp: dict split: if_splits)
    with issued_by show ?case by (auto intro: descends.issued_by)
  qed
  show "descends (dput j h d) k i" if "descends d k i"
    using that
  proof (induction rule: descends.induct)
    case (itself k x)
    then have "dget (dput j h d) k \<noteq> None" by (simp add: dict)
    then show ?case by (auto intro: descends.itself)
  next
    case (issued_by k x p a)
    then have "\<exists>y. dget (dput j h d) k = Some y \<and> agr_issuer_authority_grant_id y = Some p"
      using old same by (auto simp: dict)
    with issued_by show ?case by (auto intro: descends.issued_by)
  qed
qed

lemma descends_known: "descends d k i \<Longrightarrow> dget d k \<noteq> None"
  by (induction rule: descends.induct) auto

interpretation grants_and_attestations: observation "\<lambda>s. (authority_grants s, attestations s)"
  by unfold_locales simp_all

lemma recalculate_all_unseen:
  "keeps (recalculate_all e ids) (\<lambda>s. (authority_grants s, attestations s) = x)"
  by (intro grants_and_attestations.observed.recalculate_all_keeps
      grants_and_attestations.observed.recalculate_keeps) simp_all

text \<open>What a successful revocation did, as a predicate on the states before and after it.\<close>

definition revocation_effect :: "string \<Rightarrow> string \<Rightarrow> string \<Rightarrow> core \<Rightarrow> core \<Rightarrow> bool" where
  "revocation_effect actor i reason s t \<longleftrightarrow>
     (\<exists>a g u.
        dget (authority_grants s) actor = Some a \<and> dget (authority_grants s) i = Some g
        \<and> agr_revoked_at a = None \<and> REVOKE_AUTHORITY \<in> agr_capabilities a \<and> agr_revoked_at g = None
        \<and> (agr_issuer_authority_grant_id g = Some actor \<or> agr_tier g < agr_tier a)
        \<and> authority_grants t = dmark {k. descends (authority_grants s) k i} (revoked u reason)
             (dput actor (a\<lparr>agr_used_count := agr_used_count a + 1\<rparr>) (authority_grants s))
        \<and> attestations t = dreplace (rests_on {k. descends (authority_grants s) k i}) (invalidate reason)
             (attestations s))"

lemma wp_revoke_authority:
  assumes ok: "authority_ok s"
  shows "wp (revoke_authority e actor i reason) (\<lambda>_. revocation_effect actor i reason s) anyerr s"
  unfolding revoke_authority_def
  apply (intro vcg)
  apply simp_all
  subgoal premises p for a t g u
  proof -
    let ?d = "dput actor (a\<lparr>agr_used_count := agr_used_count a + 1\<rparr>) (authority_grants s)"
    let ?s = "tick (used actor a (tick s))"
    let ?C = "revocation_closure (dvals ?d) {i}" and ?K = "{k. descends (authority_grants s) k i}"
    have a: "dget (authority_grants s) actor = Some a" using p by simp
    have "authority_ok (used actor a s)" using ok a p(3) by (rule authority_ok_used)
    then have store: "store_ok agr_authority_grant_id ''agr'' (counters s) ?d" by (simp add: authority_ok_def)
    have C: "?C = ?K"
      using closure_is_descendants [OF store p(4)] descends_update [OF a] by simp
    have fin: "finite ?C" by (rule closure_finite)
    have known: "\<forall>k \<in> ?C. dget ?d k \<noteq> None"
      unfolding C using descends_known by (auto simp: dict)
    obtain g0 where g0: "dget (authority_grants s) i = Some g0" "agr_revoked_at g0 = agr_revoked_at g"
        "agr_tier g0 = agr_tier g" "agr_issuer_authority_grant_id g0 = agr_issuer_authority_grant_id g"
      using p(4) a by (auto simp: dict split: if_splits)
    have actor: "agr_authority_grant_id a = actor" using ok a by (rule authority_ok_key)
    have wanted: "revocation_effect actor i reason s t'"
      if "(authority_grants t', attestations t') = (dmark ?C (revoked u reason) ?d,
            dreplace (rests_on ?C) (invalidate reason) (attestations s))" for t'
      using that a g0 p(3,5,6) actor unfolding revocation_effect_def C
      by (auto simp: usable_def less_authority_tier_def)
    show ?thesis
      apply (rule wp_revoke_all)
      using store apply (simp_all add: store_ok_distinct fin known invalidate_under_def)
      apply (intro vcg wp_keeps [OF recalculate_all_unseen], simp)
      apply (simp_all add: wanted)
      done
  qed
  done

end
