(* ===== verification/ReviewCycle.thy ===== *)
theory ReviewCycle
  imports Revocation
begin

text \<open>
  The life of audits, challenges and appeals: an attestation is audited at most once, an audit is
  decided at most once, and a challenge only moves along the edges of its state machine.
\<close>

section \<open>Audits\<close>

definition audits_ok :: "(string, audit) dict \<Rightarrow> bool" where
  "audits_ok d \<longleftrightarrow>
     (\<forall>i x. dget d i = Some x \<longrightarrow> (aud_state x = AUDIT_PENDING \<longleftrightarrow> aud_decided_at x = None))
     \<and> (\<forall>i j x y. dget d i = Some x \<longrightarrow> dget d j = Some y
          \<longrightarrow> aud_attestation_id x = aud_attestation_id y \<longrightarrow> i = j)"

lemma audits_ok_insert:
  assumes "audits_ok d" "\<not> list_ex (\<lambda>y. aud_attestation_id y = aud_attestation_id x) (dvals d)"
    and "aud_state x = AUDIT_PENDING \<longleftrightarrow> aud_decided_at x = None"
  shows "audits_ok (dput i x d)"
proof -
  have "aud_attestation_id y \<noteq> aud_attestation_id x" if "dget d j = Some y" for j y
    using assms(2) dget_in_dvals [OF that] by (auto simp: list_ex_iff)
  with assms(1,3) show ?thesis unfolding audits_ok_def by (simp add: dict) metis
qed

lemma audits_ok_decide:
  assumes "audits_ok d" "dget d i = Some x" "aud_attestation_id y = aud_attestation_id x"
    and "aud_state y = AUDIT_PENDING \<longleftrightarrow> aud_decided_at y = None"
  shows "audits_ok (dput i y d)"
  using assms unfolding audits_ok_def by (simp add: dict) metis

interpretation auditing: observation audits
  by unfold_locales simp_all

interpretation auditing: quiet e "\<lambda>s. P (audits s)" for e P
  by unfold_locales simp_all

interpretation auditing: settled e "\<lambda>s. P (audits s)" for e P
  by unfold_locales (simp_all add: auditing.consume_authority_keeps auditing.recalculate_keeps)

lemma select_audit_ok: "keeps (select_audit e a basis seed actor) (\<lambda>s. audits_ok (audits s))"
  by (rule keepsI, unfold select_audit_def, intro vcg auditing.authorize_wp [where P = audits_ok])
    (auto intro!: audits_ok_insert)

lemma decide_audit_ok: "keeps (decide_audit e i ok actor) (\<lambda>s. audits_ok (audits s))"
  by (rule keepsI, unfold decide_audit_def put_attestation_def,
      intro vcg auditing.authorize_wp [where P = audits_ok] auditing.recalculate_wp [where P = audits_ok])
    (auto intro!: audits_ok_decide)

lemma audits_exec: "keeps (exec e c) (\<lambda>s. audits_ok (audits s))"
  by (cases c) (simp_all add: auditing.operations_keep select_audit_ok decide_audit_ok)

lemma audits_reachable: "reachable e s \<Longrightarrow> audits_ok (audits s)"
  by (erule reachable_invariant) (simp_all add: audits_exec, simp add: new_core_def audits_ok_def)

text \<open>A decided audit stays as it was decided, whatever is called.\<close>

definition audit_fixed :: "string \<Rightarrow> audit \<Rightarrow> core \<Rightarrow> bool" where
  "audit_fixed i x s \<longleftrightarrow> kept aud_audit_id ''aud'' audits s \<and> dget (audits s) i = Some x"

lemma audit_fixed_eq: "audit_fixed i x = (\<lambda>s. kept aud_audit_id ''aud'' audits s \<and> dget (audits s) i = Some x)"
  by (simp add: audit_fixed_def fun_eq_iff)

interpretation audit_fixing: settled e "audit_fixed i x" for e i x
proof
  show "keeps (consume_authority e j c ct mc) (audit_fixed i x)" for j c ct mc
    unfolding audit_fixed_eq
    by (intro keeps_conj audit_store.consume_kept auditing.consume_kept [where P = "\<lambda>d. dget d i = Some x"])
  show "keeps (recalculate e r) (audit_fixed i x)" for r
    unfolding audit_fixed_eq
    by (intro keeps_conj audit_store.recalculate_kept auditing.recalculate_kept [where P = "\<lambda>d. dget d i = Some x"])
qed (simp_all add: audit_fixed_def kept_def store_ok_bump)

lemma audit_fixed_exec:
  assumes "aud_state x \<noteq> AUDIT_PENDING"
  shows "keeps (exec e c) (audit_fixed i x)"
proof -
  have select: "keeps (select_audit e a basis seed actor) (audit_fixed i x)" for a basis seed actor
    by (rule keepsI, unfold select_audit_def, intro vcg audit_fixing.authorize_wp)
      (auto simp: audit_fixed_def kept_def dict store_ok_insert store_ok_bump dest: store_ok_fresh)
  have decide: "keeps (decide_audit e j ok actor) (audit_fixed i x)" for j ok actor
    using assms
    by (intro keepsI, unfold decide_audit_def put_attestation_def,
        intro vcg audit_fixing.authorize_wp audit_fixing.recalculate_wp)
      (auto simp: audit_fixed_def kept_def dict intro: store_ok_replace)
  show ?thesis
    by (cases c) (simp_all add: select decide, simp_all add: audit_fixed_def kept_def audit_fixing.operations_keep)
qed

section \<open>Challenges\<close>

text \<open>The edges of the state machine, with what each writes.\<close>

inductive challenge_step :: "challenge \<Rightarrow> challenge \<Rightarrow> bool" where
  responded: "chg_state c = OPEN
    \<Longrightarrow> challenge_step c (c\<lparr>chg_state := RESPONDED, chg_response_code := Some r\<rparr>)"
| decided: "chg_state c = OPEN \<or> chg_state c = RESPONDED
    \<Longrightarrow> challenge_step c (c\<lparr>chg_state := DECIDED, chg_decision := Some d, chg_decided_at := Some t\<rparr>)"
| appealed: "chg_state c = DECIDED
    \<Longrightarrow> challenge_step c (c\<lparr>chg_state := APPEALED, chg_appeal_reason_code := Some r\<rparr>)"
| closed: "chg_state c = APPEALED
    \<Longrightarrow> challenge_step c (c\<lparr>chg_state := CLOSED, chg_appeal_decision := Some a, chg_decided_at := Some t\<rparr>)"

inductive_cases challenge_step_cases: "challenge_step c c'"

fun challenge_rank :: "challenge_state \<Rightarrow> nat" where
  "challenge_rank OPEN = 0"
| "challenge_rank RESPONDED = 1"
| "challenge_rank DECIDED = 2"
| "challenge_rank APPEALED = 3"
| "challenge_rank CLOSED = 4"

lemma challenge_step_rank: "challenge_step c c' \<Longrightarrow> challenge_rank (chg_state c) < challenge_rank (chg_state c')"
  by (erule challenge_step_cases) auto

lemma challenge_step_subject:
  "challenge_step c c' \<Longrightarrow> chg_challenge_id c' = chg_challenge_id c
     \<and> chg_attestation_id c' = chg_attestation_id c \<and> chg_opened_at c' = chg_opened_at c
     \<and> chg_challenger_subject_id c' = chg_challenger_subject_id c"
  by (erule challenge_step_cases) auto

text \<open>What the state of a challenge says about its other fields.\<close>

definition challenge_ok :: "challenge \<Rightarrow> bool" where
  "challenge_ok c \<longleftrightarrow>
     (chg_decision c = None \<longleftrightarrow> chg_state c = OPEN \<or> chg_state c = RESPONDED)
     \<and> (chg_decided_at c = None \<longleftrightarrow> chg_state c = OPEN \<or> chg_state c = RESPONDED)
     \<and> (chg_appeal_reason_code c = None \<longleftrightarrow> chg_state c \<noteq> APPEALED \<and> chg_state c \<noteq> CLOSED)
     \<and> (chg_appeal_decision c = None \<longleftrightarrow> chg_state c \<noteq> CLOSED)
     \<and> (chg_state c = OPEN \<longrightarrow> chg_response_code c = None)
     \<and> (chg_state c = RESPONDED \<longrightarrow> chg_response_code c \<noteq> None)"

lemma challenge_step_ok: "challenge_step c c' \<Longrightarrow> challenge_ok c \<Longrightarrow> challenge_ok c'"
  by (erule challenge_step_cases) (auto simp: challenge_ok_def)

interpretation challenging: quiet e "\<lambda>s. P (challenges s)" for e P
  by unfold_locales simp_all

interpretation challenging: settled e "\<lambda>s. P (challenges s)" for e P
  by unfold_locales (simp_all add: challenging.consume_authority_keeps challenging.recalculate_keeps)

text \<open>A call moves a challenge along at most one edge.\<close>

definition moved :: "string \<Rightarrow> challenge \<Rightarrow> (string, challenge) dict \<Rightarrow> bool" where
  "moved i c d \<longleftrightarrow> (\<exists>c'. dget d i = Some c' \<and> (c' = c \<or> challenge_step c c'))"

lemma moved_unchanged: "dget d i = Some c \<Longrightarrow> moved i c d"
  by (simp add: moved_def)

lemma moved_step:
  assumes "dget d i = Some c" "dget d j = Some c0" "challenge_step c0 c1"
  shows "moved i c (dput j c1 d)"
  using assms by (auto simp: moved_def dict)

text \<open>For the calls that write challenges, from a state that has the challenge.\<close>

lemma challenge_writers:
  assumes c: "dget (challenges s) i = Some c"
  shows
    "wp (respond_to_challenge e j code) (\<lambda>_ t. moved i c (challenges t)) (\<lambda>_ t. moved i c (challenges t)) s"
    "wp (decide_challenge e j d actor) (\<lambda>_ t. moved i c (challenges t)) (\<lambda>_ t. moved i c (challenges t)) s"
    "wp (appeal_challenge e j reason) (\<lambda>_ t. moved i c (challenges t)) (\<lambda>_ t. moved i c (challenges t)) s"
    "wp (decide_appeal e j a actor) (\<lambda>_ t. moved i c (challenges t)) (\<lambda>_ t. moved i c (challenges t)) s"
proof -
  note rules = vcg challenging.recalculate_wp [where P = "moved i c"]
    challenging.authorize_wp [where P = "\<lambda>d. dget d i = Some c"]
  note defs = put_challenge_def put_attestation_def may_restore_def
  note steps = moved_step challenge_step.intros moved_unchanged
  show "wp (respond_to_challenge e j code) (\<lambda>_ t. moved i c (challenges t)) (\<lambda>_ t. moved i c (challenges t)) s"
    unfolding respond_to_challenge_def defs by (intro rules) (use c in \<open>auto intro: steps\<close>)
  show "wp (decide_challenge e j d actor) (\<lambda>_ t. moved i c (challenges t)) (\<lambda>_ t. moved i c (challenges t)) s"
    unfolding decide_challenge_def defs by (intro rules) (use c in \<open>auto intro: steps\<close>)
  show "wp (appeal_challenge e j reason) (\<lambda>_ t. moved i c (challenges t)) (\<lambda>_ t. moved i c (challenges t)) s"
    unfolding appeal_challenge_def defs by (intro rules) (use c in \<open>auto intro: steps\<close>)
  show "wp (decide_appeal e j a actor) (\<lambda>_ t. moved i c (challenges t)) (\<lambda>_ t. moved i c (challenges t)) s"
    unfolding decide_appeal_def defs by (intro rules) (use c in \<open>auto intro: steps\<close>)
qed

lemma open_challenge_moves:
  assumes "dget (challenges s) i = Some c" "kept chg_challenge_id ''chg'' challenges s"
  shows "wp (open_challenge e a reason who) (\<lambda>_ t. moved i c (challenges t)) (\<lambda>_ t. moved i c (challenges t)) s"
  unfolding open_challenge_def put_challenge_def
  by (intro vcg) (use assms in \<open>auto simp: moved_def dict kept_def dest: store_ok_fresh\<close>)

lemma wp_call: "wp (call m) (\<lambda>_. I) E = wp m (\<lambda>_. I) E"
  by (simp add: call_def wp)

lemma keeps_snd:
  assumes "keeps m (\<lambda>s. P (challenges s))" "P (challenges s)" "\<And>d. P d \<Longrightarrow> Q d"
  shows "wp m (\<lambda>_ t. Q (challenges t)) (\<lambda>_ t. Q (challenges t)) s"
  using assms by (auto intro: wp_keeps)

lemma challenge_call:
  assumes c: "dget (challenges s) i = Some c" and "kept chg_challenge_id ''chg'' challenges s"
  shows "wp (exec e cmd) (\<lambda>_ t. moved i c (challenges t)) (\<lambda>_ t. moved i c (challenges t)) s"
proof (cases "\<exists>j x y. cmd = Respond_To_Challenge j x \<or> cmd = Appeal_Challenge j x
    \<or> (\<exists>d. cmd = Decide_Challenge j d y) \<or> (\<exists>a. cmd = Decide_Appeal j a y) \<or> cmd = Open_Challenge j x y")
  case True
  with assms show ?thesis by (auto simp: wp_call challenge_writers open_challenge_moves)
next
  case False
  have "keeps (exec e cmd) (\<lambda>s. dget (challenges s) i = Some c)"
    using False by (cases cmd) (simp_all add: challenging.operations_keep [where P = "\<lambda>d. dget d i = Some c"])
  then show ?thesis by (rule wp_keeps) (simp_all add: c moved_unchanged)
qed

text \<open>So every challenge of a reachable state carries what its state says.\<close>

lemma challenges_exec: "keeps (exec e cmd) (\<lambda>s. \<forall>i c. dget (challenges s) i = Some c \<longrightarrow> challenge_ok c)"
proof -
  let ?P = "\<lambda>d. \<forall>i c. dget d i = Some c \<longrightarrow> challenge_ok c"
  note rules = vcg challenging.recalculate_wp [where P = ?P] challenging.authorize_wp [where P = ?P]
  note defs = put_challenge_def put_attestation_def may_restore_def
  have step: "challenge_ok c'" if "challenge_step c c'" "\<forall>i c. dget d i = Some c \<longrightarrow> challenge_ok c" "dget d i = Some c" for d i c c'
    using that challenge_step_ok by blast
  have "keeps (open_challenge e a reason who) (\<lambda>s. ?P (challenges s))" for a reason who
    by (rule keepsI, unfold open_challenge_def defs, intro rules)
      (auto simp: dict challenge_ok_def intro: step [OF challenge_step.responded] step [OF challenge_step.decided]
         step [OF challenge_step.appealed] step [OF challenge_step.closed] split: if_splits)
  moreover
  have "keeps (respond_to_challenge e j code) (\<lambda>s. ?P (challenges s))" for j code
    by (rule keepsI, unfold respond_to_challenge_def defs, intro rules)
      (auto simp: dict intro: step [OF challenge_step.responded] step [OF challenge_step.decided]
         step [OF challenge_step.appealed] step [OF challenge_step.closed] split: if_splits)
  moreover
  have "keeps (decide_challenge e j d actor) (\<lambda>s. ?P (challenges s))" for j d actor
    by (rule keepsI, unfold decide_challenge_def defs, intro rules)
      (auto simp: dict intro: step [OF challenge_step.responded] step [OF challenge_step.decided]
         step [OF challenge_step.appealed] step [OF challenge_step.closed] split: if_splits)
  moreover
  have "keeps (appeal_challenge e j reason) (\<lambda>s. ?P (challenges s))" for j reason
    by (rule keepsI, unfold appeal_challenge_def defs, intro rules)
      (auto simp: dict intro: step [OF challenge_step.responded] step [OF challenge_step.decided]
         step [OF challenge_step.appealed] step [OF challenge_step.closed] split: if_splits)
  moreover
  have "keeps (decide_appeal e j v actor) (\<lambda>s. ?P (challenges s))" for j v actor
    by (rule keepsI, unfold decide_appeal_def defs, intro rules)
      (auto simp: dict intro: step [OF challenge_step.responded] step [OF challenge_step.decided]
         step [OF challenge_step.appealed] step [OF challenge_step.closed] split: if_splits)
  ultimately show ?thesis
    by (cases cmd) (simp_all add: challenging.operations_keep [where P = ?P])
qed

end
