(* ===== verification/Assurance.thy ===== *)
theory Assurance
  imports ReviewCycle
begin

text \<open>
  What a credential says: its state is a function of the attestations that count at the time of
  recalculation, recalculating again changes nothing, and a credential that was once active or
  revoked never goes back to provisional.
\<close>

section \<open>The outcome of a recalculation\<close>

text \<open>The credential that the attestations of a request give at an instant.\<close>

definition reflects :: "env \<Rightarrow> core \<Rightarrow> string \<Rightarrow> time \<Rightarrow> credential \<Rightarrow> bool" where
  "reflects e s r t c \<longleftrightarrow>
     (let active = active_attestations s r t; passed = passed_audits s in
      (crd_state c = CRED_ACTIVE \<longleftrightarrow> qualifies (env_policy e) (crd_definition c) active passed)
      \<and> crd_state c \<in> {CRED_ACTIVE, CRED_REVOKED, CRED_PROVISIONAL}
      \<and> (crd_state c = CRED_PROVISIONAL \<longrightarrow> active \<noteq> [])
      \<and> crd_dependency_attestation_ids c = sort (map att_attestation_id active)
      \<and> crd_verification_bases c = sorted_bases (credential_bases active passed))"

lemma active_attestations_cong:
  "attestations t = attestations s \<Longrightarrow> grants t = grants s \<Longrightarrow> authority_grants t = authority_grants s
   \<Longrightarrow> active_attestations t r u = active_attestations s r u"
proof -
  assume eq: "attestations t = attestations s" "grants t = grants s" "authority_grants t = authority_grants s"
  then have "grant_is_active t = grant_is_active s" by (simp add: fun_eq_iff grant_is_active_def split: option.split)
  with eq(1) show ?thesis by (simp add: active_attestations_def)
qed

lemma passed_audits_cong: "audits t = audits s \<Longrightarrow> passed_audits t = passed_audits s"
  by (simp add: passed_audits_def)

lemma standing_tick [simp]:
  "active_attestations (tick s) r u = active_attestations s r u" "passed_audits (tick s) = passed_audits s"
  by (simp_all add: active_attestations_cong [of "tick s" s] passed_audits_cong [of "tick s" s])

lemma reflects_cong:
  assumes "attestations t = attestations s" "grants t = grants s" "authority_grants t = authority_grants s"
    "audits t = audits s"
  shows "reflects e t r u c = reflects e s r u c"
  using assms by (simp add: reflects_def active_attestations_cong [of t s] passed_audits_cong [of t s])

lemma in_active:
  "a \<in> set (active_attestations s r t) \<longleftrightarrow> a \<in> set (dvals (attestations s)) \<and> att_request_id a = r
     \<and> att_state a = ATT_ACTIVE \<and> t < att_expires_at a \<and> grant_is_active s (att_grant_id a) t"
  by (auto simp: active_attestations_def)

text \<open>
  Every credential files the definition of its request and is indexed under it; its terms follow
  from its identifier and the time it was first issued.
\<close>

definition credential_ok :: "env \<Rightarrow> core \<Rightarrow> credential \<Rightarrow> bool" where
  "credential_ok e s c \<longleftrightarrow>
     (\<exists>q. dget (requests s) (crd_request_id c) = Some q \<and> crd_definition c = clm_definition q)
     \<and> crd_expires_at c = crd_issued_at c + pol_credential_ttl (env_policy e)
     \<and> crd_status_reference c = env_issuer e @ ''/status/'' @ crd_credential_id c
     \<and> crd_state c \<in> {CRED_ACTIVE, CRED_REVOKED, CRED_PROVISIONAL}"

definition credentials_ok :: "env \<Rightarrow> core \<Rightarrow> bool" where
  "credentials_ok e s \<longleftrightarrow> kept clm_request_id ''clm'' requests s \<and> index_ok s
     \<and> (\<forall>i c. dget (credentials s) i = Some c \<longrightarrow> credential_ok e s c)"

lemma credentials_okD:
  assumes "credentials_ok e s"
  shows "kept clm_request_id ''clm'' requests s" "index_ok s"
    "dget (credentials s) i = Some c \<Longrightarrow> credential_ok e s c"
    "dget (credentials s) i = Some c \<Longrightarrow> crd_credential_id c = i"
    "store_ok crd_credential_id ''crd'' (counters s) (credentials s)"
  using assms by (auto simp: credentials_ok_def index_ok_def indexed_def intro: store_ok_key)

text \<open>An index entry points at a credential of that request.\<close>

lemma indexed_lookup:
  assumes "index_ok s" "dget (credential_by_request s) r = Some i"
  shows "\<exists>c. dget (credentials s) i = Some c \<and> crd_request_id c = r \<and> crd_credential_id c = i"
proof -
  have ix: "indexed (counters s) (credentials s) (credential_by_request s)" using assms by (simp add: index_ok_def)
  then have store: "store_ok crd_credential_id ''crd'' (counters s) (credentials s)" by (simp add: indexed_def)
  have "(r, i) \<in> set (index_of (credentials s))"
    using ix assms(2) by (auto simp: indexed_def dest: map_of_SomeD)
  then obtain c where "(i, c) \<in> set (credentials s)" "crd_request_id c = r" by (auto simp: index_of_def)
  moreover from this have "dget (credentials s) i = Some c" using store_ok_distinct [OF store] by simp
  ultimately show ?thesis using store_ok_key [OF store] by blast
qed

lemma indexed_entry:
  assumes "index_ok s" "dget (credentials s) i = Some c"
  shows "dget (credential_by_request s) (crd_request_id c) = Some i"
proof -
  have "indexed (counters s) (credentials s) (credential_by_request s)" using assms(1) by (simp add: index_ok_def)
  moreover from this have "(i, c) \<in> set (credentials s)" using assms(2) by (auto dest: map_of_SomeD)
  ultimately show ?thesis unfolding indexed_def by (auto simp: index_of_lookup simp del: map_of_eq_Some_iff)
qed

section \<open>The weakest precondition of a recalculation\<close>

text \<open>
  A recalculation that starts from a state with credentials in good order either finds nothing to
  do, or leaves a credential of the request that reflects the attestations at the clock's reading,
  and only the credential dictionaries and the counters differ.
\<close>

definition recalculated :: "env \<Rightarrow> string \<Rightarrow> core \<Rightarrow> time \<Rightarrow> credential option \<Rightarrow> core \<Rightarrow> bool" where
  "recalculated e r s u x t \<longleftrightarrow>
     credentials_ok e t
     \<and> (case x of
          None \<Rightarrow> active_attestations s r u = [] \<and> dget (credential_by_request s) r = None \<and> t = tick s
        | Some c \<Rightarrow> reflects e s r u c \<and> crd_request_id c = r
            \<and> dget (credentials t) (crd_credential_id c) = Some c
            \<and> dget (credential_by_request t) r = Some (crd_credential_id c))"

lemma credentials_ok_tick: "credentials_ok e (tick s) = credentials_ok e s"
  by (simp add: credentials_ok_def kept_def index_ok_def credential_ok_def)

text \<open>Writing a credential: a first one under a fresh identifier, or the next version of one.\<close>

lemma credentials_ok_insert:
  assumes ok: "credentials_ok e s" and new: "dget (credential_by_request s) r = None"
    and c: "crd_credential_id c = next_id ''crd'' (counters s)" "crd_request_id c = r" "credential_ok e s c"
  shows "credentials_ok e ((bump ''crd'' s)\<lparr>credentials := dput (next_id ''crd'' (counters s)) c (credentials s),
           credential_by_request := dput r (next_id ''crd'' (counters s)) (credential_by_request s)\<rparr>)"
  using ok indexed_insert [OF _ new c(1,2)] c(3)
  by (auto simp: credentials_ok_def kept_def index_ok_def credential_ok_def dict)

lemma credentials_ok_replace:
  assumes ok: "credentials_ok e s" and old: "dget (credential_by_request s) r = Some i" "dget (credentials s) i = Some x"
    and c: "crd_credential_id c = crd_credential_id x" "crd_request_id c = r" "credential_ok e s c"
  shows "credentials_ok e (s\<lparr>credentials := dput (crd_credential_id x) c (credentials s),
           credential_by_request := dput r (crd_credential_id x) (credential_by_request s)\<rparr>)"
  using ok indexed_replace [OF _ old c(1,2)] c(3)
  by (auto simp: credentials_ok_def kept_def index_ok_def credential_ok_def dict)

text \<open>The credential a recalculation writes, whatever the state it started from.\<close>

definition written :: "env \<Rightarrow> core \<Rightarrow> string \<Rightarrow> time \<Rightarrow> credential \<Rightarrow> bool" where
  "written e s r u c \<longleftrightarrow> crd_request_id c = r \<and> crd_updated_at c = u \<and>
     (\<exists>q prior. dget (requests s) r = Some q \<and> crd_definition c = clm_definition q
        \<and> crd_state c = recalculated_state
            (qualifies (env_policy e) (clm_definition q) (active_attestations s r u) (passed_audits s))
            prior (active_attestations s r u = []))
     \<and> crd_dependency_attestation_ids c = sort (map att_attestation_id (active_attestations s r u))
     \<and> crd_verification_bases c = sorted_bases (credential_bases (active_attestations s r u) (passed_audits s))
     \<and> crd_expires_at c = crd_issued_at c + pol_credential_ttl (env_policy e)"

lemma recalculated_state_facts:
  "recalculated_state ql prior n = CRED_ACTIVE \<longleftrightarrow> ql"
  "recalculated_state ql prior n \<in> {CRED_ACTIVE, CRED_REVOKED, CRED_PROVISIONAL}"
  "recalculated_state ql prior n = CRED_PROVISIONAL \<longrightarrow> \<not> n"
  by (auto simp: recalculated_state_def split: if_splits)

lemma written_facts:
  assumes c: "written e s r u c"
  shows "reflects e s r u c" "crd_request_id c = r"
    "crd_status_reference c = env_issuer e @ ''/status/'' @ crd_credential_id c \<Longrightarrow> credential_ok e s c"
proof -
  from c obtain q prior where q: "dget (requests s) r = Some q" "crd_definition c = clm_definition q"
    and state: "crd_state c = recalculated_state
            (qualifies (env_policy e) (clm_definition q) (active_attestations s r u) (passed_audits s))
            prior (active_attestations s r u = [])"
    by (auto simp: written_def)
  show "reflects e s r u c"
    using c q(2) recalculated_state_facts
      [of "qualifies (env_policy e) (clm_definition q) (active_attestations s r u) (passed_audits s)"
        prior "active_attestations s r u = []"]
    unfolding reflects_def Let_def state written_def by simp
  show "crd_request_id c = r" using c by (simp add: written_def)
  show "credential_ok e s c"
    if "crd_status_reference c = env_issuer e @ ''/status/'' @ crd_credential_id c"
    using c q that recalculated_state_facts(2) unfolding credential_ok_def written_def state by simp
qed

lemma recalculated_insert:
  assumes ok: "credentials_ok e s" and new: "dget (credential_by_request s) r = None"
    and c: "written e s r u c" "next_id ''crd'' (counters s) = j" "crd_credential_id c = j"
      "crd_status_reference c = env_issuer e @ ''/status/'' @ j"
  shows "recalculated e r s u (Some c) ((bump ''crd'' (tick s))\<lparr>
     credentials := dput j c (credentials s), credential_by_request := dput r j (credential_by_request s)\<rparr>)"
  using credentials_ok_insert [of e "tick s" r c] assms written_facts [OF c(1)]
  by (simp add: recalculated_def credentials_ok_tick dict credential_ok_def)

lemma recalculated_replace:
  assumes ok: "credentials_ok e s" and old: "dget (credential_by_request s) r = Some i" "dget (credentials s) i = Some x"
    and c: "written e s r u c" "crd_credential_id x = j" "crd_credential_id c = j"
      "crd_status_reference c = crd_status_reference x"
  shows "recalculated e r s u (Some c) ((tick s)\<lparr>
     credentials := dput j c (credentials s), credential_by_request := dput r j (credential_by_request s)\<rparr>)"
proof -
  have "crd_status_reference x = env_issuer e @ ''/status/'' @ crd_credential_id x"
    using credentials_okD(3) [OF ok old(2)] by (simp add: credential_ok_def)
  then show ?thesis
    using credentials_ok_replace [of e "tick s" r i x c] assms written_facts [OF c(1)]
    by (simp add: recalculated_def credentials_ok_tick dict credential_ok_def)
qed

lemma recalculated_same:
  assumes ok: "credentials_ok e s" and old: "dget (credential_by_request s) r = Some i" "dget (credentials s) i = Some x"
    and q: "dget (requests s) r = Some q"
    and same: "credential_unchanged (Some x)
      (recalculated_state (qualifies (env_policy e) (clm_definition q) (active_attestations s r u) (passed_audits s))
         prior (active_attestations s r u = []))
      (sort (map att_attestation_id (active_attestations s r u)))
      (sorted_bases (credential_bases (active_attestations s r u) (passed_audits s)))"
  shows "recalculated e r s u (Some x) (tick s)"
proof -
  from indexed_lookup [OF credentials_okD(2) [OF ok] old(1)] old(2)
  have x: "crd_request_id x = r" "crd_credential_id x = i" by auto
  have "credential_ok e s x" using ok old(2) by (rule credentials_okD)
  then have "crd_definition x = clm_definition q" using x q by (auto simp: credential_ok_def)
  with same have "reflects e s r u x"
    using recalculated_state_facts
      [of "qualifies (env_policy e) (clm_definition q) (active_attestations s r u) (passed_audits s)"
        prior "active_attestations s r u = []"]
    by (simp add: reflects_def credential_unchanged_def Let_def)
  with x ok old show ?thesis by (simp add: recalculated_def credentials_ok_tick)
qed

lemma wp_recalculate:
  assumes ok: "credentials_ok e s"
  shows "wp (recalculate e r) (\<lambda>x t. \<exists>u. env_clock e (clock_reads s) = Aware u \<and> recalculated e r s u x t)
           (\<lambda>_. credentials_ok e) s"
proof -
  have unchanged_None: "\<not> credential_unchanged None st deps bases" for st deps bases
    by (simp add: credential_unchanged_def)
  show ?thesis
    unfolding recalculate_def credential_identity_def
    apply (intro vcg)
    apply (simp_all add: ok credentials_ok_tick unchanged_None)
       apply (simp add: recalculated_def credentials_ok_tick ok)
      apply (rule recalculated_insert [OF ok]; (assumption | (auto simp: written_def)[1] | simp))
     apply (rule recalculated_same [OF ok], assumption+)
    apply (rule recalculated_replace [OF ok]; (assumption | (auto simp: written_def)[1] | simp))
    done
qed

text \<open>What a recalculation never touches.\<close>

definition evidence :: "core \<Rightarrow> (string, claim_request) dict \<times> (string, attestation) dict
    \<times> (string, verifier_grant) dict \<times> (string, authority_grant) dict \<times> (string, audit) dict" where
  "evidence s = (requests s, attestations s, grants s, authority_grants s, audits s)"

interpretation evidence: observation evidence
  by unfold_locales (simp_all add: evidence_def)

lemma recalculate_evidence: "keeps (recalculate e r) (\<lambda>s. evidence s = x)"
  by (rule evidence.observed.recalculate_keeps) (simp_all add: evidence_def)

lemma evidence_standing:
  assumes "evidence t = evidence s"
  shows "active_attestations t r u = active_attestations s r u" "passed_audits t = passed_audits s"
    "requests t = requests s" "attestations t = attestations s" "grants t = grants s"
    "authority_grants t = authority_grants s" "audits t = audits s"
    "reflects e t r u c = reflects e s r u c"
  using assms active_attestations_cong [of t s r u] passed_audits_cong [of t s] reflects_cong [of t s]
  by (simp_all add: evidence_def)

lemma recalculate_success:
  assumes "credentials_ok e s" "recalculate e r s = (Inr x, t)"
  shows "\<exists>u. env_clock e (clock_reads s) = Aware u \<and> recalculated e r s u x t" "evidence t = evidence s"
  using wpD [OF wp_recalculate [OF assms(1)] assms(2)]
    keepsD [OF recalculate_evidence, of s "evidence s" e r] assms(2) by auto

text \<open>Recalculating again at the same instant changes nothing but the number of clock readings.\<close>

lemma reflects_unchanged:
  assumes "reflects e s r u c" "crd_definition c = d"
  shows "credential_unchanged (Some c)
    (recalculated_state (qualifies (env_policy e) d (active_attestations s r u) (passed_audits s))
       (Some (crd_state c)) (active_attestations s r u = []))
    (sort (map att_attestation_id (active_attestations s r u)))
    (sorted_bases (credential_bases (active_attestations s r u) (passed_audits s)))"
  using assms by (auto simp: reflects_def credential_unchanged_def recalculated_state_def Let_def)

lemma recalculate_idempotent:
  assumes ok: "credentials_ok e s" and first: "recalculate e r s = (Inr x, t)"
    and clock: "env_clock e (clock_reads t) = env_clock e (clock_reads s)"
  shows "recalculate e r t = (Inr x, tick t)"
proof -
  from recalculate_success [OF ok first] obtain u where u: "env_clock e (clock_reads s) = Aware u"
    and result: "recalculated e r s u x t" and same: "evidence t = evidence s" by blast
  have now: "now e t = (Inr u, tick t)" using u clock by (simp add: now_def tick_def)
  have "\<exists>q. dget (requests s) r = Some q"
    using first by (auto simp: recalculate_def require_request_def fetch_def bind_def gets_def raise_def split: option.splits)
  then obtain q where q: "dget (requests t) r = Some q" using evidence_standing(3) [OF same] by auto
  note standing = evidence_standing(1,2) [OF same]
  show ?thesis
  proof (cases x)
    case None
    then show ?thesis using result q now
      by (simp add: recalculated_def recalculate_def require_request_def fetch_def bind_def gets_def ret_def)
  next
    case (Some c)
    with result have c: "reflects e s r u c" "crd_request_id c = r"
      "dget (credentials t) (crd_credential_id c) = Some c"
      "dget (credential_by_request t) r = Some (crd_credential_id c)" "credentials_ok e t"
      by (auto simp: recalculated_def)
    have "crd_definition c = clm_definition q"
      using credentials_okD(3) [OF c(5) c(3)] c(2) q by (simp add: credential_ok_def)
    from reflects_unchanged [OF c(1) this] show ?thesis
      using q now c(3,4) Some
      by (simp add: recalculate_def credential_identity_def require_request_def fetch_def bind_def gets_def ret_def
          standing Let_def)
  qed
qed

section \<open>Credentials in every reachable state\<close>

lemma credentials_ok_bump: "credentials_ok e s \<Longrightarrow> credentials_ok e (bump p s)"
  by (simp add: credentials_ok_def kept_def index_ok_def indexed_bump credential_ok_def store_ok_bump)

lemma credentials_ok_published: "credentials_ok e s \<Longrightarrow> credentials_ok e (published e' op out agg t s)"
  by (simp add: credentials_ok_def kept_def index_ok_def indexed_bump credential_ok_def store_ok_bump)

interpretation crediting: quiet e "credentials_ok e" for e
  by unfold_locales (simp_all add: credentials_ok_tick credentials_ok_bump credentials_ok_published)

lemma recalculate_credentials: "keeps (recalculate e r) (credentials_ok e)"
proof (rule keepsI)
  fix s assume "credentials_ok e s"
  from wp_recalculate [OF this, of r]
  show "wp (recalculate e r) (\<lambda>_. credentials_ok e) (\<lambda>_. credentials_ok e) s"
    by (rule wp_mono) (auto simp: recalculated_def)
qed

text \<open>The four fields that this depends on.\<close>

definition credit :: "env \<Rightarrow> (string, int) dict \<Rightarrow> (string, claim_request) dict \<Rightarrow> (string, credential) dict
    \<Rightarrow> (string, string) dict \<Rightarrow> bool" where
  "credit e c rs cs ix = credentials_ok e (new_core\<lparr>counters := c, requests := rs, credentials := cs,
                                              credential_by_request := ix\<rparr>)"

lemma credentials_ok_credit:
  "credentials_ok e s = credit e (counters s) (requests s) (credentials s) (credential_by_request s)"
  by (simp add: credit_def credentials_ok_def kept_def index_ok_def credential_ok_def)

interpretation crediting: settled e "credentials_ok e" for e
  by unfold_locales (simp_all add: crediting.consume_authority_keeps recalculate_credentials credentials_ok_credit)

lemma request_claim_credentials: "keeps (request_claim e x ct dv pv) (credentials_ok e)"
proof (rule keepsI)
  fix s assume ok: "credentials_ok e s"
  have fresh: "credentials_ok e ((tick (bump ''clm'' s'))\<lparr>requests := dput (next_id ''clm'' c) q d\<rparr>)"
    if ok': "credentials_ok e s'" and eqs: "c = counters s'" "d = requests s'"
      and q: "clm_request_id q = next_id ''clm'' c" for s' q c d
  proof -
    have store: "store_ok clm_request_id ''clm'' (counters s') (requests s')"
      using ok' by (simp add: credentials_ok_def kept_def)
    have "crd_request_id k \<noteq> next_id ''clm'' (counters s')" if "dget (credentials s') i = Some k" for i k
      using credentials_okD(3) [OF ok' that] store_ok_fresh [OF store] by (auto simp: credential_ok_def)
    then show ?thesis
      using ok' eqs store q by (auto simp: credentials_ok_def kept_def index_ok_def credential_ok_def dict
        store_ok_insert intro: indexed_bump)
  qed
  show "wp (request_claim e x ct dv pv) (\<lambda>_. credentials_ok e) (\<lambda>_. credentials_ok e) s"
    unfolding request_claim_def require_active_release_def current_operator_release_def
    by (intro vcg) (use ok in \<open>auto simp: credentials_ok_tick credentials_ok_bump
        intro!: fresh credentials_ok_published\<close>)
qed

lemma credentials_exec: "keeps (exec e c) (credentials_ok e)"
  by (cases c) (simp_all add: request_claim_credentials crediting.operations_keep credentials_ok_credit)

lemma credentials_ok_clock [simp]: "credentials_ok (e\<lparr>env_clock := k\<rparr>) = credentials_ok e"
  by (simp add: fun_eq_iff credentials_ok_def credential_ok_def)

lemma credentials_reachable: "reachable e s \<Longrightarrow> credentials_ok e s"
proof (erule reachable_invariant)
  show "credentials_ok e new_core"
    by (simp add: credentials_ok_def new_core_def kept_def index_ok_def indexed_def index_of_def)
  show "credentials_ok e (s\<lparr>clock_reads := n\<rparr>)" if "credentials_ok e s" for s n
    using that by (simp add: credentials_ok_credit)
  show "keeps (exec (e\<lparr>env_clock := clock\<rparr>) c) (credentials_ok e)" for clock c
    using credentials_exec [of "e\<lparr>env_clock := clock\<rparr>" c] by simp
qed

section \<open>The history of a credential\<close>

definition continues :: "credential \<Rightarrow> credential \<Rightarrow> bool" where
  "continues c0 c \<longleftrightarrow> crd_credential_id c = crd_credential_id c0 \<and> crd_request_id c = crd_request_id c0
     \<and> crd_definition c = crd_definition c0 \<and> crd_issued_at c = crd_issued_at c0
     \<and> crd_expires_at c = crd_expires_at c0 \<and> crd_status_reference c = crd_status_reference c0
     \<and> (crd_state c0 \<noteq> CRED_PROVISIONAL \<longrightarrow> crd_state c \<noteq> CRED_PROVISIONAL)"

definition later :: "env \<Rightarrow> string \<Rightarrow> credential \<Rightarrow> core \<Rightarrow> bool" where
  "later e i c0 s \<longleftrightarrow> credentials_ok e s \<and> (\<exists>c. dget (credentials s) i = Some c \<and> continues c0 c)"

lemma continues_refl [simp]: "continues c c"
  by (simp add: continues_def)

lemma later_tick: "later e i c0 (tick s) = later e i c0 s"
  by (simp add: later_def credentials_ok_tick)

interpretation lasting: quiet e "later e i c0" for e i c0
  by unfold_locales (auto simp: later_def credentials_ok_tick intro: credentials_ok_bump credentials_ok_published)

lemma later_insert:
  assumes "later e i c0 s" "credentials_ok e t" "next_id ''crd'' (counters s) = j"
    "credentials t = dput j c (credentials s)"
  shows "later e i c0 t"
proof -
  have "dget (credentials s) (next_id ''crd'' (counters s)) = None"
    using assms(1) by (intro store_ok_fresh [OF credentials_okD(5)]) (auto simp: later_def)
  with assms show ?thesis by (auto simp: later_def dict)
qed

lemma later_replace:
  assumes l: "later e i c0 s" and t: "credentials_ok e t" "credentials t = dput j c (credentials s)"
    and x: "dget (credentials s) k = Some x" "crd_credential_id x = j"
    and c: "crd_credential_id c = j" "crd_request_id c = crd_request_id x" "crd_definition c = crd_definition x"
      "crd_issued_at c = crd_issued_at x" "crd_expires_at c = crd_expires_at x"
      "crd_status_reference c = crd_status_reference x"
      "crd_state c = recalculated_state ql (Some (crd_state x)) n"
  shows "later e i c0 t"
proof -
  have ok: "credentials_ok e s" using l by (simp add: later_def)
  have "k = j" using credentials_okD(4) [OF ok x(1)] x(2) by simp
  have "crd_state x \<in> {CRED_ACTIVE, CRED_REVOKED, CRED_PROVISIONAL}"
    using credentials_okD(3) [OF ok x(1)] by (simp add: credential_ok_def)
  then have "continues x c" using x c by (auto simp: continues_def recalculated_state_def)
  with l t x \<open>k = j\<close> show ?thesis by (auto simp: later_def dict continues_def)
qed

lemma recalculate_later: "keeps (recalculate e r) (later e i c0)"
proof (rule keepsI)
  fix s assume l: "later e i c0 s"
  then have ok: "credentials_ok e s" by (simp add: later_def)
  have fits: "crd_request_id x = r \<and> crd_definition x = clm_definition q
      \<and> crd_expires_at x = crd_issued_at x + pol_credential_ttl (env_policy e)"
    if "dget (credential_by_request s) r = Some k" "dget (credentials s) k = Some x" "dget (requests s) r = Some q"
    for k x q
    using indexed_lookup [OF credentials_okD(2) [OF ok] that(1)] credentials_okD(3) [OF ok that(2)] that
    by (auto simp: credential_ok_def)
  have "wp (recalculate e r) (\<lambda>_ t. credentials_ok e t \<longrightarrow> later e i c0 t)
      (\<lambda>_ t. credentials_ok e t \<longrightarrow> later e i c0 t) s"
    unfolding recalculate_def credential_identity_def
    by (intro vcg)
      (use l in \<open>auto simp: later_tick credential_unchanged_def fits intro: later_insert later_replace [where s = s]\<close>)
  moreover have "wp (recalculate e r) (\<lambda>_. credentials_ok e) (\<lambda>_. credentials_ok e) s"
    using ok by (intro wp_keeps [OF recalculate_credentials])
  ultimately show "wp (recalculate e r) (\<lambda>_. later e i c0) (\<lambda>_. later e i c0) s"
    by (auto simp: wp_def split: prod.splits sum.splits)
qed

lemma later_eq: "later e i c0 = (\<lambda>s. credentials_ok e s \<and> (\<exists>c. dget (credentials s) i = Some c \<and> continues c0 c))"
  by (simp add: later_def fun_eq_iff)

interpretation lasting: settled e "later e i c0" for e i c0
  by unfold_locales
    (simp_all add: lasting.consume_authority_keeps recalculate_later later_def credentials_ok_credit)

interpretation credential_view: quiet e "\<lambda>s. P (credentials s)" for e P
  by unfold_locales simp_all

lemma request_claim_later: "keeps (request_claim e x ct dv pv) (later e i c0)"
  unfolding later_eq
  by (intro keeps_conj request_claim_credentials
      credential_view.request_claim_keeps [where P = "\<lambda>d. \<exists>c. dget d i = Some c \<and> continues c0 c"]) simp

lemma later_exec: "keeps (exec e c) (later e i c0)"
  by (cases c)
    (simp_all add: request_claim_later, simp_all add: lasting.operations_keep later_def credentials_ok_credit)

section \<open>Asking for the status of a credential\<close>

definition clocked :: "env \<Rightarrow> bool" where
  "clocked e \<longleftrightarrow> (\<forall>n. \<exists>t. env_clock e n = Aware t)"

lemma aware: "clocked e \<Longrightarrow> env_clock e n \<noteq> Naive x"
  unfolding clocked_def by (metis datetime.distinct(1))

text \<open>With a clock that is always aware, recalculating a known request returns.\<close>

lemma recalculate_returns:
  assumes ok: "credentials_ok e s" and clock: "clocked e" and q: "dget (requests s) r = Some q"
  shows "\<exists>x t. recalculate e r s = (Inr x, t)"
proof -
  have known: "\<exists>x. dget (credentials s) i = Some x" if "dget (credential_by_request s) r = Some i" for i
    using indexed_lookup [OF credentials_okD(2) [OF ok] that] by auto
  have "wp (recalculate e r) (\<lambda>_ _. True) (\<lambda>_ _. False) s"
    unfolding recalculate_def credential_identity_def
    by (intro vcg TrueI) (use q in \<open>auto simp: aware [OF clock] dest!: known\<close>)
  then show ?thesis by (auto simp: wp_def split: prod.splits sum.splits)
qed

text \<open>It reads the clock once.\<close>

lemma recalculate_reads:
  assumes "recalculate e r s = (Inr x, t)"
  shows "clock_reads t = Suc (clock_reads s)"
proof -
  have "wp (recalculate e r) (\<lambda>_ t. clock_reads t = Suc (clock_reads s)) (\<lambda>_ _. True) s"
    unfolding recalculate_def credential_identity_def by (intro vcg) auto
  from wpD [OF this assms] show ?thesis by simp
qed

lemma filter_key: "dget d i = Some c \<Longrightarrow> distinct (dkeys d) \<Longrightarrow> filter (\<lambda>kx. fst kx = i) d = [(i, c)]"
  by (induction d) (auto split: if_splits simp: filter_empty_conv image_iff)

text \<open>Status references identify credentials.\<close>

lemma one_match:
  assumes ok: "credentials_ok e s" and c: "dget (credentials s) i = Some c"
  shows "filter (\<lambda>x. crd_status_reference x = crd_status_reference c) (dvals (credentials s)) = [c]"
proof -
  note store = credentials_okD(5) [OF ok]
  have ref: "crd_status_reference x = env_issuer e @ ''/status/'' @ k" if "dget (credentials s) k = Some x" for k x
    using credentials_okD(3,4) [OF ok that] by (simp add: credential_ok_def)
  have "filter (\<lambda>kx. crd_status_reference (snd kx) = crd_status_reference c) (credentials s) = filter (\<lambda>kx. fst kx = i) (credentials s)"
    using store_ok_distinct [OF store] ref ref [OF c] by (intro filter_cong) auto
  moreover have "filter (\<lambda>kx. fst kx = i) (credentials s) = [(i, c)]"
    using c store_ok_distinct [OF store] by (rule filter_key)
  ultimately show ?thesis by (simp add: filter_map comp_def)
qed

text \<open>
  Asking for the status of a credential answers, from the evidence at the time of asking: the state
  is expired exactly when the credential's term is over, and otherwise the recalculated one.
\<close>

lemma credential_status_answers:
  assumes ok: "credentials_ok e s" and clock: "clocked e" and c: "dget (credentials s) i = Some c"
  shows "\<exists>x t c' u v. credential_status e (crd_status_reference c) s = (Inr x, t)
    \<and> env_clock e (clock_reads s) = Aware u \<and> env_clock e (Suc (clock_reads s)) = Aware v
    \<and> dget (credentials t) i = Some c' \<and> continues c c' \<and> reflects e s (crd_request_id c) u c'
    \<and> cst_state x = (if crd_expires_at c \<le> v then CRED_EXPIRED else crd_state c')"
proof -
  obtain q where "dget (requests s) (crd_request_id c) = Some q"
    using credentials_okD(3) [OF ok c] by (auto simp: credential_ok_def)
  from recalculate_returns [OF ok clock this] obtain y t where run: "recalculate e (crd_request_id c) s = (Inr y, t)" by blast
  obtain v where v: "env_clock e (Suc (clock_reads s)) = Aware v" using clock by (auto simp: clocked_def)
  from recalculate_success(1) [OF ok run] obtain u where u: "env_clock e (clock_reads s) = Aware u"
    and res: "recalculated e (crd_request_id c) s u y t" by blast
  have l: "later e i c t"
    using keepsD [OF recalculate_later [of e "crd_request_id c" i c], of s] ok c run by (simp add: later_def)
  then obtain c' where c': "dget (credentials t) i = Some c'" "continues c c'" "credentials_ok e t" by (auto simp: later_def)
  from indexed_entry [OF credentials_okD(2) [OF ok] c]
  obtain d where y: "y = Some d" using res \<open>dget (credential_by_request s) _ = _\<close>
    by (auto simp: recalculated_def split: option.splits)
  with res c' have "dget (credentials t) (crd_credential_id d) = Some d" "crd_request_id d = crd_request_id c'"
    "reflects e s (crd_request_id c) u d"
    by (auto simp: recalculated_def continues_def)
  moreover from this c' have "d = c'"
    using indexed_entry [OF credentials_okD(2) [OF c'(3)] c'(1)] indexed_entry [OF credentials_okD(2) [OF c'(3)] \<open>dget (credentials t) (crd_credential_id d) = Some d\<close>]
    by simp
  ultimately have found: "y = Some c'" "reflects e s (crd_request_id c) u c'" using y by simp_all
  have "credential_status e (crd_status_reference c) s = (Inr \<lparr>cst_status_reference = crd_status_reference c,
      cst_state = (if crd_expires_at c' \<le> v then CRED_EXPIRED else crd_state c'),
      cst_updated_at = crd_updated_at c'\<rparr>, tick t)"
    using run v recalculate_reads [OF run] found(1)
    unfolding credential_status_def bind_def gets_def one_match [OF ok c]
    by (simp add: reject_if_def ret_def now_def tick_def)
  with c' found(2) u v show ?thesis by (auto simp: continues_def)
qed

end
