(* ===== verification/Membership.thy ===== *)
theory Membership
  imports Revocation
begin

text \<open>
  One at a time: at most one operator release is in force, each subject has at most one active
  consent, one open recovery commitment, one recovery case waiting for a decision, and one privacy
  request of each kind waiting for a decision.
\<close>

section \<open>Uniqueness in a dictionary\<close>

text \<open>No two entries that \<open>P\<close> holds of agree under \<open>f\<close>.\<close>

definition unique_by :: "('v \<Rightarrow> 'b) \<Rightarrow> ('v \<Rightarrow> bool) \<Rightarrow> (string, 'v) dict \<Rightarrow> bool" where
  "unique_by f P d \<longleftrightarrow> (\<forall>i j x y. dget d i = Some x \<longrightarrow> dget d j = Some y \<longrightarrow> P x \<longrightarrow> P y \<longrightarrow> f x = f y \<longrightarrow> i = j)"

lemma unique_by_empty [simp]: "unique_by f P []"
  by (simp add: unique_by_def)

lemma unique_by_insert:
  assumes "unique_by f P d" "\<And>j y. dget d j = Some y \<Longrightarrow> P y \<Longrightarrow> f y = f x \<Longrightarrow> False"
  shows "unique_by f P (dput i x d)"
  using assms unfolding unique_by_def by (simp add: dict) metis

lemma unique_by_update:
  assumes "unique_by f P d" "dget d i = Some x" "P y \<Longrightarrow> P x \<and> f y = f x"
  shows "unique_by f P (dput i y d)"
  using assms unfolding unique_by_def by (simp add: dict) metis

lemma unique_by_drop: "unique_by f P d \<Longrightarrow> \<not> P y \<Longrightarrow> unique_by f P (dput i y d)"
  unfolding unique_by_def by (simp add: dict)

text \<open>Replacing entries by ones of the same key under \<open>f\<close>, or that \<open>P\<close> no longer holds of.\<close>

lemma unique_by_weaker:
  assumes "unique_by f P d" "\<And>i y. dget d' i = Some y \<Longrightarrow> P y \<Longrightarrow> \<exists>x. dget d i = Some x \<and> P x \<and> f x = f y"
  shows "unique_by f P d'"
  using assms unfolding unique_by_def by metis

text \<open>With one entry per key, uniqueness is what the length of a filtered list of values says.\<close>

lemma unique_by_length:
  assumes "distinct (dkeys d)"
  shows "unique_by (\<lambda>_. ()) P d \<longleftrightarrow> length (filter P (dvals d)) \<le> 1"
proof -
  have "length (filter P (dvals d)) = card {i. \<exists>x. dget d i = Some x \<and> P x}"
  proof -
    have "length (filter P (dvals d)) = length (filter (\<lambda>kx. P (snd kx)) d)" by (simp add: filter_map comp_def)
    also have "\<dots> = card (fst ` set (filter (\<lambda>kx. P (snd kx)) d))"
      using assms by (metis (no_types) distinct_card distinct_map_filter length_map list.set_map)
    also have "fst ` set (filter (\<lambda>kx. P (snd kx)) d) = {i. \<exists>x. dget d i = Some x \<and> P x}"
      using assms by (force simp: image_iff)
    finally show ?thesis .
  qed
  moreover have "finite {i. \<exists>x. dget d i = Some x \<and> P x}"
    by (rule finite_subset [of _ "dom (dget d)"]) (auto simp: finite_dom_map_of)
  ultimately show ?thesis unfolding unique_by_def by (auto simp: card_le_Suc0_iff_eq)
qed

section \<open>Withdrawing the consents of a subject\<close>

text \<open>Some of the active consents of \<open>x\<close> are withdrawn, and nothing else changes.\<close>

definition withdrawal :: "string \<Rightarrow> (string, consent_record) dict \<Rightarrow> (string, consent_record) dict \<Rightarrow> bool" where
  "withdrawal x d d' \<longleftrightarrow> dkeys d' = dkeys d \<and>
     (\<forall>i c. dget d i = Some c \<longrightarrow> (\<exists>c'. dget d' i = Some c' \<and> (c' = c \<or>
        cns_subject_id c = x \<and> cns_withdrawn_at c = None \<and> (\<exists>u. c' = c\<lparr>cns_withdrawn_at := Some u\<rparr>))))"

lemma withdrawal_refl: "withdrawal x d d"
  by (simp add: withdrawal_def)

lemma withdrawal_back:
  assumes "withdrawal x d d'" "dget d' i = Some c'"
  obtains c where "dget d i = Some c" "c' = c \<or>
        cns_subject_id c = x \<and> cns_withdrawn_at c = None \<and> (\<exists>u. c' = c\<lparr>cns_withdrawn_at := Some u\<rparr>)"
proof -
  have "i \<in> set (dkeys d)" using assms dget_in_dkeys by (metis withdrawal_def)
  then obtain c where "dget d i = Some c" by (metis not_None_eq map_of_eq_None_iff set_map)
  with assms that show thesis unfolding withdrawal_def by (metis option.inject)
qed

lemma withdrawal_step:
  assumes "withdrawal x d d'" "dget d i = Some c" "cns_subject_id c = x" "cns_withdrawn_at c = None"
  shows "withdrawal x d (dput i (c\<lparr>cns_withdrawn_at := Some u\<rparr>) d')"
  using assms dget_in_dkeys [OF assms(2)]
  by (auto simp: withdrawal_def dict)

definition cleared :: "string \<Rightarrow> (string, consent_record) dict \<Rightarrow> bool" where
  "cleared x d \<longleftrightarrow> (\<forall>i c. dget d i = Some c \<longrightarrow> cns_subject_id c = x \<longrightarrow> cns_withdrawn_at c \<noteq> None)"

lemma clearedD: "cleared x d \<Longrightarrow> dget d j = Some c \<Longrightarrow> cns_withdrawn_at c = None \<Longrightarrow> cns_subject_id c \<noteq> x"
  unfolding cleared_def by metis

lemma wp_withdraw_consents:
  assumes d: "distinct (dkeys (consents s))"
    and Q: "\<And>t. withdrawal x (consents s) (consents t) \<Longrightarrow> counters t = counters s
      \<Longrightarrow> cleared x (consents t) \<Longrightarrow> Q () t"
    and E: "\<And>er t. withdrawal x (consents s) (consents t) \<Longrightarrow> counters t = counters s \<Longrightarrow> E er t"
  shows "wp (withdraw_consents e x) Q E s"
proof -
  let ?J = "\<lambda>ks t. withdrawal x (consents s) (consents t) \<and> counters t = counters s
      \<and> (\<forall>i c. dget (consents t) i = Some c \<longrightarrow> i \<notin> set ks \<longrightarrow> cns_subject_id c = x \<longrightarrow> cns_withdrawn_at c \<noteq> None)"
  have "wp (for_each (withdraw_if_active e x) items) (\<lambda>_. ?J [])
      (\<lambda>_ t. withdrawal x (consents s) (consents t) \<and> counters t = counters s) t"
    if "set items \<subseteq> set (consents s)" "?J (map fst items) t" for items t
    using that
  proof (induction items arbitrary: t)
    case Nil
    then show ?case by (simp add: wp)
  next
    case (Cons kc items)
    obtain k c where kc: "kc = (k, c)" by force
    have c: "dget (consents s) k = Some c" using Cons.prems(1) d kc by simp
    have step: "?J (map fst items) (t\<lparr>clock_reads := n, consents := dput k (c\<lparr>cns_withdrawn_at := Some u\<rparr>) (consents t)\<rparr>)"
      if "cns_subject_id c = x" "cns_withdrawn_at c = None" for n u
      using Cons.prems(2) withdrawal_step [OF _ c that] kc by (auto simp: dict)
    have skip: "?J (map fst items) t" if "\<not> (cns_subject_id c = x \<and> cns_withdrawn_at c = None)"
    proof -
      from Cons.prems(2) c have "cns_withdrawn_at c' \<noteq> None" if "dget (consents t) k = Some c'" "cns_subject_id c' = x" for c'
        using that \<open>\<not> (cns_subject_id c = x \<and> cns_withdrawn_at c = None)\<close>
        by (auto elim!: withdrawal_back)
      with Cons.prems(2) kc show ?thesis by auto
    qed
    show ?case
      unfolding for_each.simps
      apply (simp add: wp withdraw_if_active_def kc)
      using Cons step skip by (auto simp: tick_def split: datetime.split)
  qed
  moreover have "?J (map fst (consents s)) s" by (auto simp: withdrawal_refl dest: dget_in_dkeys)
  ultimately have "wp (for_each (withdraw_if_active e x) (consents s)) (\<lambda>_. ?J [])
      (\<lambda>_ t. withdrawal x (consents s) (consents t) \<and> counters t = counters s) s"
    by blast
  then show ?thesis
    unfolding withdraw_consents_def by (intro vcg) (auto simp: cleared_def intro!: Q E elim!: wp_mono)
qed

lemma keeps_given:
  assumes "keeps m J" "\<And>s. J s \<Longrightarrow> I s \<Longrightarrow> wp m (\<lambda>_. I) (\<lambda>_. I) s"
  shows "keeps m (\<lambda>s. J s \<and> I s)"
  using assms by (fastforce simp: keeps_wp wp_def split: prod.splits sum.splits)

section \<open>Every call keeps uniqueness\<close>

text \<open>What is waiting or in force: one release, and one of each of the others for a subject.\<close>

abbreviation one_release :: "(string, operator_release) dict \<Rightarrow> bool" where
  "one_release \<equiv> unique_by (\<lambda>_. ()) (\<lambda>r. rel_suspended_at r = None)"

abbreviation one_consent :: "(string, consent_record) dict \<Rightarrow> bool" where
  "one_consent \<equiv> unique_by cns_subject_id (\<lambda>c. cns_withdrawn_at c = None)"

abbreviation one_commitment :: "(string, recovery_commitment) dict \<Rightarrow> bool" where
  "one_commitment \<equiv> unique_by rcm_subject_id (\<lambda>c. rcm_consumed_at c = None)"

abbreviation one_case :: "(string, recovery_case) dict \<Rightarrow> bool" where
  "one_case \<equiv> unique_by rcv_subject_id (\<lambda>c. rcv_state c = RCV_PENDING)"

abbreviation one_privacy_request :: "(string, privacy_request) dict \<Rightarrow> bool" where
  "one_privacy_request \<equiv> unique_by (\<lambda>p. (prv_subject_id p, prv_kind p)) (\<lambda>p. prv_state p = PRV_PENDING)"

definition waiting_ok :: "core \<Rightarrow> bool" where
  "waiting_ok s \<longleftrightarrow> one_commitment (recovery_commitments s) \<and> one_case (recovery_cases s)
     \<and> one_privacy_request (privacy_requests s)"

definition consents_ok :: "core \<Rightarrow> bool" where
  "consents_ok s \<longleftrightarrow> kept cns_consent_id ''cns'' consents s \<and> one_consent (consents s)"

definition releases_ok :: "core \<Rightarrow> bool" where
  "releases_ok s \<longleftrightarrow> kept rel_release_id ''rel'' operator_releases s \<and> one_release (operator_releases s)"

lemmas membership_simps = waiting_ok_def consents_ok_def releases_ok_def kept_def store_ok_bump

interpretation waiting: quiet e waiting_ok for e
  by unfold_locales (simp_all add: membership_simps)

interpretation consenting: quiet e consents_ok for e
  by unfold_locales (simp_all add: membership_simps)

interpretation releasing: quiet e releases_ok for e
  by unfold_locales (simp_all add: membership_simps)

interpretation waiting: settled e waiting_ok for e
  by unfold_locales (simp_all add: waiting.consume_authority_keeps waiting.recalculate_keeps membership_simps)

interpretation consenting: settled e consents_ok for e
  by unfold_locales (simp_all add: consenting.consume_authority_keeps consenting.recalculate_keeps membership_simps)

interpretation releasing: settled e releases_ok for e
  by unfold_locales (simp_all add: releasing.consume_authority_keeps releasing.recalculate_keeps membership_simps)

subsection \<open>What waits for a decision\<close>

lemma none_waiting: "\<not> list_ex Q (dvals d) \<Longrightarrow> dget d j = Some y \<Longrightarrow> \<not> Q y"
  by (auto simp: list_ex_iff dest!: map_of_SomeD)

text \<open>Filing checks that nothing of its kind waits; a decided record no longer waits.\<close>

lemma register_recovery_commitment_waiting: "keeps (register_recovery_commitment e x c) waiting_ok"
  by (rule keepsI, unfold register_recovery_commitment_def require_active_release_def current_operator_release_def,
      intro vcg) (auto simp: waiting_ok_def intro!: unique_by_insert dest: none_waiting)

lemma request_recovery_waiting: "keeps (request_recovery e x k secret) waiting_ok"
  by (rule keepsI, unfold request_recovery_def require_active_release_def current_operator_release_def,
      intro vcg) (auto simp: waiting_ok_def intro!: unique_by_insert dest: none_waiting)

lemma open_privacy_request_waiting: "keeps (open_privacy_request e x kind reason) waiting_ok"
  by (rule keepsI, unfold open_privacy_request_def, intro vcg)
    (auto simp: waiting_ok_def intro!: unique_by_insert dest: none_waiting)

lemma decide_recovery_waiting: "keeps (decide_recovery e i actor ok reason) waiting_ok"
  by (rule keepsI, unfold decide_recovery_def apply_recovery_def, intro vcg waiting.consume_wp)
    (auto simp: waiting_ok_def unique_by_drop)

lemma invalidate_subject_waiting: "keeps (invalidate_subject_state e x reason) waiting_ok"
  by (intro waiting.invalidate_subject_state_keeps waiting.revoke_if_held_keeps) (simp_all add: waiting_ok_def)

lemma process_privacy_request_waiting: "keeps (process_privacy_request e i actor ok reason) waiting_ok"
proof -
  have w: "keeps (withdraw_consents e x) waiting_ok" "keeps (erase_subject e x) waiting_ok" for x
    by (simp_all add: waiting.withdraw_consents_keeps waiting.erase_subject_keeps waiting_ok_def)
  show ?thesis
    by (rule keepsI, unfold process_privacy_request_def,
        intro vcg waiting.consume_wp wp_keeps [OF invalidate_subject_waiting] wp_keeps [OF w(1)] wp_keeps [OF w(2)])
      (auto simp: waiting_ok_def unique_by_drop)
qed

lemma waiting_exec: "keeps (exec e c) waiting_ok"
  by (cases c)
    (simp_all add: register_recovery_commitment_waiting request_recovery_waiting open_privacy_request_waiting
      decide_recovery_waiting process_privacy_request_waiting waiting.operations_keep,
     simp_all add: waiting_ok_def waiting.operations_keep)

subsection \<open>Consents\<close>

text \<open>All the active consents of the subject are withdrawn before a new one is filed.\<close>

lemma withdrawal_one_consent: "withdrawal x d d' \<Longrightarrow> one_consent d \<Longrightarrow> one_consent d'"
  by (erule unique_by_weaker) (auto elim!: withdrawal_back)

lemma consents_okD: "consents_ok s \<Longrightarrow> distinct (dkeys (consents s))"
  by (auto simp: consents_ok_def kept_def intro: store_ok_distinct)

lemma withdraw_consents_ok: "keeps (withdraw_consents e x) consents_ok"
proof -
  have "keeps (withdraw_consents e x) (\<lambda>s. kept cns_consent_id ''cns'' consents s \<and> one_consent (consents s))"
    by (rule keeps_given [OF withdraw_consents_store], rule wp_withdraw_consents)
      (auto simp: kept_def intro: store_ok_distinct withdrawal_one_consent)
  then show ?thesis by (simp add: consents_ok_def [abs_def])
qed

lemma accept_consent_ok: "keeps (accept_consent e x notice ps) consents_ok"
proof -
  have "keeps (accept_consent e x notice ps) (\<lambda>s. kept cns_consent_id ''cns'' consents s \<and> one_consent (consents s))"
  proof (rule keeps_given [OF accept_consent_store])
    fix s assume "kept cns_consent_id ''cns'' consents s" and one: "one_consent (consents s)"
    then have d: "distinct (dkeys (consents s))" by (auto simp: kept_def intro: store_ok_distinct)
    show "wp (accept_consent e x notice ps) (\<lambda>_ t. one_consent (consents t)) (\<lambda>_ t. one_consent (consents t)) s"
      unfolding accept_consent_def require_active_release_def current_operator_release_def
      by (intro vcg wp_withdraw_consents)
        (use one d in \<open>auto intro!: unique_by_insert intro: withdrawal_one_consent dest: clearedD\<close>)
  qed
  then show ?thesis by (simp add: consents_ok_def [abs_def])
qed

lemma consents_exec: "keeps (exec e c) consents_ok"
  by (cases c)
    (simp_all add: accept_consent_ok withdraw_consents_ok consenting.operations_keep,
     (simp_all add: membership_simps consenting.operations_keep withdraw_consents_ok)?)

subsection \<open>Operator releases\<close>

definition none_in_force :: "(string, operator_release) dict \<Rightarrow> bool" where
  "none_in_force d \<longleftrightarrow> (\<forall>i r. dget d i = Some r \<longrightarrow> rel_suspended_at r \<noteq> None)"

lemma none_in_force_one: "none_in_force d \<Longrightarrow> one_release (dput i r d)"
  by (rule unique_by_insert) (unfold none_in_force_def unique_by_def, metis+)

text \<open>Where the current release is not found there is none; where it is, it is the only one.\<close>

lemma current_release_none:
  assumes "releases_ok s" "length (unsuspended s) \<noteq> 1"
  shows "none_in_force (operator_releases s)"
proof -
  have "distinct (dkeys (operator_releases s))"
    using assms(1) by (auto simp: releases_ok_def kept_def intro: store_ok_distinct)
  then have "length (unsuspended s) \<le> 1"
    using assms(1) by (simp add: releases_ok_def unique_by_length unsuspended_def)
  with assms(2) have "unsuspended s = []" by (metis le_neq_implies_less length_0_conv less_one)
  then show ?thesis by (auto simp: none_in_force_def unsuspended_def filter_empty_conv dest!: map_of_SomeD)
qed

lemma current_release_only:
  assumes ok: "releases_ok s" and one: "length (unsuspended s) = 1"
  shows "none_in_force (dput (rel_release_id (hd (unsuspended s)))
    ((hd (unsuspended s))\<lparr>rel_suspended_at := Some u\<rparr>) (operator_releases s))"
proof -
  let ?r = "hd (unsuspended s)"
  have "unsuspended s \<noteq> []" using one by auto
  then have r: "?r \<in> set (dvals (operator_releases s))" "rel_suspended_at ?r = None"
    using hd_in_set [of "unsuspended s"] by (auto simp: unsuspended_def)
  have "dget (operator_releases s) (rel_release_id ?r) = Some ?r"
    using ok store_ok_value [OF _ r(1), of rel_release_id] by (auto simp: releases_ok_def kept_def)
  then have "rel_suspended_at r \<noteq> None"
    if "dget (operator_releases s) i = Some r" "i \<noteq> rel_release_id ?r" for i r
    using ok r(2) that unfolding releases_ok_def unique_by_def by metis
  then show ?thesis by (simp add: none_in_force_def dict)
qed

lemma register_operator_release_ok: "keeps (register_operator_release e f) releases_ok"
proof -
  have "keeps (register_operator_release e f) (\<lambda>s. kept rel_release_id ''rel'' operator_releases s \<and> one_release (operator_releases s))"
  proof (rule keeps_given [OF register_release_store])
    fix s assume "kept rel_release_id ''rel'' operator_releases s" "one_release (operator_releases s)"
    then have ok: "releases_ok s" by (simp add: releases_ok_def)
    have one: "one_release (operator_releases t)" if "releases_ok t" for t using that by (simp add: releases_ok_def)
    have none: "one_release (dput i r (operator_releases t))" if "releases_ok t" "length (unsuspended t) \<noteq> 1" for t i r
      using current_release_none [OF that] by (rule none_in_force_one)
    have only: "one_release (dput i r (dput (rel_release_id (hd (unsuspended t)))
        ((hd (unsuspended t))\<lparr>rel_suspended_at := Some u\<rparr>) (operator_releases t)))"
      if "releases_ok t" "length (unsuspended t) = 1" for t i r u
      using current_release_only [OF that] by (rule none_in_force_one)
    show "wp (register_operator_release e f) (\<lambda>_ t. one_release (operator_releases t)) (\<lambda>_ t. one_release (operator_releases t)) s"
      unfolding register_operator_release_def current_operator_release_def put_release_def
      by (intro vcg releasing.consume_wp) (auto simp: ok one none only unique_by_drop)
  qed
  then show ?thesis by (simp add: releases_ok_def [abs_def])
qed

lemma releases_exec: "keeps (exec e c) releases_ok"
  by (cases c)
    (simp_all add: register_operator_release_ok releasing.operations_keep,
     (simp_all add: membership_simps releasing.operations_keep)?)

section \<open>In every reachable state\<close>

lemma memberships_reachable: "reachable e s \<Longrightarrow> waiting_ok s \<and> consents_ok s \<and> releases_ok s"
  by (erule reachable_invariant [where I = "\<lambda>s. waiting_ok s \<and> consents_ok s \<and> releases_ok s"])
    (simp_all add: keeps_conj waiting_exec consents_exec releases_exec,
     simp_all add: membership_simps new_core_def)

end
