(* ===== verification/Custody.thy ===== *)
theory Custody
  imports Assurance Membership
begin

text \<open>
  Who holds a subject's key: a recovery spends the commitment it was asked for under, once; and a key
  changes by the approval of a recovery or of a deletion, and by nothing else.
\<close>

section \<open>A commitment serves one recovery\<close>

text \<open>
  Every case names a commitment of its own subject, which is open while the case waits and spent
  when it was approved; and of the cases under one commitment at most one was not rejected.
\<close>

definition case_bound :: "(string, recovery_commitment) dict \<Rightarrow> recovery_case \<Rightarrow> bool" where
  "case_bound ks c \<longleftrightarrow>
     (\<exists>k. dget ks (rcv_recovery_commitment_id c) = Some k \<and> rcm_subject_id k = rcv_subject_id c
        \<and> (rcv_state c = RCV_PENDING \<longrightarrow> rcm_consumed_at k = None)
        \<and> (rcv_state c = RCV_APPROVED \<longrightarrow> rcm_consumed_at k \<noteq> None))"

definition cases_bound :: "(string, recovery_case) dict \<Rightarrow> (string, recovery_commitment) dict \<Rightarrow> bool" where
  "cases_bound cs ks \<longleftrightarrow> (\<forall>i c. dget cs i = Some c \<longrightarrow> case_bound ks c)
     \<and> unique_by rcv_recovery_commitment_id (\<lambda>c. rcv_state c \<noteq> RCV_REJECTED) cs"

definition custody_ok :: "core \<Rightarrow> bool" where
  "custody_ok s \<longleftrightarrow> kept rcm_recovery_commitment_id ''rcm'' recovery_commitments s
     \<and> kept rcv_recovery_case_id ''rcv'' recovery_cases s \<and> cases_bound (recovery_cases s) (recovery_commitments s)"

lemmas custody_simps = custody_ok_def kept_def store_ok_bump

interpretation custody: quiet e custody_ok for e
  by unfold_locales (simp_all add: custody_simps)

interpretation custody: settled e custody_ok for e
  by unfold_locales (simp_all add: custody.consume_authority_keeps custody.recalculate_keeps custody_simps)

interpretation bindings: quiet e "\<lambda>s. P (recovery_cases s) (recovery_commitments s)" for e P
  by unfold_locales simp_all

interpretation bindings: settled e "\<lambda>s. P (recovery_cases s) (recovery_commitments s)" for e P
  by unfold_locales (simp_all add: bindings.consume_authority_keeps bindings.recalculate_keeps)

lemma cases_bound_commitment:
  assumes "cases_bound cs ks" "dget ks i = None"
  shows "cases_bound cs (dput i k ks)"
  using assms by (fastforce simp: cases_bound_def case_bound_def dict)

text \<open>A new case under the open commitment of a subject for whom none waits.\<close>

lemma cases_bound_request:
  assumes ok: "cases_bound cs ks"
    and k: "dget ks (rcv_recovery_commitment_id c) = Some k" "rcm_subject_id k = rcv_subject_id c" "rcm_consumed_at k = None"
    and c: "rcv_state c = RCV_PENDING"
    and none: "\<And>j y. dget cs j = Some y \<Longrightarrow> \<not> (rcv_subject_id y = rcv_subject_id c \<and> rcv_state y = RCV_PENDING)"
  shows "cases_bound (dput i c cs) ks"
  unfolding cases_bound_def
proof
  show "\<forall>j y. dget (dput i c cs) j = Some y \<longrightarrow> case_bound ks y"
    using ok k c by (auto simp: cases_bound_def case_bound_def dict)
  show "unique_by rcv_recovery_commitment_id (\<lambda>c. rcv_state c \<noteq> RCV_REJECTED) (dput i c cs)"
  proof (rule unique_by_insert)
    fix j y assume y: "dget cs j = Some y" "rcv_state y \<noteq> RCV_REJECTED"
      "rcv_recovery_commitment_id y = rcv_recovery_commitment_id c"
    with ok k have "rcv_subject_id y = rcv_subject_id c" "rcv_state y = RCV_APPROVED \<longrightarrow> rcm_consumed_at k \<noteq> None"
      by (fastforce simp: cases_bound_def case_bound_def)+
    with k(3) none [OF y(1)] y(2) show False by (cases "rcv_state y") auto
  qed (use ok in \<open>simp add: cases_bound_def\<close>)
qed

lemma cases_bound_reject:
  assumes "cases_bound cs ks" "dget cs i = Some c" "rcv_state d = RCV_REJECTED"
    "rcv_recovery_commitment_id d = rcv_recovery_commitment_id c" "rcv_subject_id d = rcv_subject_id c"
  shows "cases_bound (dput i d cs) ks"
  using assms by (fastforce simp: cases_bound_def case_bound_def dict unique_by_drop)

lemma cases_bound_approve:
  assumes ok: "cases_bound cs ks" and c: "dget cs i = Some c" "rcv_state c = RCV_PENDING"
    and d: "rcv_state d = RCV_APPROVED" "rcv_recovery_commitment_id d = rcv_recovery_commitment_id c" "rcv_subject_id d = rcv_subject_id c"
    and k: "dget ks (rcv_recovery_commitment_id c) = Some k" "rcm_subject_id k' = rcm_subject_id k" "rcm_consumed_at k' \<noteq> None"
  shows "cases_bound (dput i d cs) (dput (rcv_recovery_commitment_id c) k' ks)"
  unfolding cases_bound_def
proof
  have unique: "unique_by rcv_recovery_commitment_id (\<lambda>c. rcv_state c \<noteq> RCV_REJECTED) cs"
    using ok by (simp add: cases_bound_def)
  then show "unique_by rcv_recovery_commitment_id (\<lambda>c. rcv_state c \<noteq> RCV_REJECTED) (dput i d cs)"
    using c(1) by (rule unique_by_update) (use c d in simp)
  show "\<forall>j y. dget (dput i d cs) j = Some y \<longrightarrow> case_bound (dput (rcv_recovery_commitment_id c) k' ks) y"
  proof (intro allI impI)
    fix j y assume y: "dget (dput i d cs) j = Some y"
    show "case_bound (dput (rcv_recovery_commitment_id c) k' ks) y"
    proof (cases "j = i")
      case True
      have "case_bound ks c" using ok c(1) by (auto simp: cases_bound_def)
      with True y d k show ?thesis by (auto simp: case_bound_def dict)
    next
      case False
      with y have y': "dget cs j = Some y" by (simp add: dict)
      then have b: "case_bound ks y" using ok by (auto simp: cases_bound_def)
      show ?thesis
      proof (cases "rcv_recovery_commitment_id y = rcv_recovery_commitment_id c")
        case True
        have "rcv_state c \<noteq> RCV_REJECTED" using c(2) by simp
        with True have "rcv_state y = RCV_REJECTED" using unique y' c(1) False unfolding unique_by_def by metis
        with True b k show ?thesis by (auto simp: case_bound_def dict)
      next
        case False
        with b show ?thesis by (auto simp: case_bound_def dict)
      qed
    qed
  qed
qed

text \<open>The calls that write cases or commitments.\<close>

lemma register_commitment_custody:
  assumes "kept rcm_recovery_commitment_id ''rcm'' recovery_commitments s" "cases_bound (recovery_cases s) (recovery_commitments s)"
  shows "wp (register_recovery_commitment e x c) (\<lambda>_ t. cases_bound (recovery_cases t) (recovery_commitments t))
    (\<lambda>_ t. cases_bound (recovery_cases t) (recovery_commitments t)) s"
  unfolding register_recovery_commitment_def require_active_release_def current_operator_release_def
  by (intro vcg) (use assms in \<open>auto simp: kept_def intro!: cases_bound_commitment dest: store_ok_fresh\<close>)

lemma open_commitment:
  assumes "length (filter P (dvals d)) = 1" "store_ok sel p n d"
  shows "dget d (sel (hd (filter P (dvals d)))) = Some (hd (filter P (dvals d)))" "P (hd (filter P (dvals d)))"
proof -
  have "hd (filter P (dvals d)) \<in> set (filter P (dvals d))" using assms(1) by (intro hd_in_set) (metis One_nat_def list.size(3) zero_neq_one)
  then show "P (hd (filter P (dvals d)))" "dget d (sel (hd (filter P (dvals d)))) = Some (hd (filter P (dvals d)))"
    using store_ok_value [OF assms(2)] by (simp_all only: set_filter mem_Collect_eq)
qed

lemma request_recovery_custody:
  assumes "kept rcm_recovery_commitment_id ''rcm'' recovery_commitments s" "cases_bound (recovery_cases s) (recovery_commitments s)"
  shows "wp (request_recovery e x key secret) (\<lambda>_ t. cases_bound (recovery_cases t) (recovery_commitments t))
    (\<lambda>_ t. cases_bound (recovery_cases t) (recovery_commitments t)) s"
proof -
  let ?open = "filter (\<lambda>c. rcm_subject_id c = x \<and> rcm_consumed_at c = None) (dvals (recovery_commitments s))"
  have store: "store_ok rcm_recovery_commitment_id ''rcm'' (counters s) (recovery_commitments s)"
    using assms(1) by (simp add: kept_def)
  have filed: "cases_bound (dput i c (recovery_cases s)) (recovery_commitments s)"
    if "\<not> length ?open \<noteq> 1" "\<not> list_ex (\<lambda>c. rcv_subject_id c = x \<and> rcv_state c = RCV_PENDING) (dvals (recovery_cases s))"
      "rcv_recovery_commitment_id c = rcm_recovery_commitment_id (hd ?open)" "rcv_subject_id c = x" "rcv_state c = RCV_PENDING"
    for i c
    using assms(2) open_commitment [OF _ store, of "\<lambda>c. rcm_subject_id c = x \<and> rcm_consumed_at c = None"] that(1,3-) none_waiting [OF that(2)]
    by (intro cases_bound_request [where k = "hd ?open"]) simp_all
  show ?thesis
    unfolding request_recovery_def require_active_release_def current_operator_release_def
    by (intro vcg) (use assms(2) in \<open>simp_all add: filed\<close>)
qed

text \<open>A decision that returns has done both: the case is decided and, if approved, its commitment spent.\<close>

lemma decide_recovery_custody:
  assumes "kept rcm_recovery_commitment_id ''rcm'' recovery_commitments s" "kept rcv_recovery_case_id ''rcv'' recovery_cases s"
    and ok: "cases_bound (recovery_cases s) (recovery_commitments s)"
  shows "wp (decide_recovery e i actor approve reason) (\<lambda>_ t. cases_bound (recovery_cases t) (recovery_commitments t)) anyerr s"
proof -
  have approved: "cases_bound (dput (rcv_recovery_case_id c) d (recovery_cases s))
      (dput (rcm_recovery_commitment_id k) k' (recovery_commitments s))"
    if c: "dget (recovery_cases s) i = Some c" and k: "dget (recovery_commitments s) (rcv_recovery_commitment_id c) = Some k"
      and rest: "rcv_state c = RCV_PENDING" "rcv_state d = RCV_APPROVED" "rcv_recovery_commitment_id d = rcv_recovery_commitment_id c"
        "rcv_subject_id d = rcv_subject_id c" "rcm_subject_id k' = rcm_subject_id k" "rcm_consumed_at k' \<noteq> None" for c d k k'
    using cases_bound_approve [OF ok c rest(1-4) k rest(5,6)] assms(1,2) store_ok_key [OF _ c] store_ok_key [OF _ k]
    by (metis kept_def)
  have rejected: "cases_bound (dput (rcv_recovery_case_id c) d (recovery_cases s)) (recovery_commitments s)"
    if c: "dget (recovery_cases s) i = Some c" and rest: "rcv_state d = RCV_REJECTED"
      "rcv_recovery_commitment_id d = rcv_recovery_commitment_id c" "rcv_subject_id d = rcv_subject_id c" for c d
    using cases_bound_reject [OF ok c rest] assms(2) store_ok_key [OF _ c] by (metis kept_def)
  show ?thesis
    unfolding decide_recovery_def apply_recovery_def
    by (intro vcg; simp add: used_def; (rule approved rejected; simp)?)
qed

text \<open>
  States reached by calls that return, which are those that the database keeps: a call that raises is
  rolled back.
\<close>

inductive committed :: "env \<Rightarrow> core \<Rightarrow> bool" for e where
  fresh: "committed e new_core"
| called: "committed e s \<Longrightarrow> exec (e\<lparr>env_clock := clock\<rparr>) c (s\<lparr>clock_reads := n\<rparr>) = (Inr (), t) \<Longrightarrow> committed e t"

lemma committed_reachable: "committed e s \<Longrightarrow> reachable e s"
proof (induction rule: committed.induct)
  case (called s clock c n t)
  with reachable.called [of e s clock c n] show ?case by simp
qed (rule reachable.fresh)

lemma committed_exec: "committed e s \<Longrightarrow> exec e c s = (Inr (), t) \<Longrightarrow> committed e t"
  using committed.called [of e s "env_clock e" c "clock_reads s" t] by simp

lemma custody_call: "custody_ok s \<Longrightarrow> wp (exec e c) (\<lambda>_. custody_ok) anyerr s"
proof -
  assume ok: "custody_ok s"
  have bound: "wp (exec e c) (\<lambda>_ t. cases_bound (recovery_cases t) (recovery_commitments t)) anyerr s"
  proof (cases "\<exists>x y z u a. c = Register_Recovery_Commitment x y \<or> c = Request_Recovery x y z \<or> c = Decide_Recovery x y a z")
    case True
    with ok show ?thesis
      by (auto simp: wp_call custody_ok_def intro: decide_recovery_custody
          wp_mono [OF register_commitment_custody] wp_mono [OF request_recovery_custody])
  next
    case False
    have "keeps (exec e c) (\<lambda>s. cases_bound (recovery_cases s) (recovery_commitments s))"
      using False by (cases c) (simp_all add: bindings.operations_keep [where P = cases_bound])
    then show ?thesis by (rule wp_keeps) (use ok in \<open>simp_all add: custody_ok_def\<close>)
  qed
  show ?thesis
    unfolding custody_ok_def
    by (intro wp_conj bound wp_keeps [OF commitment_exec] wp_keeps [OF case_exec])
      (use ok in \<open>simp_all add: custody_ok_def\<close>)
qed

theorem custody_committed: "committed e s \<Longrightarrow> custody_ok s"
proof (induction rule: committed.induct)
  case fresh
  then show ?case by (simp add: custody_ok_def new_core_def kept_def cases_bound_def)
next
  case (called s clock c n t)
  then have "custody_ok (s\<lparr>clock_reads := n\<rparr>)" by (simp add: custody_ok_def kept_def)
  from wpD [OF custody_call [OF this] called.hyps(2)] show ?case .
qed

section \<open>How a key changes\<close>

text \<open>A grant on file, not revoked, that carries a capability.\<close>

definition entitled :: "core \<Rightarrow> string \<Rightarrow> authority_capability \<Rightarrow> bool" where
  "entitled s actor cap \<longleftrightarrow> (\<exists>g. dget (authority_grants s) actor = Some g \<and> cap \<in> agr_capabilities g \<and> agr_revoked_at g = None)"

text \<open>What a call may make of the record \<open>a\<close> of the subject \<open>x\<close>.\<close>

definition custody_step :: "env \<Rightarrow> core \<Rightarrow> command \<Rightarrow> string \<Rightarrow> subject \<Rightarrow> subject \<Rightarrow> bool" where
  "custody_step e s c x a b \<longleftrightarrow>
     b = a
   \<or> (\<exists>i actor reason p t. c = Process_Privacy_Request i actor True reason \<and> entitled s actor PROCESS_PRIVACY
        \<and> dget (privacy_requests s) i = Some p \<and> prv_state p = PRV_PENDING \<and> prv_kind p = DELETION
        \<and> prv_subject_id p = x \<and> (\<exists>n. env_clock e n = Aware t)
        \<and> b = a\<lparr>sub_participant_key := None, sub_deleted_at := Some t\<rparr>)
   \<or> (\<exists>i actor reason k. c = Decide_Recovery i actor True reason \<and> entitled s actor DECIDE_RECOVERY
        \<and> dget (recovery_cases s) i = Some k \<and> rcv_state k = RCV_PENDING \<and> rcv_subject_id k = x
        \<and> b = a\<lparr>sub_participant_key := Some (rcv_replacement_participant_key k)\<rparr>)"

interpretation custodial: quiet e "\<lambda>s. P (subjects s)" for e P
  by unfold_locales simp_all

interpretation custodial: settled e "\<lambda>s. P (subjects s)" for e P
  by unfold_locales (simp_all add: custodial.consume_authority_keeps custodial.recalculate_keeps)

definition custody_kept :: "env \<Rightarrow> core \<Rightarrow> command \<Rightarrow> string \<Rightarrow> core \<Rightarrow> bool" where
  "custody_kept e s c x t \<longleftrightarrow>
     (case dget (subjects s) x of
        None \<Rightarrow> (\<forall>b. dget (subjects t) x = Some b \<longrightarrow> (\<exists>n. env_clock e n = Aware (sub_created_at b)))
      | Some a \<Rightarrow> (\<exists>b. dget (subjects t) x = Some b \<and> custody_step e s c x a b))"

lemma custody_unchanged: "dget (subjects t) x = dget (subjects s) x \<Longrightarrow> custody_kept e s c x t"
  by (simp add: custody_kept_def custody_step_def split: option.split)

lemma custody_recovered:
  assumes key: "\<And>j b. dget (subjects s) j = Some b \<Longrightarrow> sub_subject_id b = j"
  shows "wp (decide_recovery e i actor approve reason) (\<lambda>_. custody_kept e s (Decide_Recovery i actor approve reason) x)
    (\<lambda>_. custody_kept e s (Decide_Recovery i actor approve reason) x) s"
proof -
  have step: "custody_kept e s (Decide_Recovery i actor True reason) x t"
    if "dget (authority_grants s) actor = Some g" "usable u DECIDE_RECOVERY None None g"
      "dget (recovery_cases s) i = Some k" "rcv_state k = RCV_PENDING" "dget (subjects s) (rcv_subject_id k) = Some b"
      "subjects t = dput (sub_subject_id b) (b\<lparr>sub_participant_key := Some (rcv_replacement_participant_key k)\<rparr>) (subjects s)"
    for g u k b t
    using that key [OF that(5)]
    by (auto simp: custody_kept_def custody_step_def entitled_def usable_def dict split: option.split)
  show ?thesis
    unfolding decide_recovery_def apply_recovery_def
    by (cases approve; intro vcg; simp add: used_def;
        (((rule custody_unchanged, (simp; fail)) | (rule step, assumption, assumption, assumption, assumption, assumption, simp))?))
qed

lemma custody_deleted:
  assumes key: "\<And>j b. dget (subjects s) j = Some b \<Longrightarrow> sub_subject_id b = j"
  shows "wp (process_privacy_request e i actor approve reason) (\<lambda>_. custody_kept e s (Process_Privacy_Request i actor approve reason) x)
    (\<lambda>_. custody_kept e s (Process_Privacy_Request i actor approve reason) x) s"
proof -
  have step: "custody_kept e s (Process_Privacy_Request i actor True reason) x t"
    if "dget (authority_grants s) actor = Some g" "usable u PROCESS_PRIVACY None None g"
      "dget (privacy_requests s) i = Some p" "prv_state p = PRV_PENDING" "prv_kind p = DELETION" "dget (subjects s) (prv_subject_id p) = Some b"
      "env_clock e n = Aware v"
      "subjects t = dput (sub_subject_id b) (b\<lparr>sub_participant_key := None, sub_deleted_at := Some v\<rparr>) (subjects s)"
    for g u p b v n t
    using that key [OF that(6)]
    by (auto simp: custody_kept_def custody_step_def entitled_def usable_def dict split: option.split)
  have view: "keeps (invalidate_subject_state e y r) (\<lambda>t. subjects t = d)" "keeps (withdraw_consents e y) (\<lambda>t. subjects t = d)" for y r d
    by (simp_all add: custodial.operations_keep [where P = "\<lambda>x. x = d"])
  show ?thesis
    unfolding process_privacy_request_def erase_subject_def
    by (cases approve; intro vcg wp_keeps [OF view(1) [where d = "subjects s"]] wp_keeps [OF view(2) [where d = "subjects s"]];
        simp add: used_def;
        (((rule custody_unchanged, (simp; fail)) | (rule step, assumption, assumption, assumption, assumption, simp, assumption, assumption, simp))?))
qed

lemma custody_created:
  assumes "kept sub_subject_id ''sub'' subjects s"
  shows "wp (create_subject e key b) (\<lambda>_. custody_kept e s c x) (\<lambda>_. custody_kept e s c x) s"
  unfolding create_subject_def current_operator_release_def
  by (intro vcg) (use assms in \<open>auto simp: kept_def custody_kept_def custody_step_def dict split: option.split dest: store_ok_fresh\<close>)

theorem custody_steps:
  assumes kept: "kept sub_subject_id ''sub'' subjects s"
  shows "wp (exec e c) (\<lambda>_. custody_kept e s c x) (\<lambda>_. custody_kept e s c x) s"
proof (cases "\<exists>i actor approve reason key b. c = Process_Privacy_Request i actor approve reason
    \<or> c = Decide_Recovery i actor approve reason \<or> c = Create_Subject key b")
  case True
  have key: "sub_subject_id b = j" if "dget (subjects s) j = Some b" for j b
    using kept that by (auto simp: kept_def intro: store_ok_key)
  from True show ?thesis
    by (auto simp: wp_call intro: custody_deleted [OF key] custody_recovered [OF key] custody_created [OF kept])
next
  case False
  have "keeps (exec e c) (\<lambda>t. dget (subjects t) x = dget (subjects s) x)"
    using False by (cases c) (simp_all add: custodial.operations_keep [where P = "\<lambda>d. dget d x = dget (subjects s) x"])
  then show ?thesis by (rule wp_keeps) (simp_all add: custody_unchanged)
qed

end
