(* ===== verification/Electorate.thy ===== *)
theory Electorate
  imports Custody
begin

text \<open>
  The electorate of a past instant: who was eligible then is computed from the records of today, and
  no later call changes the answer, so that the digest of a member snapshot can be checked while the
  ballot runs.
\<close>

section \<open>Who is eligible\<close>

definition registered :: "time \<Rightarrow> (string, subject) dict \<Rightarrow> string set" where
  "registered t d = {i. \<exists>x. dget d i = Some x \<and> sub_created_at x \<le> t
     \<and> (case sub_deleted_at x of None \<Rightarrow> True | Some w \<Rightarrow> t < w)}"

text \<open>A consent that counts at \<open>t\<close>.\<close>

definition counts_at :: "time \<Rightarrow> consent_record \<Rightarrow> bool" where
  "counts_at t c \<longleftrightarrow> cns_granted_at c \<le> t \<and> (case cns_withdrawn_at c of None \<Rightarrow> True | Some w \<Rightarrow> t < w)
     \<and> member_purpose \<in> cns_purposes c"

definition consenting_at :: "time \<Rightarrow> (string, consent_record) dict \<Rightarrow> string set" where
  "consenting_at t d = {i. \<exists>j c. dget d j = Some c \<and> cns_subject_id c = i \<and> counts_at t c}"

definition electorate :: "time \<Rightarrow> core \<Rightarrow> string set" where
  "electorate t s = registered t (subjects s) \<inter> consenting_at t (consents s)"

lemma consented_at_iff:
  assumes "distinct (dkeys (consents s))"
  shows "consented_at s i t \<longleftrightarrow> i \<in> consenting_at t (consents s)"
  unfolding consented_at_def list_ex_iff Bex_def in_dvals [OF assms]
  by (auto simp: consenting_at_def counts_at_def)

lemma eligible_subjects_electorate:
  assumes "kept sub_subject_id ''sub'' subjects s" "distinct (dkeys (consents s))"
  shows "eligible_subjects s t = sorted_list_of_set (electorate t s)"
proof -
  let ?found = "filter (eligible_at s t) (dvals (subjects s))"
  have store: "store_ok sub_subject_id ''sub'' (counters s) (subjects s)" using assms(1) by (simp add: kept_def)
  have ids: "map sub_subject_id (dvals (subjects s)) = dkeys (subjects s)"
    using store by (auto simp: store_ok_def)
  have "distinct (map sub_subject_id ?found)"
    using ids store_ok_distinct [OF store] by (intro distinct_map_filter) (simp del: map_map)
  moreover have "set (map sub_subject_id ?found) = electorate t s"
  proof -
    have "i \<in> set (map sub_subject_id ?found) \<longleftrightarrow> (\<exists>x. dget (subjects s) i = Some x \<and> eligible_at s t x)" for i
    proof
      assume "i \<in> set (map sub_subject_id ?found)"
      then obtain x where x: "x \<in> set (dvals (subjects s))" "eligible_at s t x" "sub_subject_id x = i" by auto
      then obtain k where "dget (subjects s) k = Some x" using in_dvals [OF store_ok_distinct [OF store]] by blast
      with x store_ok_key [OF store] show "\<exists>x. dget (subjects s) i = Some x \<and> eligible_at s t x" by blast
    next
      assume "\<exists>x. dget (subjects s) i = Some x \<and> eligible_at s t x"
      then obtain x where x: "dget (subjects s) i = Some x" "eligible_at s t x" by blast
      from x(1) have "x \<in> set (dvals (subjects s))" by (rule dget_in_dvals)
      moreover have "sub_subject_id x = i" using store x(1) by (rule store_ok_key)
      ultimately show "i \<in> set (map sub_subject_id ?found)" using x(2) by auto
    qed
    moreover have "(\<exists>x. dget (subjects s) i = Some x \<and> eligible_at s t x) \<longleftrightarrow> i \<in> electorate t s" for i
    proof -
      have "sub_subject_id x = i" if "dget (subjects s) i = Some x" for x using store that by (rule store_ok_key)
      then show ?thesis
        by (auto simp: electorate_def registered_def eligible_at_def consented_at_iff [OF assms(2)])
    qed
    ultimately show ?thesis by blast
  qed
  ultimately show ?thesis
    by (metis eligible_subjects_def distinct_remdups_id sorted_list_of_set_sort_remdups)
qed

section \<open>Later calls\<close>

text \<open>Every reading of the clock is after \<open>t\<close>.\<close>

definition clock_after :: "env \<Rightarrow> time \<Rightarrow> bool" where
  "clock_after e t \<longleftrightarrow> (\<forall>n u. env_clock e n = Aware u \<longrightarrow> t < u)"

text \<open>The call does not approve the deletion of a subject who is deleted already.\<close>

definition deletes_once :: "core \<Rightarrow> command \<Rightarrow> bool" where
  "deletes_once s c \<longleftrightarrow> (\<forall>i actor reason p x. c = Process_Privacy_Request i actor True reason
     \<longrightarrow> dget (privacy_requests s) i = Some p \<longrightarrow> prv_kind p = DELETION
     \<longrightarrow> dget (subjects s) (prv_subject_id p) = Some x \<longrightarrow> sub_deleted_at x = None)"

lemma registered_kept:
  assumes later: "clock_after e t0" and once: "deletes_once s c" and steps: "\<And>x. custody_kept e s c x t"
  shows "registered t0 (subjects t) = registered t0 (subjects s)"
proof -
  have "x \<in> registered t0 (subjects t) \<longleftrightarrow> x \<in> registered t0 (subjects s)" for x
  proof (cases "dget (subjects s) x")
    case None
    with steps [of x] later show ?thesis by (fastforce simp: registered_def custody_kept_def clock_after_def)
  next
    case (Some a)
    with steps [of x] obtain b where b: "dget (subjects t) x = Some b" "custody_step e s c x a b"
      by (auto simp: custody_kept_def)
    have "sub_created_at b = sub_created_at a
      \<and> (sub_deleted_at b = sub_deleted_at a \<or> sub_deleted_at a = None \<and> (\<exists>w. sub_deleted_at b = Some w \<and> t0 < w))"
      using b(2) Some later once by (fastforce simp: custody_step_def clock_after_def deletes_once_def)
    with b(1) Some show ?thesis by (auto simp: registered_def)
  qed
  then show ?thesis by blast
qed

text \<open>The consents of \<open>d'\<close> count at \<open>t\<close> as those of \<open>d\<close> do, and what is new does not.\<close>

fun same_count :: "time \<Rightarrow> consent_record option \<Rightarrow> consent_record option \<Rightarrow> bool" where
  "same_count t (Some c) (Some c') \<longleftrightarrow> cns_subject_id c' = cns_subject_id c \<and> counts_at t c' = counts_at t c"
| "same_count t (Some _) None \<longleftrightarrow> False"
| "same_count t None (Some c') \<longleftrightarrow> \<not> counts_at t c'"
| "same_count t None None \<longleftrightarrow> True"

definition same_counts :: "time \<Rightarrow> (string, consent_record) dict \<Rightarrow> (string, consent_record) dict \<Rightarrow> bool" where
  "same_counts t d d' \<longleftrightarrow> (\<forall>j. same_count t (dget d j) (dget d' j))"

lemma same_count_refl [simp]: "same_count t x x"
  by (cases x) auto

lemma same_counts_refl: "same_counts t d d"
  by (simp add: same_counts_def)

lemma consenting_kept:
  assumes "same_counts t d d'"
  shows "consenting_at t d' = consenting_at t d"
proof -
  have "(\<exists>c. dget d' j = Some c \<and> cns_subject_id c = i \<and> counts_at t c)
      \<longleftrightarrow> (\<exists>c. dget d j = Some c \<and> cns_subject_id c = i \<and> counts_at t c)" for i j
  proof -
    have "same_count t (dget d j) (dget d' j)" using assms by (simp add: same_counts_def)
    then show ?thesis by (cases "dget d j"; cases "dget d' j") auto
  qed
  then show ?thesis by (simp add: consenting_at_def)
qed

lemma same_counts_new:
  assumes "same_counts t d d'" "dget d j = None" "t < cns_granted_at c"
  shows "same_counts t d (dput j c d')"
  using assms by (simp add: same_counts_def counts_at_def dict)

lemma same_counts_withdrawn:
  assumes "same_counts t d d'" "dget d j = Some c" "cns_withdrawn_at c = None" "t < u"
  shows "same_counts t d (dput j (c\<lparr>cns_withdrawn_at := Some u\<rparr>) d')"
  using assms by (simp add: same_counts_def counts_at_def dict)

interpretation counted: quiet e "\<lambda>s. P (consents s)" for e P
  by unfold_locales simp_all

interpretation counted: settled e "\<lambda>s. P (consents s)" for e P
  by unfold_locales (simp_all add: counted.consume_authority_keeps counted.recalculate_keeps)

lemma wp_withdraw_same:
  fixes s :: core
  assumes later: "clock_after e t0" and d: "distinct (dkeys d)" "consents s = d"
    and Q: "\<And>t. same_counts t0 d (consents t) \<Longrightarrow> counters t = counters s \<Longrightarrow> Q () t"
    and E: "\<And>er t. same_counts t0 d (consents t) \<Longrightarrow> E er t"
  shows "wp (withdraw_consents e x) Q E s"
proof -
  let ?J = "\<lambda>t. same_counts t0 d (consents t) \<and> counters t = counters s"
  have "wp (for_each (withdraw_if_active e x) d) (\<lambda>_. ?J) (\<lambda>_. ?J) s"
  proof (rule wp_for_each)
    fix kc and t :: core assume kc: "kc \<in> set d" and J: "?J t"
    have "dget d (fst kc) = Some (snd kc)" using kc d(1) by simp
    with J later show "wp (withdraw_if_active e x kc) (\<lambda>_. ?J) (\<lambda>_. ?J) t"
      unfolding withdraw_if_active_def by (intro vcg) (auto simp: clock_after_def intro!: same_counts_withdrawn)
  qed (simp add: d same_counts_refl)
  then show ?thesis
    unfolding withdraw_consents_def by (intro vcg) (auto simp: d intro: Q E elim!: wp_mono)
qed

lemma accept_consent_same:
  assumes later: "clock_after e t0" and kept: "kept cns_consent_id ''cns'' consents s"
  shows "wp (accept_consent e x notice ps) (\<lambda>_ t. same_counts t0 (consents s) (consents t))
    (\<lambda>_ t. same_counts t0 (consents s) (consents t)) s"
proof -
  have d: "distinct (dkeys (consents s))" "dget (consents s) (next_id ''cns'' (counters s)) = None"
    using kept by (auto simp: kept_def intro: store_ok_distinct store_ok_fresh)
  show ?thesis
    unfolding accept_consent_def require_active_release_def current_operator_release_def
    by (intro vcg wp_withdraw_same [OF later d(1)])
      (use d later in \<open>auto simp: same_counts_refl clock_after_def intro!: same_counts_new\<close>)
qed

lemma process_privacy_same:
  assumes later: "clock_after e t0" and d: "distinct (dkeys (consents s))"
  shows "wp (process_privacy_request e i actor approve reason) (\<lambda>_ t. same_counts t0 (consents s) (consents t))
    (\<lambda>_ t. same_counts t0 (consents s) (consents t)) s"
proof -
  have view: "keeps (invalidate_subject_state e y r) (\<lambda>t. consents t = consents s)"
    "keeps (erase_subject e y) (\<lambda>t. same_counts t0 (consents s) (consents t))" for y r
    by (simp_all add: counted.operations_keep [where P = "\<lambda>x. x = consents s"]
        counted.operations_keep [where P = "same_counts t0 (consents s)"])
  show ?thesis
    unfolding process_privacy_request_def
    by (intro vcg wp_keeps [OF view(1)] wp_keeps [OF view(2)] wp_withdraw_same [OF later d])
      (auto simp: used_def same_counts_refl)
qed

theorem electorate_call:
  assumes later: "clock_after e t0" and once: "deletes_once s c"
    and kept: "kept sub_subject_id ''sub'' subjects s" "kept cns_consent_id ''cns'' consents s"
  shows "wp (exec e c) (\<lambda>_ t. electorate t0 t = electorate t0 s) (\<lambda>_ t. electorate t0 t = electorate t0 s) s"
proof -
  have "wp (exec e c) (\<lambda>_ t. same_counts t0 (consents s) (consents t)) (\<lambda>_ t. same_counts t0 (consents s) (consents t)) s"
  proof (cases "\<exists>i actor approve reason x notice ps. c = Process_Privacy_Request i actor approve reason \<or> c = Accept_Consent x notice ps")
    case True
    have "distinct (dkeys (consents s))" using kept(2) by (auto simp: kept_def intro: store_ok_distinct)
    with True later kept(2) show ?thesis
      by (auto simp: wp_call intro: process_privacy_same accept_consent_same)
  next
    case False
    have "keeps (exec e c) (\<lambda>t. consents t = consents s)"
      using False by (cases c) (simp_all add: counted.operations_keep [where P = "\<lambda>d. d = consents s"])
    then show ?thesis by (rule wp_keeps) (simp_all add: same_counts_refl)
  qed
  moreover have "wp (exec e c) (\<lambda>_ t. custody_kept e s c x t) (\<lambda>_ t. custody_kept e s c x t) s" for x
    using custody_steps [OF kept(1)] .
  ultimately show ?thesis
    using registered_kept [OF later once] consenting_kept
    by (auto simp: wp_def electorate_def split: prod.splits sum.splits)
qed

end
