(* ===== verification/Erasure.thy ===== *)
theory Erasure
  imports Assurance Membership
begin

text \<open>
  What an approved deletion leaves behind: a subject without a key, without consents in force and
  without authority, by whom and about whom no attestation counts, and whose credentials are over.
\<close>

section \<open>Attestations\<close>

text \<open>No attestation by \<open>x\<close>, or on one of the requests \<open>rs\<close>, is active.\<close>

definition forsaken :: "string set \<Rightarrow> string \<Rightarrow> (string, attestation) dict \<Rightarrow> bool" where
  "forsaken rs x d \<longleftrightarrow> (\<forall>i a. dget d i = Some a
     \<longrightarrow> att_verifier_subject_id a = x \<or> att_request_id a \<in> rs \<longrightarrow> att_state a \<noteq> ATT_ACTIVE)"

lemma forsaken_inactive:
  assumes "forsaken rs x (attestations s)" "r \<in> rs" "distinct (dkeys (attestations s))"
  shows "active_attestations s r u = []"
proof -
  have "a \<notin> set (active_attestations s r u)" for a
    unfolding in_active in_dvals [OF assms(3)] using assms(1,2) by (auto simp: forsaken_def)
  then show ?thesis by (meson last_in_set)
qed

text \<open>
  The loop marks every entry it visits that is to go; the entries not yet visited are those it
  started with.
\<close>

lemma invalidate_loop_marks:
  assumes "\<forall>(i, a) \<in> set items. dget d i = Some a" "distinct (dkeys items)" "rs \<subseteq> affected"
    and "\<forall>i a. dget d i = Some a \<longrightarrow> i \<notin> set (dkeys items)
           \<longrightarrow> att_verifier_subject_id a = x \<or> att_request_id a \<in> rs \<longrightarrow> att_state a \<noteq> ATT_ACTIVE"
  shows "forsaken rs x (fst (invalidate_loop x reason items d affected))
     \<and> rs \<subseteq> snd (invalidate_loop x reason items d affected)"
  using assms
proof (induction x reason items d affected rule: invalidate_loop.induct)
  case (1 x reason d affected)
  then show ?case by (simp add: forsaken_def)
next
  case (2 x reason i a items d affected)
  have rest: "i \<notin> set (dkeys items)" "distinct (dkeys items)" using "2.prems"(2) by auto
  then have other: "j \<noteq> i" if "(j, b) \<in> set items" for j b using that by force
  show ?case
  proof (cases "att_verifier_subject_id a = x \<or> att_request_id a \<in> affected")
    case True
    have "\<forall>(j, b) \<in> set items. dget (dput i (invalidate reason a) d) j = Some b"
      using "2.prems"(1) other by (auto simp: dict)
    moreover have "\<forall>j b. dget (dput i (invalidate reason a) d) j = Some b \<longrightarrow> j \<notin> set (dkeys items)
        \<longrightarrow> att_verifier_subject_id b = x \<or> att_request_id b \<in> rs \<longrightarrow> att_state b \<noteq> ATT_ACTIVE"
      using "2.prems"(4) by (auto simp: dict invalidate_def)
    moreover have "rs \<subseteq> insert (att_request_id a) affected" using "2.prems"(3) by auto
    ultimately show ?thesis using "2.IH"(1) [OF True] rest(2) True by simp
  next
    case False
    have "att_state b \<noteq> ATT_ACTIVE"
      if "dget d j = Some b" "j \<notin> set (dkeys items)" "att_verifier_subject_id b = x \<or> att_request_id b \<in> rs" for j b
      using that "2.prems"(1,3,4) False by (cases "j = i") auto
    with "2.IH"(2) [OF False] "2.prems"(1,3) rest(2) False show ?thesis by simp
  qed
qed

lemma invalidate_loop_forsakes:
  assumes "invalidate_loop x reason d d rs = (d', affected)" "distinct (dkeys d)"
  shows "forsaken rs x d'" "rs \<subseteq> affected"
proof -
  have "\<forall>(i, a) \<in> set d. dget d i = Some a" using assms(2) by auto
  moreover have "i \<in> set (dkeys d)" if "dget d i = Some a" for i a using that by (rule dget_in_dkeys)
  ultimately show "forsaken rs x d'" "rs \<subseteq> affected"
    using invalidate_loop_marks [of d d rs rs x reason] assms by (simp_all del: map_of_eq_Some_iff)
qed

lemma invalidate_loop_keys:
  "set (dkeys items) \<subseteq> set (dkeys d) \<Longrightarrow> dkeys (fst (invalidate_loop x reason items d affected)) = dkeys d"
  by (induction x reason items d affected rule: invalidate_loop.induct) (auto simp: dkeys_dput)

lemma invalidate_loop_finite:
  "finite affected \<Longrightarrow> finite (snd (invalidate_loop x reason items d affected))"
  by (induction x reason items d affected rule: invalidate_loop.induct) auto

section \<open>Authority\<close>

definition unheld :: "string \<Rightarrow> (string, authority_grant) dict \<Rightarrow> bool" where
  "unheld x d \<longleftrightarrow> (\<forall>i g. dget d i = Some g \<longrightarrow> agr_holder_subject_id g = x \<longrightarrow> agr_revoked_at g \<noteq> None)"

lemma wp_revoke_held:
  assumes "\<forall>(i, g) \<in> set items. dget (authority_grants s) i = Some g" "distinct (dkeys items)" "I s"
    and "\<forall>i g. dget (authority_grants s) i = Some g \<longrightarrow> i \<notin> set (dkeys items)
           \<longrightarrow> agr_holder_subject_id g = x \<longrightarrow> agr_revoked_at g \<noteq> None"
    and I: "\<And>t n d. I t \<Longrightarrow> I (t\<lparr>clock_reads := n, authority_grants := d\<rparr>)"
  shows "wp (for_each (revoke_if_held e x reason) items) (\<lambda>_ t. I t \<and> unheld x (authority_grants t)) anyerr s"
  using assms(1-4)
proof (induction items arbitrary: s)
  case Nil
  then show ?case by (simp add: wp unheld_def)
next
  case (Cons ig items)
  obtain i g where ig: "ig = (i, g)" by force
  have rest: "i \<notin> set (dkeys items)" "distinct (dkeys items)" using Cons.prems(2) ig by auto
  then have other: "j \<noteq> i" if "(j, h) \<in> set items" for j h using that by force
  have "wp (for_each (revoke_if_held e x reason) items) (\<lambda>_ t. I t \<and> unheld x (authority_grants t)) anyerr
     (s\<lparr>clock_reads := n, authority_grants := dput i (g\<lparr>agr_revoked_at := Some u, agr_revocation_reason := Some reason\<rparr>) (authority_grants s)\<rparr>)" for n u
    by (rule Cons.IH) (use Cons.prems rest other ig I in \<open>auto simp: dict\<close>)
  moreover have "wp (for_each (revoke_if_held e x reason) items) (\<lambda>_ t. I t \<and> unheld x (authority_grants t)) anyerr s"
    if "\<not> (agr_holder_subject_id g = x \<and> agr_revoked_at g = None)"
  proof (rule Cons.IH)
    show "\<forall>j h. dget (authority_grants s) j = Some h \<longrightarrow> j \<notin> set (dkeys items)
        \<longrightarrow> agr_holder_subject_id h = x \<longrightarrow> agr_revoked_at h \<noteq> None"
    proof (intro allI impI)
      fix j h assume "dget (authority_grants s) j = Some h" "j \<notin> set (dkeys items)" "agr_holder_subject_id h = x"
      then show "agr_revoked_at h \<noteq> None" using Cons.prems(1,4) ig that by (cases "j = i") auto
    qed
  qed (use Cons.prems rest ig in auto)
  ultimately show ?case
    unfolding for_each.simps ig revoke_if_held_def put_authority_grant_def fst_conv snd_conv
    by (intro vcg) (simp_all add: tick_def)
qed

section \<open>Credentials\<close>

text \<open>A claim that needs at least one attestation does not hold without any.\<close>

definition needs_evidence :: "env \<Rightarrow> claim_definition \<Rightarrow> bool" where
  "needs_evidence e d \<longleftrightarrow> 0 < threshold (cd_minimum_attestations d) (pol_required_attestations (env_policy e))"

definition ended :: "env \<Rightarrow> string set \<Rightarrow> (string, credential) dict \<Rightarrow> bool" where
  "ended e rs d \<longleftrightarrow> (\<forall>i c. dget d i = Some c \<longrightarrow> crd_request_id c \<in> rs
     \<longrightarrow> needs_evidence e (crd_definition c) \<longrightarrow> crd_state c \<noteq> CRED_ACTIVE)"

lemma reflects_without_evidence:
  "reflects e s r u c \<Longrightarrow> active_attestations s r u = [] \<Longrightarrow> needs_evidence e (crd_definition c)
   \<Longrightarrow> crd_state c \<noteq> CRED_ACTIVE"
  by (auto simp: reflects_def Let_def qualifies_def needs_evidence_def)

text \<open>A recalculation writes no credential of another request.\<close>

lemma recalculate_others:
  "wp (recalculate e r) (\<lambda>_ t. \<forall>i c. dget (credentials t) i = Some c \<longrightarrow> crd_request_id c \<noteq> r
     \<longrightarrow> dget (credentials s) i = Some c) anyerr s"
  unfolding recalculate_def credential_identity_def by (intro vcg) (auto simp: dict)

lemma wp_recalculate_ends:
  assumes ok: "credentials_ok e s" and before: "ended e rs (credentials s)"
    and own: "rs \<subseteq> own" "\<And>u. r \<in> own \<Longrightarrow> active_attestations s r u = []"
  shows "wp (recalculate e r) (\<lambda>_ t. credentials_ok e t \<and> evidence t = evidence s
    \<and> ended e (rs \<union> own \<inter> {r}) (credentials t)) anyerr s"
proof -
  have ended: "ended e (rs \<union> own \<inter> {r}) (credentials t)"
    if result: "recalculated e r s u x t"
      and others: "\<forall>i c. dget (credentials t) i = Some c \<longrightarrow> crd_request_id c \<noteq> r \<longrightarrow> dget (credentials s) i = Some c"
    for u x t
    unfolding ended_def
  proof (intro allI impI)
    fix i c
    assume c: "dget (credentials t) i = Some c" "crd_request_id c \<in> rs \<union> own \<inter> {r}" and needs: "needs_evidence e (crd_definition c)"
    show "crd_state c \<noteq> CRED_ACTIVE"
    proof (cases "crd_request_id c = r")
      case False
      with c others before needs show ?thesis by (auto simp: ended_def)
    next
      case True
      have ok': "credentials_ok e t" using result by (simp add: recalculated_def)
      with c(1) have entry: "dget (credential_by_request t) r = Some i"
        using indexed_entry [OF credentials_okD(2)] True by blast
      then have "reflects e s r u c"
        using result c(1) by (auto simp: recalculated_def split: option.splits)
      with own c(2) needs True show ?thesis by (intro reflects_without_evidence) auto
    qed
  qed
  have "wp (recalculate e r) (\<lambda>x t. ((\<exists>u. env_clock e (clock_reads s) = Aware u \<and> recalculated e r s u x t) \<and> evidence t = evidence s)
      \<and> (\<forall>i c. dget (credentials t) i = Some c \<longrightarrow> crd_request_id c \<noteq> r \<longrightarrow> dget (credentials s) i = Some c)) anyerr s"
    by (intro wp_conj recalculate_others wp_mono [OF wp_recalculate [OF ok]] wp_keeps [OF recalculate_evidence]) auto
  then show ?thesis by (rule wp_mono) (auto intro: ended simp: recalculated_def)
qed

lemma wp_recalculate_all_ends:
  assumes ok: "credentials_ok e s" and "finite rs" and none: "\<And>r u. r \<in> own \<Longrightarrow> active_attestations s r u = []" and "own \<subseteq> rs"
  shows "wp (recalculate_all e rs) (\<lambda>_ t. credentials_ok e t \<and> evidence t = evidence s \<and> ended e own (credentials t)) anyerr s"
proof -
  have "wp (collect (recalculate e) ks) (\<lambda>_ t. credentials_ok e t \<and> evidence t = evidence s
      \<and> ended e (seen \<union> own \<inter> set ks) (credentials t)) anyerr t"
    if "credentials_ok e t" "evidence t = evidence s" "ended e seen (credentials t)" "seen \<subseteq> own" for ks seen t
    using that
  proof (induction ks arbitrary: seen t)
    case Nil
    then show ?case by (simp add: wp)
  next
    case (Cons k ks)
    have "active_attestations t k u = []" if "k \<in> own" for u using none [OF that] evidence_standing(1) [OF Cons.prems(2)] by simp
    from wp_recalculate_ends [OF Cons.prems(1,3,4) this]
    have "wp (recalculate e k) (\<lambda>_ t. wp (collect (recalculate e) ks) (\<lambda>_ t. credentials_ok e t \<and> evidence t = evidence s
        \<and> ended e ((seen \<union> own \<inter> {k}) \<union> own \<inter> set ks) (credentials t)) anyerr t) anyerr t"
    proof (rule wp_mono)
      fix y t'
      assume "credentials_ok e t' \<and> evidence t' = evidence t \<and> ended e (seen \<union> own \<inter> {k}) (credentials t')"
      then show "wp (collect (recalculate e) ks) (\<lambda>_ t. credentials_ok e t \<and> evidence t = evidence s
          \<and> ended e ((seen \<union> own \<inter> {k}) \<union> own \<inter> set ks) (credentials t)) anyerr t'"
        using Cons.prems(2,4) by (intro Cons.IH) simp_all
    qed simp
    moreover have "(seen \<union> own \<inter> {k}) \<union> own \<inter> set ks = seen \<union> own \<inter> set (k # ks)" by auto
    ultimately show ?case by (simp add: wp)
  qed
  from this [of s "{}" "sorted_list_of_set rs"] assms show ?thesis
    by (simp add: recalculate_all_def wp Int_absorb2 ended_def)
qed

section \<open>Deletion\<close>

definition departed :: "env \<Rightarrow> string \<Rightarrow> core \<Rightarrow> bool" where
  "departed e x s \<longleftrightarrow>
     (\<exists>a. dget (subjects s) x = Some a \<and> sub_participant_key a = None \<and> sub_deleted_at a \<noteq> None)
     \<and> cleared x (consents s) \<and> unheld x (authority_grants s)
     \<and> forsaken (requests_of s x) x (attestations s) \<and> ended e (requests_of s x) (credentials s)"

text \<open>The part of it that the invalidation alone brings about.\<close>

definition invalidated :: "env \<Rightarrow> string \<Rightarrow> core \<Rightarrow> bool" where
  "invalidated e x s \<longleftrightarrow> unheld x (authority_grants s)
     \<and> forsaken (requests_of s x) x (attestations s) \<and> ended e (requests_of s x) (credentials s)"

text \<open>What the invalidation does not look at, and what the steps after it leave alone.\<close>

interpretation membership_view: observation "\<lambda>s. (consents s, subjects s)"
  by unfold_locales simp_all

definition standing_of :: "core \<Rightarrow> (string, authority_grant) dict \<times> (string, attestation) dict
    \<times> (string, claim_request) dict \<times> (string, credential) dict \<times> (string, subject) dict" where
  "standing_of s = (authority_grants s, attestations s, requests s, credentials s, subjects s)"

interpretation standing_view: observation standing_of
  by unfold_locales (simp_all add: standing_of_def)

lemma recalculate_all_membership:
  "keeps (recalculate_all e ids) (\<lambda>s. (consents s, subjects s) = x)"
  by (intro membership_view.observed.recalculate_all_keeps membership_view.observed.recalculate_keeps) simp_all

lemma withdraw_consents_standing: "keeps (withdraw_consents e i) (\<lambda>s. standing_of s = x)"
  by (intro standing_view.observed.withdraw_consents_keeps) (simp add: standing_of_def)

lemma invalidated_standing:
  "standing_of t = standing_of s \<Longrightarrow> invalidated e x t = invalidated e x s \<and> subjects t = subjects s"
  by (simp add: standing_of_def invalidated_def requests_of_def)

lemma wp_invalidate_subject:
  assumes ok: "credentials_ok e s" and d: "distinct (dkeys (attestations s))" "distinct (dkeys (authority_grants s))"
  shows "wp (invalidate_subject_state e x reason)
    (\<lambda>_ t. invalidated e x t \<and> (consents t, subjects t) = (consents s, subjects s)) anyerr s"
proof -
  let ?own = "requests_of s x"
  obtain d' affected where loop: "invalidate_loop x reason (attestations s) (attestations s) ?own = (d', affected)" by force
  note forsaken = invalidate_loop_forsakes [OF loop d(1)]
  have d': "distinct (dkeys d')"
    using invalidate_loop_keys [of "attestations s" "attestations s" x reason ?own] loop d(1) by simp
  have "finite ?own" by (simp add: requests_of_def)
  from invalidate_loop_finite [OF this, of x reason "attestations s" "attestations s"] loop have fin: "finite affected" by simp
  let ?I = "\<lambda>t. credentials_ok e t \<and> requests t = requests s \<and> attestations t = d'
    \<and> (consents t, subjects t) = (consents s, subjects s)"
  have rest: "wp (recalculate_all e affected)
      (\<lambda>_ t. invalidated e x t \<and> (consents t, subjects t) = (consents s, subjects s)) anyerr t"
    if t: "?I t" "unheld x (authority_grants t)" for t
  proof -
    have "active_attestations t r u = []" if "r \<in> ?own" for r u
      using forsaken_inactive [of ?own x t r] t(1) forsaken(1) d' that by simp
    then have "wp (recalculate_all e affected)
        (\<lambda>_ t'. credentials_ok e t' \<and> evidence t' = evidence t \<and> ended e ?own (credentials t')) anyerr t"
      using t(1) fin forsaken(2) by (intro wp_recalculate_all_ends) auto
    moreover have "wp (recalculate_all e affected) (\<lambda>_ t'. (consents t', subjects t') = (consents s, subjects s)) anyerr t"
      using t(1) by (auto intro: wp_keeps [OF recalculate_all_membership])
    ultimately have "wp (recalculate_all e affected) (\<lambda>_ t'. (credentials_ok e t' \<and> evidence t' = evidence t
        \<and> ended e ?own (credentials t')) \<and> (consents t', subjects t') = (consents s, subjects s)) anyerr t"
      by (rule wp_conj)
    then show ?thesis
      by (rule wp_mono) (use t forsaken(1) in \<open>simp_all add: invalidated_def requests_of_def evidence_def\<close>)
  qed
  have "wp (for_each (revoke_if_held e x reason) (authority_grants s)) (\<lambda>_ t. ?I t \<and> unheld x (authority_grants t)) anyerr
      (s\<lparr>attestations := d'\<rparr>)"
  proof (rule wp_revoke_held)
    show "\<forall>i g. dget (authority_grants (s\<lparr>attestations := d'\<rparr>)) i = Some g \<longrightarrow> i \<notin> set (dkeys (authority_grants s))
        \<longrightarrow> agr_holder_subject_id g = x \<longrightarrow> agr_revoked_at g \<noteq> None"
      by (auto dest: dget_in_dkeys)
  qed (use d ok in \<open>auto simp: credentials_ok_credit\<close>)
  then have "wp (for_each (revoke_if_held e x reason) (authority_grants s)) (\<lambda>_. wp (recalculate_all e affected)
      (\<lambda>_ t. invalidated e x t \<and> (consents t, subjects t) = (consents s, subjects s)) anyerr) anyerr (s\<lparr>attestations := d'\<rparr>)"
    by (rule wp_mono) (use rest in auto)
  then show ?thesis
    by (simp add: invalidate_subject_state_def wp loop)
qed

lemma departed_eq:
  "departed e x s \<longleftrightarrow> (\<exists>a. dget (subjects s) x = Some a \<and> sub_participant_key a = None \<and> sub_deleted_at a \<noteq> None)
     \<and> cleared x (consents s) \<and> invalidated e x s"
  by (auto simp: departed_def invalidated_def)

lemma departed_deleted:
  assumes "invalidated e x s" "cleared x (consents s)"
  shows "departed e x (published e' op out agg u (tick ((tick s)\<lparr>subjects :=
    dput x (a\<lparr>sub_participant_key := None, sub_deleted_at := Some t\<rparr>) d\<rparr>)))"
  using assms by (simp add: departed_eq invalidated_def requests_of_def dict)

text \<open>What the subjects' dictionary must satisfy for the record to be filed where it was.\<close>

definition named :: "core \<Rightarrow> bool" where
  "named s \<longleftrightarrow> (\<forall>i a. dget (subjects s) i = Some a \<longrightarrow> sub_subject_id a = i)"

lemma wp_delete:
  assumes inv: "invalidated e x s" and "named s" and d: "distinct (dkeys (consents s))"
  shows "wp (bind (withdraw_consents e x) (\<lambda>_. bind (erase_subject e x) (\<lambda>_. bind (publish e op out agg) (\<lambda>r. ret (f r)))))
    (\<lambda>_. departed e x) anyerr s"
proof -
  have step: "wp (bind (erase_subject e x) (\<lambda>_. bind (publish e op out agg) (\<lambda>r. ret (f r)))) (\<lambda>_. departed e x) anyerr t"
    if t: "standing_of t = standing_of s" "cleared x (consents t)" for t
    unfolding erase_subject_def
    by (intro vcg) (use t inv \<open>named s\<close> invalidated_standing [OF t(1), of e x] in
        \<open>auto simp: named_def intro: departed_deleted\<close>)
  have "wp (withdraw_consents e x) (\<lambda>_ t. standing_of t = standing_of s \<and> cleared x (consents t)) anyerr s"
    by (intro wp_conj wp_keeps [OF withdraw_consents_standing] wp_withdraw_consents [OF d]) simp_all
  then have "wp (withdraw_consents e x) (\<lambda>_. wp (bind (erase_subject e x) (\<lambda>_. bind (publish e op out agg) (\<lambda>r. ret (f r)))) (\<lambda>_. departed e x) anyerr) anyerr s"
    by (rule wp_mono) (use step in auto)
  then show ?thesis by (simp add: wp)
qed

theorem deletion_departs:
  assumes "reachable e s" "dget (privacy_requests s) i = Some p" "prv_kind p = DELETION"
  shows "wp (process_privacy_request e i actor True reason) (\<lambda>_. departed e (prv_subject_id p)) anyerr s"
proof -
  have ids: "identifiers_ok s" and ok: "credentials_ok e s"
    using assms(1) by (simp_all add: identifiers_reachable credentials_reachable)
  have facts: "distinct (dkeys (attestations s))" "distinct (dkeys (authority_grants s))" "distinct (dkeys (consents s))" "named s"
    using ids by (auto simp: identifiers_ok_def kept_def named_def intro: store_ok_distinct store_ok_key)
  have rest: "wp (invalidate_subject_state e x r) (\<lambda>cs. wp (bind (withdraw_consents e x) (\<lambda>_. bind (erase_subject e x) (\<lambda>_. bind (publish e op out agg) (\<lambda>r. ret (f cs r)))))
      (\<lambda>_. departed e x) anyerr) anyerr t"
    if t: "credentials_ok e t" "attestations t = attestations s" "dkeys (authority_grants t) = dkeys (authority_grants s)"
      "consents t = consents s" "subjects t = subjects s" for x r t op out agg and f :: "credential list \<Rightarrow> receipt \<Rightarrow> 'a"
  proof (rule wp_mono)
    show "wp (invalidate_subject_state e x r) (\<lambda>_ t'. invalidated e x t' \<and> (consents t', subjects t') = (consents t, subjects t)) anyerr t"
      using t facts by (intro wp_invalidate_subject) simp_all
    show "wp (bind (withdraw_consents e x) (\<lambda>_. bind (erase_subject e x) (\<lambda>_. bind (publish e op out agg) (\<lambda>r. ret (f r))))) (\<lambda>_. departed e x) anyerr t'"
      if "invalidated e x t' \<and> (consents t', subjects t') = (consents t, subjects t)" for f :: "receipt \<Rightarrow> 'a" and t'
      using that t facts by (intro wp_delete) (auto simp: named_def)
  qed simp
  have known: "actor \<in> fst ` set (authority_grants s)" if "dget (authority_grants s) actor = Some g" for g
    using dget_in_dkeys [OF that] by simp
  show ?thesis
    unfolding process_privacy_request_def
    by (intro vcg) (use assms(2,3) in \<open>auto simp: used_def dkeys_dput known credentials_ok_credit
      ok [unfolded credentials_ok_credit] intro!: rest\<close>)
qed

end
