(* ===== verification/Calendar.thy ===== *)
theory Calendar
  imports Encoding
begin

text \<open>
  \<open>datetime.fromisoformat\<close> of the timestamps the records carry, and its agreement with
  \<open>isoformat\<close>: a timestamp written by the service reads back as the same instant.
\<close>

section \<open>Reading a timestamp\<close>

definition is_digit :: "char \<Rightarrow> bool" where
  "is_digit c \<longleftrightarrow> (let n = of_char c :: nat in 48 \<le> n \<and> n \<le> 57)"

text \<open>The number that a text of digits stands for.\<close>

definition number :: "string \<Rightarrow> int option" where
  "number t = (if t \<noteq> [] \<and> list_all is_digit t then Some (int (decimal_value t)) else None)"

text \<open>The day number of a proleptic Gregorian date, counted as in \<open>civil_from_days\<close>.\<close>

definition days_from_civil :: "int \<Rightarrow> int \<Rightarrow> int \<Rightarrow> int" where
  "days_from_civil y m d =
     (let y' = (if m \<le> 2 then y - 1 else y); era = y' div 400; yoe = y' mod 400;
          mp = (if m > 2 then m - 3 else m + 9);
          doy = (153 * mp + 2) div 5 + d - 1;
          doe = 365 * yoe + yoe div 4 - yoe div 100 + doy
      in era * 146097 + doe - 719468)"

text \<open>A date exists when it is the date of its own day number.\<close>

definition valid_date :: "int \<Rightarrow> int \<Rightarrow> int \<Rightarrow> bool" where
  "valid_date y m d \<longleftrightarrow> 1 \<le> y \<and> y \<le> 9999 \<and> civil_from_days (days_from_civil y m d) = (y, m, d)"

definition bad_isoformat :: error where
  "bad_isoformat = ValueError ''Invalid isoformat string''"

text \<open>The numbers of a timestamp, if all the fields are numbers and the separators are in place.\<close>

definition timestamp_fields :: "string \<Rightarrow> (int \<times> int \<times> int \<times> int \<times> int \<times> int) option" where
  "timestamp_fields t =
     (if map (nth t) [4, 7, 10, 13, 16] = ''--T::''
      then (case (number (take 4 t), number (take 2 (drop 5 t)), number (take 2 (drop 8 t)),
                  number (take 2 (drop 11 t)), number (take 2 (drop 14 t)), number (take 2 (drop 17 t))) of
          (Some y, Some m, Some d, Some h, Some i, Some s) \<Rightarrow> Some (y, m, d, h, i, s)
        | _ \<Rightarrow> None)
      else None)"

text \<open>The part after the seconds: an offset of zero, after six digits of a fraction if there is one.\<close>

definition timestamp_fraction :: "string \<Rightarrow> int option" where
  "timestamp_fraction r =
     (if r = ''+00:00'' then Some 0
      else if length r = 13 \<and> hd r = CHR ''.'' \<and> drop 7 r = ''+00:00'' then number (take 6 (tl r))
      else None)"

text \<open>
  \<open>datetime.fromisoformat\<close> on the forms that \<open>isoformat\<close> of a UTC instant writes. Python reads
  further forms, which no record holds; here they raise like a malformed text.
\<close>

definition fromisoformat :: "string \<Rightarrow> error + time" where
  "fromisoformat t =
     (if length t < 19 then Inl bad_isoformat
      else case (timestamp_fields t, timestamp_fraction (drop 19 t)) of
          (Some (y, m, d, h, i, s), Some us) \<Rightarrow>
            if valid_date y m d \<and> h < 24 \<and> i < 60 \<and> s < 60
            then Inr (((days_from_civil y m d * 86400) + h * 3600 + i * 60 + s) * 1000000 + us)
            else Inl bad_isoformat
        | _ \<Rightarrow> Inl bad_isoformat)"

text \<open>\<open>value.replace("Z", "+00:00")\<close>.\<close>

definition replace_z :: "string \<Rightarrow> string" where
  "replace_z t = concat (map (\<lambda>c. if c = CHR ''Z'' then ''+00:00'' else [c]) t)"

section \<open>The calendar\<close>

lemma div_span: "(0::int) < k \<Longrightarrow> k * (x div k) \<le> x" "(0::int) < k \<Longrightarrow> x < k * (x div k) + k"
  using pos_mod_bound [of k x] pos_mod_sign [of k x] mult_div_mod_eq [of k x] by linarith+

lemma century_bound:
  fixes doe a1 a2 a3 yoe :: int
  assumes "1460 * a1 \<le> doe" "doe < 1460 * a1 + 1460" "36524 * a2 \<le> doe" "doe < 36524 * a2 + 36524"
    "146096 * a3 \<le> doe" "doe < 146096 * a3 + 146096" "doe - a1 + a2 - a3 < 365 * yoe + 365"
    and doe: "0 \<le> doe" "doe < 146097"
  shows "100 * (a2 - a3) \<le> yoe"
proof -
  have a2: "a2 \<in> {0, 1, 2, 3, 4}" using assms by auto
  have a3: "a3 \<in> {0, 1}" using assms by auto
  show ?thesis
  proof (cases "a3 = 0")
    case True
    with assms have "a2 \<in> {0, 1, 2, 3}" by auto
    then show ?thesis using True assms by auto
  next
    case False
    then have "a3 = 1" using a3 by simp
    then have "doe = 146096" using assms by linarith
    then have "a1 = 100" "a2 = 4" using assms by auto
    then show ?thesis using \<open>a3 = 1\<close> \<open>doe = 146096\<close> assms(7) by auto
  qed
qed

text \<open>The year within an era of 400 years, and the day within that year.\<close>

lemma year_of_era:
  fixes doe :: int
  assumes a: "0 \<le> doe" "doe < 146097"
  defines "yoe \<equiv> (doe - doe div 1460 + doe div 36524 - doe div 146096) div 365"
  defines "doy \<equiv> doe - (365 * yoe + yoe div 4 - yoe div 100)"
  shows "0 \<le> yoe \<and> yoe < 400" "0 \<le> doy \<and> doy < 366"
proof -
  define a1 a2 a3 where "a1 = doe div 1460" and "a2 = doe div 36524" and "a3 = doe div 146096"
  define q4 q100 where "q4 = yoe div 4" and "q100 = yoe div 100"
  have 1: "1460 * a1 \<le> doe" "doe < 1460 * a1 + 1460" unfolding a1_def by (rule div_span, simp)+
  have 2: "36524 * a2 \<le> doe" "doe < 36524 * a2 + 36524" unfolding a2_def by (rule div_span, simp)+
  have 3: "146096 * a3 \<le> doe" "doe < 146096 * a3 + 146096" unfolding a3_def by (rule div_span, simp)+
  have y: "365 * yoe \<le> doe - a1 + a2 - a3" "doe - a1 + a2 - a3 < 365 * yoe + 365"
    unfolding yoe_def a1_def [symmetric] a2_def [symmetric] a3_def [symmetric] by (rule div_span, simp)+
  have q: "4 * q4 \<le> yoe" "yoe < 4 * q4 + 4" "100 * q100 \<le> yoe" "yoe < 100 * q100 + 100"
    unfolding q4_def q100_def by (rule div_span, simp)+
  have d: "doy = doe - (365 * yoe + q4 - q100)" by (simp add: doy_def q4_def q100_def)
  have small: "a2 = 0 \<or> a2 = 1 \<or> a2 = 2 \<or> a2 = 3 \<or> a2 = 4" "a3 = 0 \<or> a3 = 1" using 2 3 a by linarith+
  have century: "100 * (a2 - a3) \<le> yoe" using 1 2 3 y(2) a by (rule century_bound)
  then have "100 * (a2 - a3) < 100 * (q100 + 1)" using q(4) by simp
  then have "a2 - a3 \<le> q100" by simp
  moreover have "q4 \<le> a1"
  proof (rule ccontr)
    assume "\<not> q4 \<le> a1"
    then have "4 * a1 + 4 \<le> yoe" using q(1) by arith
    then have "1460 * a1 + 1460 \<le> doe - a1 + a2 - a3" using y(1) by simp
    then have "a1 < a2 - a3" using 1(2) by simp
    moreover have "0 \<le> a1" using 1(2) a(1) by simp
    moreover have "a2 - a3 \<le> a1"
      using small(1) 1(2) 2(1) \<open>0 \<le> a1\<close> small(2) by (elim disjE) simp_all
    ultimately show False by simp
  qed
  ultimately have "0 \<le> doy" unfolding d using y by arith
  moreover
  have early: "0 \<le> yoe \<and> yoe < 400" using 1 2 3 y a small by auto
  have "a1 \<le> 100" using 1(1) a(2) by simp
  have "q4 + 1 \<ge> a1"
  proof (rule ccontr)
    assume "\<not> q4 + 1 \<ge> a1"
    then have "4 * q4 + 8 \<le> 4 * a1" by simp
    then have "365 * yoe + 1825 \<le> 1460 * a1" using q(2) by simp
    then show False using 1(1) y(2) \<open>a1 \<le> 100\<close> small by auto
  qed
  moreover have "q100 \<le> a2 - a3"
  proof (cases "a3 = 0")
    case True
    show ?thesis
    proof (rule ccontr)
      assume "\<not> q100 \<le> a2 - a3"
      then have "100 * a2 + 100 \<le> 100 * q100" using True by simp
      then have "36500 * a2 + 36500 \<le> doe - a1 + a2" using q(3) y(1) True by simp
      then show False using 1(2) 2(2) small(1) by (elim disjE) simp_all
    qed
  next
    case False
    then have "a2 - a3 = 3" using 2 3 a small by auto
    then show ?thesis using q(3) early by simp
  qed
  ultimately show "0 \<le> doy \<and> doy < 366" unfolding d using y(2) by simp
  show "0 \<le> yoe \<and> yoe < 400" by (rule early)
qed

text \<open>Within a year counted from March, the month and the day can be read off the day of the year.\<close>

lemma month_of_year:
  fixes doy :: int
  assumes "0 \<le> doy" "doy < 366"
  defines "mp \<equiv> (5 * doy + 2) div 153"
  defines "day \<equiv> doy - (153 * mp + 2) div 5 + 1"
  shows "0 \<le> mp \<and> mp \<le> 11" "1 \<le> day \<and> day \<le> 31" "(153 * mp + 2) div 5 + day - 1 = doy"
proof -
  have m: "153 * mp \<le> 5 * doy + 2" "5 * doy + 2 < 153 * mp + 153" unfolding mp_def by (rule div_span, simp)+
  show "0 \<le> mp \<and> mp \<le> 11" using m assms(1,2) by arith
  define e where "e = (153 * mp + 2) div 5"
  have "5 * e \<le> 153 * mp + 2" "153 * mp + 2 < 5 * e + 5" unfolding e_def by (rule div_span, simp)+
  then show "1 \<le> day \<and> day \<le> 31" unfolding day_def e_def [symmetric] using m by arith
  show "(153 * mp + 2) div 5 + day - 1 = doy" by (simp add: day_def)
qed

text \<open>The day number of the date of a day is that day.\<close>

theorem days_from_civil_from_days:
  assumes "civil_from_days n = (y, m, d)"
  shows "days_from_civil y m d = n \<and> 1 \<le> m \<and> m \<le> 12 \<and> 1 \<le> d \<and> d \<le> 31"
proof -
  define z where "z = n + 719468"
  define era doe where "era = z div 146097" and "doe = z mod 146097"
  define yoe where "yoe = (doe - doe div 1460 + doe div 36524 - doe div 146096) div 365"
  define doy where "doy = doe - (365 * yoe + yoe div 4 - yoe div 100)"
  define mp where "mp = (5 * doy + 2) div 153"
  define day where "day = doy - (153 * mp + 2) div 5 + 1"
  define month where "month = (if mp < 10 then mp + 3 else mp - 9)"
  have n: "n = era * 146097 + doe - 719468" "0 \<le> doe" "doe < 146097"
    by (simp_all add: era_def doe_def z_def)
  note year = year_of_era [OF n(2,3), folded yoe_def, folded doy_def]
  note month = month_of_year [of doy, folded mp_def, folded day_def]
  have mp: "0 \<le> mp" "mp \<le> 11" and day: "1 \<le> day" "day \<le> 31" and doy: "(153 * mp + 2) div 5 + day - 1 = doy"
    using month year by auto
  have "civil_from_days n = (yoe + era * 400 + (if month \<le> 2 then 1 else 0), month, day)"
    unfolding civil_from_days_def Let_def month_def day_def mp_def doy_def yoe_def era_def doe_def z_def
    by (rule refl)
  with assms have ymd: "y = yoe + era * 400 + (if month \<le> 2 then 1 else 0)" "m = month" "d = day" by auto
  have inv: "(if month > 2 then month - 3 else month + 9) = mp" "1 \<le> month" "month \<le> 12"
    using mp by (auto simp: month_def)
  have y: "(if month \<le> 2 then y - 1 else y) = yoe + era * 400" by (simp add: ymd)
  have "(yoe + era * 400) div 400 = era" "(yoe + era * 400) mod 400 = yoe" using year by auto
  then have "days_from_civil y month day = era * 146097 + (365 * yoe + yoe div 4 - yoe div 100 + doy) - 719468"
    unfolding days_from_civil_def Let_def y inv(1) doy by simp
  then show ?thesis using n day inv ymd by (simp add: doy_def)
qed

section \<open>Writing and reading\<close>

text \<open>The instants Python can represent: the years 1 to 9999.\<close>

definition year_of :: "time \<Rightarrow> int" where
  "year_of t = fst (civil_from_days (t div 1000000 div 86400))"

definition representable :: "time \<Rightarrow> bool" where
  "representable t \<longleftrightarrow> 1 \<le> year_of t \<and> year_of t \<le> 9999"

lemma digit_char_digit [simp]: "d < 10 \<Longrightarrow> is_digit (digit_char d)"
  by (simp add: is_digit_def)

lemma decimal_digits: "list_all is_digit (decimal n)" "decimal n \<noteq> []"
  by (induction n rule: decimal.induct) (subst decimal.simps, simp)+

lemma length_decimal: "length (decimal n) \<le> w \<longleftrightarrow> n < 10 ^ w \<and> 0 < w"
proof (induction n arbitrary: w rule: decimal.induct)
  case (1 n)
  show ?case
  proof (cases "n < 10")
    case True
    then show ?thesis using order_less_le_trans [of n 10 "10 * 10 ^ (w - 1)"]
      by (subst decimal.simps) (cases w; simp)
  next
    case False
    show ?thesis
    proof (cases w)
      case 0
      then show ?thesis by (subst decimal.simps) (simp add: False)
    next
      case (Suc v)
      have "length (decimal n) \<le> w \<longleftrightarrow> length (decimal (n div 10)) \<le> v"
        by (subst decimal.simps) (simp add: False Suc)
      also have "\<dots> \<longleftrightarrow> n div 10 < 10 ^ v \<and> 0 < v" using 1 False by blast
      also have "\<dots> \<longleftrightarrow> n < 10 ^ w \<and> 0 < w"
        using False by (cases v) (auto simp: Suc div_less_iff_less_mult mult.commute)
      finally show ?thesis .
    qed
  qed
qed

lemma number_pad_int:
  assumes "0 \<le> n" "n < 10 ^ w" "0 < w"
  shows "length (pad_int w n) = w" "number (pad_int w n) = Some n"
proof -
  have "length (decimal (nat n)) \<le> w" using assms by (simp add: length_decimal nat_less_iff)
  then show "length (pad_int w n) = w" by (simp add: pad_int_def pad0_def)
  have "is_digit CHR ''0''" by (simp add: is_digit_def)
  then have "list_all is_digit (pad_int w n)" "pad_int w n \<noteq> []"
    using decimal_digits by (auto simp: pad_int_def pad0_def list_all_iff)
  then show "number (pad_int w n) = Some n"
    using assms by (simp add: number_def pad_int_def decimal_value_pad0 decimal_value_decimal)
qed

text \<open>The pieces of a timestamp: its date and time, and its fraction with the offset.\<close>

definition stamp :: "int \<Rightarrow> int \<Rightarrow> int \<Rightarrow> int \<Rightarrow> int \<Rightarrow> int \<Rightarrow> string" where
  "stamp y m d h i s = pad_int 4 y @ ''-'' @ pad_int 2 m @ ''-'' @ pad_int 2 d @ ''T''
     @ pad_int 2 h @ '':'' @ pad_int 2 i @ '':'' @ pad_int 2 s"

lemma two_digits:
  assumes "0 \<le> n" "n < 100"
  obtains a b where "pad_int 2 n = [a, b]" "number [a, b] = Some n"
proof -
  have "length (pad_int 2 n) = 2" "number (pad_int 2 n) = Some n" using number_pad_int [of n 2] assms by simp_all
  then show thesis using that by (auto simp: numeral_eq_Suc length_Suc_conv)
qed

lemma four_digits:
  assumes "0 \<le> n" "n < 10000"
  obtains a b c d where "pad_int 4 n = [a, b, c, d]" "number [a, b, c, d] = Some n"
proof -
  have "length (pad_int 4 n) = 4" "number (pad_int 4 n) = Some n" using number_pad_int [of n 4] assms by simp_all
  then show thesis using that by (auto simp: numeral_eq_Suc length_Suc_conv)
qed

lemma timestamp_fields_stamp:
  assumes "0 \<le> y" "y < 10000" "0 \<le> m" "m < 100" "0 \<le> d" "d < 100"
    "0 \<le> h" "h < 100" "0 \<le> i" "i < 100" "0 \<le> s" "s < 100"
  shows "timestamp_fields (stamp y m d h i s @ r) = Some (y, m, d, h, i, s)" "length (stamp y m d h i s) = 19"
proof -
  obtain y1 y2 y3 y4 where Y: "pad_int 4 y = [y1, y2, y3, y4]" "number [y1, y2, y3, y4] = Some y"
    by (rule four_digits [OF assms(1,2)])
  obtain m1 m2 where M: "pad_int 2 m = [m1, m2]" "number [m1, m2] = Some m"
    by (rule two_digits [OF assms(3,4)])
  obtain d1 d2 where D: "pad_int 2 d = [d1, d2]" "number [d1, d2] = Some d"
    by (rule two_digits [OF assms(5,6)])
  obtain h1 h2 where H: "pad_int 2 h = [h1, h2]" "number [h1, h2] = Some h"
    by (rule two_digits [OF assms(7,8)])
  obtain i1 i2 where I: "pad_int 2 i = [i1, i2]" "number [i1, i2] = Some i"
    by (rule two_digits [OF assms(9,10)])
  obtain s1 s2 where S: "pad_int 2 s = [s1, s2]" "number [s1, s2] = Some s"
    by (rule two_digits [OF assms(11,12)])
  note digits = Y M D H I S
  show "length (stamp y m d h i s) = 19" by (simp add: stamp_def digits)
  show "timestamp_fields (stamp y m d h i s @ r) = Some (y, m, d, h, i, s)"
    unfolding timestamp_fields_def stamp_def Y(1) M(1) D(1) H(1) I(1) S(1) by (simp add: digits numeral_eq_Suc)
qed

lemma timestamp_fraction_text:
  assumes "0 \<le> us" "us < 1000000"
  shows "timestamp_fraction ((if us = 0 then [] else ''.'' @ pad_int 6 us) @ ''+00:00'') = Some us"
  using number_pad_int [of us 6] assms by (simp add: timestamp_fraction_def)

theorem fromisoformat_isoformat:
  assumes "representable t"
  shows "fromisoformat (isoformat t) = Inr t"
proof -
  define us sec where "us = t mod 1000000" and "sec = t div 1000000"
  define n s where "n = sec div 86400" and "s = sec mod 86400"
  obtain y m d where ymd: "civil_from_days n = (y, m, d)" by (cases "civil_from_days n")
  note date = days_from_civil_from_days [OF ymd]
  have y: "1 \<le> y" "y \<le> 9999"
    using assms ymd by (simp_all add: representable_def year_of_def n_def sec_def)
  have us: "0 \<le> us" "us < 1000000" and s: "0 \<le> s" "s < 86400" by (simp_all add: us_def s_def)
  have time: "0 \<le> s div 3600" "s div 3600 < 24" "0 \<le> s mod 3600 div 60" "s mod 3600 div 60 < 60"
    "0 \<le> s mod 60" "s mod 60 < 60" using s by auto
  let ?f = "(if us = 0 then [] else ''.'' @ pad_int 6 us) @ ''+00:00''"
  have eq: "isoformat t = stamp y m d (s div 3600) (s mod 3600 div 60) (s mod 60) @ ?f"
    using ymd by (simp add: isoformat_def stamp_def us_def [symmetric] sec_def [symmetric] n_def [symmetric]
        s_def [symmetric] Let_def)
  have "s mod 3600 div 60 * 60 + s mod 60 = s mod 3600"
    using div_mult_mod_eq [of "s mod 3600" 60] by (simp add: mod_mod_cancel)
  then have "s div 3600 * 3600 + s mod 3600 div 60 * 60 + s mod 60 = s"
    using div_mult_mod_eq [of s 3600] by linarith
  then have "((n * 86400) + s div 3600 * 3600 + s mod 3600 div 60 * 60 + s mod 60) * 1000000 + us
      = (n * 86400 + s) * 1000000 + us" by (simp add: algebra_simps)
  also have "\<dots> = t" by (simp add: n_def s_def sec_def us_def)
  finally have total: "((n * 86400) + s div 3600 * 3600 + s mod 3600 div 60 * 60 + s mod 60) * 1000000 + us = t" .
  have y0: "0 \<le> y" "y < 10000" using y by simp_all
  have md: "0 \<le> m" "m < 100" "0 \<le> d" "d < 100" using date by simp_all
  have hms: "0 \<le> s div 3600" "s div 3600 < 100" "0 \<le> s mod 3600 div 60" "s mod 3600 div 60 < 100"
    "0 \<le> s mod 60" "s mod 60 < 100" using time by simp_all
  note fields = timestamp_fields_stamp(1) [OF y0 md hms, of ?f, folded eq] timestamp_fields_stamp(2) [OF y0 md hms]
  then have rest: "drop 19 (isoformat t) = ?f" "\<not> length (isoformat t) < 19" unfolding eq by simp_all
  show ?thesis
    unfolding fromisoformat_def fields(1) rest(1) timestamp_fraction_text [OF us]
    using rest(2) y date ymd time total by (simp add: valid_date_def)
qed

end
