(* ===== verification/Wire.thy ===== *)
theory Wire
  imports Calendar
begin

text \<open>
  The values of \<open>src/kyn/contracts.py\<close>: what the fields of a record hold, the type hints they are
  annotated with, and the two recursive functions between those values and JSON, \<open>_json_value\<close> and
  \<open>_from_json\<close>. A value of the annotated type survives the way through JSON.
\<close>

section \<open>Values and annotations\<close>

text \<open>
  The values a field may hold. A frozenset is the list in which Python iterates it; a member of an
  enumeration is its \<open>value\<close>; \<open>PJson\<close> is a value that JSON has itself, and \<open>PClaim\<close> the one class
  that is nested in records.
\<close>

datatype pyvalue =
    PNone
  | PBool bool
  | PInt int
  | PStr string
  | PTime time
  | PEnum string
  | PFrozenset "pyvalue list"
  | PTuple "pyvalue list"
  | PDict "(string \<times> pyvalue) list"
  | PJson json
  | PClaim claim_definition

text \<open>
  \<open>str\<close>, \<open>int\<close>, \<open>bool\<close>, \<open>datetime\<close>, an enumeration by its values, \<open>X | None\<close>, \<open>frozenset[X]\<close>,
  \<open>tuple[X, ...]\<close>, \<open>dict[str, JsonValue]\<close> and \<open>ClaimDefinition\<close>.
\<close>

datatype annotation =
    A_str
  | A_int
  | A_bool
  | A_datetime
  | A_enum "string list"
  | A_union annotation
  | A_frozenset annotation
  | A_tuple annotation
  | A_dict
  | A_class

primrec has_type :: "annotation \<Rightarrow> pyvalue \<Rightarrow> bool" where
  "has_type A_str v = (case v of PStr _ \<Rightarrow> True | _ \<Rightarrow> False)"
| "has_type A_int v = (case v of PInt _ \<Rightarrow> True | _ \<Rightarrow> False)"
| "has_type A_bool v = (case v of PBool _ \<Rightarrow> True | _ \<Rightarrow> False)"
| "has_type A_datetime v = (case v of PTime _ \<Rightarrow> True | _ \<Rightarrow> False)"
| "has_type (A_enum values) v = (case v of PEnum t \<Rightarrow> t \<in> set values | _ \<Rightarrow> False)"
| "has_type (A_union a) v = (v = PNone \<or> has_type a v)"
| "has_type (A_frozenset a) v = (case v of PFrozenset vs \<Rightarrow> list_all (has_type a) vs | _ \<Rightarrow> False)"
| "has_type (A_tuple a) v = (case v of PTuple vs \<Rightarrow> list_all (has_type a) vs | _ \<Rightarrow> False)"
| "has_type A_dict v = (case v of PJson (JObject _) \<Rightarrow> True | _ \<Rightarrow> False)"
| "has_type A_class v = (case v of PClaim _ \<Rightarrow> True | _ \<Rightarrow> False)"

section \<open>To JSON\<close>

text \<open>\<open>_json_value\<close>. The fields of a nested class are already a dictionary, by \<open>asdict\<close>.\<close>

fun json_value :: "pyvalue \<Rightarrow> json" where
  "json_value PNone = JNull"
| "json_value (PBool b) = JBool b"
| "json_value (PInt n) = JInt n"
| "json_value (PStr t) = JStr t"
| "json_value (PTime t) = JStr (isoformat_z t)"
| "json_value (PEnum t) = JStr t"
| "json_value (PFrozenset vs) = JList (map json_value vs)"
| "json_value (PTuple vs) = JList (map json_value vs)"
| "json_value (PDict kvs) = JObject (map (\<lambda>(k, v). (k, json_value v)) kvs)"
| "json_value (PJson j) = j"
| "json_value (PClaim d) = JNull"

section \<open>From JSON\<close>

primrec traverse :: "('x \<Rightarrow> error + 'a) \<Rightarrow> 'x list \<Rightarrow> error + 'a list" where
  "traverse f [] = Inr []"
| "traverse f (x # xs) =
     (case f x of Inl er \<Rightarrow> Inl er | Inr y \<Rightarrow> (case traverse f xs of Inl er \<Rightarrow> Inl er | Inr ys \<Rightarrow> Inr (y # ys)))"

text \<open>\<open>for item in value\<close>: a text gives its characters and a dictionary its keys.\<close>

fun iterated :: "json \<Rightarrow> error + json list" where
  "iterated (JList xs) = Inr xs"
| "iterated (JStr t) = Inr (map (\<lambda>c. JStr [c]) t)"
| "iterated (JObject kvs) = Inr (map (JStr \<circ> fst) kvs)"
| "iterated _ = Inl (TypeError ''object is not iterable'')"

text \<open>A value that is returned as it is.\<close>

fun plain :: "json \<Rightarrow> pyvalue" where
  "plain JNull = PNone"
| "plain (JBool b) = PBool b"
| "plain (JInt n) = PInt n"
| "plain (JStr t) = PStr t"
| "plain j = PJson j"

fun unhashable :: "pyvalue \<Rightarrow> bool" where
  "unhashable (PJson _) = True"
| "unhashable _ = False"

definition frozen :: "pyvalue list \<Rightarrow> error + pyvalue" where
  "frozen vs = (if list_ex unhashable vs then Inl (TypeError ''unhashable type'') else Inr (PFrozenset vs))"

text \<open>
  \<open>_from_json\<close>. The text of a JSON value that is not a string is no timestamp, and only an object is
  taken for a dictionary: the other texts and pair lists that Python would accept here are not among
  the values \<open>_json_value\<close> writes.
\<close>

primrec from_json :: "annotation \<Rightarrow> json \<Rightarrow> error + pyvalue" where
  "from_json A_str j = Inr (plain j)"
| "from_json A_int j = Inr (plain j)"
| "from_json A_bool j = Inr (plain j)"
| "from_json A_class j = Inr (plain j)"
| "from_json A_datetime j = (case j of
       JNull \<Rightarrow> Inr PNone
     | JStr t \<Rightarrow> map_sum id PTime (fromisoformat (replace_z t))
     | _ \<Rightarrow> Inl bad_isoformat)"
| "from_json (A_enum values) j = (case j of
       JNull \<Rightarrow> Inr PNone
     | JStr t \<Rightarrow> if t \<in> set values then Inr (PEnum t) else Inl (ValueError ''not a valid member'')
     | _ \<Rightarrow> Inl (ValueError ''not a valid member''))"
| "from_json (A_union a) j = from_json a j"
| "from_json (A_frozenset a) j = (if j = JNull then Inr PNone
     else case iterated j of Inl er \<Rightarrow> Inl er | Inr items \<Rightarrow>
       (case traverse (from_json a) items of Inl er \<Rightarrow> Inl er | Inr vs \<Rightarrow> frozen vs))"
| "from_json (A_tuple a) j = (if j = JNull then Inr PNone
     else case iterated j of Inl er \<Rightarrow> Inl er | Inr items \<Rightarrow> map_sum id PTuple (traverse (from_json a) items))"
| "from_json A_dict j = (case j of
       JNull \<Rightarrow> Inr PNone
     | JObject kvs \<Rightarrow> Inr (PJson (JObject kvs))
     | _ \<Rightarrow> Inl (TypeError ''cannot convert to a dictionary''))"

section \<open>The way through JSON\<close>

text \<open>\<open>value.replace("Z", "+00:00")\<close> undoes the replacement that \<open>_json_value\<close> made.\<close>

lemma replace_z_append: "replace_z (a @ b) = replace_z a @ replace_z b"
  by (simp add: replace_z_def)

lemma replace_z_id: "CHR ''Z'' \<notin> set t \<Longrightarrow> replace_z t = t"
  by (induction t) (auto simp: replace_z_def)

lemma decimal_chars: "c \<in> set (decimal n) \<Longrightarrow> 48 \<le> (of_char c :: nat) \<and> (of_char c :: nat) < 58"
proof (induction n rule: decimal.induct)
  case (1 n)
  then show ?case by (subst (asm) decimal.simps) (auto split: if_splits)
qed

lemma z_not_in_digits: "CHR ''Z'' \<notin> set (pad_int w n)"
proof
  assume "CHR ''Z'' \<in> set (pad_int w n)"
  then have "CHR ''Z'' \<in> set (decimal (nat n))" by (auto simp: pad_int_def pad0_def)
  then show False by (auto dest: decimal_chars)
qed

lemma isoformat_offset:
  obtains u where "isoformat t = u @ ''+00:00''" "CHR ''Z'' \<notin> set u"
proof -
  obtain y m d where ymd: "civil_from_days (t div 1000000 div 86400) = (y, m, d)"
    by (cases "civil_from_days (t div 1000000 div 86400)")
  let ?s = "t div 1000000 mod 86400"
  let ?u = "stamp y m d (?s div 3600) (?s mod 3600 div 60) (?s mod 60)
      @ (if t mod 1000000 = 0 then [] else ''.'' @ pad_int 6 (t mod 1000000))"
  show thesis
  proof (rule that)
    show "isoformat t = ?u @ ''+00:00''" using ymd by (simp add: isoformat_def stamp_def Let_def)
    show "CHR ''Z'' \<notin> set ?u" by (simp add: stamp_def z_not_in_digits)
  qed
qed

lemma replace_z_isoformat: "replace_z (isoformat_z t) = isoformat t"
proof -
  obtain u where u: "isoformat t = u @ ''+00:00''" "CHR ''Z'' \<notin> set u" by (rule isoformat_offset)
  have "isoformat_z t = u @ ''Z''" by (simp add: isoformat_z_def u(1))
  also have "replace_z \<dots> = replace_z u @ replace_z ''Z''" by (rule replace_z_append)
  also have "replace_z ''Z'' = ''+00:00''" by (simp add: replace_z_def)
  finally show ?thesis by (simp add: u(1) replace_z_id [OF u(2)])
qed

lemma timestamp_roundtrip: "representable t \<Longrightarrow> fromisoformat (replace_z (isoformat_z t)) = Inr t"
  by (simp add: replace_z_isoformat fromisoformat_isoformat)

text \<open>The timestamps of a value are in the years Python has.\<close>

fun in_range :: "pyvalue \<Rightarrow> bool" where
  "in_range (PTime t) = representable t"
| "in_range (PFrozenset vs) = list_all in_range vs"
| "in_range (PTuple vs) = list_all in_range vs"
| "in_range _ = True"

lemma traverse_map: "(\<And>x. x \<in> set xs \<Longrightarrow> f (g x) = Inr (h x)) \<Longrightarrow> traverse f (map g xs) = Inr (map h xs)"
  by (induction xs) auto

text \<open>Annotations whose values are hashable, as the elements of a frozenset are.\<close>

primrec element :: "annotation \<Rightarrow> bool" where
  "element A_str = True" | "element A_int = True" | "element A_bool = True"
| "element A_datetime = True" | "element (A_enum values) = True" | "element (A_union a) = False"
| "element (A_frozenset a) = False" | "element (A_tuple a) = False" | "element A_dict = False"
| "element A_class = False"

primrec annotation_ok :: "annotation \<Rightarrow> bool" where
  "annotation_ok A_str = True" | "annotation_ok A_int = True" | "annotation_ok A_bool = True"
| "annotation_ok A_datetime = True" | "annotation_ok (A_enum values) = True"
| "annotation_ok (A_union a) = annotation_ok a" | "annotation_ok (A_frozenset a) = element a"
| "annotation_ok (A_tuple a) = annotation_ok a" | "annotation_ok A_dict = True" | "annotation_ok A_class = False"

lemma element_ok: "element a \<Longrightarrow> annotation_ok a"
  by (cases a) auto

lemma element_hashable: "element a \<Longrightarrow> has_type a v \<Longrightarrow> \<not> unhashable v"
  by (cases a; cases v) auto

lemma json_value_null: "has_type a v \<Longrightarrow> annotation_ok a \<Longrightarrow> json_value v = JNull \<Longrightarrow> v = PNone"
proof (induction a arbitrary: v)
  case (A_union a)
  then show ?case by auto
qed (auto split: pyvalue.splits json.splits)

lemma from_json_null: "from_json a JNull = Inr PNone"
  by (induction a) simp_all

theorem from_json_value:
  "has_type a v \<Longrightarrow> annotation_ok a \<Longrightarrow> in_range v \<Longrightarrow> from_json a (json_value v) = Inr v"
proof (induction a arbitrary: v)
  case A_datetime
  then show ?case by (cases v) (simp_all add: timestamp_roundtrip)
next
  case (A_union a)
  then show ?case by (auto simp: from_json_null)
next
  case (A_frozenset a)
  then obtain vs where v: "v = PFrozenset vs" "list_all (has_type a) vs" "list_all in_range vs"
    by (cases v) auto
  have "traverse (from_json a) (map json_value vs) = Inr (map (\<lambda>v. v) vs)"
    using A_frozenset v by (intro traverse_map) (simp add: list_all_iff element_ok)
  moreover have "\<not> list_ex unhashable vs"
    using A_frozenset.prems(2) v(2) element_hashable by (auto simp: list_ex_iff list_all_iff)
  ultimately show ?case by (simp add: v(1) frozen_def)
next
  case (A_tuple a)
  then obtain vs where v: "v = PTuple vs" "list_all (has_type a) vs" "list_all in_range vs"
    by (cases v) auto
  have "traverse (from_json a) (map json_value vs) = Inr (map (\<lambda>v. v) vs)"
    using A_tuple v by (intro traverse_map) (simp add: list_all_iff)
  then show ?case by (simp add: v(1))
qed (auto split: pyvalue.splits json.splits)

section \<open>Fields as values and back\<close>

text \<open>The order in which Python iterates a set of strings, which depends on their hashes.\<close>

type_synonym iteration = "string set \<Rightarrow> string list"

definition iterates :: "iteration \<Rightarrow> bool" where
  "iterates it \<longleftrightarrow> (\<forall>X. finite X \<longrightarrow> set (it X) = X \<and> distinct (it X))"

primrec optional :: "('a \<Rightarrow> pyvalue) \<Rightarrow> 'a option \<Rightarrow> pyvalue" where
  "optional f None = PNone"
| "optional f (Some x) = f x"

definition enum_value :: "('a \<Rightarrow> string) \<Rightarrow> 'a \<Rightarrow> pyvalue" where
  "enum_value key x = PEnum (key x)"

definition str_set :: "iteration \<Rightarrow> string set \<Rightarrow> pyvalue" where
  "str_set it X = PFrozenset (map PStr (it X))"

definition enum_set :: "iteration \<Rightarrow> ('a \<Rightarrow> string) \<Rightarrow> 'a set \<Rightarrow> pyvalue" where
  "enum_set it key X = PFrozenset (map PEnum (it (key ` X)))"

text \<open>A value that a field with the given annotation, if there is one, may hold and that can be stored.\<close>

definition fits :: "annotation option \<Rightarrow> pyvalue \<Rightarrow> bool" where
  "fits a v = (case a of None \<Rightarrow> False
     | Some b \<Rightarrow> has_type b v \<and> in_range v \<and> (annotation_ok b \<or> b = A_class))"

text \<open>Reading a field of the annotated type; the other values are never read.\<close>

fun str_of :: "pyvalue \<Rightarrow> string" where "str_of (PStr t) = t" | "str_of _ = []"
fun int_of :: "pyvalue \<Rightarrow> int" where "int_of (PInt n) = n" | "int_of _ = 0"
fun bool_of :: "pyvalue \<Rightarrow> bool" where "bool_of (PBool b) = b" | "bool_of _ = False"
fun time_of :: "pyvalue \<Rightarrow> time" where "time_of (PTime t) = t" | "time_of _ = 0"
fun claim_of :: "pyvalue \<Rightarrow> claim_definition" where "claim_of (PClaim d) = d"
fun object_of :: "pyvalue \<Rightarrow> (string \<times> json) list" where "object_of (PJson (JObject kvs)) = kvs" | "object_of _ = []"

definition option_of :: "(pyvalue \<Rightarrow> 'a) \<Rightarrow> pyvalue \<Rightarrow> 'a option" where
  "option_of f v = (if v = PNone then None else Some (f v))"

fun set_of :: "(pyvalue \<Rightarrow> 'a) \<Rightarrow> pyvalue \<Rightarrow> 'a set" where
  "set_of f (PFrozenset vs) = set (map f vs)" | "set_of f _ = {}"

fun list_of :: "(pyvalue \<Rightarrow> 'a) \<Rightarrow> pyvalue \<Rightarrow> 'a list" where
  "list_of f (PTuple vs) = map f vs" | "list_of f _ = []"

text \<open>\<open>annotation(value)\<close> for an enumeration: its member with that value.\<close>

definition enum_of :: "('a \<Rightarrow> string) \<Rightarrow> 'a list \<Rightarrow> pyvalue \<Rightarrow> 'a" where
  "enum_of key members v =
     (case v of PEnum t \<Rightarrow> hd (filter (\<lambda>x. key x = t) members) | _ \<Rightarrow> hd members)"

definition enum_type :: "('a \<Rightarrow> string) \<Rightarrow> 'a list \<Rightarrow> annotation" where
  "enum_type key members = A_enum (map key members)"

lemma fits_simps:
  "fits (Some A_str) (PStr t)" "fits (Some A_int) (PInt n)" "fits (Some A_bool) (PBool b)"
  "fits (Some A_datetime) (PTime u) = representable u" "fits (Some A_dict) (PJson (JObject kvs))"
  "fits (Some A_class) (PClaim d)"
  "fits (Some (A_frozenset A_str)) (str_set it X)" "fits (Some (A_tuple A_str)) (PTuple (map PStr ts))"
  by (simp_all add: fits_def str_set_def list_all_iff)

lemma fits_optional:
  "fits (Some (A_union A_str)) (optional PStr ot)"
  "fits (Some (A_union A_int)) (optional PInt on)"
  "fits (Some (A_union A_datetime)) (optional PTime ou) = pred_option representable ou"
proof -
  show "fits (Some (A_union A_str)) (optional PStr ot)" by (cases ot) (simp_all add: fits_def)
  show "fits (Some (A_union A_int)) (optional PInt on)" by (cases on) (simp_all add: fits_def)
  show "fits (Some (A_union A_datetime)) (optional PTime ou) = pred_option representable ou"
    by (cases ou) (simp_all add: fits_def)
qed

lemma str_set_read_back: "iterates it \<Longrightarrow> finite X \<Longrightarrow> set_of str_of (str_set it X) = X"
  by (simp add: str_set_def iterates_def o_def)

lemma option_read_back:
  "option_of str_of (optional PStr ot) = ot"
  "option_of int_of (optional PInt on) = on"
  "option_of time_of (optional PTime ou) = ou"
proof -
  show "option_of str_of (optional PStr ot) = ot" by (cases ot) (simp_all add: option_of_def)
  show "option_of int_of (optional PInt on) = on" by (cases on) (simp_all add: option_of_def)
  show "option_of time_of (optional PTime ou) = ou" by (cases ou) (simp_all add: option_of_def)
qed

lemma list_read_back: "list_of str_of (PTuple (map PStr xs)) = xs"
  by (simp add: o_def)

text \<open>What an enumeration owes the wire format: a list of all its members, with distinct values.\<close>

locale wire_enum =
  fixes key :: "'a \<Rightarrow> string" and members :: "'a list"
  assumes complete: "x \<in> set members"
    and separated: "key x = key y \<Longrightarrow> x = y"
begin

lemma read_back: "enum_of key members (enum_value key x) = x"
proof -
  have "x \<in> set (filter (\<lambda>y. key y = key x) members)" by (simp add: complete)
  moreover have "\<forall>y \<in> set (filter (\<lambda>y. key y = key x) members). y = x" by (auto dest: separated)
  ultimately have "hd (filter (\<lambda>y. key y = key x) members) = x"
    by (cases "filter (\<lambda>y. key y = key x) members") simp_all
  then show ?thesis by (simp add: enum_of_def enum_value_def)
qed

lemma finite_members: "finite (X :: 'a set)"
  by (rule finite_subset [of X "set members"]) (auto intro: complete)

lemma set_typed: "iterates it \<Longrightarrow> has_type (A_frozenset (enum_type key members)) (enum_set it key X)"
  by (auto simp: enum_type_def enum_set_def iterates_def list_all_iff complete finite_members)

lemma set_read_back: "iterates it \<Longrightarrow> set_of (enum_of key members) (enum_set it key X) = X"
proof -
  assume "iterates it"
  then have "set (it (key ` X)) = key ` X" by (simp add: iterates_def finite_members)
  then show ?thesis using read_back by (force simp: enum_set_def enum_value_def image_iff)
qed

lemma members_option: "option_of (enum_of key members) (optional (enum_value key) o') = o'"
  using read_back by (cases o') (simp_all add: option_of_def enum_value_def)

lemma members_list: "list_of (enum_of key members) (PTuple (map (enum_value key) xs)) = xs"
  by (simp add: read_back o_def)

lemma fits_enum:
  "fits (Some (enum_type key members)) (enum_value key x)"
  "fits (Some (A_union (enum_type key members))) (optional (enum_value key) u)"
  "fits (Some (A_tuple (enum_type key members))) (PTuple (map (enum_value key) xs))"
  "iterates it \<Longrightarrow> fits (Some (A_frozenset (enum_type key members))) (enum_set it key X)"
proof -
  show "fits (Some (enum_type key members)) (enum_value key x)"
    by (simp add: fits_def enum_type_def enum_value_def complete)
  show "fits (Some (A_union (enum_type key members))) (optional (enum_value key) u)"
    by (cases u) (simp_all add: fits_def enum_type_def enum_value_def complete)
  show "fits (Some (A_tuple (enum_type key members))) (PTuple (map (enum_value key) xs))"
    by (simp add: fits_def enum_type_def enum_value_def list_all_iff complete)
  show "iterates it \<Longrightarrow> fits (Some (A_frozenset (enum_type key members))) (enum_set it key X)"
    using set_typed [of it X] by (simp add: fits_def) (simp add: enum_type_def enum_set_def list_all_iff)
qed

lemmas wire = read_back set_read_back members_option members_list fits_enum

end

section \<open>The enumerations\<close>

text \<open>The members of each enumeration, in the order of its class.\<close>

definition attestation_state_members :: "attestation_state list" where
  "attestation_state_members =
     [ATT_ACTIVE, ATT_INVALIDATED, ATT_EXPIRED]"

definition audit_basis_members :: "audit_basis list" where
  "audit_basis_members =
     [RANDOM, RISK]"

definition audit_state_members :: "audit_state list" where
  "audit_state_members =
     [AUDIT_PENDING, AUDIT_PASSED, AUDIT_FAILED]"

definition challenge_state_members :: "challenge_state list" where
  "challenge_state_members =
     [OPEN, RESPONDED, DECIDED, APPEALED, CLOSED]"

definition challenge_decision_members :: "challenge_decision list" where
  "challenge_decision_members =
     [DISMISSED, SUSTAINED]"

definition appeal_decision_members :: "appeal_decision list" where
  "appeal_decision_members =
     [AFFIRMED, REVERSED]"

definition credential_state_members :: "credential_state list" where
  "credential_state_members =
     [CRED_PROVISIONAL, CRED_ACTIVE, CRED_SUSPENDED, CRED_REVOKED, CRED_EXPIRED]"

definition basis_members :: "verification_basis list" where
  "basis_members =
     [SELF_ASSERTED, BOOTSTRAP_VOUCHED, PEER_ATTESTED, OFFICIAL_SOURCE_CHECKED,
     INDEPENDENTLY_REVIEWED, AUDIT_CORROBORATED]"

definition capability_members :: "authority_capability list" where
  "capability_members =
     [MANAGE_CLAIMS, INVITE_ATTESTOR, INTRODUCE_ATTESTOR, ATTEST_CLAIM, SELECT_AUDIT,
     DECIDE_AUDIT, DECIDE_CHALLENGE, DECIDE_APPEAL, GRANT_AUTHORITY, REVOKE_AUTHORITY,
     DECIDE_RECOVERY, PROCESS_PRIVACY, MANAGE_RELEASE, OPERATE_SERVICE]"

definition tier_members :: "authority_tier list" where
  "tier_members =
     [PARTICIPANT, PROVISIONAL_VERIFIER, VERIFIER, STEWARD, OPERATOR]"

definition authority_basis_members :: "authority_basis list" where
  "authority_basis_members =
     [BOOTSTRAP_DESIGNATION, DELEGATED, INDEPENDENT_REVIEW, AUDITED_PROMOTION]"

definition posture_members :: "storage_posture list" where
  "posture_members =
     [PROVISIONAL_BETA, DURABLE_PRODUCTION]"

definition recovery_state_members :: "recovery_state list" where
  "recovery_state_members =
     [RCV_PENDING, RCV_APPROVED, RCV_REJECTED]"

definition privacy_kind_members :: "privacy_request_kind list" where
  "privacy_kind_members =
     [EXPORT, CORRECTION, DELETION, CONSENT_WITHDRAWAL]"

definition privacy_state_members :: "privacy_request_state list" where
  "privacy_state_members =
     [PRV_PENDING, PRV_COMPLETED, PRV_REJECTED]"

abbreviation attestation_state_type :: annotation where
  "attestation_state_type \<equiv> enum_type attestation_state_value attestation_state_members"

abbreviation audit_basis_type :: annotation where
  "audit_basis_type \<equiv> enum_type audit_basis_value audit_basis_members"

abbreviation audit_state_type :: annotation where
  "audit_state_type \<equiv> enum_type audit_state_value audit_state_members"

abbreviation challenge_state_type :: annotation where
  "challenge_state_type \<equiv> enum_type challenge_state_value challenge_state_members"

abbreviation challenge_decision_type :: annotation where
  "challenge_decision_type \<equiv> enum_type challenge_decision_value challenge_decision_members"

abbreviation appeal_decision_type :: annotation where
  "appeal_decision_type \<equiv> enum_type appeal_decision_value appeal_decision_members"

abbreviation credential_state_type :: annotation where
  "credential_state_type \<equiv> enum_type credential_state_value credential_state_members"

abbreviation basis_type :: annotation where
  "basis_type \<equiv> enum_type basis_value basis_members"

abbreviation capability_type :: annotation where
  "capability_type \<equiv> enum_type capability_value capability_members"

abbreviation tier_type :: annotation where
  "tier_type \<equiv> enum_type tier_value tier_members"

abbreviation authority_basis_type :: annotation where
  "authority_basis_type \<equiv> enum_type authority_basis_value authority_basis_members"

abbreviation posture_type :: annotation where
  "posture_type \<equiv> enum_type posture_value posture_members"

abbreviation recovery_state_type :: annotation where
  "recovery_state_type \<equiv> enum_type recovery_state_value recovery_state_members"

abbreviation privacy_kind_type :: annotation where
  "privacy_kind_type \<equiv> enum_type privacy_kind_value privacy_kind_members"

abbreviation privacy_state_type :: annotation where
  "privacy_state_type \<equiv> enum_type privacy_state_value privacy_state_members"

interpretation attestation_state: wire_enum attestation_state_value attestation_state_members
proof
  show "x \<in> set attestation_state_members" for x by (cases x) (simp_all add: attestation_state_members_def)
  show "attestation_state_value x = attestation_state_value y \<Longrightarrow> x = y" for x y by (cases x; cases y) simp_all
qed

interpretation audit_basis: wire_enum audit_basis_value audit_basis_members
proof
  show "x \<in> set audit_basis_members" for x by (cases x) (simp_all add: audit_basis_members_def)
  show "audit_basis_value x = audit_basis_value y \<Longrightarrow> x = y" for x y by (cases x; cases y) simp_all
qed

interpretation audit_state: wire_enum audit_state_value audit_state_members
proof
  show "x \<in> set audit_state_members" for x by (cases x) (simp_all add: audit_state_members_def)
  show "audit_state_value x = audit_state_value y \<Longrightarrow> x = y" for x y by (cases x; cases y) simp_all
qed

interpretation challenge_state: wire_enum challenge_state_value challenge_state_members
proof
  show "x \<in> set challenge_state_members" for x by (cases x) (simp_all add: challenge_state_members_def)
  show "challenge_state_value x = challenge_state_value y \<Longrightarrow> x = y" for x y by (cases x; cases y) simp_all
qed

interpretation challenge_decision: wire_enum challenge_decision_value challenge_decision_members
proof
  show "x \<in> set challenge_decision_members" for x by (cases x) (simp_all add: challenge_decision_members_def)
  show "challenge_decision_value x = challenge_decision_value y \<Longrightarrow> x = y" for x y by (cases x; cases y) simp_all
qed

interpretation appeal_decision: wire_enum appeal_decision_value appeal_decision_members
proof
  show "x \<in> set appeal_decision_members" for x by (cases x) (simp_all add: appeal_decision_members_def)
  show "appeal_decision_value x = appeal_decision_value y \<Longrightarrow> x = y" for x y by (cases x; cases y) simp_all
qed

interpretation credential_state: wire_enum credential_state_value credential_state_members
proof
  show "x \<in> set credential_state_members" for x by (cases x) (simp_all add: credential_state_members_def)
  show "credential_state_value x = credential_state_value y \<Longrightarrow> x = y" for x y by (cases x; cases y) simp_all
qed

interpretation basis: wire_enum basis_value basis_members
proof
  show "x \<in> set basis_members" for x by (cases x) (simp_all add: basis_members_def)
  show "basis_value x = basis_value y \<Longrightarrow> x = y" for x y by (cases x; cases y) simp_all
qed

interpretation capability: wire_enum capability_value capability_members
proof
  show "x \<in> set capability_members" for x by (cases x) (simp_all add: capability_members_def)
  show "capability_value x = capability_value y \<Longrightarrow> x = y" for x y by (cases x; cases y) simp_all
qed

interpretation tier: wire_enum tier_value tier_members
proof
  show "x \<in> set tier_members" for x by (cases x) (simp_all add: tier_members_def)
  show "tier_value x = tier_value y \<Longrightarrow> x = y" for x y by (cases x; cases y) simp_all
qed

interpretation authority_basis: wire_enum authority_basis_value authority_basis_members
proof
  show "x \<in> set authority_basis_members" for x by (cases x) (simp_all add: authority_basis_members_def)
  show "authority_basis_value x = authority_basis_value y \<Longrightarrow> x = y" for x y by (cases x; cases y) simp_all
qed

interpretation posture: wire_enum posture_value posture_members
proof
  show "x \<in> set posture_members" for x by (cases x) (simp_all add: posture_members_def)
  show "posture_value x = posture_value y \<Longrightarrow> x = y" for x y by (cases x; cases y) simp_all
qed

interpretation recovery_state: wire_enum recovery_state_value recovery_state_members
proof
  show "x \<in> set recovery_state_members" for x by (cases x) (simp_all add: recovery_state_members_def)
  show "recovery_state_value x = recovery_state_value y \<Longrightarrow> x = y" for x y by (cases x; cases y) simp_all
qed

interpretation privacy_kind: wire_enum privacy_kind_value privacy_kind_members
proof
  show "x \<in> set privacy_kind_members" for x by (cases x) (simp_all add: privacy_kind_members_def)
  show "privacy_kind_value x = privacy_kind_value y \<Longrightarrow> x = y" for x y by (cases x; cases y) simp_all
qed

interpretation privacy_state: wire_enum privacy_state_value privacy_state_members
proof
  show "x \<in> set privacy_state_members" for x by (cases x) (simp_all add: privacy_state_members_def)
  show "privacy_state_value x = privacy_state_value y \<Longrightarrow> x = y" for x y by (cases x; cases y) simp_all
qed

lemmas wire_enums =
  attestation_state.wire
  audit_basis.wire
  audit_state.wire
  challenge_state.wire
  challenge_decision.wire
  appeal_decision.wire
  credential_state.wire
  basis.wire
  capability.wire
  tier.wire
  authority_basis.wire
  posture.wire
  recovery_state.wire
  privacy_kind.wire
  privacy_state.wire

end
