(* ===== verification/Contracts.thy ===== *)
theory Contracts
  imports Privacy Wire
begin

text \<open>
  Serialization of the records (\<open>src/kyn/contracts.py\<close>): the type hints of each record class,
  \<open>to_record\<close> and \<open>from_record\<close>. A record survives the way through its JSON shape, and a JSON object
  is only read as a record if it has exactly the fields of its class.
\<close>

type_synonym hints = "(string \<times> annotation) list"

section \<open>The fields of each record class\<close>

text \<open>\<open>get_type_hints\<close> of each class: its fields in order, with their annotations.\<close>

definition subject_hints :: hints where
  "subject_hints = [
     (''subject_id'', A_str), (''participant_key'', A_union A_str), (''created_at'', A_datetime),
     (''deleted_at'', A_union A_datetime)]"

definition operator_release_hints :: hints where
  "operator_release_hints = [
     (''release_id'', A_str), (''release_version'', A_str), (''notice_version'', A_str),
     (''terms_url'', A_str), (''privacy_url'', A_str), (''operator_contact'', A_str),
     (''storage_posture'', posture_type), (''backup_evidence_reference'', A_str),
     (''sensitive_evidence_enabled'', A_bool), (''activated_by_authority_grant_id'', A_str),
     (''activated_at'', A_datetime), (''supersedes_release_id'', A_union A_str),
     (''suspended_at'', A_union A_datetime)]"

definition consent_record_hints :: hints where
  "consent_record_hints = [
     (''consent_id'', A_str), (''subject_id'', A_str), (''notice_version'', A_str),
     (''purposes'', A_frozenset A_str), (''granted_at'', A_datetime),
     (''withdrawn_at'', A_union A_datetime)]"

definition recovery_commitment_hints :: hints where
  "recovery_commitment_hints = [
     (''recovery_commitment_id'', A_str), (''subject_id'', A_str), (''commitment'', A_str),
     (''created_at'', A_datetime), (''consumed_at'', A_union A_datetime)]"

definition recovery_case_hints :: hints where
  "recovery_case_hints = [
     (''recovery_case_id'', A_str), (''subject_id'', A_str), (''recovery_commitment_id'', A_str),
     (''prior_key_digest'', A_str), (''replacement_participant_key'', A_str),
     (''requested_at'', A_datetime), (''state'', recovery_state_type),
     (''decided_by_authority_grant_id'', A_union A_str), (''decided_at'', A_union A_datetime),
     (''decision_reason_code'', A_union A_str)]"

definition privacy_request_hints :: hints where
  "privacy_request_hints = [
     (''privacy_request_id'', A_str), (''subject_id'', A_str), (''kind'', privacy_kind_type),
     (''reason_code'', A_str), (''requested_at'', A_datetime), (''state'', privacy_state_type),
     (''decided_by_authority_grant_id'', A_union A_str), (''decided_at'', A_union A_datetime),
     (''decision_reason_code'', A_union A_str)]"

definition claim_definition_hints :: hints where
  "claim_definition_hints = [
     (''claim_type'', A_str), (''definition_version'', A_str), (''policy_version'', A_str),
     (''method_class'', A_str), (''allowed_verification_bases'', A_frozenset basis_type),
     (''required_verification_bases'', A_frozenset basis_type),
     (''minimum_attestations'', A_union A_int), (''minimum_independent_paths'', A_union A_int),
     (''minimum_passed_audits'', A_union A_int)]"

definition claim_request_hints :: hints where
  "claim_request_hints = [
     (''request_id'', A_str), (''subject_id'', A_str), (''definition'', A_class),
     (''requested_at'', A_datetime)]"

definition verifier_grant_hints :: hints where
  "verifier_grant_hints = [
     (''grant_id'', A_str), (''verifier_subject_id'', A_str), (''claim_type'', A_str),
     (''method_classes'', A_frozenset A_str), (''attestation_cap'', A_int), (''issued_at'', A_datetime),
     (''expires_at'', A_datetime), (''authority_basis'', A_str), (''revoked_at'', A_union A_datetime)]"

definition bootstrap_authority_hints :: hints where
  "bootstrap_authority_hints = [
     (''bootstrap_id'', A_str), (''policy_version'', A_str), (''authority_subject_id'', A_str),
     (''public_label'', A_str), (''designation_reference'', A_str), (''activated_at'', A_datetime),
     (''expires_at'', A_datetime), (''non_transitive'', A_bool)]"

definition authority_grant_hints :: hints where
  "authority_grant_hints = [
     (''authority_grant_id'', A_str), (''holder_subject_id'', A_str),
     (''issuer_authority_grant_id'', A_union A_str), (''capabilities'', A_frozenset capability_type),
     (''claim_types'', A_frozenset A_str), (''method_classes'', A_frozenset A_str),
     (''tier'', tier_type), (''basis'', authority_basis_type), (''issued_at'', A_datetime),
     (''expires_at'', A_datetime), (''usage_cap'', A_union A_int), (''used_count'', A_int),
     (''can_delegate'', A_bool), (''delegation_depth'', A_int), (''max_delegation_depth'', A_int),
     (''public_accountability_label'', A_union A_str), (''revoked_at'', A_union A_datetime),
     (''revocation_reason'', A_union A_str)]"

definition authority_promotion_hints :: hints where
  "authority_promotion_hints = [
     (''promotion_id'', A_str), (''subject_id'', A_str),
     (''source_authority_grant_ids'', A_tuple A_str), (''resulting_authority_grant_id'', A_str),
     (''prior_tier'', tier_type), (''resulting_tier'', tier_type),
     (''passed_audit_ids'', A_tuple A_str), (''decided_by_authority_grant_id'', A_str),
     (''decided_at'', A_datetime)]"

definition attestor_invitation_hints :: hints where
  "attestor_invitation_hints = [
     (''invitation_id'', A_str), (''request_id'', A_str), (''verifier_subject_id'', A_str),
     (''created_at'', A_datetime), (''expires_at'', A_datetime)]"

definition introduction_hints :: hints where
  "introduction_hints = [
     (''introduction_id'', A_str), (''request_id'', A_str), (''introducer_subject_id'', A_str),
     (''invited_verifier_subject_id'', A_str), (''created_at'', A_datetime),
     (''expires_at'', A_datetime)]"

definition attestation_hints :: hints where
  "attestation_hints = [
     (''attestation_id'', A_str), (''request_id'', A_str), (''grant_id'', A_str),
     (''verifier_subject_id'', A_str), (''independence_path'', A_str), (''method_class'', A_str),
     (''issued_at'', A_datetime), (''expires_at'', A_datetime), (''verification_basis'', basis_type),
     (''state'', attestation_state_type), (''invalidation_reason'', A_union A_str)]"

definition audit_hints :: hints where
  "audit_hints = [
     (''audit_id'', A_str), (''attestation_id'', A_str), (''basis'', audit_basis_type),
     (''selection_receipt'', A_str), (''selected_at'', A_datetime), (''state'', audit_state_type),
     (''decided_at'', A_union A_datetime)]"

definition challenge_hints :: hints where
  "challenge_hints = [
     (''challenge_id'', A_str), (''attestation_id'', A_str), (''reason_code'', A_str),
     (''opened_at'', A_datetime), (''state'', challenge_state_type), (''response_code'', A_union A_str),
     (''decision'', A_union challenge_decision_type), (''appeal_reason_code'', A_union A_str),
     (''appeal_decision'', A_union appeal_decision_type), (''decided_at'', A_union A_datetime),
     (''challenger_subject_id'', A_union A_str)]"

definition credential_hints :: hints where
  "credential_hints = [
     (''credential_id'', A_str), (''request_id'', A_str), (''definition'', A_class),
     (''state'', credential_state_type), (''dependency_attestation_ids'', A_tuple A_str),
     (''issued_at'', A_datetime), (''expires_at'', A_datetime), (''status_reference'', A_str),
     (''updated_at'', A_datetime), (''verification_bases'', A_tuple basis_type)]"

definition credential_status_record_hints :: hints where
  "credential_status_record_hints = [
     (''status_reference'', A_str), (''state'', credential_state_type), (''updated_at'', A_datetime)]"

definition public_event_hints :: hints where
  "public_event_hints = [
     (''event_id'', A_str), (''event_type'', A_str), (''aggregate_type'', A_str),
     (''occurred_at'', A_datetime), (''policy_profile'', A_str), (''public_attributes'', A_dict)]"

definition receipt_hints :: hints where
  "receipt_hints = [
     (''receipt_id'', A_str), (''operation'', A_str), (''outcome'', A_str),
     (''occurred_at'', A_datetime), (''event_id'', A_str), (''policy_profile'', A_str)]"

text \<open>\<open>RECORD_CLASSES\<close>: the class of each record type, as its type hints.\<close>

definition record_classes :: "(string \<times> hints) list" where
  "record_classes = [
     (''subject'', subject_hints), (''operator_release'', operator_release_hints),
     (''consent_record'', consent_record_hints), (''recovery_commitment'', recovery_commitment_hints),
     (''recovery_case'', recovery_case_hints), (''privacy_request'', privacy_request_hints),
     (''claim_definition'', claim_definition_hints), (''claim_request'', claim_request_hints),
     (''verifier_grant'', verifier_grant_hints), (''bootstrap_authority'', bootstrap_authority_hints),
     (''authority_grant'', authority_grant_hints), (''authority_promotion'', authority_promotion_hints),
     (''attestor_invitation'', attestor_invitation_hints), (''introduction'', introduction_hints),
     (''attestation'', attestation_hints), (''audit'', audit_hints), (''challenge'', challenge_hints),
     (''credential'', credential_hints), (''credential_status'', credential_status_record_hints),
     (''public_event'', public_event_hints), (''receipt'', receipt_hints)]"

text \<open>\<open>RECORD_TYPES\<close>.\<close>

fun record_type :: "trust_record \<Rightarrow> string" where
  "record_type (RSubject _) = ''subject''"
| "record_type (ROperatorRelease _) = ''operator_release''"
| "record_type (RConsentRecord _) = ''consent_record''"
| "record_type (RRecoveryCommitment _) = ''recovery_commitment''"
| "record_type (RRecoveryCase _) = ''recovery_case''"
| "record_type (RPrivacyRequest _) = ''privacy_request''"
| "record_type (RClaimDefinition _) = ''claim_definition''"
| "record_type (RClaimRequest _) = ''claim_request''"
| "record_type (RVerifierGrant _) = ''verifier_grant''"
| "record_type (RBootstrapAuthority _) = ''bootstrap_authority''"
| "record_type (RAuthorityGrant _) = ''authority_grant''"
| "record_type (RAuthorityPromotion _) = ''authority_promotion''"
| "record_type (RAttestorInvitation _) = ''attestor_invitation''"
| "record_type (RIntroduction _) = ''introduction''"
| "record_type (RAttestation _) = ''attestation''"
| "record_type (RAudit _) = ''audit''"
| "record_type (RChallenge _) = ''challenge''"
| "record_type (RCredential _) = ''credential''"
| "record_type (RCredentialStatus _) = ''credential_status''"
| "record_type (RPublicEvent _) = ''public_event''"
| "record_type (RReceipt _) = ''receipt''"

section \<open>Records as dictionaries\<close>

definition claim_definition_dict :: "iteration \<Rightarrow> claim_definition \<Rightarrow> (string \<times> pyvalue) list" where
  "claim_definition_dict it d = [
     (''claim_type'', PStr (cd_claim_type d)), (''definition_version'', PStr (cd_definition_version d)),
     (''policy_version'', PStr (cd_policy_version d)), (''method_class'', PStr (cd_method_class d)),
     (''allowed_verification_bases'', enum_set it basis_value (cd_allowed_verification_bases d)),
     (''required_verification_bases'', enum_set it basis_value (cd_required_verification_bases d)),
     (''minimum_attestations'', optional PInt (cd_minimum_attestations d)),
     (''minimum_independent_paths'', optional PInt (cd_minimum_independent_paths d)),
     (''minimum_passed_audits'', optional PInt (cd_minimum_passed_audits d))]"

text \<open>\<open>dataclasses.asdict\<close>.\<close>

fun asdict :: "iteration \<Rightarrow> trust_record \<Rightarrow> (string \<times> pyvalue) list" where
  "asdict it (RSubject x) = [
     (''subject_id'', PStr (sub_subject_id x)),
     (''participant_key'', optional PStr (sub_participant_key x)),
     (''created_at'', PTime (sub_created_at x)), (''deleted_at'', optional PTime (sub_deleted_at x))]"
| "asdict it (ROperatorRelease x) = [
     (''release_id'', PStr (rel_release_id x)), (''release_version'', PStr (rel_release_version x)),
     (''notice_version'', PStr (rel_notice_version x)), (''terms_url'', PStr (rel_terms_url x)),
     (''privacy_url'', PStr (rel_privacy_url x)), (''operator_contact'', PStr (rel_operator_contact x)),
     (''storage_posture'', enum_value posture_value (rel_storage_posture x)),
     (''backup_evidence_reference'', PStr (rel_backup_evidence_reference x)),
     (''sensitive_evidence_enabled'', PBool (rel_sensitive_evidence_enabled x)),
     (''activated_by_authority_grant_id'', PStr (rel_activated_by_authority_grant_id x)),
     (''activated_at'', PTime (rel_activated_at x)),
     (''supersedes_release_id'', optional PStr (rel_supersedes_release_id x)),
     (''suspended_at'', optional PTime (rel_suspended_at x))]"
| "asdict it (RConsentRecord x) = [
     (''consent_id'', PStr (cns_consent_id x)), (''subject_id'', PStr (cns_subject_id x)),
     (''notice_version'', PStr (cns_notice_version x)), (''purposes'', str_set it (cns_purposes x)),
     (''granted_at'', PTime (cns_granted_at x)), (''withdrawn_at'', optional PTime (cns_withdrawn_at x))]"
| "asdict it (RRecoveryCommitment x) = [
     (''recovery_commitment_id'', PStr (rcm_recovery_commitment_id x)),
     (''subject_id'', PStr (rcm_subject_id x)), (''commitment'', PStr (rcm_commitment x)),
     (''created_at'', PTime (rcm_created_at x)), (''consumed_at'', optional PTime (rcm_consumed_at x))]"
| "asdict it (RRecoveryCase x) = [
     (''recovery_case_id'', PStr (rcv_recovery_case_id x)), (''subject_id'', PStr (rcv_subject_id x)),
     (''recovery_commitment_id'', PStr (rcv_recovery_commitment_id x)),
     (''prior_key_digest'', PStr (rcv_prior_key_digest x)),
     (''replacement_participant_key'', PStr (rcv_replacement_participant_key x)),
     (''requested_at'', PTime (rcv_requested_at x)),
     (''state'', enum_value recovery_state_value (rcv_state x)),
     (''decided_by_authority_grant_id'', optional PStr (rcv_decided_by_authority_grant_id x)),
     (''decided_at'', optional PTime (rcv_decided_at x)),
     (''decision_reason_code'', optional PStr (rcv_decision_reason_code x))]"
| "asdict it (RPrivacyRequest x) = [
     (''privacy_request_id'', PStr (prv_privacy_request_id x)),
     (''subject_id'', PStr (prv_subject_id x)), (''kind'', enum_value privacy_kind_value (prv_kind x)),
     (''reason_code'', PStr (prv_reason_code x)), (''requested_at'', PTime (prv_requested_at x)),
     (''state'', enum_value privacy_state_value (prv_state x)),
     (''decided_by_authority_grant_id'', optional PStr (prv_decided_by_authority_grant_id x)),
     (''decided_at'', optional PTime (prv_decided_at x)),
     (''decision_reason_code'', optional PStr (prv_decision_reason_code x))]"
| "asdict it (RClaimDefinition x) = claim_definition_dict it x"
| "asdict it (RClaimRequest x) = [
     (''request_id'', PStr (clm_request_id x)), (''subject_id'', PStr (clm_subject_id x)),
     (''definition'', PDict (claim_definition_dict it (clm_definition x))),
     (''requested_at'', PTime (clm_requested_at x))]"
| "asdict it (RVerifierGrant x) = [
     (''grant_id'', PStr (grt_grant_id x)), (''verifier_subject_id'', PStr (grt_verifier_subject_id x)),
     (''claim_type'', PStr (grt_claim_type x)), (''method_classes'', str_set it (grt_method_classes x)),
     (''attestation_cap'', PInt (grt_attestation_cap x)), (''issued_at'', PTime (grt_issued_at x)),
     (''expires_at'', PTime (grt_expires_at x)), (''authority_basis'', PStr (grt_authority_basis x)),
     (''revoked_at'', optional PTime (grt_revoked_at x))]"
| "asdict it (RBootstrapAuthority x) = [
     (''bootstrap_id'', PStr (bst_bootstrap_id x)), (''policy_version'', PStr (bst_policy_version x)),
     (''authority_subject_id'', PStr (bst_authority_subject_id x)),
     (''public_label'', PStr (bst_public_label x)),
     (''designation_reference'', PStr (bst_designation_reference x)),
     (''activated_at'', PTime (bst_activated_at x)), (''expires_at'', PTime (bst_expires_at x)),
     (''non_transitive'', PBool (bst_non_transitive x))]"
| "asdict it (RAuthorityGrant x) = [
     (''authority_grant_id'', PStr (agr_authority_grant_id x)),
     (''holder_subject_id'', PStr (agr_holder_subject_id x)),
     (''issuer_authority_grant_id'', optional PStr (agr_issuer_authority_grant_id x)),
     (''capabilities'', enum_set it capability_value (agr_capabilities x)),
     (''claim_types'', str_set it (agr_claim_types x)),
     (''method_classes'', str_set it (agr_method_classes x)),
     (''tier'', enum_value tier_value (agr_tier x)),
     (''basis'', enum_value authority_basis_value (agr_basis x)),
     (''issued_at'', PTime (agr_issued_at x)), (''expires_at'', PTime (agr_expires_at x)),
     (''usage_cap'', optional PInt (agr_usage_cap x)), (''used_count'', PInt (agr_used_count x)),
     (''can_delegate'', PBool (agr_can_delegate x)),
     (''delegation_depth'', PInt (agr_delegation_depth x)),
     (''max_delegation_depth'', PInt (agr_max_delegation_depth x)),
     (''public_accountability_label'', optional PStr (agr_public_accountability_label x)),
     (''revoked_at'', optional PTime (agr_revoked_at x)),
     (''revocation_reason'', optional PStr (agr_revocation_reason x))]"
| "asdict it (RAuthorityPromotion x) = [
     (''promotion_id'', PStr (prm_promotion_id x)), (''subject_id'', PStr (prm_subject_id x)),
     (''source_authority_grant_ids'', PTuple (map PStr (prm_source_authority_grant_ids x))),
     (''resulting_authority_grant_id'', PStr (prm_resulting_authority_grant_id x)),
     (''prior_tier'', enum_value tier_value (prm_prior_tier x)),
     (''resulting_tier'', enum_value tier_value (prm_resulting_tier x)),
     (''passed_audit_ids'', PTuple (map PStr (prm_passed_audit_ids x))),
     (''decided_by_authority_grant_id'', PStr (prm_decided_by_authority_grant_id x)),
     (''decided_at'', PTime (prm_decided_at x))]"
| "asdict it (RAttestorInvitation x) = [
     (''invitation_id'', PStr (inv_invitation_id x)), (''request_id'', PStr (inv_request_id x)),
     (''verifier_subject_id'', PStr (inv_verifier_subject_id x)),
     (''created_at'', PTime (inv_created_at x)), (''expires_at'', PTime (inv_expires_at x))]"
| "asdict it (RIntroduction x) = [
     (''introduction_id'', PStr (int_introduction_id x)), (''request_id'', PStr (int_request_id x)),
     (''introducer_subject_id'', PStr (int_introducer_subject_id x)),
     (''invited_verifier_subject_id'', PStr (int_invited_verifier_subject_id x)),
     (''created_at'', PTime (int_created_at x)), (''expires_at'', PTime (int_expires_at x))]"
| "asdict it (RAttestation x) = [
     (''attestation_id'', PStr (att_attestation_id x)), (''request_id'', PStr (att_request_id x)),
     (''grant_id'', PStr (att_grant_id x)), (''verifier_subject_id'', PStr (att_verifier_subject_id x)),
     (''independence_path'', PStr (att_independence_path x)),
     (''method_class'', PStr (att_method_class x)), (''issued_at'', PTime (att_issued_at x)),
     (''expires_at'', PTime (att_expires_at x)),
     (''verification_basis'', enum_value basis_value (att_verification_basis x)),
     (''state'', enum_value attestation_state_value (att_state x)),
     (''invalidation_reason'', optional PStr (att_invalidation_reason x))]"
| "asdict it (RAudit x) = [
     (''audit_id'', PStr (aud_audit_id x)), (''attestation_id'', PStr (aud_attestation_id x)),
     (''basis'', enum_value audit_basis_value (aud_basis x)),
     (''selection_receipt'', PStr (aud_selection_receipt x)),
     (''selected_at'', PTime (aud_selected_at x)),
     (''state'', enum_value audit_state_value (aud_state x)),
     (''decided_at'', optional PTime (aud_decided_at x))]"
| "asdict it (RChallenge x) = [
     (''challenge_id'', PStr (chg_challenge_id x)), (''attestation_id'', PStr (chg_attestation_id x)),
     (''reason_code'', PStr (chg_reason_code x)), (''opened_at'', PTime (chg_opened_at x)),
     (''state'', enum_value challenge_state_value (chg_state x)),
     (''response_code'', optional PStr (chg_response_code x)),
     (''decision'', optional (enum_value challenge_decision_value) (chg_decision x)),
     (''appeal_reason_code'', optional PStr (chg_appeal_reason_code x)),
     (''appeal_decision'', optional (enum_value appeal_decision_value) (chg_appeal_decision x)),
     (''decided_at'', optional PTime (chg_decided_at x)),
     (''challenger_subject_id'', optional PStr (chg_challenger_subject_id x))]"
| "asdict it (RCredential x) = [
     (''credential_id'', PStr (crd_credential_id x)), (''request_id'', PStr (crd_request_id x)),
     (''definition'', PDict (claim_definition_dict it (crd_definition x))),
     (''state'', enum_value credential_state_value (crd_state x)),
     (''dependency_attestation_ids'', PTuple (map PStr (crd_dependency_attestation_ids x))),
     (''issued_at'', PTime (crd_issued_at x)), (''expires_at'', PTime (crd_expires_at x)),
     (''status_reference'', PStr (crd_status_reference x)), (''updated_at'', PTime (crd_updated_at x)),
     (''verification_bases'', PTuple (map (enum_value basis_value) (crd_verification_bases x)))]"
| "asdict it (RCredentialStatus x) = [
     (''status_reference'', PStr (cst_status_reference x)),
     (''state'', enum_value credential_state_value (cst_state x)),
     (''updated_at'', PTime (cst_updated_at x))]"
| "asdict it (RPublicEvent x) = [
     (''event_id'', PStr (evt_event_id x)), (''event_type'', PStr (evt_event_type x)),
     (''aggregate_type'', PStr (evt_aggregate_type x)), (''occurred_at'', PTime (evt_occurred_at x)),
     (''policy_profile'', PStr (evt_policy_profile x)),
     (''public_attributes'', PJson (JObject (evt_public_attributes x)))]"
| "asdict it (RReceipt x) = [
     (''receipt_id'', PStr (rcp_receipt_id x)), (''operation'', PStr (rcp_operation x)),
     (''outcome'', PStr (rcp_outcome x)), (''occurred_at'', PTime (rcp_occurred_at x)),
     (''event_id'', PStr (rcp_event_id x)), (''policy_profile'', PStr (rcp_policy_profile x))]"

section \<open>Constructing records\<close>

definition new_subject :: "(string \<Rightarrow> pyvalue) \<Rightarrow> subject" where
  "new_subject v =
     \<lparr>sub_subject_id = str_of (v ''subject_id''),
        sub_participant_key = option_of str_of (v ''participant_key''),
        sub_created_at = time_of (v ''created_at''),
        sub_deleted_at = option_of time_of (v ''deleted_at'')\<rparr>"

definition new_operator_release :: "(string \<Rightarrow> pyvalue) \<Rightarrow> operator_release" where
  "new_operator_release v =
     \<lparr>rel_release_id = str_of (v ''release_id''),
        rel_release_version = str_of (v ''release_version''),
        rel_notice_version = str_of (v ''notice_version''), rel_terms_url = str_of (v ''terms_url''),
        rel_privacy_url = str_of (v ''privacy_url''),
        rel_operator_contact = str_of (v ''operator_contact''),
        rel_storage_posture = enum_of posture_value posture_members (v ''storage_posture''),
        rel_backup_evidence_reference = str_of (v ''backup_evidence_reference''),
        rel_sensitive_evidence_enabled = bool_of (v ''sensitive_evidence_enabled''),
        rel_activated_by_authority_grant_id = str_of (v ''activated_by_authority_grant_id''),
        rel_activated_at = time_of (v ''activated_at''),
        rel_supersedes_release_id = option_of str_of (v ''supersedes_release_id''),
        rel_suspended_at = option_of time_of (v ''suspended_at'')\<rparr>"

definition new_consent_record :: "(string \<Rightarrow> pyvalue) \<Rightarrow> consent_record" where
  "new_consent_record v =
     \<lparr>cns_consent_id = str_of (v ''consent_id''), cns_subject_id = str_of (v ''subject_id''),
        cns_notice_version = str_of (v ''notice_version''),
        cns_purposes = set_of str_of (v ''purposes''), cns_granted_at = time_of (v ''granted_at''),
        cns_withdrawn_at = option_of time_of (v ''withdrawn_at'')\<rparr>"

definition new_recovery_commitment :: "(string \<Rightarrow> pyvalue) \<Rightarrow> recovery_commitment" where
  "new_recovery_commitment v =
     \<lparr>rcm_recovery_commitment_id = str_of (v ''recovery_commitment_id''),
        rcm_subject_id = str_of (v ''subject_id''), rcm_commitment = str_of (v ''commitment''),
        rcm_created_at = time_of (v ''created_at''),
        rcm_consumed_at = option_of time_of (v ''consumed_at'')\<rparr>"

definition new_recovery_case :: "(string \<Rightarrow> pyvalue) \<Rightarrow> recovery_case" where
  "new_recovery_case v =
     \<lparr>rcv_recovery_case_id = str_of (v ''recovery_case_id''),
        rcv_subject_id = str_of (v ''subject_id''),
        rcv_recovery_commitment_id = str_of (v ''recovery_commitment_id''),
        rcv_prior_key_digest = str_of (v ''prior_key_digest''),
        rcv_replacement_participant_key = str_of (v ''replacement_participant_key''),
        rcv_requested_at = time_of (v ''requested_at''),
        rcv_state = enum_of recovery_state_value recovery_state_members (v ''state''),
        rcv_decided_by_authority_grant_id = option_of str_of (v ''decided_by_authority_grant_id''),
        rcv_decided_at = option_of time_of (v ''decided_at''),
        rcv_decision_reason_code = option_of str_of (v ''decision_reason_code'')\<rparr>"

definition new_privacy_request :: "(string \<Rightarrow> pyvalue) \<Rightarrow> privacy_request" where
  "new_privacy_request v =
     \<lparr>prv_privacy_request_id = str_of (v ''privacy_request_id''),
        prv_subject_id = str_of (v ''subject_id''),
        prv_kind = enum_of privacy_kind_value privacy_kind_members (v ''kind''),
        prv_reason_code = str_of (v ''reason_code''), prv_requested_at = time_of (v ''requested_at''),
        prv_state = enum_of privacy_state_value privacy_state_members (v ''state''),
        prv_decided_by_authority_grant_id = option_of str_of (v ''decided_by_authority_grant_id''),
        prv_decided_at = option_of time_of (v ''decided_at''),
        prv_decision_reason_code = option_of str_of (v ''decision_reason_code'')\<rparr>"

definition new_claim_definition :: "(string \<Rightarrow> pyvalue) \<Rightarrow> claim_definition" where
  "new_claim_definition v =
     \<lparr>cd_claim_type = str_of (v ''claim_type''),
        cd_definition_version = str_of (v ''definition_version''),
        cd_policy_version = str_of (v ''policy_version''),
        cd_method_class = str_of (v ''method_class''),
        cd_allowed_verification_bases = set_of (enum_of basis_value basis_members) (v ''allowed_verification_bases''),
        cd_required_verification_bases = set_of (enum_of basis_value basis_members) (v ''required_verification_bases''),
        cd_minimum_attestations = option_of int_of (v ''minimum_attestations''),
        cd_minimum_independent_paths = option_of int_of (v ''minimum_independent_paths''),
        cd_minimum_passed_audits = option_of int_of (v ''minimum_passed_audits'')\<rparr>"

definition new_claim_request :: "(string \<Rightarrow> pyvalue) \<Rightarrow> claim_request" where
  "new_claim_request v =
     \<lparr>clm_request_id = str_of (v ''request_id''), clm_subject_id = str_of (v ''subject_id''),
        clm_definition = claim_of (v ''definition''), clm_requested_at = time_of (v ''requested_at'')\<rparr>"

definition new_verifier_grant :: "(string \<Rightarrow> pyvalue) \<Rightarrow> verifier_grant" where
  "new_verifier_grant v =
     \<lparr>grt_grant_id = str_of (v ''grant_id''),
        grt_verifier_subject_id = str_of (v ''verifier_subject_id''),
        grt_claim_type = str_of (v ''claim_type''),
        grt_method_classes = set_of str_of (v ''method_classes''),
        grt_attestation_cap = int_of (v ''attestation_cap''), grt_issued_at = time_of (v ''issued_at''),
        grt_expires_at = time_of (v ''expires_at''),
        grt_authority_basis = str_of (v ''authority_basis''),
        grt_revoked_at = option_of time_of (v ''revoked_at'')\<rparr>"

definition new_bootstrap_authority :: "(string \<Rightarrow> pyvalue) \<Rightarrow> Models.bootstrap_authority" where
  "new_bootstrap_authority v =
     \<lparr>bst_bootstrap_id = str_of (v ''bootstrap_id''),
        bst_policy_version = str_of (v ''policy_version''),
        bst_authority_subject_id = str_of (v ''authority_subject_id''),
        bst_public_label = str_of (v ''public_label''),
        bst_designation_reference = str_of (v ''designation_reference''),
        bst_activated_at = time_of (v ''activated_at''), bst_expires_at = time_of (v ''expires_at''),
        bst_non_transitive = bool_of (v ''non_transitive'')\<rparr>"

definition new_authority_grant :: "(string \<Rightarrow> pyvalue) \<Rightarrow> authority_grant" where
  "new_authority_grant v =
     \<lparr>agr_authority_grant_id = str_of (v ''authority_grant_id''),
        agr_holder_subject_id = str_of (v ''holder_subject_id''),
        agr_issuer_authority_grant_id = option_of str_of (v ''issuer_authority_grant_id''),
        agr_capabilities = set_of (enum_of capability_value capability_members) (v ''capabilities''),
        agr_claim_types = set_of str_of (v ''claim_types''),
        agr_method_classes = set_of str_of (v ''method_classes''),
        agr_tier = enum_of tier_value tier_members (v ''tier''),
        agr_basis = enum_of authority_basis_value authority_basis_members (v ''basis''),
        agr_issued_at = time_of (v ''issued_at''), agr_expires_at = time_of (v ''expires_at''),
        agr_usage_cap = option_of int_of (v ''usage_cap''), agr_used_count = int_of (v ''used_count''),
        agr_can_delegate = bool_of (v ''can_delegate''),
        agr_delegation_depth = int_of (v ''delegation_depth''),
        agr_max_delegation_depth = int_of (v ''max_delegation_depth''),
        agr_public_accountability_label = option_of str_of (v ''public_accountability_label''),
        agr_revoked_at = option_of time_of (v ''revoked_at''),
        agr_revocation_reason = option_of str_of (v ''revocation_reason'')\<rparr>"

definition new_authority_promotion :: "(string \<Rightarrow> pyvalue) \<Rightarrow> authority_promotion" where
  "new_authority_promotion v =
     \<lparr>prm_promotion_id = str_of (v ''promotion_id''), prm_subject_id = str_of (v ''subject_id''),
        prm_source_authority_grant_ids = list_of str_of (v ''source_authority_grant_ids''),
        prm_resulting_authority_grant_id = str_of (v ''resulting_authority_grant_id''),
        prm_prior_tier = enum_of tier_value tier_members (v ''prior_tier''),
        prm_resulting_tier = enum_of tier_value tier_members (v ''resulting_tier''),
        prm_passed_audit_ids = list_of str_of (v ''passed_audit_ids''),
        prm_decided_by_authority_grant_id = str_of (v ''decided_by_authority_grant_id''),
        prm_decided_at = time_of (v ''decided_at'')\<rparr>"

definition new_attestor_invitation :: "(string \<Rightarrow> pyvalue) \<Rightarrow> attestor_invitation" where
  "new_attestor_invitation v =
     \<lparr>inv_invitation_id = str_of (v ''invitation_id''), inv_request_id = str_of (v ''request_id''),
        inv_verifier_subject_id = str_of (v ''verifier_subject_id''),
        inv_created_at = time_of (v ''created_at''), inv_expires_at = time_of (v ''expires_at'')\<rparr>"

definition new_introduction :: "(string \<Rightarrow> pyvalue) \<Rightarrow> introduction" where
  "new_introduction v =
     \<lparr>int_introduction_id = str_of (v ''introduction_id''),
        int_request_id = str_of (v ''request_id''),
        int_introducer_subject_id = str_of (v ''introducer_subject_id''),
        int_invited_verifier_subject_id = str_of (v ''invited_verifier_subject_id''),
        int_created_at = time_of (v ''created_at''), int_expires_at = time_of (v ''expires_at'')\<rparr>"

definition new_attestation :: "(string \<Rightarrow> pyvalue) \<Rightarrow> attestation" where
  "new_attestation v =
     \<lparr>att_attestation_id = str_of (v ''attestation_id''), att_request_id = str_of (v ''request_id''),
        att_grant_id = str_of (v ''grant_id''),
        att_verifier_subject_id = str_of (v ''verifier_subject_id''),
        att_independence_path = str_of (v ''independence_path''),
        att_method_class = str_of (v ''method_class''), att_issued_at = time_of (v ''issued_at''),
        att_expires_at = time_of (v ''expires_at''),
        att_verification_basis = enum_of basis_value basis_members (v ''verification_basis''),
        att_state = enum_of attestation_state_value attestation_state_members (v ''state''),
        att_invalidation_reason = option_of str_of (v ''invalidation_reason'')\<rparr>"

definition new_audit :: "(string \<Rightarrow> pyvalue) \<Rightarrow> audit" where
  "new_audit v =
     \<lparr>aud_audit_id = str_of (v ''audit_id''), aud_attestation_id = str_of (v ''attestation_id''),
        aud_basis = enum_of audit_basis_value audit_basis_members (v ''basis''),
        aud_selection_receipt = str_of (v ''selection_receipt''),
        aud_selected_at = time_of (v ''selected_at''),
        aud_state = enum_of audit_state_value audit_state_members (v ''state''),
        aud_decided_at = option_of time_of (v ''decided_at'')\<rparr>"

definition new_challenge :: "(string \<Rightarrow> pyvalue) \<Rightarrow> challenge" where
  "new_challenge v =
     \<lparr>chg_challenge_id = str_of (v ''challenge_id''),
        chg_attestation_id = str_of (v ''attestation_id''),
        chg_reason_code = str_of (v ''reason_code''), chg_opened_at = time_of (v ''opened_at''),
        chg_state = enum_of challenge_state_value challenge_state_members (v ''state''),
        chg_response_code = option_of str_of (v ''response_code''),
        chg_decision = option_of (enum_of challenge_decision_value challenge_decision_members) (v ''decision''),
        chg_appeal_reason_code = option_of str_of (v ''appeal_reason_code''),
        chg_appeal_decision = option_of (enum_of appeal_decision_value appeal_decision_members) (v ''appeal_decision''),
        chg_decided_at = option_of time_of (v ''decided_at''),
        chg_challenger_subject_id = option_of str_of (v ''challenger_subject_id'')\<rparr>"

definition new_credential :: "(string \<Rightarrow> pyvalue) \<Rightarrow> credential" where
  "new_credential v =
     \<lparr>crd_credential_id = str_of (v ''credential_id''), crd_request_id = str_of (v ''request_id''),
        crd_definition = claim_of (v ''definition''),
        crd_state = enum_of credential_state_value credential_state_members (v ''state''),
        crd_dependency_attestation_ids = list_of str_of (v ''dependency_attestation_ids''),
        crd_issued_at = time_of (v ''issued_at''), crd_expires_at = time_of (v ''expires_at''),
        crd_status_reference = str_of (v ''status_reference''),
        crd_updated_at = time_of (v ''updated_at''),
        crd_verification_bases = list_of (enum_of basis_value basis_members) (v ''verification_bases'')\<rparr>"

definition new_credential_status_record :: "(string \<Rightarrow> pyvalue) \<Rightarrow> credential_status_record" where
  "new_credential_status_record v =
     \<lparr>cst_status_reference = str_of (v ''status_reference''),
        cst_state = enum_of credential_state_value credential_state_members (v ''state''),
        cst_updated_at = time_of (v ''updated_at'')\<rparr>"

definition new_public_event :: "(string \<Rightarrow> pyvalue) \<Rightarrow> public_event" where
  "new_public_event v =
     \<lparr>evt_event_id = str_of (v ''event_id''), evt_event_type = str_of (v ''event_type''),
        evt_aggregate_type = str_of (v ''aggregate_type''),
        evt_occurred_at = time_of (v ''occurred_at''),
        evt_policy_profile = str_of (v ''policy_profile''),
        evt_public_attributes = object_of (v ''public_attributes'')\<rparr>"

definition new_receipt :: "(string \<Rightarrow> pyvalue) \<Rightarrow> receipt" where
  "new_receipt v =
     \<lparr>rcp_receipt_id = str_of (v ''receipt_id''), rcp_operation = str_of (v ''operation''),
        rcp_outcome = str_of (v ''outcome''), rcp_occurred_at = time_of (v ''occurred_at''),
        rcp_event_id = str_of (v ''event_id''), rcp_policy_profile = str_of (v ''policy_profile'')\<rparr>"

text \<open>
  \<open>record_class(**converted)\<close>, with the constructor's own check of a claim definition.
\<close>

definition unknown_type :: error where
  "unknown_type = ValueError ''unknown KYN record type''"

definition construct :: "string \<Rightarrow> (string \<Rightarrow> pyvalue) \<Rightarrow> error + trust_record" where
  "construct c v = (
     if c = ''subject'' then Inr (RSubject (new_subject v))
     else if c = ''operator_release'' then Inr (ROperatorRelease (new_operator_release v))
     else if c = ''consent_record'' then Inr (RConsentRecord (new_consent_record v))
     else if c = ''recovery_commitment'' then Inr (RRecoveryCommitment (new_recovery_commitment v))
     else if c = ''recovery_case'' then Inr (RRecoveryCase (new_recovery_case v))
     else if c = ''privacy_request'' then Inr (RPrivacyRequest (new_privacy_request v))
     else if c = ''claim_definition'' then map_sum id RClaimDefinition (check_claim_definition (new_claim_definition v))
     else if c = ''claim_request'' then Inr (RClaimRequest (new_claim_request v))
     else if c = ''verifier_grant'' then Inr (RVerifierGrant (new_verifier_grant v))
     else if c = ''bootstrap_authority'' then Inr (RBootstrapAuthority (new_bootstrap_authority v))
     else if c = ''authority_grant'' then Inr (RAuthorityGrant (new_authority_grant v))
     else if c = ''authority_promotion'' then Inr (RAuthorityPromotion (new_authority_promotion v))
     else if c = ''attestor_invitation'' then Inr (RAttestorInvitation (new_attestor_invitation v))
     else if c = ''introduction'' then Inr (RIntroduction (new_introduction v))
     else if c = ''attestation'' then Inr (RAttestation (new_attestation v))
     else if c = ''audit'' then Inr (RAudit (new_audit v))
     else if c = ''challenge'' then Inr (RChallenge (new_challenge v))
     else if c = ''credential'' then Inr (RCredential (new_credential v))
     else if c = ''credential_status'' then Inr (RCredentialStatus (new_credential_status_record v))
     else if c = ''public_event'' then Inr (RPublicEvent (new_public_event v))
     else if c = ''receipt'' then Inr (RReceipt (new_receipt v))
     else Inl unknown_type)"

section \<open>Which records can be stored\<close>

definition accepted :: "claim_definition \<Rightarrow> bool" where
  "accepted d \<longleftrightarrow> check_claim_definition d = Inr d"

text \<open>
  What Python guarantees of every record: a timestamp lies in the years 1 to 9999, a frozenset is
  finite, and a claim definition has passed its constructor.
\<close>

fun storable :: "trust_record \<Rightarrow> bool" where
  "storable (RSubject x) \<longleftrightarrow> representable (sub_created_at x) \<and> pred_option representable (sub_deleted_at x)"
| "storable (ROperatorRelease x) \<longleftrightarrow> representable (rel_activated_at x) \<and> pred_option representable (rel_suspended_at x)"
| "storable (RConsentRecord x) \<longleftrightarrow> finite (cns_purposes x) \<and> representable (cns_granted_at x) \<and>
       pred_option representable (cns_withdrawn_at x)"
| "storable (RRecoveryCommitment x) \<longleftrightarrow> representable (rcm_created_at x) \<and> pred_option representable (rcm_consumed_at x)"
| "storable (RRecoveryCase x) \<longleftrightarrow> representable (rcv_requested_at x) \<and> pred_option representable (rcv_decided_at x)"
| "storable (RPrivacyRequest x) \<longleftrightarrow> representable (prv_requested_at x) \<and> pred_option representable (prv_decided_at x)"
| "storable (RClaimDefinition x) = accepted x"
| "storable (RClaimRequest x) \<longleftrightarrow> accepted (clm_definition x) \<and> representable (clm_requested_at x)"
| "storable (RVerifierGrant x) \<longleftrightarrow> finite (grt_method_classes x) \<and> representable (grt_issued_at x) \<and>
       representable (grt_expires_at x) \<and> pred_option representable (grt_revoked_at x)"
| "storable (RBootstrapAuthority x) \<longleftrightarrow> representable (bst_activated_at x) \<and> representable (bst_expires_at x)"
| "storable (RAuthorityGrant x) \<longleftrightarrow> finite (agr_claim_types x) \<and> finite (agr_method_classes x) \<and> representable (agr_issued_at x) \<and>
       representable (agr_expires_at x) \<and> pred_option representable (agr_revoked_at x)"
| "storable (RAuthorityPromotion x) \<longleftrightarrow> representable (prm_decided_at x)"
| "storable (RAttestorInvitation x) \<longleftrightarrow> representable (inv_created_at x) \<and> representable (inv_expires_at x)"
| "storable (RIntroduction x) \<longleftrightarrow> representable (int_created_at x) \<and> representable (int_expires_at x)"
| "storable (RAttestation x) \<longleftrightarrow> representable (att_issued_at x) \<and> representable (att_expires_at x)"
| "storable (RAudit x) \<longleftrightarrow> representable (aud_selected_at x) \<and> pred_option representable (aud_decided_at x)"
| "storable (RChallenge x) \<longleftrightarrow> representable (chg_opened_at x) \<and> pred_option representable (chg_decided_at x)"
| "storable (RCredential x) \<longleftrightarrow> accepted (crd_definition x) \<and> representable (crd_issued_at x) \<and>
       representable (crd_expires_at x) \<and> representable (crd_updated_at x)"
| "storable (RCredentialStatus x) \<longleftrightarrow> representable (cst_updated_at x)"
| "storable (RPublicEvent x) \<longleftrightarrow> representable (evt_occurred_at x)"
| "storable (RReceipt x) \<longleftrightarrow> representable (rcp_occurred_at x)"

section \<open>Serialization\<close>

text \<open>The entries other than the one of a key: \<open>payload.pop(key)\<close>.\<close>

definition without :: "string \<Rightarrow> (string \<times> 'v) list \<Rightarrow> (string \<times> 'v) list" where
  "without k kvs = filter (\<lambda>kv. fst kv \<noteq> k) kvs"

definition to_record :: "iteration \<Rightarrow> trust_record \<Rightarrow> (string \<times> json) list" where
  "to_record it r =
     (let payload = map (map_prod id json_value) (asdict it r);
          payload = (case dget payload ''definition'' of
              Some (JObject (kv # kvs)) \<Rightarrow>
                dput ''claim'' (JObject ((''record_type'', JStr ''claim_definition'') # kv # kvs))
                  (without ''definition'' payload)
            | _ \<Rightarrow> payload)
      in (''record_type'', JStr (record_type r)) # payload)"

text \<open>
  The values that \<open>from_record\<close> converts: JSON, or the claim definition it has read for the key
  \<open>definition\<close>.
\<close>

datatype field_value = FJson json | FClaim claim_definition

definition convert :: "hints \<Rightarrow> string \<times> field_value \<Rightarrow> error + (string \<times> pyvalue)" where
  "convert hs kv = (case snd kv of
       FClaim d \<Rightarrow> Inr (fst kv, PClaim d)
     | FJson j \<Rightarrow> (case dget hs (fst kv) of
         Some a \<Rightarrow> map_sum id (Pair (fst kv)) (from_json a j)
       | None \<Rightarrow> Inl (KeyError (fst kv))))"

text \<open>
  The end of \<open>from_record\<close>: the keys are compared with the hints, the values are converted and the
  class is called. The dataclasses do not check the types of their fields; a value of another type
  than the annotated one is outside the records of the model, and is refused here.
\<close>

definition build :: "string \<Rightarrow> hints \<Rightarrow> (string \<times> field_value) list \<Rightarrow> error + trust_record" where
  "build c hs values =
     (if set (dkeys values) \<noteq> set (dkeys hs)
      then Inl (ValueError ''KYN record fields do not match the exact contract'')
      else case traverse (convert hs) values of Inl er \<Rightarrow> Inl er | Inr converted \<Rightarrow>
        if \<forall>(k, a) \<in> set hs. has_type a (the (dget converted k))
        then construct c (\<lambda>k. the (dget converted k))
        else Inl (TypeError ''value outside the annotated type''))"

lemma dget_without: "dget (without k p) k' = (if k' = k then None else dget p k')"
  by (induction p) (auto simp: without_def)

lemma size_member: "dget p k = Some (JObject q) \<Longrightarrow> size (JObject q) < size (JObject p)"
  by (induction p) (auto split: if_splits)

function from_record :: "(string \<times> json) list \<Rightarrow> error + trust_record" where
  "from_record p =
     (case dget p ''record_type'' of
        Some (JStr c) \<Rightarrow>
          (case dget record_classes c of
             None \<Rightarrow> Inl unknown_type
           | Some hs \<Rightarrow>
               let values = without ''record_type'' p in
               (case dget values ''claim'' of
                  None \<Rightarrow> build c hs (map (map_prod id FJson) values)
                | Some (JObject claim) \<Rightarrow>
                    (case from_record claim of
                       Inl er \<Rightarrow> Inl er
                     | Inr (RClaimDefinition d) \<Rightarrow>
                         build c hs (dput ''definition'' (FClaim d) (map (map_prod id FJson) (without ''claim'' values)))
                     | Inr _ \<Rightarrow> Inl (TypeError ''nested KYN claim must be a claim definition''))
                | Some _ \<Rightarrow> Inl (TypeError ''nested KYN claim must be an object'')))
      | _ \<Rightarrow> Inl unknown_type)"
  by auto
termination
  by (relation "measure (\<lambda>p. size (JObject p))") (auto simp: dget_without dest!: size_member split: if_splits)

declare from_record.simps [simp del]

section \<open>Records survive serialization\<close>

fun definition_of :: "trust_record \<Rightarrow> claim_definition option" where
  "definition_of (RClaimRequest x) = Some (clm_definition x)"
| "definition_of (RCredential x) = Some (crd_definition x)"
| "definition_of _ = None"

definition stored_fields :: "iteration \<Rightarrow> trust_record \<Rightarrow> (string \<times> pyvalue) list" where
  "stored_fields it r =
     (case definition_of r of None \<Rightarrow> asdict it r
      | Some d \<Rightarrow> dput ''definition'' (PClaim d) (without ''definition'' (asdict it r)))"

definition raw :: "pyvalue \<Rightarrow> field_value" where
  "raw v = (case v of PClaim d \<Rightarrow> FClaim d | _ \<Rightarrow> FJson (json_value v))"

lemma no_claim: "annotation_ok a \<Longrightarrow> \<not> has_type a (PClaim d)"
  by (induction a) auto

lemma convert_raw:
  assumes "fits (dget hs k) v"
  shows "convert hs (k, raw v) = Inr (k, v)"
proof (cases "\<exists>d. v = PClaim d")
  case True
  then show ?thesis by (auto simp: convert_def raw_def)
next
  case False
  then have raw: "raw v = FJson (json_value v)" by (cases v) (simp_all add: raw_def)
  from assms obtain a where a: "dget hs k = Some a" "has_type a v" "in_range v" "annotation_ok a \<or> a = A_class"
    by (auto simp: fits_def split: option.splits)
  moreover from False a(2) have "a \<noteq> A_class" by (cases v) auto
  ultimately show ?thesis by (simp add: convert_def raw from_json_value)
qed

lemma build_fields:
  assumes "set (dkeys fs) = set (dkeys hs)" "distinct (dkeys hs)" "distinct (dkeys fs)"
    "list_all (\<lambda>kv. fits (dget hs (fst kv)) (snd kv)) fs"
  shows "build c hs (map (map_prod id raw) fs) = construct c (\<lambda>k. the (dget fs k))"
proof -
  have "traverse (convert hs) (map (map_prod id raw) fs) = Inr (map (\<lambda>kv. kv) fs)"
    using assms(4) by (intro traverse_map) (auto simp: list_all_iff convert_raw)
  moreover have "\<forall>(k, a) \<in> set hs. has_type a (the (dget fs k))"
  proof clarify
    fix k a assume "(k, a) \<in> set hs"
    then have a: "dget hs k = Some a" and "k \<in> set (dkeys fs)"
      using assms(1,2) by (simp_all, force)
    then obtain v where "(k, v) \<in> set fs" by auto
    then have "dget fs k = Some v" "fits (dget hs k) v"
      using assms(3,4) by (auto simp: list_all_iff)
    then show "has_type a (the (dget fs k))" by (simp add: a fits_def)
  qed
  ultimately show ?thesis using assms(1) by (simp add: build_def)
qed

end
