(* ===== verification/Serialization.thy ===== *)
theory Serialization
  imports Contracts
begin

text \<open>
  The theorems of the serialization layer (\<open>src/kyn/contracts.py\<close>): every record class has distinct
  fields that its dictionary fills with values of the annotated types, so a stored record reads back
  as itself; and what is read as a record has its fields, with one field that is overlooked.
\<close>

section \<open>Record by record\<close>

lemmas read_back = str_set_read_back option_read_back list_read_back wire_enums

lemmas all_hints = subject_hints_def operator_release_hints_def consent_record_hints_def
  recovery_commitment_hints_def recovery_case_hints_def privacy_request_hints_def
  claim_definition_hints_def claim_request_hints_def verifier_grant_hints_def
  bootstrap_authority_hints_def authority_grant_hints_def authority_promotion_hints_def
  attestor_invitation_hints_def introduction_hints_def attestation_hints_def audit_hints_def
  challenge_hints_def credential_hints_def credential_status_record_hints_def public_event_hints_def
  receipt_hints_def

lemmas constructors = new_subject_def new_operator_release_def new_consent_record_def
  new_recovery_commitment_def new_recovery_case_def new_privacy_request_def new_claim_definition_def
  new_claim_request_def new_verifier_grant_def new_bootstrap_authority_def new_authority_grant_def
  new_authority_promotion_def new_attestor_invitation_def new_introduction_def new_attestation_def
  new_audit_def new_challenge_def new_credential_def new_credential_status_record_def
  new_public_event_def new_receipt_def

lemma class_hints:
  "dget record_classes (record_type (RSubject x1)) = Some subject_hints"
  "dget record_classes (record_type (ROperatorRelease x2)) = Some operator_release_hints"
  "dget record_classes (record_type (RConsentRecord x3)) = Some consent_record_hints"
  "dget record_classes (record_type (RRecoveryCommitment x4)) = Some recovery_commitment_hints"
  "dget record_classes (record_type (RRecoveryCase x5)) = Some recovery_case_hints"
  "dget record_classes (record_type (RPrivacyRequest x6)) = Some privacy_request_hints"
  "dget record_classes (record_type (RClaimDefinition x7)) = Some claim_definition_hints"
  "dget record_classes (record_type (RClaimRequest x8)) = Some claim_request_hints"
  "dget record_classes (record_type (RVerifierGrant x9)) = Some verifier_grant_hints"
  "dget record_classes (record_type (RBootstrapAuthority x10)) = Some bootstrap_authority_hints"
  "dget record_classes (record_type (RAuthorityGrant x11)) = Some authority_grant_hints"
  "dget record_classes (record_type (RAuthorityPromotion x12)) = Some authority_promotion_hints"
  "dget record_classes (record_type (RAttestorInvitation x13)) = Some attestor_invitation_hints"
  "dget record_classes (record_type (RIntroduction x14)) = Some introduction_hints"
  "dget record_classes (record_type (RAttestation x15)) = Some attestation_hints"
  "dget record_classes (record_type (RAudit x16)) = Some audit_hints"
  "dget record_classes (record_type (RChallenge x17)) = Some challenge_hints"
  "dget record_classes (record_type (RCredential x18)) = Some credential_hints"
  "dget record_classes (record_type (RCredentialStatus x19)) = Some credential_status_record_hints"
  "dget record_classes (record_type (RPublicEvent x20)) = Some public_event_hints"
  "dget record_classes (record_type (RReceipt x21)) = Some receipt_hints"
  by (simp_all add: record_classes_def)

lemma stored_fit:
  assumes "iterates it" "storable r" "dget record_classes (record_type r) = Some hs"
  shows "list_all (\<lambda>kv. fits (dget hs (fst kv)) (snd kv)) (stored_fields it r)"
  using assms
  by (cases r) (simp_all only: class_hints option.inject,
      auto simp: all_hints fits_simps fits_optional read_back stored_fields_def without_def claim_definition_dict_def accepted_def)

lemma hints_distinct: "dget record_classes (record_type r) = Some hs \<Longrightarrow> distinct (dkeys hs)"
  by (cases r) (simp_all only: class_hints option.inject, auto simp: all_hints)

lemma asdict_keys: "dget record_classes (record_type r) = Some hs \<Longrightarrow> dkeys (asdict it r) = dkeys hs"
  by (cases r) (simp_all only: class_hints option.inject, auto simp: all_hints claim_definition_dict_def)

lemma has_definition: "definition_of r = Some d \<Longrightarrow> ''definition'' \<in> set (dkeys (asdict it r))"
  by (cases r) simp_all

lemma stored_keys:
  assumes "dget record_classes (record_type r) = Some hs"
  shows "set (dkeys (stored_fields it r)) = set (dkeys hs)" "distinct (dkeys hs)" "distinct (dkeys (stored_fields it r))"
proof -
  note keys = asdict_keys [OF assms, of it] hints_distinct [OF assms]
  show "distinct (dkeys hs)" by (rule keys)
  show "distinct (dkeys (stored_fields it r))"
    using keys by (simp add: stored_fields_def without_def distinct_map_filter split: option.split)
  show "set (dkeys (stored_fields it r)) = set (dkeys hs)"
  proof (cases "definition_of r")
    case None
    then show ?thesis by (simp add: stored_fields_def keys(1))
  next
    case (Some d)
    have "set (dkeys (stored_fields it r)) = insert ''definition'' (set (dkeys (asdict it r)))"
      by (auto simp: stored_fields_def Some without_def dkeys_dput)
    also have "\<dots> = set (dkeys hs)"
      using has_definition [OF Some, of it] by (simp only: keys(1) insert_absorb)
    finally show ?thesis .
  qed
qed

lemma read_definition:
  "iterates it \<Longrightarrow> new_claim_definition (\<lambda>k. the (dget (claim_definition_dict it d) k)) = d"
  by (simp add: new_claim_definition_def claim_definition_dict_def read_back del: list_of.simps set_of.simps)

lemma constructed:
  assumes "iterates it" "storable r"
  shows "construct (record_type r) (\<lambda>k. the (dget (stored_fields it r) k)) = Inr r"
proof (cases r)
  case (RClaimDefinition d)
  with assms show ?thesis
    by (simp add: construct_def stored_fields_def read_definition accepted_def)
qed (use assms in \<open>simp_all add: construct_def constructors read_back stored_fields_def without_def
    del: list_of.simps set_of.simps\<close>)

text \<open>Without a nested definition, the JSON shape has the fields of the record in their order.\<close>

lemma optional_claim: "optional f u = PClaim d \<longleftrightarrow> (\<exists>x. u = Some x \<and> f x = PClaim d)"
  by (cases u) simp_all

lemma asdict_plain:
  assumes "definition_of r = None"
  shows "list_all (\<lambda>kv. fst kv \<notin> {''record_type'', ''claim'', ''definition''} \<and> (\<forall>d. snd kv \<noteq> PClaim d)) (asdict it r)"
  using assms
  by (cases r) (simp_all add: claim_definition_dict_def enum_value_def str_set_def enum_set_def optional_claim)

lemma raw_plain: "\<forall>d. v \<noteq> PClaim d \<Longrightarrow> raw v = FJson (json_value v)"
  by (cases v) (simp_all add: raw_def)

lemma without_fresh: "k \<notin> set (dkeys p) \<Longrightarrow> without k p = p"
  by (induction p) (auto simp: without_def)

lemma without_simps:
  "without k (kv # p) = (if fst kv = k then without k p else kv # without k p)"
  "without k (p @ q) = without k p @ without k q" "without k [] = []"
  by (simp_all add: without_def)

lemma dkeys_map_prod: "dkeys (map (map_prod id f) p) = dkeys p"
  by (induction p) auto

lemma to_record_plain:
  assumes "definition_of r = None"
  shows "to_record it r = (''record_type'', JStr (record_type r)) # map (map_prod id json_value) (asdict it r)"
proof -
  have "''definition'' \<notin> set (dkeys (asdict it r))" using asdict_plain [OF assms, of it] by (auto simp: list_all_iff)
  then have "dget (map (map_prod id json_value) (asdict it r)) ''definition'' = None"
    by (simp only: dget_fresh dkeys_map_prod not_False_eq_True)
  then show ?thesis by (simp add: to_record_def)
qed

lemma roundtrip_plain:
  assumes "iterates it" "storable r" "definition_of r = None"
  shows "from_record (to_record it r) = Inr r"
proof -
  let ?fs = "asdict it r"
  obtain hs where hs: "dget record_classes (record_type r) = Some hs"
    by (cases r) (simp_all only: class_hints)
  note plain = asdict_plain [OF assms(3), of it]
  have fresh: "''record_type'' \<notin> set (dkeys ?fs)" "''claim'' \<notin> set (dkeys ?fs)"
    using plain by (auto simp: list_all_iff)
  have entries: "without ''record_type'' (to_record it r) = map (map_prod id json_value) ?fs"
    using fresh(1) without_fresh [of "''record_type''" "map (map_prod id json_value) ?fs"]
    by (simp add: to_record_plain [OF assms(3)] without_simps dkeys_map_prod)
  have claim: "dget (map (map_prod id json_value) ?fs) ''claim'' = None"
    using fresh(2) by (simp only: dget_fresh dkeys_map_prod not_False_eq_True)
  have raws: "map (map_prod id FJson) (map (map_prod id json_value) ?fs) = map (map_prod id raw) ?fs"
    using plain by (auto simp: list_all_iff raw_plain)
  have stored: "stored_fields it r = ?fs" by (simp add: stored_fields_def assms(3))
  have "build (record_type r) hs (map (map_prod id raw) ?fs) = construct (record_type r) (\<lambda>k. the (dget ?fs k))"
    using stored_fit [OF assms(1,2) hs] stored_keys(1,3) [OF hs, of it] stored_keys(2) [OF hs] unfolding stored by (intro build_fields)
  also have "\<dots> = Inr r" using constructed [OF assms(1,2)] by (simp add: stored)
  finally have build: "build (record_type r) hs (map (map_prod id raw) ?fs) = Inr r" .
  have kind: "dget (to_record it r) ''record_type'' = Some (JStr (record_type r))"
    by (simp add: to_record_plain [OF assms(3)])
  show ?thesis
    by (subst from_record.simps) (simp only: kind hs entries claim raws build option.case json.case Let_def)
qed

text \<open>With one, the definition is nested as a record of its own under the key \<open>claim\<close>.\<close>

lemma to_record_nested:
  assumes "definition_of r = Some d"
  shows "to_record it r = (''record_type'', JStr (record_type r))
    # dput ''claim'' (JObject (to_record it (RClaimDefinition d)))
        (map (map_prod id json_value) (without ''definition'' (asdict it r)))"
  using assms
  by (cases r) (simp_all add: to_record_def without_def claim_definition_dict_def)

lemma dput_append: "k \<notin> set (dkeys p) \<Longrightarrow> dput k v (p @ q) = p @ dput k v q"
  by (induction p) auto

lemma nested_fields:
  assumes "definition_of r = Some d"
  shows "list_all (\<lambda>kv. fst kv \<notin> {''record_type'', ''claim'', ''definition''} \<and> (\<forall>d. snd kv \<noteq> PClaim d))
    (without ''definition'' (asdict it r))"
  using assms by (cases r) (simp_all add: without_def enum_value_def optional_claim)

lemma read_nested:
  assumes "iterates it" "storable r" "definition_of r = Some d" and xs: "xs = [] \<or> xs = [(''definition'', j)]"
  shows "from_record (to_record it r @ xs) = Inr r"
proof -
  obtain hs where hs: "dget record_classes (record_type r) = Some hs"
    by (cases r) (simp_all only: class_hints)
  have d: "from_record (to_record it (RClaimDefinition d)) = Inr (RClaimDefinition d)"
    using assms by (cases r) (simp_all add: roundtrip_plain)
  let ?fs = "without ''definition'' (asdict it r)"
  let ?js = "map (map_prod id json_value) ?fs" and ?c = "JObject (to_record it (RClaimDefinition d))"
  note fresh = nested_fields [OF assms(3), of it]
  then have keys: "''record_type'' \<notin> set (dkeys ?js)" "''claim'' \<notin> set (dkeys ?js)" "''definition'' \<notin> set (dkeys ?js)"
    by (auto simp: list_all_iff)
  have other: "without k xs = xs" if "k \<noteq> ''definition''" for k
    using xs that by (auto simp: without_simps)
  have shape: "to_record it r @ xs = (''record_type'', JStr (record_type r)) # ?js @ (''claim'', ?c) # xs"
    by (simp add: to_record_nested [OF assms(3)] dput_fresh [OF keys(2)])
  have entries: "without ''record_type'' (to_record it r @ xs) = ?js @ (''claim'', ?c) # xs"
    by (simp add: shape without_simps without_fresh [OF keys(1)] other)
  have claim: "dget (?js @ (''claim'', ?c) # xs) ''claim'' = Some ?c"
    using keys(2) dget_fresh [of ?js "''claim''"] by (simp add: map_add_def)
  have rest: "without ''claim'' (?js @ (''claim'', ?c) # xs) = ?js @ xs"
    by (simp add: without_simps without_fresh [OF keys(2)] other)
  have raws: "dput ''definition'' (FClaim d) (map (map_prod id FJson) (?js @ xs)) = map (map_prod id raw) (stored_fields it r)"
  proof -
    have js: "map (map_prod id FJson) ?js = map (map_prod id raw) ?fs"
      using fresh by (auto simp: list_all_iff raw_plain)
    let ?rs = "map (map_prod id raw) ?fs" and ?e = "(''definition'', FClaim d)"
    have rs: "''definition'' \<notin> set (dkeys ?rs)" and fs: "''definition'' \<notin> set (dkeys ?fs)"
      using keys(3) by (simp_all add: dkeys_map_prod)
    have "dput ''definition'' (FClaim d) (?rs @ map (map_prod id FJson) xs) = ?rs @ [?e]"
      using xs by (auto simp only: dput_append [OF rs]) simp_all
    moreover have "map (map_prod id raw) (stored_fields it r) = ?rs @ [?e]"
      by (simp add: stored_fields_def assms(3) dput_fresh [OF fs]) (simp add: raw_def)
    ultimately show ?thesis by (simp only: map_append js)
  qed
  have build: "build (record_type r) hs (map (map_prod id raw) (stored_fields it r)) = Inr r"
    using stored_fit [OF assms(1,2) hs] stored_keys(1,3) [OF hs, of it] stored_keys(2) [OF hs] constructed [OF assms(1,2)]
    by (simp add: build_fields)
  have kind: "dget (to_record it r @ xs) ''record_type'' = Some (JStr (record_type r))"
    by (simp add: shape)
  show ?thesis
    by (subst from_record.simps)
      (simp only: kind hs entries claim rest raws build d option.case json.case sum.case trust_record.case Let_def)
qed

theorem from_record_to_record: "iterates it \<Longrightarrow> storable r \<Longrightarrow> from_record (to_record it r) = Inr r"
  using read_nested [of it r _ "[]"] by (cases "definition_of r") (simp_all add: roundtrip_plain)

section \<open>Only exact records are read\<close>

lemma key_images:
  "fst ` set (without k p) = fst ` set p - {k}" "fst ` set (dput k v p) = insert k (fst ` set p)"
proof -
  show "fst ` set (without k p) = fst ` set p - {k}" by (auto simp: without_def)
  show "fst ` set (dput k v p) = insert k (fst ` set p)"
    by (induction p) auto
qed

lemma to_record_keys:
  assumes "dget record_classes (record_type r) = Some hs"
  shows "set (dkeys (to_record it r)) = insert ''record_type''
    (if definition_of r = None then set (dkeys hs) else insert ''claim'' (set (dkeys hs) - {''definition''}))"
proof (cases "definition_of r")
  case None
  with stored_keys(1) [OF assms, of it] show ?thesis
    by (simp add: to_record_plain stored_fields_def dkeys_map_prod)
next
  case (Some d)
  have "set (dkeys hs) - {''definition''} = set (dkeys (without ''definition'' (asdict it r)))"
    using stored_keys(1) [OF assms, of it] Some
    by (auto simp: stored_fields_def key_images)
  with Some show ?thesis by (simp add: to_record_nested dkeys_dput dkeys_map_prod insert_absorb)
qed

lemma construct_class: "construct c v = Inr r \<Longrightarrow> record_type r = c"
  by (cases "check_claim_definition (new_claim_definition v)") (auto simp: construct_def split: if_splits)

lemma class_definition:
  "dget record_classes (record_type r) = Some hs \<Longrightarrow> dget hs ''definition'' = map_option (\<lambda>_. A_class) (definition_of r)"
  by (cases r) (simp_all only: class_hints option.inject, auto simp: all_hints)

lemma build_exact:
  assumes "build c hs entries = Inr r"
  shows "record_type r = c" "set (dkeys entries) = set (dkeys hs)"
  using assms by (auto simp: build_def dest: construct_class split: if_splits sum.splits)

text \<open>No JSON value stands for a nested definition: it is only read under the key \<open>claim\<close>.\<close>

lemma json_is_no_claim: "from_json a j \<noteq> Inr (PClaim d)"
proof -
  have plain: "plain j \<noteq> PClaim d" by (cases j) simp_all
  have mapped: "map_sum id f x \<noteq> Inr (PClaim d)" if "\<forall>y. f y \<noteq> PClaim d" for f and x :: "error + 'z"
    using that by (cases x) simp_all
  show ?thesis
    by (induction a) (simp_all add: plain mapped frozen_def split: json.split sum.split)
qed

lemma convert_json: "convert hs (k, FJson j) = Inr kv \<Longrightarrow> fst kv = k \<and> (\<forall>d. snd kv \<noteq> PClaim d)"
  by (cases "dget hs k"; simp add: convert_def; cases "from_json (the (dget hs k)) j"; auto simp: json_is_no_claim)

lemma traverse_json:
  assumes "traverse (convert hs) es = Inr converted" "\<forall>kv \<in> set es. \<exists>j. snd kv = FJson j" "k \<in> fst ` set es"
  shows "\<exists>v. dget converted k = Some v \<and> (\<forall>d. v \<noteq> PClaim d)"
  using assms
proof (induction es arbitrary: converted)
  case Nil
  then show ?case by simp
next
  case (Cons e es)
  from Cons.prems(2) obtain k' j where e: "e = (k', FJson j)" by (cases e) auto
  from Cons.prems(1) obtain v vs where step: "convert hs (k', FJson j) = Inr v"
    "traverse (convert hs) es = Inr vs" "converted = v # vs" by (auto simp: e split: sum.splits)
  with convert_json [OF step(1)] Cons.IH [OF step(2)] Cons.prems(2,3) e show ?case by (cases v) auto
qed

lemma build_needs_claim:
  assumes "build c hs (map (map_prod id FJson) kvs) = Inr r"
  shows "dget hs k \<noteq> Some A_class"
proof
  assume a_class: "dget hs k = Some A_class"
  from assms obtain converted where
    c: "traverse (convert hs) (map (map_prod id FJson) kvs) = Inr converted"
      "\<forall>(k, a) \<in> set hs. has_type a (the (dget converted k))"
    by (auto simp: build_def split: if_splits sum.splits)
  have "k \<in> fst ` set kvs"
    using build_exact(2) [OF assms] dget_in_dkeys [OF a_class] by (simp add: dkeys_map_prod)
  then have "\<exists>v. dget converted k = Some v \<and> (\<forall>d. v \<noteq> PClaim d)"
    by (intro traverse_json [OF c(1)]) force+
  moreover have "has_type A_class (the (dget converted k))"
    using c(2) map_of_SomeD [OF a_class] by blast
  ultimately show False by (auto split: pyvalue.splits)
qed

definition ignored :: "trust_record \<Rightarrow> string set" where
  "ignored r = (if definition_of r = None then {} else {''definition''})"

theorem exact_contract:
  assumes "from_record p = Inr r"
  shows "dget p ''record_type'' = Some (JStr (record_type r))
     \<and> set (dkeys p) - ignored r = set (dkeys (to_record it r))"
proof -
  from assms obtain c hs where c: "dget p ''record_type'' = Some (JStr c)" "dget record_classes c = Some hs"
    by (subst (asm) from_record.simps) (auto split: option.splits json.splits)
  let ?vs = "without ''record_type'' p"
  have in_p: "insert ''record_type'' (fst ` set p) = fst ` set p"
    using dget_in_dkeys [OF c(1)] by (simp add: insert_absorb)
  show ?thesis
  proof (cases "dget ?vs ''claim''")
    case None
    with assms c have b: "build c hs (map (map_prod id FJson) ?vs) = Inr r"
      by (subst (asm) from_record.simps) (simp add: Let_def)
    have rtype: "record_type r = c" by (rule build_exact(1) [OF b])
    with c(2) have none: "definition_of r = None"
      using class_definition [of r hs] build_needs_claim [OF b, of "''definition''"] by (cases "definition_of r") auto
    have "fst ` set hs = fst ` set p - {''record_type''}"
      using build_exact(2) [OF b] by (simp add: key_images image_image)
    then show ?thesis
      using c rtype none to_record_keys [of r hs it] in_p by (simp add: ignored_def)
  next
    case (Some j)
    with assms c obtain d where
      b: "build c hs (dput ''definition'' (FClaim d) (map (map_prod id FJson) (without ''claim'' ?vs))) = Inr r"
      by (subst (asm) from_record.simps)
        (auto simp: Let_def split: json.splits sum.splits trust_record.splits)
    have rtype: "record_type r = c" by (rule build_exact(1) [OF b])
    have hs: "fst ` set hs = insert ''definition'' (fst ` set p - {''record_type''} - {''claim''})"
      using build_exact(2) [OF b] by (simp add: key_images image_image)
    then have "''definition'' \<in> set (dkeys hs)" by simp
    then have "dget hs ''definition'' \<noteq> None" by (simp only: dget_fresh not_not)
    with rtype c(2) have some: "definition_of r \<noteq> None" using class_definition [of r hs] by auto
    have "''claim'' \<in> fst ` set p" using dget_in_dkeys [OF Some] by (simp add: key_images)
    then show ?thesis
      using c rtype some to_record_keys [of r hs it] in_p by (auto simp: ignored_def hs)
  qed
qed

end
