(* ===== verification/Snapshot.thy ===== *)
theory Snapshot
  imports Serialization Identifiers
begin

text \<open>
  The durable form of a trust core: \<open>TrustCore.export_snapshot\<close>, \<open>restore_snapshot\<close> and
  \<open>_restore_record\<close> (\<open>src/kyn/service.py\<close>). Every state that calls can reach is restored exactly
  from its snapshot.
\<close>

section \<open>Export\<close>

text \<open>The records of the core, in the order of the export.\<close>

definition snapshot_records :: "core \<Rightarrow> trust_record list" where
  "snapshot_records s =
     map RSubject (dvals (subjects s)) @ map ROperatorRelease (dvals (operator_releases s))
     @ map RConsentRecord (dvals (consents s)) @ map RRecoveryCommitment (dvals (recovery_commitments s))
     @ map RRecoveryCase (dvals (recovery_cases s)) @ map RPrivacyRequest (dvals (privacy_requests s))
     @ map RClaimDefinition (dvals (claims s)) @ map RClaimRequest (dvals (requests s))
     @ map RVerifierGrant (dvals (grants s)) @ map RBootstrapAuthority (dvals (bootstrap_authorities s))
     @ map RAuthorityGrant (dvals (authority_grants s))
     @ map RAuthorityPromotion (dvals (authority_promotions s))
     @ map RAttestorInvitation (dvals (invitations s)) @ map RIntroduction (dvals (introductions s))
     @ map RAttestation (dvals (attestations s)) @ map RAudit (dvals (audits s))
     @ map RChallenge (dvals (challenges s)) @ map RCredential (dvals (credentials s))
     @ map RPublicEvent (events s) @ map RReceipt (receipts s)"

type_synonym snapshot = "(string \<times> json) list"

definition export_snapshot :: "iteration \<Rightarrow> env \<Rightarrow> core \<Rightarrow> snapshot" where
  "export_snapshot it e s = [
     (''snapshot_version'', JInt 2),
     (''issuer'', JStr (env_issuer e)),
     (''policy_profile'', JStr (pol_profile_id (env_policy e))),
     (''counters'', JObject (map (map_prod id JInt) (counters s))),
     (''records'', JList (map (JObject \<circ> to_record it) (snapshot_records s)))]"

section \<open>Restore\<close>

text \<open>
  \<open>version in {1, 2}\<close> and \<open>version == 1\<close>: Python's \<open>True\<close> equals 1, and a list or a dictionary
  cannot be looked up in a set.
\<close>

fun supported_version :: "json option \<Rightarrow> error + bool" where
  "supported_version (Some (JInt n)) = Inr (n = 1 \<or> n = 2)"
| "supported_version (Some (JBool b)) = Inr b"
| "supported_version (Some (JList _)) = Inl (TypeError ''unhashable type: list'')"
| "supported_version (Some (JObject _)) = Inl (TypeError ''unhashable type: dict'')"
| "supported_version _ = Inr False"

fun first_version :: "json option \<Rightarrow> bool" where
  "first_version (Some (JInt n)) \<longleftrightarrow> n = 1"
| "first_version (Some (JBool b)) \<longleftrightarrow> b"
| "first_version _ \<longleftrightarrow> False"

text \<open>\<open>payload.setdefault(key, None)\<close>.\<close>

definition set_default :: "string \<Rightarrow> (string \<times> json) list \<Rightarrow> (string \<times> json) list" where
  "set_default k p = (if k \<in> set (dkeys p) then p else dput k JNull p)"

text \<open>The migration of a record of snapshot version 1.\<close>

definition migrated :: "bool \<Rightarrow> (string \<times> json) list \<Rightarrow> (string \<times> json) list" where
  "migrated first p =
     (if \<not> first then p
      else if dget p ''record_type'' = Some (JStr ''subject'') then set_default ''deleted_at'' p
      else if dget p ''record_type'' = Some (JStr ''challenge'') then set_default ''challenger_subject_id'' p
      else p)"

fun restore_record :: "trust_record \<Rightarrow> unit action" where
  "restore_record (RSubject x) = modify (\<lambda>s. s\<lparr>subjects := dput (sub_subject_id x) x (subjects s)\<rparr>)"
| "restore_record (ROperatorRelease x) =
     modify (\<lambda>s. s\<lparr>operator_releases := dput (rel_release_id x) x (operator_releases s)\<rparr>)"
| "restore_record (RConsentRecord x) = modify (\<lambda>s. s\<lparr>consents := dput (cns_consent_id x) x (consents s)\<rparr>)"
| "restore_record (RRecoveryCommitment x) =
     modify (\<lambda>s. s\<lparr>recovery_commitments := dput (rcm_recovery_commitment_id x) x (recovery_commitments s)\<rparr>)"
| "restore_record (RRecoveryCase x) =
     modify (\<lambda>s. s\<lparr>recovery_cases := dput (rcv_recovery_case_id x) x (recovery_cases s)\<rparr>)"
| "restore_record (RPrivacyRequest x) =
     modify (\<lambda>s. s\<lparr>privacy_requests := dput (prv_privacy_request_id x) x (privacy_requests s)\<rparr>)"
| "restore_record (RClaimDefinition x) = modify (\<lambda>s. s\<lparr>claims :=
     dput (cd_claim_type x, cd_definition_version x, cd_policy_version x) x (claims s)\<rparr>)"
| "restore_record (RClaimRequest x) = modify (\<lambda>s. s\<lparr>requests := dput (clm_request_id x) x (requests s)\<rparr>)"
| "restore_record (RVerifierGrant x) = modify (\<lambda>s. s\<lparr>grants := dput (grt_grant_id x) x (grants s)\<rparr>)"
| "restore_record (RBootstrapAuthority x) =
     modify (\<lambda>s. s\<lparr>bootstrap_authorities := dput (bst_bootstrap_id x) x (bootstrap_authorities s)\<rparr>)"
| "restore_record (RAuthorityGrant x) =
     modify (\<lambda>s. s\<lparr>authority_grants := dput (agr_authority_grant_id x) x (authority_grants s)\<rparr>)"
| "restore_record (RAuthorityPromotion x) =
     modify (\<lambda>s. s\<lparr>authority_promotions := dput (prm_promotion_id x) x (authority_promotions s)\<rparr>)"
| "restore_record (RAttestorInvitation x) =
     modify (\<lambda>s. s\<lparr>invitations := dput (inv_invitation_id x) x (invitations s)\<rparr>)"
| "restore_record (RIntroduction x) =
     modify (\<lambda>s. s\<lparr>introductions := dput (int_introduction_id x) x (introductions s)\<rparr>)"
| "restore_record (RAttestation x) =
     modify (\<lambda>s. s\<lparr>attestations := dput (att_attestation_id x) x (attestations s)\<rparr>)"
| "restore_record (RAudit x) = modify (\<lambda>s. s\<lparr>audits := dput (aud_audit_id x) x (audits s)\<rparr>)"
| "restore_record (RChallenge x) = modify (\<lambda>s. s\<lparr>challenges := dput (chg_challenge_id x) x (challenges s)\<rparr>)"
| "restore_record (RCredential x) = modify (\<lambda>s. s\<lparr>credentials := dput (crd_credential_id x) x (credentials s),
     credential_by_request := dput (crd_request_id x) (crd_credential_id x) (credential_by_request s)\<rparr>)"
| "restore_record (RPublicEvent x) = modify (\<lambda>s. s\<lparr>events := events s @ [x]\<rparr>)"
| "restore_record (RReceipt x) = modify (\<lambda>s. s\<lparr>receipts := receipts s @ [x]\<rparr>)"
| "restore_record (RCredentialStatus x) =
     raise (TrustCoreError ''snapshot record is unsupported: CredentialStatus'')"

definition lift_sum :: "error + 'a \<Rightarrow> ('s, 'a) prog" where
  "lift_sum r = (case r of Inl er \<Rightarrow> raise er | Inr x \<Rightarrow> ret x)"

definition restore_payload :: "bool \<Rightarrow> json \<Rightarrow> unit action" where
  "restore_payload first payload =
     (case payload of
        JObject p \<Rightarrow> bind (lift_sum (from_record (migrated first p))) restore_record
      | _ \<Rightarrow> raise (TrustCoreError ''snapshot record is invalid''))"

text \<open>\<open>isinstance(value, int)\<close>, which a bool satisfies; it counts as 0 or 1.\<close>

fun int_value :: "json \<Rightarrow> int option" where
  "int_value (JInt n) = Some n"
| "int_value (JBool b) = Some (if b then 1 else 0)"
| "int_value _ = None"

definition not_fresh :: "core \<Rightarrow> bool" where
  "not_fresh s \<longleftrightarrow> subjects s \<noteq> [] \<or> claims s \<noteq> [] \<or> requests s \<noteq> [] \<or> grants s \<noteq> []
     \<or> authority_grants s \<noteq> [] \<or> credentials s \<noteq> [] \<or> events s \<noteq> [] \<or> receipts s \<noteq> []"

definition restore_snapshot :: "env \<Rightarrow> snapshot \<Rightarrow> unit action" where
  "restore_snapshot e snap =
     bind (lift_sum (supported_version (dget snap ''snapshot_version''))) (\<lambda>supported.
     bind (reject_if (\<not> supported) ''snapshot version is unsupported'') (\<lambda>_.
     bind (reject_if (dget snap ''issuer'' \<noteq> Some (JStr (env_issuer e)))
             ''snapshot issuer does not match this service'') (\<lambda>_.
     bind (reject_if (dget snap ''policy_profile'' \<noteq> Some (JStr (pol_profile_id (env_policy e))))
             ''snapshot policy profile does not match this service'') (\<lambda>_.
     bind (gets not_fresh) (\<lambda>used.
     bind (reject_if used ''snapshot restore requires a fresh TrustCore'') (\<lambda>_.
     (case (dget snap ''counters'', dget snap ''records'') of
        (Some (JObject counts), Some (JList payloads)) \<Rightarrow>
          bind (reject_if (\<not> list_all (\<lambda>kv. int_value (snd kv) \<noteq> None) counts)
                  ''snapshot counters are invalid'') (\<lambda>_.
          bind (modify (\<lambda>s. s\<lparr>counters := map (map_prod id (the \<circ> int_value)) counts\<rparr>)) (\<lambda>_.
          for_each (restore_payload (first_version (dget snap ''snapshot_version''))) payloads))
      | _ \<Rightarrow> raise (TrustCoreError ''snapshot structure is invalid''))))))))"

section \<open>A snapshot restores the state it was taken of\<close>

lemma for_each_append: "for_each f (xs @ ys) = bind (for_each f xs) (\<lambda>_. for_each f ys)"
  by (induction xs) (simp_all add: bind_assoc)

text \<open>Filing values with distinct keys into a dictionary appends them in order.\<close>

definition file_all :: "('v \<Rightarrow> 'k) \<Rightarrow> ('v \<Rightarrow> 'w) \<Rightarrow> 'v list \<Rightarrow> ('k, 'w) dict \<Rightarrow> ('k, 'w) dict" where
  "file_all key entry vs d = foldl (\<lambda>d v. dput (key v) (entry v) d) d vs"

lemma file_all_append:
  "distinct (dkeys d @ map key vs) \<Longrightarrow> file_all key entry vs d = d @ map (\<lambda>v. (key v, entry v)) vs"
proof (induction vs arbitrary: d)
  case Nil
  then show ?case by (simp add: file_all_def)
next
  case (Cons v vs)
  then have "dput (key v) (entry v) d = d @ [(key v, entry v)]" by (intro dput_fresh) simp
  moreover from this Cons have "file_all key entry vs (dput (key v) (entry v) d) = dput (key v) (entry v) d @ map (\<lambda>v. (key v, entry v)) vs"
    by (intro Cons.IH) simp
  ultimately show ?case by (simp add: file_all_def)
qed

lemma file_own:
  assumes "distinct (dkeys d)" "\<forall>(k, v) \<in> set d. key v = k"
  shows "file_all key (\<lambda>v. v) (dvals d) [] = d"
proof -
  have "map (\<lambda>v. (key v, v)) (dvals d) = d" using assms(2) by (induction d) auto
  moreover have keys: "map key (dvals d) = dkeys d" using assms(2) by (induction d) auto
  have "file_all key (\<lambda>v. v) (dvals d) [] = [] @ map (\<lambda>v. (key v, v)) (dvals d)"
    by (rule file_all_append) (simp only: keys assms(1) list.map append.simps)
  ultimately show ?thesis by simp
qed

lemma file_store: "store_ok sel p c d \<Longrightarrow> file_all sel (\<lambda>v. v) (dvals d) [] = d"
  by (rule file_own) (auto simp: store_ok_def)

text \<open>A loop of updates of one field is one update of that field.\<close>

lemma for_each_field:
  assumes "\<And>v s. f (R v) s = (Inr (), upd (dput (key v) (entry v)) s)" "\<And>f g s. upd f (upd g s) = upd (\<lambda>d. f (g d)) s"
    and "\<And>s. upd (\<lambda>d. d) s = s"
  shows "for_each f (map R vs) s = (Inr (), upd (file_all key entry vs) s)"
proof (induction vs arbitrary: s)
  case Nil
  then show ?case by (simp add: assms(3) ret_def file_all_def)
next
  case (Cons v vs)
  then show ?case by (simp add: bind_def assms(1,2) file_all_def)
qed

lemma restore_stores:
  "for_each restore_record (map RSubject vs0) s = (Inr (), subjects_update (file_all sub_subject_id (\<lambda>v. v) vs0) s)"
  "for_each restore_record (map ROperatorRelease vs1) s = (Inr (), operator_releases_update (file_all rel_release_id (\<lambda>v. v) vs1) s)"
  "for_each restore_record (map RConsentRecord vs2) s = (Inr (), consents_update (file_all cns_consent_id (\<lambda>v. v) vs2) s)"
  "for_each restore_record (map RRecoveryCommitment vs3) s = (Inr (), recovery_commitments_update (file_all rcm_recovery_commitment_id (\<lambda>v. v) vs3) s)"
  "for_each restore_record (map RRecoveryCase vs4) s = (Inr (), recovery_cases_update (file_all rcv_recovery_case_id (\<lambda>v. v) vs4) s)"
  "for_each restore_record (map RPrivacyRequest vs5) s = (Inr (), privacy_requests_update (file_all prv_privacy_request_id (\<lambda>v. v) vs5) s)"
  "for_each restore_record (map RClaimDefinition vs6) s = (Inr (), claims_update (file_all claim_key (\<lambda>v. v) vs6) s)"
  "for_each restore_record (map RClaimRequest vs7) s = (Inr (), requests_update (file_all clm_request_id (\<lambda>v. v) vs7) s)"
  "for_each restore_record (map RVerifierGrant vs8) s = (Inr (), grants_update (file_all grt_grant_id (\<lambda>v. v) vs8) s)"
  "for_each restore_record (map RBootstrapAuthority vs9) s = (Inr (), bootstrap_authorities_update (file_all bst_bootstrap_id (\<lambda>v. v) vs9) s)"
  "for_each restore_record (map RAuthorityGrant vs10) s = (Inr (), authority_grants_update (file_all agr_authority_grant_id (\<lambda>v. v) vs10) s)"
  "for_each restore_record (map RAuthorityPromotion vs11) s = (Inr (), authority_promotions_update (file_all prm_promotion_id (\<lambda>v. v) vs11) s)"
  "for_each restore_record (map RAttestorInvitation vs12) s = (Inr (), invitations_update (file_all inv_invitation_id (\<lambda>v. v) vs12) s)"
  "for_each restore_record (map RIntroduction vs13) s = (Inr (), introductions_update (file_all int_introduction_id (\<lambda>v. v) vs13) s)"
  "for_each restore_record (map RAttestation vs14) s = (Inr (), attestations_update (file_all att_attestation_id (\<lambda>v. v) vs14) s)"
  "for_each restore_record (map RAudit vs15) s = (Inr (), audits_update (file_all aud_audit_id (\<lambda>v. v) vs15) s)"
  "for_each restore_record (map RChallenge vs16) s = (Inr (), challenges_update (file_all chg_challenge_id (\<lambda>v. v) vs16) s)"
  by (rule for_each_field; simp add: modify_def claim_key_def; rule core.equality; simp)+

lemma restore_credentials:
  "for_each restore_record (map RCredential vs) s =
     (Inr (), s\<lparr>credentials := file_all crd_credential_id (\<lambda>v. v) vs (credentials s),
       credential_by_request := file_all crd_request_id crd_credential_id vs (credential_by_request s)\<rparr>)"
  by (induction vs arbitrary: s) (simp_all add: ret_def bind_def modify_def file_all_def)

lemma restore_log:
  "for_each restore_record (map RPublicEvent vs) s = (Inr (), s\<lparr>events := events s @ vs\<rparr>)"
  "for_each restore_record (map RReceipt rs) s = (Inr (), s\<lparr>receipts := receipts s @ rs\<rparr>)"
proof -
  show "for_each restore_record (map RPublicEvent vs) s = (Inr (), s\<lparr>events := events s @ vs\<rparr>)"
    by (induction vs arbitrary: s) (simp_all add: ret_def bind_def modify_def)
  show "for_each restore_record (map RReceipt rs) s = (Inr (), s\<lparr>receipts := receipts s @ rs\<rparr>)"
    by (induction rs arbitrary: s) (simp_all add: ret_def bind_def modify_def)
qed

lemma stores_refiled:
  assumes "identifiers_ok s"
  shows
  "file_all sub_subject_id (\<lambda>v. v) (dvals (subjects s)) [] = subjects s"
  "file_all rel_release_id (\<lambda>v. v) (dvals (operator_releases s)) [] = operator_releases s"
  "file_all cns_consent_id (\<lambda>v. v) (dvals (consents s)) [] = consents s"
  "file_all rcm_recovery_commitment_id (\<lambda>v. v) (dvals (recovery_commitments s)) [] = recovery_commitments s"
  "file_all rcv_recovery_case_id (\<lambda>v. v) (dvals (recovery_cases s)) [] = recovery_cases s"
  "file_all prv_privacy_request_id (\<lambda>v. v) (dvals (privacy_requests s)) [] = privacy_requests s"
  "file_all clm_request_id (\<lambda>v. v) (dvals (requests s)) [] = requests s"
  "file_all grt_grant_id (\<lambda>v. v) (dvals (grants s)) [] = grants s"
  "file_all bst_bootstrap_id (\<lambda>v. v) (dvals (bootstrap_authorities s)) [] = bootstrap_authorities s"
  "file_all agr_authority_grant_id (\<lambda>v. v) (dvals (authority_grants s)) [] = authority_grants s"
  "file_all prm_promotion_id (\<lambda>v. v) (dvals (authority_promotions s)) [] = authority_promotions s"
  "file_all inv_invitation_id (\<lambda>v. v) (dvals (invitations s)) [] = invitations s"
  "file_all int_introduction_id (\<lambda>v. v) (dvals (introductions s)) [] = introductions s"
  "file_all att_attestation_id (\<lambda>v. v) (dvals (attestations s)) [] = attestations s"
  "file_all aud_audit_id (\<lambda>v. v) (dvals (audits s)) [] = audits s"
  "file_all chg_challenge_id (\<lambda>v. v) (dvals (challenges s)) [] = challenges s"
  "file_all crd_credential_id (\<lambda>v. v) (dvals (credentials s)) [] = credentials s"
  by (insert assms [unfolded identifiers_ok_def kept_def]; elim conjE; erule file_store)+

lemma restore_records:
  assumes ok: "identifiers_ok s"
  shows "for_each restore_record (snapshot_records s) (new_core\<lparr>clock_reads := n, counters := counters s\<rparr>)
    = (Inr (), s\<lparr>clock_reads := n\<rparr>)"
proof -
  have idx: "credential_by_request s = index_of (credentials s)" "distinct (dkeys (index_of (credentials s)))"
    and crd: "store_ok crd_credential_id ''crd'' (counters s) (credentials s)"
    using ok by (auto simp: identifiers_ok_def index_ok_def indexed_def)
  have keys: "map crd_credential_id (dvals (credentials s)) = dkeys (credentials s)"
    using crd by (auto simp: store_ok_def)
  have "file_all crd_request_id crd_credential_id (dvals (credentials s)) [] = map (\<lambda>v. (crd_request_id v, crd_credential_id v)) (dvals (credentials s))"
    using idx(2) file_all_append [of "[]" crd_request_id "dvals (credentials s)" crd_credential_id]
    by (simp add: index_of_def comp_def case_prod_unfold)
  also have "\<dots> = index_of (credentials s)"
    using crd by (auto simp: index_of_def store_ok_def)
  finally have index: "file_all crd_request_id crd_credential_id (dvals (credentials s)) [] = credential_by_request s"
    by (simp add: idx(1))
  have claims: "file_all claim_key (\<lambda>v. v) (dvals (claims s)) [] = claims s"
    using ok by (intro file_own) (auto simp: identifiers_ok_def claims_ok_def)
  show ?thesis
    unfolding snapshot_records_def for_each_append
    by (simp add: bind_def restore_stores restore_credentials restore_log index claims new_core_def
        stores_refiled [OF ok] del: list.map_comp map_map)
qed

text \<open>Reading the records back before they are filed.\<close>

lemma restore_payload_record:
  "iterates it \<Longrightarrow> storable r \<Longrightarrow> restore_payload False (JObject (to_record it r)) = restore_record r"
  by (simp add: restore_payload_def migrated_def from_record_to_record lift_sum_def)

lemma restore_payloads:
  assumes "iterates it" "\<forall>r \<in> set rs. storable r"
  shows "for_each (restore_payload False) (map (JObject \<circ> to_record it) rs) = for_each restore_record rs"
  using assms(2) by (induction rs) (simp_all add: restore_payload_record [OF assms(1)])

theorem restore_export:
  assumes "identifiers_ok s" "iterates it" "\<forall>r \<in> set (snapshot_records s). storable r"
  shows "restore_snapshot e (export_snapshot it e s) (new_core\<lparr>clock_reads := n\<rparr>) = (Inr (), s\<lparr>clock_reads := n\<rparr>)"
proof -
  have counts: "map (map_prod id (the \<circ> int_value)) (map (map_prod id JInt) c) = c" for c :: "(string, int) dict"
    by (induction c) auto
  have restored: "for_each (restore_payload False) (map (JObject \<circ> to_record it) (snapshot_records s))
      (new_core\<lparr>clock_reads := n, counters := counters s\<rparr>) = (Inr (), s\<lparr>clock_reads := n\<rparr>)"
    by (simp add: restore_payloads [OF assms(2,3)] restore_records [OF assms(1)] del: list.map_comp)
  have "list_all (\<lambda>kv. int_value (snd kv) \<noteq> None) (map (map_prod id JInt) (counters s))"
    by (simp add: list_all_iff)
  with restored show ?thesis
    by (simp add: restore_snapshot_def export_snapshot_def lift_sum_def reject_if_def bind_def gets_def ret_def
        modify_def not_fresh_def new_core_def counts del: list.map_comp map_map)
qed

end
