(* ===== verification/Files.thy ===== *)
theory Files
  imports Snapshot "HOL-Library.Word"
begin

text \<open>
  The file system as the operator's tools use it through \<open>pathlib\<close> and \<open>os\<close>: directories, regular
  files with their permission bits and owner, and symbolic links, which every call but the ones that
  ask for a link follows. A path is the list of its names from the root, and the target of a link is
  such a path. The process may reach every file, as the superuser who provisions may.
\<close>

unbundle bit_operations_syntax

section \<open>Nodes\<close>

type_synonym path = "string list"
type_synonym permissions = "12 word"

record owner =
  own_uid :: int
  own_gid :: int

datatype node =
    File bytes permissions owner
  | Directory permissions owner
  | Symlink path

type_synonym files = "(path, node) dict"

text \<open>What a call sees: the files, the owner of the process and its \<open>umask\<close>.\<close>

record machine =
  mch_files :: files
  mch_process :: owner
  mch_umask :: permissions

definition root_directory :: node where
  "root_directory = Directory 0x1ED \<lparr>own_uid = 0, own_gid = 0\<rparr>"

text \<open>The root is a directory, even when it is not on file.\<close>

definition node_at :: "files \<Rightarrow> path \<Rightarrow> node option" where
  "node_at fs p =
     (if p \<noteq> [] then dget fs p
      else Some (case dget fs [] of Some (Directory m ow) \<Rightarrow> Directory m ow | _ \<Rightarrow> root_directory))"

section \<open>Resolution\<close>

definition no_such_file :: error where "no_such_file = FileNotFoundError ''No such file or directory''"
definition not_a_directory :: error where "not_a_directory = OSError ''Not a directory''"
definition link_loop :: error where "link_loop = OSError ''Too many levels of symbolic links''"

text \<open>
  The names of \<open>todo\<close> from the directory \<open>done\<close> on, following at most \<open>n\<close> links; a resolution that
  is not \<open>strict\<close> goes on by name where nothing is on file.
\<close>

fun walk :: "files \<Rightarrow> bool \<Rightarrow> nat \<Rightarrow> path \<Rightarrow> path \<Rightarrow> error + path" where
  "walk fs strict n done [] = Inr done"
| "walk fs strict n done (x # todo) =
     (case node_at fs (done @ [x]) of
        None \<Rightarrow> if strict then Inl no_such_file else walk fs strict n (done @ [x]) todo
      | Some (Symlink target) \<Rightarrow>
          (case n of 0 \<Rightarrow> Inl link_loop | Suc m \<Rightarrow> walk fs strict m [] (target @ todo))
      | Some (Directory _ _) \<Rightarrow> walk fs strict n (done @ [x]) todo
      | Some (File _ _ _) \<Rightarrow>
          if strict \<and> todo \<noteq> [] then Inl not_a_directory else walk fs strict n (done @ [x]) todo)"

text \<open>The system's limit on links in one path.\<close>

definition max_links :: nat where "max_links = 40"

definition resolve :: "bool \<Rightarrow> path \<Rightarrow> (machine, path) prog" where
  "resolve strict p = bind (gets mch_files) (\<lambda>fs. lift_sum (walk fs strict max_links [] p))"

text \<open>The node a path leads to, through links.\<close>

definition follow :: "files \<Rightarrow> path \<Rightarrow> (path \<times> node) option" where
  "follow fs p = (case walk fs True max_links [] p of
     Inl _ \<Rightarrow> None
   | Inr q \<Rightarrow> map_option (Pair q) (node_at fs q))"

text \<open>\<open>exists\<close>, \<open>is_file\<close> and \<open>is_dir\<close> follow links; \<open>is_symlink\<close> asks about the last name itself.\<close>

definition exists_at :: "files \<Rightarrow> path \<Rightarrow> bool" where
  "exists_at fs p \<longleftrightarrow> follow fs p \<noteq> None"

definition is_file :: "files \<Rightarrow> path \<Rightarrow> bool" where
  "is_file fs p \<longleftrightarrow> (case follow fs p of Some (_, File _ _ _) \<Rightarrow> True | _ \<Rightarrow> False)"

definition is_dir :: "files \<Rightarrow> path \<Rightarrow> bool" where
  "is_dir fs p \<longleftrightarrow> (case follow fs p of Some (_, Directory _ _) \<Rightarrow> True | _ \<Rightarrow> False)"

text \<open>The directory entry a path names, its last name not followed.\<close>

definition entry :: "files \<Rightarrow> path \<Rightarrow> error + path" where
  "entry fs p = (if p = [] then Inr [] else
     case walk fs True max_links [] (butlast p) of
       Inl er \<Rightarrow> Inl er
     | Inr d \<Rightarrow> (case node_at fs d of
         Some (Directory _ _) \<Rightarrow> Inr (d @ [last p])
       | _ \<Rightarrow> Inl not_a_directory))"

definition is_symlink :: "files \<Rightarrow> path \<Rightarrow> bool" where
  "is_symlink fs p \<longleftrightarrow> (case entry fs p of
     Inl _ \<Rightarrow> False
   | Inr q \<Rightarrow> (case node_at fs q of Some (Symlink _) \<Rightarrow> True | _ \<Rightarrow> False))"

lemma is_file_iff: "is_file fs p \<longleftrightarrow> (\<exists>q v m ow. follow fs p = Some (q, File v m ow))"
  and is_dir_iff: "is_dir fs p \<longleftrightarrow> (\<exists>q m ow. follow fs p = Some (q, Directory m ow))"
  by (simp_all add: is_file_def is_dir_def split: option.split prod.split node.split)

section \<open>Calls\<close>

definition locate :: "path \<Rightarrow> (machine, path \<times> node) prog" where
  "locate p = bind (resolve True p) (\<lambda>q. bind (gets mch_files) (\<lambda>fs.
     bind (fetch no_such_file (node_at fs q)) (\<lambda>n. ret (q, n))))"

definition put_node :: "path \<Rightarrow> node \<Rightarrow> (machine, unit) prog" where
  "put_node q n = modify (\<lambda>s. s\<lparr>mch_files := dput q n (mch_files s)\<rparr>)"

definition read_bytes :: "path \<Rightarrow> (machine, bytes) prog" where
  "read_bytes p = bind (locate p) (\<lambda>(q, n). case n of
       File v _ _ \<Rightarrow> ret v
     | _ \<Rightarrow> raise (OSError ''Is a directory''))"

fun permissions_of :: "node \<Rightarrow> permissions" where
  "permissions_of (File _ m _) = m"
| "permissions_of (Directory m _) = m"
| "permissions_of (Symlink _) = 0x1FF"

fun with_permissions :: "permissions \<Rightarrow> node \<Rightarrow> node" where
  "with_permissions m (File v _ ow) = File v m ow"
| "with_permissions m (Directory _ ow) = Directory m ow"
| "with_permissions m n = n"

fun with_owner :: "owner \<Rightarrow> node \<Rightarrow> node" where
  "with_owner ow (File v m _) = File v m ow"
| "with_owner ow (Directory m _) = Directory m ow"
| "with_owner ow n = n"

text \<open>\<open>stat().st_mode\<close>, without the type of the file.\<close>

definition stat_mode :: "path \<Rightarrow> (machine, permissions) prog" where
  "stat_mode p = bind (locate p) (\<lambda>(q, n). ret (permissions_of n))"

definition chmod :: "path \<Rightarrow> permissions \<Rightarrow> (machine, unit) prog" where
  "chmod p m = bind (locate p) (\<lambda>(q, n). put_node q (with_permissions m n))"

definition chown :: "path \<Rightarrow> owner \<Rightarrow> (machine, unit) prog" where
  "chown p ow = bind (locate p) (\<lambda>(q, n). put_node q (with_owner ow n))"

text \<open>\<open>os.mkdir\<close>.\<close>

definition os_mkdir :: "path \<Rightarrow> permissions \<Rightarrow> (machine, unit) prog" where
  "os_mkdir p m =
     bind (gets mch_files) (\<lambda>fs.
     bind (lift_sum (entry fs p)) (\<lambda>q.
     if node_at fs q \<noteq> None then raise (FileExistsError ''File exists'')
     else bind (gets (\<lambda>s. Directory (m AND NOT (mch_umask s)) (mch_process s))) (put_node q)))"

text \<open>\<open>Path.mkdir\<close>: a parent that is missing is made, with the permissions the \<open>umask\<close> leaves.\<close>

function mkdir :: "permissions \<Rightarrow> bool \<Rightarrow> bool \<Rightarrow> path \<Rightarrow> (machine, unit) prog" where
  "mkdir m parents exist_ok p = (\<lambda>s.
     case os_mkdir p m s of
       (Inr _, t) \<Rightarrow> (Inr (), t)
     | (Inl (FileNotFoundError msg), t) \<Rightarrow>
         if \<not> parents \<or> p = [] then (Inl (FileNotFoundError msg), t)
         else bind (mkdir 0x1FF True True (butlast p)) (\<lambda>_. mkdir m False exist_ok p) t
     | (Inl er, t) \<Rightarrow>
         if \<not> exist_ok \<or> \<not> is_dir (mch_files t) p then (Inl er, t) else (Inr (), t))"
  by pat_completeness auto
termination
  by (relation "measures [\<lambda>(m, parents, exist_ok, p). length p, \<lambda>(m, parents, exist_ok, p). if parents then 1 else 0]")
    auto

declare mkdir.simps [simp del]

text \<open>\<open>os.open\<close> with \<open>O_WRONLY | O_CREAT | O_EXCL\<close>, and a stream that writes \<open>value\<close> to it.\<close>

definition create_file :: "path \<Rightarrow> permissions \<Rightarrow> bytes \<Rightarrow> (machine, unit) prog" where
  "create_file p m v =
     bind (gets mch_files) (\<lambda>fs.
     bind (lift_sum (entry fs p)) (\<lambda>q.
     if node_at fs q \<noteq> None then raise (FileExistsError ''File exists'')
     else bind (gets (\<lambda>s. File v (m AND NOT (mch_umask s)) (mch_process s))) (put_node q)))"

section \<open>What no call does\<close>

text \<open>
  No call writes into a file that is there, takes one away, or makes a symbolic link: afterwards every
  node is still there, with other permissions and another owner at most.
\<close>

fun same_kind :: "node \<Rightarrow> node \<Rightarrow> bool" where
  "same_kind (File v _ _) n \<longleftrightarrow> (\<exists>m ow. n = File v m ow)"
| "same_kind (Directory _ _) n \<longleftrightarrow> (\<exists>m ow. n = Directory m ow)"
| "same_kind (Symlink t) n \<longleftrightarrow> n = Symlink t"

definition extends_files :: "files \<Rightarrow> files \<Rightarrow> bool" where
  "extends_files fs fs' \<longleftrightarrow>
     (\<forall>p n. node_at fs p = Some n \<longrightarrow> (\<exists>n'. node_at fs' p = Some n' \<and> same_kind n n'))
     \<and> (\<forall>p t. node_at fs' p = Some (Symlink t) \<longrightarrow> node_at fs p = Some (Symlink t))"

lemma same_kind_refl [simp]: "same_kind n n"
  by (cases n) auto

lemma same_kind_symlink [simp]: "same_kind a (Symlink t) \<longleftrightarrow> a = Symlink t"
  by (cases a) auto

lemma same_kind_trans: "same_kind a b \<Longrightarrow> same_kind b c \<Longrightarrow> same_kind a c"
  by (cases a; cases b) auto

lemma same_kind_attributes [simp]:
  "same_kind n (with_permissions m n)" "same_kind n (with_owner ow n)"
  "with_permissions m n = Symlink t \<longleftrightarrow> n = Symlink t" "with_owner ow n = Symlink t \<longleftrightarrow> n = Symlink t"
  by (cases n; auto)+

lemma extends_refl [simp]: "extends_files fs fs"
  by (auto simp: extends_files_def)

lemma extends_trans: "extends_files a b \<Longrightarrow> extends_files b c \<Longrightarrow> extends_files a c"
  unfolding extends_files_def by (meson same_kind_trans)

lemma node_at_dput:
  "node_at (dput q n fs) p =
     (if p \<noteq> q then node_at fs p
      else if q \<noteq> [] then Some n
      else Some (case n of Directory m ow \<Rightarrow> Directory m ow | _ \<Rightarrow> root_directory))"
  by (simp add: node_at_def dict)

lemma extends_dput:
  assumes "\<And>n'. node_at fs q = Some n' \<Longrightarrow> same_kind n' n" "node_at fs q = None \<Longrightarrow> \<forall>t. n \<noteq> Symlink t"
  shows "extends_files fs (dput q n fs)"
proof -
  have root: "\<exists>m ow. node_at fs [] = Some (Directory m ow)"
    by (auto simp: node_at_def root_directory_def split: option.split node.split)
  show ?thesis
    unfolding extends_files_def node_at_dput
    using assms root by (cases "node_at fs q"; cases "q = []") (auto split: node.splits)
qed

text \<open>Every call extends the files it finds.\<close>

definition extending :: "files \<Rightarrow> machine \<Rightarrow> bool" where
  "extending fs s \<longleftrightarrow> extends_files fs (mch_files s)"

lemma keeps_lift_sum [keeps]: "keeps (lift_sum r) I"
  by (auto simp: lift_sum_def intro: keeps split: sum.split)

lemma keeps_pure [keeps]: "keeps (resolve strict p) I" "keeps (locate p) I" "keeps (read_bytes p) I" "keeps (stat_mode p) I"
  unfolding stat_mode_def read_bytes_def locate_def resolve_def
  by (auto intro!: keeps split: node.split)

lemma wp_locate:
  "wp (locate p) Q anyerr s \<longleftrightarrow>
     (\<forall>q n. walk (mch_files s) True max_links [] p = Inr q \<longrightarrow> node_at (mch_files s) q = Some n \<longrightarrow> Q (q, n) s)"
  by (auto simp: locate_def resolve_def lift_sum_def wp split: sum.split option.split)

lemma wp_lift_sum_vc:
  "(\<And>er. r = Inl er \<Longrightarrow> E er s) \<Longrightarrow> (\<And>x. r = Inr x \<Longrightarrow> Q x s) \<Longrightarrow> wp (lift_sum r) Q E s"
  by (auto simp: lift_sum_def wp split: sum.split)

lemma wp_resolve:
  "(\<And>q. walk (mch_files s) strict max_links [] p = Inr q \<Longrightarrow> Q q s) \<Longrightarrow> wp (resolve strict p) Q anyerr s"
  by (auto simp: resolve_def lift_sum_def wp split: sum.split)

lemma extending_put:
  assumes "extending fs s" "\<And>n'. node_at (mch_files s) q = Some n' \<Longrightarrow> same_kind n' n"
    "node_at (mch_files s) q = None \<Longrightarrow> \<forall>t. n \<noteq> Symlink t"
  shows "extending fs (s\<lparr>mch_files := dput q n (mch_files s)\<rparr>)"
  using assms extends_trans [OF _ extends_dput [of "mch_files s" q n]] by (simp add: extending_def)

lemma extending_chmod [keeps]: "keeps (chmod p m) (extending fs)"
  and extending_chown [keeps]: "keeps (chown p ow) (extending fs)"
  unfolding keeps_def chmod_def chown_def locate_def resolve_def put_node_def
  by (auto simp: run lift_sum_def fetch_def intro!: extending_put split: sum.splits option.splits)

lemma extending_mkdir1 [keeps]: "keeps (os_mkdir p m) (extending fs)"
  and extending_create [keeps]: "keeps (create_file p m v) (extending fs)"
  unfolding keeps_def os_mkdir_def create_file_def put_node_def
  by (auto simp: run lift_sum_def intro!: extending_put split: sum.splits option.splits)

text \<open>
  A property of states that the calls \<open>mkdir\<close> is made of keep: first for the directory alone, then
  with the parents that are missing.
\<close>

lemma keeps_mkdir:
  assumes "\<And>m p. keeps (os_mkdir m p) I"
  shows "keeps (mkdir m parents exist_ok p) I"
proof -
  have split: "wp (mkdir m parents exist_ok p) (\<lambda>_. I) (\<lambda>_. I) s"
    if s: "I s" and again: "parents \<Longrightarrow> p \<noteq> [] \<Longrightarrow> \<forall>t. I t \<longrightarrow>
        wp (bind (mkdir 0x1FF True True (butlast p)) (\<lambda>_. mkdir m False exist_ok p)) (\<lambda>_. I) (\<lambda>_. I) t"
    for m parents exist_ok p s
  proof -
    obtain r t where r: "os_mkdir p m s = (r, t)" by force
    with keepsD [OF assms s] have t: "I t" by (metis snd_conv)
    from r have "mkdir m parents exist_ok p s =
        (case r of Inr _ \<Rightarrow> (Inr (), t)
         | Inl (FileNotFoundError msg) \<Rightarrow>
             if \<not> parents \<or> p = [] then (Inl (FileNotFoundError msg), t)
             else bind (mkdir 0x1FF True True (butlast p)) (\<lambda>_. mkdir m False exist_ok p) t
         | Inl er \<Rightarrow>
             if \<not> exist_ok \<or> \<not> is_dir (mch_files t) p then (Inl er, t) else (Inr (), t))"
      by (subst mkdir.simps) simp
    with t again show ?thesis by (auto simp: wp_def split: sum.splits error.splits)
  qed
  have leaf: "keeps (mkdir m False exist_ok p) I" for m exist_ok p
    by (rule keepsI) (simp add: split)
  have "keeps (mkdir m True exist_ok p) I" for m exist_ok
    by (induction p arbitrary: m exist_ok rule: rev_induct; rule keepsI)
      (auto intro!: split wp_keeps [OF keeps_bind] leaf)
  with leaf show ?thesis by (cases parents) simp_all
qed

lemma extending_mkdir [keeps]: "keeps (mkdir m parents exist_ok p) (extending fs)"
  by (rule keeps_mkdir) (rule extending_mkdir1)

section \<open>Resolution in extended files\<close>

lemma walk_extends:
  "walk fs strict n d todo = Inr q \<Longrightarrow> extends_files fs fs' \<Longrightarrow> strict \<Longrightarrow> walk fs' strict n d todo = Inr q"
proof (induction fs strict n d todo rule: walk.induct)
  case (2 fs strict n d x todo)
  then obtain a where a: "node_at fs (d @ [x]) = Some a" by (auto split: option.splits)
  with "2.prems"(2) obtain b where b: "node_at fs' (d @ [x]) = Some b" "same_kind a b"
    unfolding extends_files_def by blast
  with a 2 show ?case by (cases a) (auto split: if_splits nat.splits)
qed simp

text \<open>A path that leads through no link is its own resolution.\<close>

definition straight :: "files \<Rightarrow> path \<Rightarrow> bool" where
  "straight fs p \<longleftrightarrow> (\<forall>k target. node_at fs (take k p) \<noteq> Some (Symlink target))"

lemma straight_extends: "straight fs p \<Longrightarrow> extends_files fs fs' \<Longrightarrow> straight fs' p"
  unfolding straight_def extends_files_def by blast

lemma straight_root [simp]: "straight fs []"
  by (simp add: straight_def node_at_def root_directory_def split: option.split node.split)

lemma straight_snoc: "straight fs (p @ [x]) \<longleftrightarrow> straight fs p \<and> (\<forall>t. node_at fs (p @ [x]) \<noteq> Some (Symlink t))"
proof -
  have "take k (p @ [x]) = (if k \<le> length p then take k p else p @ [x])" for k by simp
  then show ?thesis unfolding straight_def
    by (metis le_refl nle_le take_all)
qed

lemma straight_butlast: "straight fs p \<Longrightarrow> straight fs (butlast p)"
  by (cases p rule: rev_cases) (simp_all add: straight_snoc)

lemma walk_straight:
  "walk fs strict n d todo = Inr q \<Longrightarrow> straight fs (d @ todo) \<Longrightarrow> q = d @ todo"
proof (induction fs strict n d todo rule: walk.induct)
  case (2 fs strict n d x todo)
  have "node_at fs (take (Suc (length d)) (d @ x # todo)) \<noteq> Some (Symlink t)" for t
    using "2.prems"(2) by (simp only: straight_def) blast
  with 2 show ?case by (auto split: option.splits node.splits if_splits)
qed simp

text \<open>What a resolution that is not strict ends in is straight.\<close>

lemma walk_loose:
  "walk fs strict n d todo = Inr q \<Longrightarrow> straight fs d \<Longrightarrow> straight fs q"
proof (induction fs strict n d todo rule: walk.induct)
  case (2 fs strict n d x todo)
  then show ?case by (auto simp: straight_snoc split: option.splits node.splits if_splits nat.splits)
qed simp

lemma walk_loose_extends:
  "extends_files fs fs' \<Longrightarrow> \<not> strict \<Longrightarrow> walk fs' strict n d todo = walk fs strict n d todo"
proof (induction fs strict n d todo rule: walk.induct)
  case (2 fs strict n d x todo)
  show ?case
  proof (cases "node_at fs (d @ [x])")
    case None
    then have "node_at fs' (d @ [x]) \<noteq> Some (Symlink t)" for t
      using "2.prems"(1) unfolding extends_files_def by (metis option.distinct(1))
    with None 2 show ?thesis by (auto split: option.splits node.splits)
  next
    case (Some a)
    with "2.prems"(1) obtain b where "node_at fs' (d @ [x]) = Some b" "same_kind a b"
      unfolding extends_files_def by blast
    with Some 2 show ?thesis by (cases a) (auto split: nat.split)
  qed
qed simp

lemma walk_snoc:
  "walk fs True n d todo = Inr (d @ todo) \<Longrightarrow> straight fs (d @ todo) \<Longrightarrow> node_at fs (d @ todo) = Some (Directory m ow)
   \<Longrightarrow> node_at fs (d @ todo @ [x]) = Some a \<Longrightarrow> \<forall>t. a \<noteq> Symlink t
   \<Longrightarrow> walk fs True n d (todo @ [x]) = Inr (d @ todo @ [x])"
proof (induction todo arbitrary: d)
  case Nil
  then show ?case by (cases a) simp_all
next
  case (Cons y todo)
  have "node_at fs (take (Suc (length d)) (d @ y # todo)) \<noteq> Some (Symlink t)" for t
    using Cons.prems(2) by (simp only: straight_def) blast
  moreover have "todo = [] \<Longrightarrow> node_at fs (d @ [y]) = Some (Directory m ow)" using Cons.prems(3) by simp
  ultimately show ?case
    using Cons.IH [of "d @ [y]"] Cons.prems by (auto split: option.splits node.splits if_splits)
qed

text \<open>A node that is reached by its own name.\<close>

definition stands :: "files \<Rightarrow> path \<Rightarrow> node \<Rightarrow> bool" where
  "stands fs p n \<longleftrightarrow> walk fs True max_links [] p = Inr p \<and> dget fs p = Some n \<and> node_at fs p = Some n"

lemma stands_follow: "stands fs p n \<Longrightarrow> follow fs p = Some (p, n)"
  by (simp add: stands_def follow_def)

lemma follow_straight:
  "straight fs p \<Longrightarrow> follow fs p = Some (q, n)
   \<Longrightarrow> q = p \<and> walk fs True max_links [] p = Inr p \<and> node_at fs p = Some n"
  by (auto simp: follow_def dest: walk_straight split: sum.splits)

lemma walk_butlast:
  "walk fs True n d (todo @ [x]) = Inr q \<Longrightarrow> straight fs (d @ todo)
   \<Longrightarrow> walk fs True n d todo = Inr (d @ todo)
     \<and> (todo \<noteq> [] \<longrightarrow> (\<exists>m ow. node_at fs (d @ todo) = Some (Directory m ow)))"
proof (induction todo arbitrary: d)
  case (Cons y todo)
  have "node_at fs (take (Suc (length d)) (d @ y # todo)) \<noteq> Some (Symlink t)" for t
    using Cons.prems(2) unfolding straight_def by (simp only: append_Cons) blast
  with Cons.prems have step: "walk fs True n (d @ [y]) (todo @ [x]) = Inr q"
    "\<exists>m ow. node_at fs (d @ [y]) = Some (Directory m ow)"
    by (auto split: option.splits node.splits)
  with Cons.IH [OF step(1)] Cons.prems(2) show ?case by (cases todo) auto
qed simp

lemma follow_entry:
  assumes "follow fs p = Some (q, n)" "straight fs (butlast p)"
  shows "entry fs p = Inr p"
proof (cases p rule: rev_cases)
  case (snoc d x)
  then have "walk fs True max_links [] (d @ [x]) = Inr q"
    using assms(1) by (auto simp: follow_def split: sum.splits)
  from walk_butlast [OF this] assms(2) snoc obtain m ow where
    "walk fs True max_links [] d = Inr d" "d \<noteq> [] \<longrightarrow> node_at fs d = Some (Directory m ow)" by auto
  moreover have "\<exists>m ow. node_at fs [] = Some (Directory m ow)"
    by (auto simp: node_at_def root_directory_def split: option.split node.split)
  ultimately show ?thesis using snoc by (cases "d = []") (auto simp: entry_def)
qed (simp add: entry_def)

text \<open>The test for a symbolic link is what makes a path straight to its last name.\<close>

lemma straight_last:
  assumes "follow fs p = Some (q, n)" "straight fs (butlast p)" "\<not> is_symlink fs p"
  shows "straight fs p"
  using assms follow_entry [OF assms(1,2)]
  by (cases p rule: rev_cases) (auto simp: straight_snoc is_symlink_def split: option.splits node.splits)

lemma stands_straight: "stands fs p n \<Longrightarrow> straight fs p"
  by (auto simp: stands_def dest: walk_loose)

lemma stands_entry: "stands fs p n \<Longrightarrow> entry fs p = Inr p"
  by (rule follow_entry [OF stands_follow straight_butlast [OF stands_straight]])

lemma locate_stands: "stands (mch_files s) p n \<Longrightarrow> locate p s = (Inr (p, n), s)"
  by (simp add: locate_def resolve_def stands_def run lift_sum_def fetch_def)

text \<open>Changes that leave every node but those at \<open>ps\<close> alone.\<close>

definition only_touches :: "path set \<Rightarrow> files \<Rightarrow> files \<Rightarrow> bool" where
  "only_touches ps fs fs' \<longleftrightarrow> extends_files fs fs'
     \<and> (\<forall>q n. q \<notin> ps \<longrightarrow> dget fs q = Some n \<longrightarrow> dget fs' q = Some n)"

lemma only_touches_refl [simp]: "only_touches ps fs fs"
  by (simp add: only_touches_def)

lemma only_touches_trans:
  "only_touches ps a b \<Longrightarrow> only_touches qs b c \<Longrightarrow> only_touches (ps \<union> qs) a c"
  by (auto simp: only_touches_def intro: extends_trans)

lemma only_touches_extends: "only_touches ps fs fs' \<Longrightarrow> extends_files fs fs'"
  by (simp add: only_touches_def)

lemma stands_untouched: "stands fs p n \<Longrightarrow> only_touches ps fs fs' \<Longrightarrow> p \<notin> ps \<Longrightarrow> stands fs' p n"
  unfolding stands_def only_touches_def
  by (auto simp: node_at_def split: if_splits option.splits node.splits dest: walk_extends)

lemma dput_present: "dget d k = Some v \<Longrightarrow> dput k v d = d"
  by (induction d) auto

lemma only_touches_dput:
  assumes "\<And>n'. node_at fs q = Some n' \<Longrightarrow> same_kind n' n" "node_at fs q = None \<Longrightarrow> \<forall>t. n \<noteq> Symlink t"
  shows "only_touches {q} fs (dput q n fs)"
  using extends_dput [OF assms] by (auto simp: only_touches_def dict)

text \<open>\<open>mkdir\<close> only adds.\<close>

lemma adding_mkdir: "keeps (mkdir m parents exist_ok p) (\<lambda>s. only_touches {} fs (mch_files s))"
proof (rule keeps_mkdir)
  fix m p
  have "only_touches {} fs (dput q (Directory m' ow) (mch_files s))"
    if "node_at (mch_files s) q = None" "only_touches {} fs (mch_files s)" for q m' ow and s :: machine
  proof -
    have "only_touches {} (mch_files s) (dput q (Directory m' ow) (mch_files s))"
      using extends_dput [of "mch_files s" q "Directory m' ow"] that(1)
      by (auto simp: only_touches_def dict node_at_def split: if_splits)
    from only_touches_trans [OF that(2) this] show ?thesis by simp
  qed
  then show "keeps (os_mkdir m p) (\<lambda>s. only_touches {} fs (mch_files s))"
    unfolding keeps_def os_mkdir_def put_node_def
    by (auto simp: run lift_sum_def split: sum.splits option.splits)
qed

text \<open>Permissions and owner, on a path that leads to itself.\<close>

definition attributes :: "permissions \<Rightarrow> owner \<Rightarrow> node \<Rightarrow> node" where
  "attributes m ow n = with_permissions m (with_owner ow n)"

definition own_and_protect :: "path \<Rightarrow> owner \<Rightarrow> permissions \<Rightarrow> (machine, unit) prog" where
  "own_and_protect p ow m = bind (chown p ow) (\<lambda>_. chmod p m)"

lemma stands_attributes:
  assumes "walk fs True max_links [] p = Inr p" "node_at fs p = Some n" "\<forall>t. n \<noteq> Symlink t"
  shows "stands (dput p (with_owner ow n) fs) p (with_owner ow n) \<and> only_touches {p} fs (dput p (with_owner ow n) fs)"
    "stands (dput p (with_permissions m n) fs) p (with_permissions m n)
      \<and> only_touches {p} fs (dput p (with_permissions m n) fs)"
proof -
  have dir: "p = [] \<Longrightarrow> \<exists>m ow. n = Directory m ow"
    using assms(2) by (auto simp: node_at_def root_directory_def split: if_splits option.splits node.splits)
  have touched: "only_touches {p} fs (dput p n' fs)" if "same_kind n n'" for n'
    using assms that by (intro only_touches_dput) auto
  have "stands (dput p n' fs) p n'" if "same_kind n n'" for n'
    using walk_extends [OF assms(1) only_touches_extends [OF touched [OF that]]] that dir
    by (auto simp: stands_def dict node_at_dput)
  with touched show "stands (dput p (with_owner ow n) fs) p (with_owner ow n) \<and> only_touches {p} fs (dput p (with_owner ow n) fs)"
    "stands (dput p (with_permissions m n) fs) p (with_permissions m n)
      \<and> only_touches {p} fs (dput p (with_permissions m n) fs)" by simp_all
qed

lemma own_and_protect_runs:
  assumes "walk (mch_files s) True max_links [] p = Inr p" "node_at (mch_files s) p = Some n" "\<forall>t. n \<noteq> Symlink t"
  shows "\<exists>t. own_and_protect p ow m s = (Inr (), t) \<and> stands (mch_files t) p (attributes m ow n)
    \<and> only_touches {p} (mch_files s) (mch_files t)"
proof -
  let ?s = "s\<lparr>mch_files := dput p (with_owner ow n) (mch_files s)\<rparr>"
  have own: "chown p ow s = (Inr (), ?s)"
    using assms by (simp add: chown_def locate_def resolve_def put_node_def run lift_sum_def fetch_def)
  note first = stands_attributes(1) [OF assms, of ow]
  then have at: "stands (mch_files ?s) p (with_owner ow n)" by simp
  let ?t = "?s\<lparr>mch_files := dput p (attributes m ow n) (mch_files ?s)\<rparr>"
  have mod: "chmod p m ?s = (Inr (), ?t)"
    using locate_stands [OF at] by (simp add: chmod_def run put_node_def attributes_def)
  have "\<forall>t. with_owner ow n \<noteq> Symlink t" using assms(3) by simp
  with stands_attributes(2) [of "mch_files ?s" p "with_owner ow n" m] at
  have "stands (mch_files ?t) p (attributes m ow n) \<and> only_touches {p} (mch_files ?s) (mch_files ?t)"
    by (simp add: attributes_def stands_def)
  moreover from this first have "only_touches {p} (mch_files s) (mch_files ?t)"
    using only_touches_trans [of "{p}" "mch_files s" "mch_files ?s" "{p}"] by simp
  ultimately show ?thesis using own mod by (auto simp: own_and_protect_def run)
qed

lemma own_and_protect_again:
  assumes "stands (mch_files s) p (attributes m ow n)" "\<forall>t. n \<noteq> Symlink t"
  shows "own_and_protect p ow m s = (Inr (), s)"
proof -
  have same: "with_owner ow (attributes m ow n) = attributes m ow n" "with_permissions m (attributes m ow n) = attributes m ow n"
    by (cases n; simp add: attributes_def)+
  then have "chown p ow s = (Inr (), s)" "chmod p m s = (Inr (), s)"
    using locate_stands [OF assms(1)] assms(1) dput_present [of "mch_files s" p]
    by (simp_all add: chown_def chmod_def run put_node_def stands_def)
  then show ?thesis by (simp add: own_and_protect_def run)
qed

section \<open>A file that was just made\<close>

lemma walk_child:
  "walk fs True n d todo = Inr q \<Longrightarrow> node_at fs q = Some (Directory m ow) \<Longrightarrow> node_at fs (q @ [x]) = Some a
   \<Longrightarrow> \<forall>t. a \<noteq> Symlink t \<Longrightarrow> walk fs True n d (todo @ [x]) = Inr (q @ [x])"
proof (induction fs True n d todo rule: walk.induct)
  case (1 fs n d)
  then show ?case by (cases a) auto
next
  case (2 fs n d y todo)
  then show ?case by (auto split: option.splits node.splits nat.splits if_splits)
qed

theorem created_file:
  assumes "create_file p m v s = (Inr (), t)"
  shows "\<exists>q. node_at (mch_files s) q = None \<and> follow (mch_files t) p = Some (q, File v (m AND NOT (mch_umask s)) (mch_process s))
    \<and> \<not> is_symlink (mch_files t) p \<and> extends_files (mch_files s) (mch_files t)"
proof -
  let ?n = "File v (m AND NOT (mch_umask s)) (mch_process s)"
  from assms obtain q where q: "entry (mch_files s) p = Inr q" "node_at (mch_files s) q = None"
    and t: "t = s\<lparr>mch_files := dput q ?n (mch_files s)\<rparr>"
    by (auto simp: create_file_def run lift_sum_def put_node_def split: sum.splits if_splits)
  have ext: "extends_files (mch_files s) (mch_files t)" using q(2) t by (auto intro!: extends_dput)
  have "p \<noteq> []" using q by (auto simp: entry_def node_at_def)
  with q(1) obtain d m' ow where d: "walk (mch_files s) True max_links [] (butlast p) = Inr d"
    "node_at (mch_files s) d = Some (Directory m' ow)" "q = d @ [last p]"
    by (auto simp: entry_def split: if_splits sum.splits option.splits node.splits)
  from d(2) ext obtain m'' ow' where dt: "node_at (mch_files t) d = Some (Directory m'' ow')"
    unfolding extends_files_def by (metis same_kind.simps(2))
  have at: "node_at (mch_files t) q = Some ?n" using t d(3) by (simp add: node_at_dput)
  have walk: "walk (mch_files t) True max_links [] (butlast p) = Inr d" using walk_extends [OF d(1) ext] by simp
  have "walk (mch_files t) True max_links [] (butlast p @ [last p]) = Inr q"
    using walk_child [OF walk dt, of "last p" ?n] at d(3) by simp
  with \<open>p \<noteq> []\<close> have "follow (mch_files t) p = Some (q, ?n)" using at by (simp add: follow_def)
  moreover have "\<not> is_symlink (mch_files t) p"
    using \<open>p \<noteq> []\<close> walk dt at d(3) by (simp add: is_symlink_def entry_def)
  ultimately show ?thesis using q(2) ext by blast
qed

lemma follow_reads:
  assumes "follow (mch_files s) p = Some (q, File v m ow)"
  shows "read_bytes p s = (Inr v, s)" "stat_mode p s = (Inr m, s)" "is_file (mch_files s) p" "exists_at (mch_files s) p"
  using assms
  by (auto simp: read_bytes_def stat_mode_def locate_def resolve_def run lift_sum_def fetch_def follow_def is_file_iff
      exists_at_def split: sum.splits)

end
