(* ===== verification/Provisioning.thy ===== *)
theory Provisioning
  imports Files
begin

text \<open>
  The secrets of a deployment (\<open>src/kyn/provision.py\<close>): directories and files made once, with the
  owner and the permissions they must have. The random bytes are the \<open>secrets\<close> module's: the draw
  number \<open>k\<close> of \<open>n\<close> bytes is \<open>random k n\<close>, numbered in the order of the source.
\<close>

section \<open>Text\<close>

definition path_text :: "path \<Rightarrow> string" where
  "path_text p = ''/'' @ join ''/'' p"

text \<open>\<open>str.isspace\<close> of a code point up to 255, and the bytes that \<open>bytes.strip\<close> strips.\<close>

definition isspace :: "char \<Rightarrow> bool" where
  "isspace c = (let n = of_char c :: nat in 9 \<le> n \<and> n \<le> 13 \<or> 28 \<le> n \<and> n \<le> 32 \<or> n = 133 \<or> n = 160)"

definition space_byte :: "char \<Rightarrow> bool" where
  "space_byte c = (let n = of_char c :: nat in 9 \<le> n \<and> n \<le> 13 \<or> n = 32)"

definition strip :: "bytes \<Rightarrow> bytes" where
  "strip v = rev (dropWhile space_byte (rev (dropWhile space_byte v)))"

definition decode_ascii :: "bytes \<Rightarrow> error + string" where
  "decode_ascii v = (if is_ascii v then Inr v else Inl (ValueError ''ordinal not in range(128)''))"

section \<open>Directories and files made once\<close>

definition signing_seed_bytes :: nat where "signing_seed_bytes = 32"

text \<open>\<open>_directory\<close>.\<close>

definition directory :: "path \<Rightarrow> owner \<Rightarrow> (machine, unit) prog" where
  "directory p ow =
     bind (mkdir 0x1C0 True True p) (\<lambda>_.
     bind (gets mch_files) (\<lambda>fs.
     if is_symlink fs p \<or> \<not> is_dir fs p
     then raise (RuntimeError (''secret directory is unsafe: '' @ path_text p))
     else own_and_protect p ow 0x1C0))"

text \<open>\<open>_write_once\<close>: the secret that is on file if there is one.\<close>

definition write_once :: "path \<Rightarrow> bytes \<Rightarrow> owner \<Rightarrow> permissions \<Rightarrow> (machine, bytes) prog" where
  "write_once p v ow m =
     bind (directory (butlast p) ow) (\<lambda>_.
     bind (gets mch_files) (\<lambda>fs.
     if exists_at fs p then
       (if is_symlink fs p \<or> \<not> is_file fs p
        then raise (RuntimeError (''secret path is unsafe: '' @ path_text p))
        else bind (read_bytes p) (\<lambda>existing.
          if existing = [] then raise (RuntimeError (''existing secret is empty: '' @ last p))
          else bind (own_and_protect p ow m) (\<lambda>_. ret existing)))
     else
       bind (create_file p m v) (\<lambda>_.
       bind (own_and_protect p ow m) (\<lambda>_. ret v))))"

section \<open>Provisioning\<close>

definition token_hex :: "(nat \<Rightarrow> nat \<Rightarrow> bytes) \<Rightarrow> nat \<Rightarrow> nat \<Rightarrow> string" where
  "token_hex random k n = hexdigest (random k n)"

definition token_urlsafe :: "(nat \<Rightarrow> nat \<Rightarrow> bytes) \<Rightarrow> nat \<Rightarrow> nat \<Rightarrow> string" where
  "token_urlsafe random k n = b64_encode (random k n)"

definition database_url :: "string \<Rightarrow> string \<Rightarrow> string" where
  "database_url password host =
     ''postgresql+psycopg://kyn:'' @ password @ ''@'' @ host @ '':5432/kyn'' @ [CHR 10]"

text \<open>One of the three secrets that only have to be long enough.\<close>

definition long_secret :: "(nat \<Rightarrow> nat \<Rightarrow> bytes) \<Rightarrow> path \<Rightarrow> owner \<Rightarrow> nat \<times> string \<Rightarrow> (machine, path) prog" where
  "long_secret random root service_owner = (\<lambda>(k, name).
     let p = root @ [''service'', name] in
     bind (write_once p (encode (token_urlsafe random k 48 @ [CHR 10])) service_owner 0x100) (\<lambda>v.
     if length (strip v) < minimum_secret_bytes
     then raise (RuntimeError (''existing KYN secret is too short: '' @ name))
     else ret p))"

text \<open>The body of \<open>provision\<close> in two steps: the directories, and the five secrets below the root.\<close>

definition provision_directories :: "path \<Rightarrow> owner \<Rightarrow> owner \<Rightarrow> path option \<Rightarrow> (machine, unit) prog" where
  "provision_directories root service_owner postgres_owner state_root =
     bind (directory root service_owner) (\<lambda>_.
     case state_root of
       None \<Rightarrow> ret ()
     | Some r \<Rightarrow> bind (resolve False r) (\<lambda>d. directory (d @ [''database'']) postgres_owner))"

definition provision_secrets ::
  "(nat \<Rightarrow> nat \<Rightarrow> bytes) \<Rightarrow> path \<Rightarrow> owner \<Rightarrow> owner \<Rightarrow> string \<Rightarrow> (machine, path list) prog" where
  "provision_secrets random root service_owner postgres_owner database_host =
     bind (write_once (root @ [''postgres'', ''postgres-password'']) (encode (token_hex random 0 32))
             postgres_owner 0x120) (\<lambda>postgres_password.
     bind (lift_sum (decode_ascii postgres_password)) (\<lambda>password.
     let url = encode (database_url password database_host) in
     bind (write_once (root @ [''service'', ''database-url'']) url service_owner 0x100) (\<lambda>existing_url.
     if existing_url \<noteq> url
     then raise (RuntimeError ''KYN service database credential conflicts with PostgreSQL'')
     else
     bind (write_once (root @ [''service'', ''signing.seed'']) (random 1 signing_seed_bytes)
             service_owner 0x100) (\<lambda>existing_seed.
     if length existing_seed \<noteq> signing_seed_bytes
     then raise (RuntimeError ''existing KYN signing seed must be exactly 32 bytes'')
     else
     bind (collect (long_secret random root service_owner)
             [(2, ''pairwise.secret''), (3, ''receipt.secret''), (4, ''bootstrap.token'')]) (\<lambda>secrets.
     ret ([root @ [''service'', ''database-url''], root @ [''service'', ''signing.seed'']] @ secrets))))))"

definition provision ::
  "(nat \<Rightarrow> nat \<Rightarrow> bytes) \<Rightarrow> path \<Rightarrow> owner \<Rightarrow> owner \<Rightarrow> string \<Rightarrow> path option \<Rightarrow> (machine, path list) prog" where
  "provision random given service_owner postgres_owner database_host state_root =
     (if database_host = [] \<or> list_ex isspace database_host
      then raise (ValueError ''database host is invalid'')
      else
        bind (resolve False given) (\<lambda>root.
        bind (provision_directories root service_owner postgres_owner state_root) (\<lambda>_.
        provision_secrets random root service_owner postgres_owner database_host)))"

section \<open>What is on file stays\<close>

text \<open>Whether it returns or raises, provisioning never changes the content of a file.\<close>

lemma extending_directory [keeps]: "keeps (directory p ow) (extending fs)"
  unfolding directory_def own_and_protect_def by (intro keeps)

lemma extending_write_once [keeps]: "keeps (write_once p v ow m) (extending fs)"
  unfolding write_once_def own_and_protect_def by (intro keeps)

lemma extending_provision: "keeps (provision random p so po host sr) (extending fs)"
  unfolding provision_def provision_directories_def provision_secrets_def long_secret_def case_prod_unfold
  by (intro keeps)

section \<open>Effects\<close>

lemma directory_effect:
  assumes "straight (mch_files s) (butlast p)"
  shows "wp (directory p ow) (\<lambda>_ t. stands (mch_files t) p (Directory 0x1C0 ow)
     \<and> only_touches {p} (mch_files s) (mch_files t)) anyerr s"
  unfolding directory_def
proof (intro vcg, rule wp_keeps [OF adding_mkdir [of _ _ _ _ "mch_files s"]], simp, intro vcg)
  fix t :: machine
  assume t: "only_touches {} (mch_files s) (mch_files t)"
    and ok: "\<not> (is_symlink (mch_files t) p \<or> \<not> is_dir (mch_files t) p)"
  from ok obtain q m w where f: "follow (mch_files t) p = Some (q, Directory m w)"
    by (auto simp: is_dir_iff)
  have "straight (mch_files t) p"
    using straight_last [OF f straight_extends [OF assms only_touches_extends [OF t]]] ok by blast
  from follow_straight [OF this f]
  have "walk (mch_files t) True max_links [] p = Inr p" "node_at (mch_files t) p = Some (Directory m w)" by auto
  from own_and_protect_runs [OF this, of ow "0x1C0"] obtain u where
    u: "own_and_protect p ow 0x1C0 t = (Inr (), u)" "stands (mch_files u) p (Directory 0x1C0 ow)"
      "only_touches {p} (mch_files t) (mch_files u)"
    by (auto simp: attributes_def)
  from u only_touches_trans [OF t u(3)]
  show "wp (own_and_protect p ow 0x1C0) (\<lambda>_ t. stands (mch_files t) p (Directory 0x1C0 ow)
     \<and> only_touches {p} (mch_files s) (mch_files t)) anyerr t"
    by (simp add: wp_def)
qed auto

text \<open>A secret on file, in a directory that only its owner enters.\<close>

definition secret_at :: "files \<Rightarrow> path \<Rightarrow> bytes \<Rightarrow> permissions \<Rightarrow> owner \<Rightarrow> bool" where
  "secret_at fs p v m ow \<longleftrightarrow> stands fs p (File v m ow) \<and> stands fs (butlast p) (Directory 0x1C0 ow)"

lemma write_once_effect:
  assumes "straight (mch_files s) (butlast (butlast p))" "p \<noteq> []"
  shows "wp (write_once p v ow m) (\<lambda>x t. secret_at (mch_files t) p x m ow \<and> (x = v \<or> x \<noteq> [])
     \<and> only_touches {p, butlast p} (mch_files s) (mch_files t)) anyerr s"
  unfolding write_once_def
unfolding provision_directories_def
proof (rule wp_bind_vc, rule wp_mono [OF directory_effect [OF assms(1)]], elim conjE)
  fix t :: machine
  assume dir: "stands (mch_files t) (butlast p) (Directory 0x1C0 ow)"
    and t: "only_touches {butlast p} (mch_files s) (mch_files t)"
  note parent = stands_straight [OF dir]
  have pb: "p = butlast p @ [last p]" "p \<noteq> butlast p"
    using assms(2) by (simp, metis append_butlast_last_id append_self_conv not_Cons_self2)
  define Q where "Q = (\<lambda>x (u :: machine). secret_at (mch_files u) p x m ow \<and> (x = v \<or> x \<noteq> [])
     \<and> only_touches {p, butlast p} (mch_files s) (mch_files u))"
  have finish: "wp (bind (own_and_protect p ow m) (\<lambda>_. ret x)) Q anyerr u"
    if "walk (mch_files u) True max_links [] p = Inr p" "node_at (mch_files u) p = Some (File x m' w)"
      "only_touches {p} (mch_files t) (mch_files u)" "x = v \<or> x \<noteq> []" for u x m' w
  proof -
    from own_and_protect_runs [OF that(1,2), of ow m] obtain r where
      r: "own_and_protect p ow m u = (Inr (), r)" "stands (mch_files r) p (File x m ow)"
        "only_touches {p} (mch_files u) (mch_files r)" by (auto simp: attributes_def)
    have all: "only_touches {p} (mch_files t) (mch_files r)"
      using only_touches_trans [OF that(3) r(3)] by simp
    with only_touches_trans [OF t all] stands_untouched [OF dir all] r that(4) pb(2) show ?thesis
      by (auto simp: wp_def bind_def ret_def Q_def secret_at_def insert_commute)
  qed
  have "wp (bind (read_bytes p) (\<lambda>existing.
          if existing = [] then raise (RuntimeError (''existing secret is empty: '' @ last p))
          else bind (own_and_protect p ow m) (\<lambda>_. ret existing))) Q anyerr t"
    if "is_file (mch_files t) p" "\<not> is_symlink (mch_files t) p"
  proof -
    from that(1) obtain q x m' w where f: "follow (mch_files t) p = Some (q, File x m' w)"
      by (auto simp: is_file_iff)
    from follow_straight [OF straight_last [OF f parent that(2)] f] have at: "walk (mch_files t) True max_links [] p = Inr p"
      "node_at (mch_files t) p = Some (File x m' w)" by auto
    then have "read_bytes p t = (Inr x, t)"
      by (simp add: read_bytes_def locate_def resolve_def run lift_sum_def fetch_def)
    then show ?thesis using finish [OF at, of] by (simp add: wp_def bind_def split: if_split) (simp add: raise_def)
  qed
  moreover have "wp (bind (create_file p m v) (\<lambda>_. bind (own_and_protect p ow m) (\<lambda>_. ret v))) Q anyerr t"
  proof -
    have entry: "entry (mch_files t) p = Inr p"
      using dir assms(2) by (simp add: entry_def stands_def)
    show ?thesis
    proof (cases "node_at (mch_files t) p")
      case None
      let ?n = "File v (m AND NOT (mch_umask t)) (mch_process t)"
      let ?u = "t\<lparr>mch_files := dput p ?n (mch_files t)\<rparr>"
      have made: "create_file p m v t = (Inr (), ?u)"
        using entry None by (simp add: create_file_def run lift_sum_def put_node_def)
      have touch: "only_touches {p} (mch_files t) (mch_files ?u)"
        using None by (auto intro!: only_touches_dput)
      have "stands (mch_files ?u) (butlast p) (Directory 0x1C0 ow)"
        by (rule stands_untouched [OF dir touch]) (use pb in simp)
      moreover have "node_at (mch_files ?u) p = Some ?n" using assms(2) by (simp add: node_at_dput)
      moreover have "straight (mch_files ?u) (butlast p)"
        by (rule straight_extends [OF parent only_touches_extends [OF touch]])
      ultimately have "walk (mch_files ?u) True max_links [] p = Inr p"
        using walk_snoc [of "mch_files ?u" max_links "[]" "butlast p" _ _ "last p" ?n] pb(1)
        by (simp add: stands_def)
      from finish [OF this _ touch] made assms(2) show ?thesis
        by (simp add: wp_def bind_def node_at_dput)
    next
      case (Some n)
      with entry show ?thesis by (simp add: create_file_def wp run lift_sum_def wp_def bind_def)
    qed
  qed
  ultimately show "wp (bind (gets mch_files) (\<lambda>fs.
     if exists_at fs p then
       (if is_symlink fs p \<or> \<not> is_file fs p
        then raise (RuntimeError (''secret path is unsafe: '' @ path_text p))
        else bind (read_bytes p) (\<lambda>existing.
          if existing = [] then raise (RuntimeError (''existing secret is empty: '' @ last p))
          else bind (own_and_protect p ow m) (\<lambda>_. ret existing)))
     else
       bind (create_file p m v) (\<lambda>_.
       bind (own_and_protect p ow m) (\<lambda>_. ret v)))) (\<lambda>x u. secret_at (mch_files u) p x m ow \<and> (x = v \<or> x \<noteq> [])
     \<and> only_touches {p, butlast p} (mch_files s) (mch_files u)) anyerr t"
    by (auto simp: wp Q_def)
qed

section \<open>Doing it again\<close>

lemma directory_again:
  assumes "stands (mch_files s) p (Directory 0x1C0 ow)"
  shows "directory p ow s = (Inr (), s)"
proof -
  note entry = stands_entry [OF assms]
  have "os_mkdir p m s = (Inl (FileExistsError ''File exists''), s)" for m
    using entry assms by (simp add: os_mkdir_def run lift_sum_def stands_def)
  moreover have dir: "is_dir (mch_files s) p" "\<not> is_symlink (mch_files s) p"
    using stands_follow [OF assms] entry assms by (simp_all add: is_dir_iff is_symlink_def stands_def)
  ultimately have "mkdir m parents True p s = (Inr (), s)" for m parents
    by (subst mkdir.simps) simp
  with dir own_and_protect_again [of s p "0x1C0" ow "Directory 0x1C0 ow"] assms show ?thesis
    by (simp add: directory_def run attributes_def)
qed

lemma write_once_again:
  assumes "secret_at (mch_files s) p x m ow" "x \<noteq> []"
  shows "write_once p v ow m s = (Inr x, s)"
proof -
  have at: "stands (mch_files s) p (File x m ow)" "stands (mch_files s) (butlast p) (Directory 0x1C0 ow)"
    using assms(1) by (simp_all add: secret_at_def)
  have "exists_at (mch_files s) p" "is_file (mch_files s) p" "\<not> is_symlink (mch_files s) p"
    using stands_follow [OF at(1)] stands_entry [OF at(1)] at(1)
    by (simp_all add: exists_at_def is_file_iff is_symlink_def stands_def)
  moreover have "read_bytes p s = (Inr x, s)"
    using locate_stands [OF at(1)] by (simp add: read_bytes_def run)
  ultimately show ?thesis
    using directory_again [OF at(2)] own_and_protect_again [of s p m ow "File x m ow"] at(1) assms(2)
    by (simp add: write_once_def run attributes_def)
qed

section \<open>A provisioned deployment\<close>

definition outputs :: "path \<Rightarrow> path list" where
  "outputs root = map (\<lambda>name. root @ [''service'', name])
     [''database-url'', ''signing.seed'', ''pairwise.secret'', ''receipt.secret'', ''bootstrap.token'']"

definition provisioned :: "files \<Rightarrow> path \<Rightarrow> owner \<Rightarrow> owner \<Rightarrow> string \<Rightarrow> bool" where
  "provisioned fs root service_owner postgres_owner host \<longleftrightarrow>
     stands fs root (Directory 0x1C0 service_owner)
     \<and> (\<exists>password. is_ascii password \<and> password \<noteq> []
          \<and> secret_at fs (root @ [''postgres'', ''postgres-password'']) password 0x120 postgres_owner
          \<and> secret_at fs (root @ [''service'', ''database-url'']) (encode (database_url password host)) 0x100 service_owner)
     \<and> (\<exists>seed. length seed = signing_seed_bytes
          \<and> secret_at fs (root @ [''service'', ''signing.seed'']) seed 0x100 service_owner)
     \<and> (\<forall>name \<in> {''pairwise.secret'', ''receipt.secret'', ''bootstrap.token''}.
          \<exists>v. minimum_secret_bytes \<le> length (strip v)
            \<and> secret_at fs (root @ [''service'', name]) v 0x100 service_owner)"

lemma secret_untouched:
  assumes "secret_at fs p x m ow" "only_touches {q, butlast q} fs fs'" "secret_at fs' q y m' ow'"
    "p \<notin> {q, butlast q}" "butlast p \<noteq> q" "butlast p = butlast q \<Longrightarrow> ow = ow'"
  shows "secret_at fs' p x m ow"
  using assms stands_untouched [OF _ assms(2)] unfolding secret_at_def
  by (cases "butlast p = butlast q") auto

text \<open>One more secret below the root.\<close>

lemma write_secret:
  assumes "stands (mch_files s) root (Directory 0x1C0 so)"
    and "\<And>x t. stands (mch_files t) root (Directory 0x1C0 so)
      \<Longrightarrow> only_touches {root @ [a, b], root @ [a]} (mch_files s) (mch_files t)
      \<Longrightarrow> secret_at (mch_files t) (root @ [a, b]) x m ow \<Longrightarrow> x = v \<or> x \<noteq> [] \<Longrightarrow> Q x t"
  shows "wp (write_once (root @ [a, b]) v ow m) Q anyerr s"
proof -
  have path: "butlast (root @ [a, b]) = root @ [a]" by (simp add: butlast_append)
  then have "wp (write_once (root @ [a, b]) v ow m) (\<lambda>x t. secret_at (mch_files t) (root @ [a, b]) x m ow \<and> (x = v \<or> x \<noteq> [])
     \<and> only_touches {root @ [a, b], root @ [a]} (mch_files s) (mch_files t)) anyerr s"
    using write_once_effect [of s "root @ [a, b]" v ow m] stands_straight [OF assms(1)] by simp
  then show ?thesis
    by (rule wp_mono) (use stands_untouched [OF assms(1)] in \<open>auto intro: assms(2)\<close>)
qed

text \<open>A secret that the next one leaves alone.\<close>

lemma secret_stays:
  assumes "secret_at fs' (root @ [c, d]) y m' ow'" "only_touches {root @ [c, d], root @ [c]} fs fs'"
    "secret_at fs (root @ [a, b]) x m ow" "(a, b) \<noteq> (c, d)" "a = c \<longrightarrow> ow = ow'"
  shows "secret_at fs' (root @ [a, b]) x m ow"
  by (rule secret_untouched [OF assms(3) _ assms(1)]) (use assms(2,4,5) in \<open>auto simp: butlast_append\<close>)

text \<open>The directory of the database's state, when there is one, lies outside of the secrets' root.\<close>

definition apart :: "files \<Rightarrow> path \<Rightarrow> path option \<Rightarrow> bool" where
  "apart fs given state_root \<longleftrightarrow> (\<forall>r root d. state_root = Some r
     \<longrightarrow> walk fs False max_links [] given = Inr root \<longrightarrow> walk fs False max_links [] r = Inr d
     \<longrightarrow> take (length root) (d @ [''database'']) \<noteq> root)"

text \<open>What is known after the two directories, and stays known while the secrets are written.\<close>

definition prepared :: "files \<Rightarrow> path \<Rightarrow> path \<Rightarrow> owner \<Rightarrow> owner \<Rightarrow> path option \<Rightarrow> files \<Rightarrow> bool" where
  "prepared fs given root so po state_root fs' \<longleftrightarrow>
     walk fs False max_links [] given = Inr root \<and> extends_files fs fs'
     \<and> stands fs' root (Directory 0x1C0 so)
     \<and> (\<forall>r. state_root = Some r \<longrightarrow> (\<exists>d. walk fs False max_links [] r = Inr d
          \<and> stands fs' (d @ [''database'']) (Directory 0x1C0 po)))"

lemma prepared_stays:
  assumes "prepared fs given root so po state_root fs'" "apart fs given state_root"
    "only_touches {root @ [a, b], root @ [a]} fs' fs''"
  shows "prepared fs given root so po state_root fs''"
proof -
  have "stands fs'' (d @ [''database'']) (Directory 0x1C0 po)"
    if "state_root = Some r" "walk fs False max_links [] r = Inr d"
      "stands fs' (d @ [''database'']) (Directory 0x1C0 po)" for r d
  proof -
    have "take (length root) (d @ [''database'']) \<noteq> root"
      using assms(1,2) that(1,2) unfolding apart_def prepared_def by blast
    then show ?thesis by (intro stands_untouched [OF that(3) assms(3)]) force
  qed
  moreover have "stands fs'' root (Directory 0x1C0 so)"
    using assms(1) unfolding prepared_def by (intro stands_untouched [OF _ assms(3)]) auto
  ultimately show ?thesis
    using assms(1) extends_trans [OF _ only_touches_extends [OF assms(3)]] unfolding prepared_def by blast
qed

lemma prepare_effect:
  assumes "walk (mch_files s) False max_links [] given = Inr root" "apart (mch_files s) given state_root"
  shows "wp (provision_directories root so po state_root)
    (\<lambda>_ t. prepared (mch_files s) given root so po state_root (mch_files t)) anyerr s"
unfolding provision_directories_def
proof (rule wp_bind_vc, rule wp_mono [OF directory_effect [OF straight_butlast [OF walk_loose [OF assms(1) straight_root]]]],
    elim conjE)
  fix t :: machine
  assume t: "stands (mch_files t) root (Directory 0x1C0 so)" "only_touches {root} (mch_files s) (mch_files t)"
  note ext = only_touches_extends [OF t(2)]
  show "wp (case state_root of None \<Rightarrow> ret ()
      | Some r \<Rightarrow> bind (resolve False r) (\<lambda>d. directory (d @ [''database'']) po))
    (\<lambda>_ t. prepared (mch_files s) given root so po state_root (mch_files t)) anyerr t"
  proof (cases state_root)
    case None
    with assms(1) t ext show ?thesis by (simp add: prepared_def wp)
  next
    case (Some r)
    have "wp (directory (d @ [''database'']) po) (\<lambda>_ t. prepared (mch_files s) given root so po state_root (mch_files t)) anyerr t"
      if d: "walk (mch_files t) False max_links [] r = Inr d" for d
    proof -
      have ds: "walk (mch_files s) False max_links [] r = Inr d" using d walk_loose_extends [OF ext] by simp
      with assms Some have "root \<noteq> d @ [''database'']" unfolding apart_def by force
      then show ?thesis
        using walk_loose [OF d] t(1) Some ds assms(1) extends_trans [OF ext only_touches_extends]
        by (intro wp_mono [OF directory_effect]) (auto simp: prepared_def intro: stands_untouched)
    qed
    with Some show ?thesis by (auto intro!: wp_bind_vc wp_resolve)
  qed
qed simp

text \<open>The five secrets below the root, each left alone by the ones that follow.\<close>

lemma secrets_effect:
  assumes "prepared fs given root so po state_root (mch_files s)" "apart fs given state_root"
    "encode (token_hex random 0 32) \<noteq> []"
  shows "wp (provision_secrets random root so po host)
     (\<lambda>outs t. outs = outputs root \<and> provisioned (mch_files t) root so po host
        \<and> prepared fs given root so po state_root (mch_files t)) anyerr s"
proof -
  let ?dir = "\<lambda>t. stands (mch_files t) root (Directory 0x1C0 so)"
  have last: "provisioned (mch_files t6) root so po host \<and> prepared fs given root so po state_root (mch_files t6)"
    if t1: "only_touches {root @ [''postgres'', ''postgres-password''], root @ [''postgres'']} (mch_files s) (mch_files t1)"
        "secret_at (mch_files t1) (root @ [''postgres'', ''postgres-password'']) pw 0x120 po" "pw = encode (token_hex random 0 32) \<or> pw \<noteq> []" "is_ascii pw"
      and t2: "only_touches {root @ [''service'', ''database-url''], root @ [''service'']} (mch_files t1) (mch_files t2)"
        "secret_at (mch_files t2) (root @ [''service'', ''database-url'']) (encode (database_url pw host)) 0x100 so"
      and t3: "only_touches {root @ [''service'', ''signing.seed''], root @ [''service'']} (mch_files t2) (mch_files t3)"
        "secret_at (mch_files t3) (root @ [''service'', ''signing.seed'']) seed 0x100 so" "length seed = signing_seed_bytes"
      and t4: "only_touches {root @ [''service'', ''pairwise.secret''], root @ [''service'']} (mch_files t3) (mch_files t4)"
        "secret_at (mch_files t4) (root @ [''service'', ''pairwise.secret'']) x4 0x100 so" "minimum_secret_bytes \<le> length (strip x4)"
      and t5: "only_touches {root @ [''service'', ''receipt.secret''], root @ [''service'']} (mch_files t4) (mch_files t5)"
        "secret_at (mch_files t5) (root @ [''service'', ''receipt.secret'']) x5 0x100 so" "minimum_secret_bytes \<le> length (strip x5)"
      and t6: "only_touches {root @ [''service'', ''bootstrap.token''], root @ [''service'']} (mch_files t5) (mch_files t6)"
        "secret_at (mch_files t6) (root @ [''service'', ''bootstrap.token'']) x6 0x100 so" "minimum_secret_bytes \<le> length (strip x6)"
    for t1 t2 t3 t4 t5 t6 :: machine and pw seed x4 x5 x6
  proof -
    note s2 = secret_stays [OF t2(2,1)] and s3 = secret_stays [OF t3(2,1)] and s4 = secret_stays [OF t4(2,1)]
      and s5 = secret_stays [OF t5(2,1)] and s6 = secret_stays [OF t6(2,1)]
    have "secret_at (mch_files t6) (root @ [''postgres'', ''postgres-password'']) pw 0x120 po"
      by (rule s6, rule s5, rule s4, rule s3, rule s2, rule t1) simp_all
    moreover have "secret_at (mch_files t6) (root @ [''service'', ''database-url'']) (encode (database_url pw host)) 0x100 so"
      by (rule s6, rule s5, rule s4, rule s3, rule t2) simp_all
    moreover have "secret_at (mch_files t6) (root @ [''service'', ''signing.seed'']) seed 0x100 so"
      by (rule s6, rule s5, rule s4, rule t3) simp_all
    moreover have "secret_at (mch_files t6) (root @ [''service'', ''pairwise.secret'']) x4 0x100 so"
      by (rule s6, rule s5, rule t4) simp_all
    moreover have "secret_at (mch_files t6) (root @ [''service'', ''receipt.secret'']) x5 0x100 so"
      by (rule s6, rule t5) simp_all
    moreover have "prepared fs given root so po state_root (mch_files t6)"
      by (intro prepared_stays [OF _ assms(2) t6(1)] prepared_stays [OF _ assms(2) t5(1)] prepared_stays [OF _ assms(2) t4(1)]
          prepared_stays [OF _ assms(2) t3(1)] prepared_stays [OF _ assms(2) t2(1)] prepared_stays [OF _ assms(2) t1(1)] assms(1))
    ultimately show ?thesis
      using t1(3,4) t3(3) t4(3) t5(3) t6(2,3) assms(3) unfolding provisioned_def prepared_def by blast
  qed
  have root: "?dir s" using assms(1) by (simp add: prepared_def)
  show ?thesis
    unfolding provision_secrets_def long_secret_def collect.simps Let_def split
    apply (intro vcg wp_lift_sum_vc write_secret [where so = so] TrueI)
    apply (assumption | rule root | (rule TrueI))+
    apply (clarsimp simp only: decode_ascii_def not_less not_not if_True if_False split: if_splits)
    apply (rule conjI, simp add: outputs_def)
    apply (rule last; assumption)
    done
qed

text \<open>What the file system holds after a run that returns.\<close>

lemma provision_effect:
  assumes "\<And>k n. length (random k n) = n" "apart (mch_files s) given state_root"
    "provision random given so po host state_root s = (Inr outs, t)"
  shows "\<exists>root. outs = outputs root \<and> provisioned (mch_files t) root so po host
    \<and> prepared (mch_files s) given root so po state_root (mch_files t)
    \<and> \<not> (host = [] \<or> list_ex isspace host)"
proof -
  have hex: "encode (token_hex random 0 32) \<noteq> []"
  proof -
    have "length (hexdigest (random 0 32)) = 64" using assms(1) [of 0 32] by simp
    then show ?thesis by (cases "hexdigest (random 0 32)")
        (auto simp: token_hex_def encode_def utf8_char_def Let_def)
  qed
  have "wp (provision random given so po host state_root) (\<lambda>outs t. \<exists>root. outs = outputs root
    \<and> provisioned (mch_files t) root so po host
    \<and> prepared (mch_files s) given root so po state_root (mch_files t)
    \<and> \<not> (host = [] \<or> list_ex isspace host)) anyerr s"
    unfolding provision_def
    by (intro vcg wp_resolve TrueI)
      (auto intro!: wp_mono [OF prepare_effect [OF _ assms(2)]] wp_mono [OF secrets_effect [OF _ assms(2) hex]])
  from wpD [OF this assms(3)] show ?thesis .
qed

lemma encode_Cons: "encode (c # t) \<noteq> []"
  by (simp add: encode_def utf8_char_def Let_def)

lemma encode_url: "encode (database_url password host) \<noteq> []"
  by (simp add: database_url_def encode_Cons)

lemma long_secret_again:
  assumes "secret_at (mch_files t) (root @ [''service'', name]) v 0x100 so" "minimum_secret_bytes \<le> length (strip v)"
  shows "long_secret random root so (k, name) t = (Inr (root @ [''service'', name]), t)"
proof -
  have "v \<noteq> []" using assms(2) by (auto simp: strip_def minimum_secret_bytes_def)
  with write_once_again [OF assms(1)] assms(2) show ?thesis by (simp add: long_secret_def run Let_def)
qed

text \<open>A second run, with other random bytes, finds everything and changes nothing.\<close>

lemma provision_again:
  assumes "provisioned (mch_files t) root so po host" "prepared fs given root so po state_root (mch_files t)"
    "\<not> (host = [] \<or> list_ex isspace host)"
  shows "provision random given so po host state_root t = (Inr (outputs root), t)"
proof -
  obtain pw seed v4 v5 v6 where root: "stands (mch_files t) root (Directory 0x1C0 so)"
    and pw: "is_ascii pw" "pw \<noteq> []" "secret_at (mch_files t) (root @ [''postgres'', ''postgres-password'']) pw 0x120 po"
    and url: "secret_at (mch_files t) (root @ [''service'', ''database-url'']) (encode (database_url pw host)) 0x100 so"
    and seed: "length seed = signing_seed_bytes" "secret_at (mch_files t) (root @ [''service'', ''signing.seed'']) seed 0x100 so"
    and v4: "secret_at (mch_files t) (root @ [''service'', ''pairwise.secret'']) v4 0x100 so" "minimum_secret_bytes \<le> length (strip v4)"
    and v5: "secret_at (mch_files t) (root @ [''service'', ''receipt.secret'']) v5 0x100 so" "minimum_secret_bytes \<le> length (strip v5)"
    and v6: "secret_at (mch_files t) (root @ [''service'', ''bootstrap.token'']) v6 0x100 so" "minimum_secret_bytes \<le> length (strip v6)"
    using assms(1) unfolding provisioned_def by blast
  have "seed \<noteq> []" using seed(1) by (auto simp: signing_seed_bytes_def)
  then have secrets: "provision_secrets random root so po host t = (Inr (outputs root), t)"
    unfolding provision_secrets_def
    by (simp add: run write_once_again [OF pw(3,2)] lift_sum_def decode_ascii_def pw(1) Let_def
        write_once_again [OF url encode_url] write_once_again [OF seed(2)] seed(1)
        long_secret_again [OF v4] long_secret_again [OF v5] long_secret_again [OF v6] outputs_def)
  have ext: "extends_files fs (mch_files t)" "walk fs False max_links [] given = Inr root"
    using assms(2) by (auto simp: prepared_def)
  have directories: "provision_directories root so po state_root t = (Inr (), t)"
  proof (cases state_root)
    case None
    with directory_again [OF root] show ?thesis by (simp add: provision_directories_def run)
  next
    case (Some r)
    then obtain d where d: "walk fs False max_links [] r = Inr d"
      "stands (mch_files t) (d @ [''database'']) (Directory 0x1C0 po)"
      using assms(2) by (auto simp: prepared_def)
    then show ?thesis
      using directory_again [OF root] directory_again [OF d(2)] Some walk_loose_extends [OF ext(1), of False]
      by (simp add: provision_directories_def run resolve_def lift_sum_def)
  qed
  show ?thesis
    unfolding provision_def
    using assms(3) secrets directories ext walk_loose_extends [OF ext(1), of False]
    by (simp add: run resolve_def lift_sum_def)
qed

end
