(* ===== verification/Durable.thy ===== *)
theory Durable
  imports Snapshot
begin

text \<open>
  The durable service (\<open>src/kyn/persistence.py\<close>): one state row and a table of commands, changed by
  transactions that load the core, run one transition and store snapshot and result together. The
  database is PostgreSQL's and SQLAlchemy's; what the source declares of it is modelled: the two
  tables, the unique receipt, and that a transaction which raises leaves nothing behind. Commands
  are taken one after the other, as the row lock orders them.
\<close>

section \<open>Tables\<close>

record state_row =
  st_version :: int
  st_snapshot :: snapshot
  st_updated_at :: time

record command_row =
  row_operation :: string
  row_actor_reference :: string
  row_request_digest :: string
  row_receipt_id :: string
  row_result_records :: "(string \<times> json) list list"
  row_response_payload :: "(string \<times> json) list option"
  row_occurred_at :: time

record database =
  db_state :: "state_row option"
  db_commands :: "(string, command_row) dict"

definition empty_database :: database where
  "empty_database = \<lparr>db_state = None, db_commands = []\<rparr>"

record transition_result =
  tr_records :: "trust_record list"
  tr_receipt :: receipt
  tr_response_payload :: "(string \<times> json) list option"

record execution_result =
  er_records :: "trust_record list"
  er_receipt :: receipt
  er_replayed :: bool
  er_response_payload :: "(string \<times> json) list option"

section \<open>Execution\<close>

text \<open>\<open>async with session.begin()\<close>: a block that raises is rolled back.\<close>

definition transaction :: "('d, 'a) prog \<Rightarrow> ('d, 'a) prog" where
  "transaction m = (\<lambda>db. case m db of (Inl er, _) \<Rightarrow> (Inl er, db) | (Inr x, db') \<Rightarrow> (Inr x, db'))"

text \<open>Running a call on a core that lives in memory only.\<close>

definition on_core :: "core \<Rightarrow> 'a action \<Rightarrow> (database, 'a \<times> core) prog" where
  "on_core c m = (\<lambda>db. case m c of (Inl er, _) \<Rightarrow> (Inl er, db) | (Inr x, c') \<Rightarrow> (Inr (x, c'), db))"

definition core_of_row :: "env \<Rightarrow> state_row option \<Rightarrow> (database, core) prog" where
  "core_of_row e state =
     (case state of None \<Rightarrow> ret new_core
      | Some row \<Rightarrow> bind (on_core new_core (restore_snapshot e (st_snapshot row))) (\<lambda>(_, c). ret c))"

definition load_core :: "env \<Rightarrow> (database, core) prog" where
  "load_core e = bind (gets db_state) (core_of_row e)"

definition request_digest :: "env \<Rightarrow> (string \<times> json) list \<Rightarrow> string" where
  "request_digest e payload = ''sha256:'' @ hexdigest (env_sha256 e (canonical_json payload))"

text \<open>The stored result of a command that was executed before.\<close>

definition replay :: "command_row \<Rightarrow> (database, execution_result) prog" where
  "replay row =
     bind (lift_sum (traverse from_record (row_result_records row))) (\<lambda>records.
     (case rev records of
        RReceipt r # rest \<Rightarrow>
          ret \<lparr>er_records = rev rest, er_receipt = r, er_replayed = True,
               er_response_payload = row_response_payload row\<rparr>
      | _ \<Rightarrow> raise (DurableStateError ''stored command result has no receipt'')))"

text \<open>\<open>session.add\<close> of a command, with the unique column of its table.\<close>

definition insert_command :: "string \<Rightarrow> command_row \<Rightarrow> (database, unit) prog" where
  "insert_command command_id row =
     bind (gets (\<lambda>db. list_ex (\<lambda>other. row_receipt_id other = row_receipt_id row) (dvals (db_commands db)))) (\<lambda>taken.
     if taken then raise (IntegrityError ''receipt_id'')
     else modify (\<lambda>db. db\<lparr>db_commands := dput command_id row (db_commands db)\<rparr>))"

definition store_state :: "time \<Rightarrow> snapshot \<Rightarrow> (database, unit) prog" where
  "store_state wall snap = modify (\<lambda>db. db\<lparr>db_state := Some
     (case db_state db of
        None \<Rightarrow> \<lparr>st_version = 1, st_snapshot = snap, st_updated_at = wall\<rparr>
      | Some row \<Rightarrow> row\<lparr>st_version := st_version row + 1, st_snapshot := snap, st_updated_at := wall\<rparr>)\<rparr>)"

definition execute ::
  "iteration \<Rightarrow> env \<Rightarrow> time \<Rightarrow> string \<Rightarrow> string \<Rightarrow> string \<Rightarrow> (string \<times> json) list \<Rightarrow> transition_result action
   \<Rightarrow> (database, execution_result) prog" where
  "execute it e wall command_id operation actor_reference payload transition =
     transaction (
       bind (gets db_commands) (\<lambda>commands.
       (case dget commands command_id of
          Some existing \<Rightarrow>
            if row_request_digest existing \<noteq> request_digest e payload \<or> row_operation existing \<noteq> operation
            then raise (DurableStateError ''command identifier was reused for different input'')
            else replay existing
        | None \<Rightarrow>
            bind (load_core e) (\<lambda>c.
            bind (on_core c transition) (\<lambda>(r, c').
            let serialized = map (to_record it) (tr_records r @ [RReceipt (tr_receipt r)]) in
            bind (store_state wall (export_snapshot it e c')) (\<lambda>_.
            bind (insert_command command_id
              \<lparr>row_operation = operation, row_actor_reference = actor_reference,
               row_request_digest = request_digest e payload,
               row_receipt_id = rcp_receipt_id (tr_receipt r), row_result_records = serialized,
               row_response_payload = tr_response_payload r,
               row_occurred_at = rcp_occurred_at (tr_receipt r)\<rparr>) (\<lambda>_.
            ret \<lparr>er_records = tr_records r, er_receipt = tr_receipt r, er_replayed = False,
                 er_response_payload = tr_response_payload r\<rparr>)))))))"

section \<open>Transactions\<close>

text \<open>A command that raises leaves the database as it was.\<close>

lemma transaction_rollback: "transaction m db = (Inl er, db') \<Longrightarrow> db' = db"
  by (auto simp: transaction_def split: prod.splits sum.splits)

lemma execute_rollback: "execute it e wall i op actor payload tr db = (Inl er, db') \<Longrightarrow> db' = db"
  unfolding execute_def by (rule transaction_rollback)

text \<open>\<open>load_core\<close> only reads.\<close>

lemma on_core_reads: "snd (on_core c m db) = db"
  by (simp add: on_core_def split: prod.split sum.split)

lemma load_core_reads: "snd (load_core e db) = db"
proof -
  have "snd (core_of_row e row db) = db" for row
    using on_core_reads [of new_core _ db]
    by (simp add: core_of_row_def ret_def bind_def on_core_def split: option.split prod.split sum.split)
  then show ?thesis by (simp add: load_core_def bind_def gets_def)
qed

section \<open>What the database stands for\<close>

definition storable_core :: "core \<Rightarrow> bool" where
  "storable_core s \<longleftrightarrow> (\<forall>r \<in> set (snapshot_records s). storable r)"

definition storable_result :: "transition_result \<Rightarrow> bool" where
  "storable_result r \<longleftrightarrow> (\<forall>x \<in> set (tr_records r). storable x) \<and> storable (RReceipt (tr_receipt r))"

text \<open>
  The core that a database holds: no row is the new core, and a row holds a snapshot, in whatever
  order the process that wrote it iterated its sets. Its clock was not read yet.
\<close>

definition represents :: "env \<Rightarrow> database \<Rightarrow> core \<Rightarrow> bool" where
  "represents e db s \<longleftrightarrow> identifiers_ok s \<and> storable_core s \<and> clock_reads s = 0 \<and>
     (case db_state db of None \<Rightarrow> s = new_core
      | Some row \<Rightarrow> \<exists>it. iterates it \<and> st_snapshot row = export_snapshot it e s)"

lemma load_core_represents:
  assumes "represents e db s"
  shows "load_core e db = (Inr s, db)"
proof (cases "db_state db")
  case None
  with assms show ?thesis
    by (simp add: load_core_def core_of_row_def represents_def bind_def gets_def ret_def)
next
  case (Some row)
  with assms obtain it where it: "iterates it" "st_snapshot row = export_snapshot it e s"
    and ok: "identifiers_ok s" "storable_core s" and c: "clock_reads s = 0"
    by (auto simp: represents_def)
  have "restore_snapshot e (st_snapshot row) (new_core\<lparr>clock_reads := 0\<rparr>) = (Inr (), s\<lparr>clock_reads := 0\<rparr>)"
    unfolding it(2) using ok by (intro restore_export it(1)) (auto simp: storable_core_def)
  moreover have "new_core\<lparr>clock_reads := 0\<rparr> = new_core" "s\<lparr>clock_reads := 0\<rparr> = s"
    using c by (simp_all add: new_core_def)
  ultimately show ?thesis
    by (simp add: load_core_def core_of_row_def Some bind_def gets_def ret_def on_core_def)
qed

section \<open>Executing a command\<close>

definition result_row :: "iteration \<Rightarrow> env \<Rightarrow> string \<Rightarrow> string \<Rightarrow> (string \<times> json) list \<Rightarrow> transition_result \<Rightarrow> command_row" where
  "result_row it e operation actor payload r =
     \<lparr>row_operation = operation, row_actor_reference = actor, row_request_digest = request_digest e payload,
      row_receipt_id = rcp_receipt_id (tr_receipt r),
      row_result_records = map (to_record it) (tr_records r @ [RReceipt (tr_receipt r)]),
      row_response_payload = tr_response_payload r, row_occurred_at = rcp_occurred_at (tr_receipt r)\<rparr>"

definition result_of :: "bool \<Rightarrow> transition_result \<Rightarrow> execution_result" where
  "result_of replayed r = \<lparr>er_records = tr_records r, er_receipt = tr_receipt r, er_replayed = replayed,
     er_response_payload = tr_response_payload r\<rparr>"

definition stored :: "time \<Rightarrow> snapshot \<Rightarrow> string \<Rightarrow> command_row \<Rightarrow> database \<Rightarrow> database" where
  "stored wall snap i row db = (snd (store_state wall snap db))\<lparr>db_commands := dput i row (db_commands db)\<rparr>"

definition receipt_taken :: "database \<Rightarrow> string \<Rightarrow> bool" where
  "receipt_taken db i \<longleftrightarrow> list_ex (\<lambda>row. row_receipt_id row = i) (dvals (db_commands db))"

text \<open>The transition runs on the core that the database represents.\<close>

lemma execute_new:
  assumes "represents e db s" "dget (db_commands db) i = None"
  shows "execute it e wall i op actor payload tr db =
    (case tr s of
       (Inl er, _) \<Rightarrow> (Inl er, db)
     | (Inr r, c) \<Rightarrow>
         if receipt_taken db (rcp_receipt_id (tr_receipt r)) then (Inl (IntegrityError ''receipt_id''), db)
         else (Inr (result_of False r),
               stored wall (export_snapshot it e c) i (result_row it e op actor payload r) db))"
  by (simp add: execute_def transaction_def bind_def gets_def assms(2) load_core_represents [OF assms(1)]
      on_core_def store_state_def insert_command_def modify_def raise_def ret_def Let_def receipt_taken_def
      stored_def result_row_def result_of_def split: prod.split sum.split)

lemma execute_known:
  assumes "dget (db_commands db) i = Some row"
  shows "execute it e wall i op actor payload tr db =
    (if row_request_digest row \<noteq> request_digest e payload \<or> row_operation row \<noteq> op
     then (Inl (DurableStateError ''command identifier was reused for different input''), db)
     else transaction (replay row) db)"
  by (simp add: execute_def transaction_def bind_def gets_def assms raise_def)

text \<open>A stored result is read back as it was returned.\<close>

lemma read_results:
  assumes "iterates it" "\<forall>r \<in> set rs. storable r"
  shows "traverse from_record (map (to_record it) rs) = Inr rs"
  using assms traverse_map [of rs from_record "to_record it" "\<lambda>r. r"] by (simp add: from_record_to_record)

lemma replay_result:
  assumes "iterates it" "storable_result r"
  shows "replay (result_row it e op actor payload r) db = (Inr (result_of True r), db)"
proof -
  have "traverse from_record (map (to_record it) (tr_records r @ [RReceipt (tr_receipt r)]))
      = Inr (tr_records r @ [RReceipt (tr_receipt r)])"
    using assms by (intro read_results) (auto simp: storable_result_def)
  then show ?thesis
    by (simp add: replay_def result_row_def lift_sum_def result_of_def bind_def ret_def)
qed

lemma execute_again:
  assumes "dget (db_commands db) i = Some (result_row it' e op actor' payload r)" "iterates it'" "storable_result r"
  shows "execute it e wall i op actor payload tr db = (Inr (result_of True r), db)"
  unfolding execute_known [OF assms(1)]
  using replay_result [OF assms(2,3), of e op actor' payload db]
  by (simp add: transaction_def) (simp add: result_row_def)

section \<open>What the service has stored\<close>

text \<open>
  The databases that commands lead to. A transition leaves the core in a reachable state, which every
  composition of calls does, and what it stores are values that Python has; each command comes with
  its own clock, wall time and iteration order.
\<close>

inductive durable :: "env \<Rightarrow> database \<Rightarrow> bool" for e where
  created: "durable e empty_database"
| executed: "durable e db \<Longrightarrow> iterates it
    \<Longrightarrow> keeps tr (reachable e)
    \<Longrightarrow> (\<And>s r t. represents e db s \<Longrightarrow> tr s = (Inr r, t) \<Longrightarrow> storable_core t \<and> storable_result r)
    \<Longrightarrow> durable e (snd (execute it (e\<lparr>env_clock := clock\<rparr>) wall i op actor payload tr db))"

text \<open>Every row holds the result of the command it records, under a receipt of its own.\<close>

definition rows_ok :: "env \<Rightarrow> database \<Rightarrow> bool" where
  "rows_ok e db \<longleftrightarrow> distinct (dkeys (db_commands db)) \<and> distinct (map row_receipt_id (dvals (db_commands db)))
     \<and> (\<forall>i row. dget (db_commands db) i = Some row \<longrightarrow>
          (\<exists>it op actor payload r. iterates it \<and> storable_result r \<and> row = result_row it e op actor payload r))"

definition versions_ok :: "database \<Rightarrow> bool" where
  "versions_ok db \<longleftrightarrow> (case db_state db of None \<Rightarrow> db_commands db = []
     | Some row \<Rightarrow> st_version row = int (length (db_commands db)) \<and> db_commands db \<noteq> [])"

lemma clock_free:
  "represents (e\<lparr>env_clock := k\<rparr>) db s = represents e db s"
  "result_row it (e\<lparr>env_clock := k\<rparr>) op actor payload r = result_row it e op actor payload r"
  "request_digest (e\<lparr>env_clock := k\<rparr>) payload = request_digest e payload"
  by (simp_all add: represents_def export_snapshot_def result_row_def request_digest_def split: option.split)

text \<open>A call that fails before it reads the clock shows that the clock can be set back.\<close>

lemma reachable_reset:
  assumes "reachable e s"
  shows "reachable e (s\<lparr>clock_reads := n\<rparr>)"
proof -
  have "finite (set (dkeys (credentials s)))" by simp
  then obtain i where "i \<notin> set (dkeys (credentials s))"
    using ex_new_if_finite [OF infinite_UNIV_listI] by metis
  then have "dget (credentials s) i = None" by (rule dget_fresh [THEN iffD2])
  then have "exec e (Credential_Status_By_Id i) (s\<lparr>clock_reads := n\<rparr>)
      = (Inl (TrustCoreError ''credential is unknown''), s\<lparr>clock_reads := n\<rparr>)"
    by (simp add: call_def credential_status_by_id_def bind_def gets_def fetch_def raise_def)
  then show ?thesis
    using reachable.called [OF assms, of "env_clock e" "Credential_Status_By_Id i" n] by simp
qed

lemma stored_represents:
  assumes "iterates it" "identifiers_ok t" "storable_core t"
  shows "represents e (stored wall (export_snapshot it e t) i row db) (t\<lparr>clock_reads := 0\<rparr>)"
proof -
  have "identifiers_ok (t\<lparr>clock_reads := 0\<rparr>)"
    using assms(2) by (simp add: identifiers_ok_def kept_def claims_ok_def index_ok_def)
  moreover have "snapshot_records (t\<lparr>clock_reads := 0\<rparr>) = snapshot_records t" by (simp add: snapshot_records_def)
  moreover from this have "export_snapshot it e (t\<lparr>clock_reads := 0\<rparr>) = export_snapshot it e t"
    by (simp add: export_snapshot_def)
  ultimately show ?thesis
    using assms(1,3)
    by (auto simp: represents_def storable_core_def stored_def store_state_def modify_def split: option.split)
qed

lemma stored_rows:
  assumes "rows_ok e db" "dget (db_commands db) i = None" "\<not> receipt_taken db (rcp_receipt_id (tr_receipt r))"
    "iterates it" "storable_result r"
  shows "rows_ok e (stored wall snap i (result_row it e op actor payload r) db)"
proof -
  let ?row = "result_row it e op actor payload r"
  have put: "dput i ?row (db_commands db) = db_commands db @ [(i, ?row)]"
    using assms(2) by (intro dput_fresh) (simp add: dget_fresh)
  have fresh: "row_receipt_id ?row \<notin> set (map row_receipt_id (dvals (db_commands db)))"
    using assms(3) by (auto simp: receipt_taken_def list_ex_iff result_row_def)
  have i: "i \<notin> set (dkeys (db_commands db))" by (rule dget_fresh [THEN iffD1, OF assms(2)])
  show ?thesis
    unfolding rows_ok_def
  proof (intro conjI allI impI)
    show "distinct (dkeys (db_commands (stored wall snap i ?row db)))"
      using assms(1) i by (simp add: rows_ok_def stored_def put)
    show "distinct (map row_receipt_id (dvals (db_commands (stored wall snap i ?row db))))"
      using assms(1) fresh by (simp add: rows_ok_def stored_def put)
    show "\<exists>it op actor payload r. iterates it \<and> storable_result r \<and> row = result_row it e op actor payload r"
      if "dget (db_commands (stored wall snap i ?row db)) j = Some row" for j row
    proof (cases "j = i")
      case True
      with that have "row = ?row" by (simp add: stored_def dict)
      with assms(4,5) show ?thesis by blast
    next
      case False
      with that have "dget (db_commands db) j = Some row" by (simp add: stored_def dict)
      with assms(1) show ?thesis by (simp add: rows_ok_def)
    qed
  qed
qed

lemma stored_versions:
  assumes "versions_ok db" "dget (db_commands db) i = None"
  shows "versions_ok (stored wall snap i row db)"
proof -
  have "dput i row (db_commands db) = db_commands db @ [(i, row)]"
    using assms(2) by (intro dput_fresh) (simp add: dget_fresh)
  with assms(1) show ?thesis
    by (simp add: versions_ok_def stored_def store_state_def modify_def split: option.splits)
qed

text \<open>One command, seen from outside.\<close>

lemma execute_cases:
  assumes "represents e db s" "rows_ok e db"
    and run: "execute it (e\<lparr>env_clock := k\<rparr>) wall i op actor payload tr db = (x, db')"
  obtains (unchanged) "db' = db"
  | (stored) r t where "tr s = (Inr r, t)" "x = Inr (result_of False r)" "dget (db_commands db) i = None"
      "\<not> receipt_taken db (rcp_receipt_id (tr_receipt r))"
      "db' = stored wall (export_snapshot it e t) i (result_row it e op actor payload r) db"
proof (cases "dget (db_commands db) i")
  case None
  have rep: "represents (e\<lparr>env_clock := k\<rparr>) db s" using assms(1) by (simp add: clock_free)
  have "export_snapshot it (e\<lparr>env_clock := k\<rparr>) t = export_snapshot it e t" for t
    by (simp add: export_snapshot_def)
  with run None that show thesis
    unfolding execute_new [OF rep None] by (auto simp: clock_free split: prod.splits sum.splits if_splits)
next
  case (Some row)
  with assms(2) have "\<exists>it op actor payload r. iterates it \<and> storable_result r \<and> row = result_row it e op actor payload r"
    unfolding rows_ok_def by blast
  then obtain it' op' actor' payload' r where
    row: "iterates it'" "storable_result r" "row = result_row it' e op' actor' payload' r" by blast
  then have "transaction (replay row) db = (Inr (result_of True r), db)"
    by (simp add: transaction_def replay_result)
  with run have "db' = db" unfolding execute_known [OF Some] by (auto split: if_splits)
  then show thesis by (rule unchanged)
qed

theorem durable_represents:
  assumes "durable e db"
  shows "(\<exists>s. reachable e s \<and> represents e db s) \<and> rows_ok e db \<and> versions_ok db"
  using assms
proof induction
  case created
  have "represents e empty_database new_core"
    using identifiers_reachable [OF reachable.fresh [of e]]
    by (simp add: represents_def empty_database_def storable_core_def snapshot_records_def new_core_def)
  then show ?case
    by (auto simp: rows_ok_def versions_ok_def empty_database_def intro: reachable.fresh)
next
  case (executed db it tr clock wall i op actor payload)
  then obtain s where s: "reachable e s" "represents e db s" and rows: "rows_ok e db" and vs: "versions_ok db" by blast
  obtain x db' where run: "execute it (e\<lparr>env_clock := clock\<rparr>) wall i op actor payload tr db = (x, db')"
    by (cases "execute it (e\<lparr>env_clock := clock\<rparr>) wall i op actor payload tr db")
  from s(2) rows run show ?case
  proof (cases rule: execute_cases)
    case unchanged
    with s rows vs run show ?thesis by auto
  next
    case (stored r t)
    from executed.hyps(4) [OF s(2) stored(1)] have t: "reachable e t" "storable_core t" "storable_result r"
      using keepsD [OF executed.hyps(3) s(1)] stored(1) by simp_all
    have "reachable e (t\<lparr>clock_reads := 0\<rparr>)"
      by (rule reachable_reset [OF t(1)])
    moreover have "represents e db' (t\<lparr>clock_reads := 0\<rparr>)"
      unfolding stored(5) using executed.hyps(2) t identifiers_reachable [OF t(1)] by (intro stored_represents)
    moreover have "rows_ok e db'"
      unfolding stored(5) using rows stored t executed.hyps(2) by (intro stored_rows)
    moreover have "versions_ok db'" unfolding stored(5) using vs stored(3) by (rule stored_versions)
    ultimately show ?thesis using run by auto
  qed
qed

end
