(* ===== verification/CanonicalJson.thy ===== *)
theory CanonicalJson
  imports Encoding
begin

text \<open>
  The canonical JSON of \<open>src/kyn/crypto.py\<close> is unambiguous: from the text the value can be read back,
  up to the order of keys. Signatures and digests over the text therefore speak about the value.
\<close>

section \<open>Reading characters and strings\<close>

definition hex_value :: "char \<Rightarrow> nat" where
  "hex_value c = (let n = of_char c :: nat in if n \<le> 57 then n - 48 else n - 87)"

lemma hex_value_char: "n < 16 \<Longrightarrow> hex_value (hex_char n) = n"
proof -
  assume n: "n < 16"
  have digits: "map hex_value ''0123456789abcdef'' = [0..<16]"
    by (simp add: hex_value_def upt_rec_numeral upt_conv_Cons)
  have "hex_value (hex_char n) = map hex_value ''0123456789abcdef'' ! n"
    unfolding hex_char_def using n by (subst nth_map) simp_all
  also have "\<dots> = n" unfolding digits using n by (subst nth_upt) simp_all
  finally show "hex_value (hex_char n) = n" .
qed

text \<open>One character of a JSON string and the rest of the text.\<close>

definition read_char :: "string \<Rightarrow> char \<times> string" where
  "read_char t =
     (if hd t \<noteq> CHR 92 then (hd t, tl t)
      else let c = t ! 1 in
        if c = CHR ''n'' then (CHR 10, drop 2 t)
        else if c = CHR ''r'' then (CHR 13, drop 2 t)
        else if c = CHR ''t'' then (CHR 9, drop 2 t)
        else if c = CHR ''f'' then (CHR 12, drop 2 t)
        else if c = CHR ''b'' then (CHR 8, drop 2 t)
        else if c = CHR ''u'' then (char_of (16 * hex_value (t ! 4) + hex_value (t ! 5)), drop 6 t)
        else (c, drop 2 t))"

lemma char_of_code: "of_char c = (n :: nat) \<Longrightarrow> c = char_of n"
  by auto

lemma read_escaped: "read_char (json_escape_char c @ r) = (c, r)"
proof -
  define n where "n = (of_char c :: nat)"
  have c: "c = char_of n" and n: "n < 256" by (simp_all add: n_def)
  have hex: "16 * hex_value (hex_char (n div 16)) + hex_value (hex_char n) = n"
  proof -
    have "hex_char n = hex_char (n mod 16)" by (simp add: hex_char_def)
    moreover have "n div 16 < 16" using n by (simp add: less_mult_imp_div_less)
    ultimately show ?thesis by (simp add: hex_value_char)
  qed
  consider "n = 34" | "n = 92" | "n = 10" | "n = 13" | "n = 9" | "n = 12" | "n = 8"
    | "32 \<le> n \<and> n < 127 \<and> n \<noteq> 34 \<and> n \<noteq> 92"
    | "n \<notin> {34, 92, 10, 13, 9, 12, 8} \<and> \<not> (32 \<le> n \<and> n < 127)" by blast
  then show ?thesis
  proof cases
    case 8
    then have "c \<noteq> CHR 92" by (auto simp: n_def)
    with 8 show ?thesis by (simp add: json_escape_char_def read_char_def n_def [symmetric])
  next
    case 9
    then have "json_escape_char c = CHR 92 # ''u00'' @ [hex_char (n div 16), hex_char n]"
      by (simp add: json_escape_char_def n_def [symmetric])
    then have "read_char (json_escape_char c @ r) = (char_of (16 * hex_value (hex_char (n div 16)) + hex_value (hex_char n)), r)"
      by (simp add: read_char_def)
    then show ?thesis unfolding hex c .
  qed (simp_all add: json_escape_char_def read_char_def n_def [symmetric] c char_of_def bit_iff_odd)
qed

lemma escape_no_quote: "\<exists>x xs. json_escape_char c = x # xs \<and> x \<noteq> CHR 34"
  by (auto simp: json_escape_char_def Let_def)

lemma escaped_not_end: "concat (map json_escape_char (c # t)) @ q \<noteq> CHR 34 # r"
proof -
  obtain x xs where "json_escape_char c = x # xs" "x \<noteq> CHR 34" using escape_no_quote by blast
  then show ?thesis by simp
qed

lemma escaped_unique:
  assumes "concat (map json_escape_char t) @ CHR 34 # r = concat (map json_escape_char t') @ CHR 34 # r'"
  shows "t = t' \<and> r = r'"
  using assms
proof (induction t arbitrary: t')
  case Nil
  show ?case
  proof (cases t')
    case Nil
    with Nil.prems show ?thesis by simp
  next
    case (Cons c u)
    with Nil.prems escaped_not_end [of c u "CHR 34 # r'" r] show ?thesis by simp
  qed
next
  case (Cons c t)
  show ?case
  proof (cases t')
    case Nil
    with Cons.prems escaped_not_end [of c t "CHR 34 # r" r'] show ?thesis by simp
  next
    case (Cons c' u)
    let ?a = "concat (map json_escape_char t) @ CHR 34 # r" and ?b = "concat (map json_escape_char u) @ CHR 34 # r'"
    have "json_escape_char c @ ?a = json_escape_char c' @ ?b" using Cons.prems \<open>t' = c' # u\<close> by simp
    then have "(c, ?a) = (c', ?b)" using read_escaped [of c ?a] read_escaped [of c' ?b] by metis
    then show ?thesis using Cons.IH [of u] \<open>t' = c' # u\<close> by simp
  qed
qed

lemma json_string_unique: "json_string t @ r = json_string t' @ r' \<Longrightarrow> t = t' \<and> r = r'"
  by (rule escaped_unique) (simp add: json_string_def)

lemma json_string_inj: "json_string t = json_string t' \<longleftrightarrow> t = t'"
  using json_string_unique [of t "[]" t' "[]"] by auto

section \<open>Reading numbers\<close>

definition digit_code :: "char \<Rightarrow> bool" where
  "digit_code c \<longleftrightarrow> 48 \<le> (of_char c :: nat) \<and> (of_char c :: nat) \<le> 57"

lemma digit_code_digit: "d < 10 \<Longrightarrow> digit_code (digit_char d)"
  by (simp add: digit_code_def)

lemma decimal_codes: "list_all digit_code (decimal n)"
proof (induction n rule: decimal.induct)
  case (1 n)
  then show ?case by (subst decimal.simps) (simp add: digit_code_digit)
qed

lemma decimal_nonempty: "decimal n \<noteq> []"
  by (subst decimal.simps) simp

text \<open>What may follow a value.\<close>

definition delimited :: "string \<Rightarrow> bool" where
  "delimited r \<longleftrightarrow> r = [] \<or> hd r \<in> {CHR '','', CHR '']'', CHR ''}''}"

lemma delimited_not_digit: "delimited r \<Longrightarrow> takeWhile digit_code r = []"
  by (cases r) (auto simp: delimited_def digit_code_def)

lemma decimal_unique:
  assumes "decimal m @ r = decimal n @ r'" "delimited r" "delimited r'"
  shows "m = n \<and> r = r'"
proof -
  have "takeWhile digit_code (decimal k @ q) = decimal k" if "delimited q" for k q
    using decimal_codes [of k] delimited_not_digit [OF that]
    by (subst takeWhile_append2) (auto simp: list_all_iff)
  with assms have "decimal m = decimal n" by metis
  then have "m = n" using decimal_value_decimal by metis
  with assms(1) show ?thesis by simp
qed

lemma hd_decimal: "digit_code (hd (decimal n))"
  using decimal_codes [of n] decimal_nonempty [of n] by (cases "decimal n") auto

lemma decimal_no_minus: "decimal k @ q \<noteq> CHR ''-'' # u"
proof
  assume "decimal k @ q = CHR ''-'' # u"
  then have "hd (decimal k) = CHR ''-''" using decimal_nonempty [of k] by (metis hd_append2 list.sel(1))
  with hd_decimal [of k] show False by (simp add: digit_code_def)
qed

lemma int_text_unique:
  assumes "int_text m @ r = int_text n @ r'" "delimited r" "delimited r'"
  shows "m = n \<and> r = r'"
proof (cases "m < 0"; cases "n < 0")
  assume "m < 0" "n < 0"
  with assms decimal_unique [OF _ assms(2,3), of "nat (- m)" "nat (- n)"] show ?thesis
    by (simp add: int_text_def eq_nat_nat_iff)
next
  assume "m < 0" "\<not> n < 0"
  with assms(1) decimal_no_minus [of "nat n" r'] show ?thesis by (simp add: int_text_def) (metis)
next
  assume "\<not> m < 0" "n < 0"
  with assms(1) decimal_no_minus [of "nat m" r] show ?thesis by (simp add: int_text_def)
next
  assume "\<not> m < 0" "\<not> n < 0"
  with assms decimal_unique [OF _ assms(2,3), of "nat m" "nat n"] show ?thesis
    by (simp add: int_text_def eq_nat_nat_iff)
qed

section \<open>Reading values\<close>

text \<open>A value up to the order of the keys of its objects.\<close>

fun canon :: "json \<Rightarrow> json" where
  "canon (JObject kvs) = JObject (sort_key fst (map (\<lambda>(k, v). (k, canon v)) kvs))"
| "canon (JList xs) = JList (map canon xs)"
| "canon j = j"

text \<open>The first character of a text tells what kind of value it is of.\<close>

fun json_kind :: "json \<Rightarrow> nat" where
  "json_kind JNull = 0" | "json_kind (JBool b) = 1" | "json_kind (JInt n) = 2" | "json_kind (JStr t) = 3"
| "json_kind (JList xs) = 4" | "json_kind (JObject kvs) = 5"

definition json_kind_of_char :: "char \<Rightarrow> nat" where
  "json_kind_of_char c =
     (if c = CHR ''n'' then 0 else if c = CHR ''t'' \<or> c = CHR ''f'' then 1
      else if c = CHR 34 then 3 else if c = CHR ''['' then 4 else if c = CHR ''{'' then 5 else 2)"

lemma kind_of_number: "digit_code c \<or> c = CHR ''-'' \<Longrightarrow> json_kind_of_char c = 2"
  by (auto simp: json_kind_of_char_def digit_code_def)

lemma dumps_start: "\<exists>c u. json_dumps j = c # u \<and> json_kind_of_char c = json_kind j \<and> c \<notin> {CHR '','', CHR '']'', CHR ''}''}"
proof (cases j)
  case (JInt n)
  have "\<exists>c u. int_text n = c # u \<and> (digit_code c \<or> c = CHR ''-'')"
  proof (cases "n < 0")
    case False
    then show ?thesis
      using hd_decimal [of "nat n"] decimal_nonempty [of "nat n"] by (cases "decimal (nat n)") (auto simp: int_text_def)
  qed (simp add: int_text_def)
  then obtain c u where c: "int_text n = c # u" "digit_code c \<or> c = CHR ''-''" by blast
  have "c \<notin> {CHR '','', CHR '']'', CHR ''}''}" using c(2) by (auto simp: digit_code_def)
  with c kind_of_number show ?thesis by (simp add: JInt)
qed (simp_all add: json_kind_of_char_def json_string_def)

text \<open>Items separated by commas up to the closing bracket.\<close>

lemma join_Cons: "join sep (x # xs) = x @ concat (map (\<lambda>y. sep @ y) xs)"
  by (induction xs arbitrary: x) simp_all

definition rest_items :: "('a \<Rightarrow> string) \<Rightarrow> 'a list \<Rightarrow> char \<Rightarrow> string \<Rightarrow> string" where
  "rest_items item xs close r = concat (map (\<lambda>x. CHR '','' # item x) xs) @ close # r"

lemma rest_items_simps:
  "rest_items item [] close r = close # r"
  "rest_items item (x # xs) close r = CHR '','' # item x @ rest_items item xs close r"
  by (simp_all add: rest_items_def)

lemma rest_items_delimited: "close \<in> {CHR '']'', CHR ''}''} \<Longrightarrow> delimited (rest_items item xs close r)"
  by (cases xs) (auto simp: rest_items_simps delimited_def)

lemma rest_items_unique:
  assumes "rest_items item xs close r = rest_items item ys close r'" "close \<in> {CHR '']'', CHR ''}''}"
    and "\<And>x y q q'. x \<in> set xs \<Longrightarrow> item x @ q = item y @ q' \<Longrightarrow> delimited q \<Longrightarrow> delimited q' \<Longrightarrow> R x y \<and> q = q'"
  shows "list_all2 R xs ys \<and> r = r'"
  using assms
proof (induction xs arbitrary: ys)
  case Nil
  then show ?case by (cases ys) (auto simp: rest_items_simps)
next
  case (Cons x xs)
  then obtain y ys' where ys: "ys = y # ys'" by (cases ys) (auto simp: rest_items_simps)
  with Cons.prems(1) have "item x @ rest_items item xs close r = item y @ rest_items item ys' close r'"
    by (simp add: rest_items_simps)
  then have "R x y \<and> rest_items item xs close r = rest_items item ys' close r'"
    using Cons.prems(2,3) rest_items_delimited by (metis list.set_intros(1))
  moreover from this have "list_all2 R xs ys' \<and> r = r'"
    using Cons.prems(2) Cons.prems(3) [OF list.set_intros(2)] by (intro Cons.IH) blast+
  ultimately show ?case by (simp add: ys)
qed

lemma items_unique:
  assumes "join '','' (map item xs) @ close # r = join '','' (map item ys) @ close # r'" "close \<in> {CHR '']'', CHR ''}''}"
    and "\<And>x y q q'. x \<in> set xs \<Longrightarrow> item x @ q = item y @ q' \<Longrightarrow> delimited q \<Longrightarrow> delimited q' \<Longrightarrow> R x y \<and> q = q'"
    and start: "\<And>x. \<exists>c u. item x = c # u \<and> c \<noteq> close"
  shows "list_all2 R xs ys \<and> r = r'"
proof (cases xs; cases ys)
  fix x xs' y ys' assume cons: "xs = x # xs'" "ys = y # ys'"
  have eq: "CHR '','' # join '','' (map item zs) @ close # q = rest_items item zs close q" if "zs \<noteq> []" for zs q
    using that by (cases zs) (simp_all add: join_Cons rest_items_def comp_def)
  have "rest_items item xs close r = rest_items item ys close r'"
    using assms(1) cons by (simp add: eq [symmetric])
  then show ?thesis using assms(2,3) by (rule rest_items_unique)
next
  fix y ys' assume "xs = []" "ys = y # ys'"
  with assms(1) start [of y] show ?thesis by (auto simp: join_Cons)
next
  fix x xs' assume "xs = x # xs'" "ys = []"
  with assms(1) start [of x] show ?thesis by (auto simp: join_Cons)
next
  assume "xs = []" "ys = []"
  with assms(1) show ?thesis by simp
qed

definition member_text :: "string \<times> json \<Rightarrow> string" where
  "member_text kv = json_string (fst kv) @ '':'' @ json_dumps (snd kv)"

lemma dumps_object: "json_dumps (JObject kvs) = ''{'' @ join '','' (map member_text (sort_key fst kvs)) @ ''}''"
proof -
  have "map (\<lambda>(k, v). json_string k @ '':'' @ v) (map (map_prod (\<lambda>k. k) json_dumps) l) = map member_text l" for l
    by (induction l) (auto simp: member_text_def)
  then show ?thesis by (simp add: sort_key_map_prod del: map_map list.map_comp)
qed

lemma member_unique:
  assumes "member_text x @ q = member_text y @ q'" "delimited q" "delimited q'"
    and IH: "\<And>j' r r'. json_dumps (snd x) @ r = json_dumps j' @ r' \<Longrightarrow> delimited r \<Longrightarrow> delimited r'
      \<Longrightarrow> canon (snd x) = canon j' \<and> r = r'"
  shows "(fst x = fst y \<and> canon (snd x) = canon (snd y)) \<and> q = q'"
proof -
  have "json_string (fst x) @ '':'' @ json_dumps (snd x) @ q = json_string (fst y) @ '':'' @ json_dumps (snd y) @ q'"
    using assms(1) by (simp add: member_text_def)
  from json_string_unique [OF this] have "fst x = fst y" "json_dumps (snd x) @ q = json_dumps (snd y) @ q'" by simp_all
  with IH [OF this(2) assms(2,3)] show ?thesis by simp
qed

lemma canon_object:
  assumes "list_all2 (\<lambda>x y. fst x = fst y \<and> canon (snd x) = canon (snd y)) (sort_key fst kvs) (sort_key fst kvs')"
  shows "canon (JObject kvs) = canon (JObject kvs')"
proof -
  have c: "canon (JObject l) = JObject (map (map_prod (\<lambda>k. k) canon) (sort_key fst l))" for l
  proof -
    have "(\<lambda>(k, v). (k, canon v)) = map_prod (\<lambda>k. k) canon" by (simp add: fun_eq_iff)
    then show ?thesis by (metis canon.simps(1) sort_key_map_prod)
  qed
  have "map (map_prod (\<lambda>k. k) canon) (sort_key fst kvs) = map (map_prod (\<lambda>k. k) canon) (sort_key fst kvs')"
    using assms by (induction rule: list_all2_induct) (auto simp: map_prod_def split: prod.splits)
  then show ?thesis by (simp only: c)
qed

lemma kind_unique: "json_dumps j @ r = json_dumps j' @ r' \<Longrightarrow> json_kind j = json_kind j'"
proof -
  assume eq: "json_dumps j @ r = json_dumps j' @ r'"
  obtain c u where c: "json_dumps j = c # u" "json_kind_of_char c = json_kind j" using dumps_start by blast
  obtain c' u' where c': "json_dumps j' = c' # u'" "json_kind_of_char c' = json_kind j'" using dumps_start by blast
  show "json_kind j = json_kind j'" using eq c c' by simp
qed

lemma dumps_not_close: "close \<in> {CHR '']'', CHR ''}''} \<Longrightarrow> \<exists>c u. json_dumps j = c # u \<and> c \<noteq> close"
  using dumps_start [of j] by auto

lemma dumps_unique:
  "json_dumps j @ r = json_dumps j' @ r' \<Longrightarrow> delimited r \<Longrightarrow> delimited r' \<Longrightarrow> canon j = canon j' \<and> r = r'"
proof (induction j arbitrary: j' r r')
  case JNull
  then show ?case using kind_unique [OF JNull.prems(1)] by (cases j') simp_all
next
  case (JBool b)
  then show ?case using kind_unique [OF JBool.prems(1)] by (cases j') (auto split: if_splits)
next
  case (JInt n)
  then show ?case using kind_unique [OF JInt.prems(1)] int_text_unique [of n r _ r'] by (cases j') simp_all
next
  case (JStr t)
  then show ?case using kind_unique [OF JStr.prems(1)] json_string_unique [of t r _ r'] by (cases j') simp_all
next
  case (JList xs)
  then obtain ys where j': "j' = JList ys" using kind_unique [OF JList.prems(1)] by (cases j') simp_all
  have "join '','' (map json_dumps xs) @ CHR '']'' # r = join '','' (map json_dumps ys) @ CHR '']'' # r'"
    using JList.prems(1) by (simp add: j')
  then have "list_all2 (\<lambda>x y. canon x = canon y) xs ys \<and> r = r'"
    by (rule items_unique) (use JList.IH dumps_not_close in \<open>blast+\<close>)
  then show ?case by (auto simp: j' list_all2_conv_all_nth intro: nth_equalityI)
next
  case (JObject kvs)
  then obtain kvs' where j': "j' = JObject kvs'" using kind_unique [OF JObject.prems(1)] by (cases j') simp_all
  have IH: "canon (snd x) = canon u \<and> q = q'"
    if "x \<in> set (sort_key fst kvs)" "json_dumps (snd x) @ q = json_dumps u @ q'" "delimited q" "delimited q'" for x u q q'
    using JObject.IH [of x "snd x" q u q'] that by (cases x) simp
  have "join '','' (map member_text (sort_key fst kvs)) @ CHR ''}'' # r
      = join '','' (map member_text (sort_key fst kvs')) @ CHR ''}'' # r'"
    using JObject.prems(1) by (simp add: j' dumps_object del: json_dumps.simps)
  then have "list_all2 (\<lambda>x y. fst x = fst y \<and> canon (snd x) = canon (snd y)) (sort_key fst kvs) (sort_key fst kvs') \<and> r = r'"
  proof (rule items_unique)
    show "(fst x = fst y \<and> canon (snd x) = canon (snd y)) \<and> q = q'"
      if "x \<in> set (sort_key fst kvs)" "member_text x @ q = member_text y @ q'" "delimited q" "delimited q'" for x y q q'
      using member_unique [OF that(2,3,4)] IH [OF that(1)] by blast
    show "\<exists>c u. member_text x = c # u \<and> c \<noteq> CHR ''}''" for x by (simp add: member_text_def json_string_def)
  qed simp
  then show ?case using canon_object by (simp add: j' del: canon.simps)
qed

text \<open>UTF-8 loses nothing.\<close>

lemma utf8_unique:
  assumes "utf8_char c @ r = utf8_char d @ q"
  shows "c = d \<and> r = q"
proof -
  have two: "x div 64 = y div 64 \<Longrightarrow> x mod 64 = y mod 64 \<Longrightarrow> x = y" for x y :: nat
    by (metis div_mult_mod_eq)
  have big: "(of_char (char_of (192 + n div 64)) :: nat) = 192 + n div 64"
    "(of_char (char_of (128 + n mod 64)) :: nat) = 128 + n mod 64" if "n < 256" for n :: nat
  proof -
    have "n div 64 < 4" "n mod 64 < 64" using that by (simp_all add: less_mult_imp_div_less)
    then show "(of_char (char_of (192 + n div 64)) :: nat) = 192 + n div 64"
      "(of_char (char_of (128 + n mod 64)) :: nat) = 128 + n mod 64" by simp_all
  qed
  let ?m = "of_char c :: nat" and ?n = "of_char d :: nat"
  have bounds: "?m < 256" "?n < 256" by simp_all
  show ?thesis
  proof (cases "?m < 128"; cases "?n < 128")
    assume "?m < 128" "?n < 128"
    with assms show ?thesis by (simp add: utf8_char_def Let_def)
  next
    assume l: "?m < 128" "\<not> ?n < 128"
    then have "c = char_of (192 + ?n div 64)" using assms by (simp add: utf8_char_def Let_def)
    then have "?m = 192 + ?n div 64" using big(1) [OF bounds(2)] by metis
    with l show ?thesis by simp
  next
    assume l: "\<not> ?m < 128" "?n < 128"
    then have "d = char_of (192 + ?m div 64)" using assms by (simp add: utf8_char_def Let_def)
    then have "?n = 192 + ?m div 64" using big(1) [OF bounds(1)] by metis
    with l show ?thesis by simp
  next
    assume l: "\<not> ?m < 128" "\<not> ?n < 128"
    then have eq: "(char_of (192 + ?m div 64) :: char) = char_of (192 + ?n div 64)"
      "(char_of (128 + ?m mod 64) :: char) = char_of (128 + ?n mod 64)" "r = q"
      using assms by (simp_all add: utf8_char_def Let_def)
    from eq(1) have "?m div 64 = ?n div 64" using big(1) [OF bounds(1)] big(1) [OF bounds(2)] by simp
    moreover from eq(2) have "?m mod 64 = ?n mod 64" using big(2) [OF bounds(1)] big(2) [OF bounds(2)] by simp
    ultimately have "?m = ?n" by (rule two)
    with eq(3) show ?thesis by simp
  qed
qed

lemma encode_inj: "encode t = encode u \<Longrightarrow> t = u"
proof (induction t arbitrary: u)
  case Nil
  then show ?case by (cases u) (auto simp: encode_def utf8_char_def Let_def split: if_splits)
next
  case (Cons c t)
  show ?case
  proof (cases u)
    case Nil
    with Cons.prems show ?thesis by (auto simp: encode_def utf8_char_def Let_def split: if_splits)
  next
    case (Cons d v)
    with Cons.prems have "utf8_char c @ encode t = utf8_char d @ encode v" by (simp add: encode_def)
    from utf8_unique [OF this] Cons.IH [of v] Cons show ?thesis by simp
  qed
qed

theorem canonical_json_unique:
  assumes "canonical_json p = canonical_json q"
  shows "canon (JObject p) = canon (JObject q)"
proof -
  have "json_dumps (JObject p) = json_dumps (JObject q)"
    using assms unfolding canonical_json_def by (rule encode_inj)
  then show ?thesis using dumps_unique [of "JObject p" "[]" "JObject q" "[]"] by (simp add: delimited_def)
qed

text \<open>A digest is determined by its hexadecimal form.\<close>

lemma hex_pair:
  assumes "m < 256" "n < 256" "hex_char (m div 16) = hex_char (n div 16)" "hex_char m = hex_char n"
  shows "m = n"
proof -
  have "hex_value (hex_char k) = k mod 16" for k
    using hex_value_char [of "k mod 16"] by (simp add: hex_char_def)
  moreover have "m div 16 < 16" "n div 16 < 16" using assms(1,2) by (simp_all add: less_mult_imp_div_less)
  ultimately have "m div 16 = n div 16" "m mod 16 = n mod 16" using assms(3,4) by (metis mod_less)+
  then show ?thesis by (metis div_mult_mod_eq)
qed

lemma hexdigest_inj: "hexdigest x = hexdigest y \<Longrightarrow> x = y"
proof (induction x arbitrary: y)
  case Nil
  then show ?case by (cases y) (simp_all add: hexdigest_def Let_def)
next
  case (Cons c x)
  then obtain d z where y: "y = d # z" by (cases y) (simp_all add: hexdigest_def Let_def)
  have bytes: "(of_char c :: nat) < 256" "(of_char d :: nat) < 256" by simp_all
  from Cons.prems y have "(of_char c :: nat) = of_char d" "hexdigest x = hexdigest z"
    using hex_pair [OF bytes] by (simp_all add: hexdigest_def Let_def)
  with Cons.IH [of z] y show ?case by simp
qed

end
