(* ===== verification/Proofs.thy ===== *)
theory Proofs
  imports TrustState CanonicalJson
begin

text \<open>
  Proof of key control: decoding and verification of \<open>src/kyn/crypto.py\<close> and the action proofs of
  \<open>src/kyn/auth.py\<close>. Ed25519 verification is the \<open>cryptography\<close> package's: it is a parameter
  \<open>verify key signature message\<close>, false also for a key or a signature that the package refuses.
\<close>

section \<open>Base64\<close>

text \<open>
  \<open>base64.urlsafe_b64decode\<close>: the alphabet is \<open>A-Za-z0-9+/\<close> after \<open>-\<close> and \<open>_\<close> were translated to
  \<open>+\<close> and \<open>/\<close>; other characters are skipped, and a complete padding ends the text. The state is that
  of \<open>binascii.a2b_base64\<close>: the position in the group of four, the bits left over, and the number of
  paddings in a row.
\<close>

definition b64_digit :: "char \<Rightarrow> nat option" where
  "b64_digit c = (let n = of_char c :: nat in
     if 65 \<le> n \<and> n \<le> 90 then Some (n - 65)
     else if 97 \<le> n \<and> n \<le> 122 then Some (n - 71)
     else if 48 \<le> n \<and> n \<le> 57 then Some (n + 4)
     else if n = 43 \<or> n = 45 then Some 62
     else if n = 47 \<or> n = 95 then Some 63
     else None)"

definition incorrect_padding :: error where
  "incorrect_padding = ValueError ''Incorrect padding''"

fun a2b_base64 :: "nat \<Rightarrow> nat \<Rightarrow> nat \<Rightarrow> string \<Rightarrow> error + bytes" where
  "a2b_base64 pos left pads [] = (if pos = 0 then Inr [] else Inl incorrect_padding)"
| "a2b_base64 pos left pads (c # cs) =
     (if c = CHR ''='' then
        (if 2 \<le> pos \<and> 4 \<le> pos + Suc pads then Inr []
         else a2b_base64 pos left (if 2 \<le> pos then Suc pads else pads) cs)
      else case b64_digit c of
        None \<Rightarrow> a2b_base64 pos left pads cs
      | Some n \<Rightarrow>
          if pos = 0 then a2b_base64 1 n 0 cs
          else if pos = 1 then map_sum id (Cons (char_of (left * 4 + n div 16))) (a2b_base64 2 (n mod 16) 0 cs)
          else if pos = 2 then map_sum id (Cons (char_of (left * 16 + n div 4))) (a2b_base64 3 (n mod 4) 0 cs)
          else map_sum id (Cons (char_of (left * 64 + n))) (a2b_base64 0 0 0 cs))"

text \<open>\<open>_decode\<close>, with the padding that \<open>_encode\<close> stripped. Only ASCII text is decoded.\<close>

definition b64_decode :: "string \<Rightarrow> error + bytes" where
  "b64_decode t =
     (if is_ascii t then a2b_base64 0 0 0 (t @ replicate (nat (- int (length t) mod 4)) CHR ''='')
      else Inl (ValueError ''string argument should contain only ASCII characters''))"

section \<open>Signed actions\<close>

definition action_signing_payload :: "env \<Rightarrow> string \<Rightarrow> string \<Rightarrow> string \<Rightarrow> (string \<times> json) list \<Rightarrow> (string \<times> json) list" where
  "action_signing_payload e operation nonce issued_at body = [
     (''operation'', JStr operation),
     (''nonce'', JStr nonce),
     (''issued_at'', JStr issued_at),
     (''body_sha256'', JStr (''sha256:'' @ hexdigest (env_sha256 e (canonical_json body))))]"

type_synonym verifier = "bytes \<Rightarrow> bytes \<Rightarrow> bytes \<Rightarrow> bool"

definition key_prefix :: string where
  "key_prefix = ''did:key:ed25519:''"

definition verify_participant_action ::
  "env \<Rightarrow> verifier \<Rightarrow> string \<Rightarrow> string \<Rightarrow> string \<Rightarrow> string \<Rightarrow> (string \<times> json) list \<Rightarrow> string \<Rightarrow> bool" where
  "verify_participant_action e verify participant_key operation nonce issued_at body signature =
     (if \<not> startswith key_prefix participant_key then False
      else case (b64_decode (drop (length key_prefix) participant_key), b64_decode signature) of
        (Inr key, Inr sig) \<Rightarrow>
          verify key sig (canonical_json (action_signing_payload e operation nonce issued_at body))
      | _ \<Rightarrow> False)"

text \<open>\<open>Ed25519Verifier.verify\<close>: the proof that \<open>Ed25519Signer.sign\<close> makes.\<close>

definition verify_proof ::
  "verifier \<Rightarrow> string \<Rightarrow> string \<Rightarrow> (string \<times> json) list \<Rightarrow> (string \<times> string) list \<Rightarrow> bool" where
  "verify_proof verify key_id public_key payload proof =
     (if dget proof ''type'' \<noteq> Some ''Ed25519Signature2020'' \<or> dget proof ''key_id'' \<noteq> Some key_id then False
      else case (b64_decode public_key, map_option b64_decode (dget proof ''value'')) of
        (Inr key, Some (Inr sig)) \<Rightarrow> verify key sig (canonical_json payload)
      | _ \<Rightarrow> False)"

text \<open>\<open>sign_action\<close>, which a participant's client calls.\<close>

definition sign_action :: "env \<Rightarrow> string \<Rightarrow> string \<Rightarrow> string \<Rightarrow> (string \<times> json) list \<Rightarrow> string" where
  "sign_action e operation nonce issued_at body =
     b64_encode (env_ed25519_sign e (canonical_json (action_signing_payload e operation nonce issued_at body)))"

section \<open>Authorization\<close>

record verified_action =
  va_command_id :: string
  va_actor_reference :: string

definition min_nonce_length :: nat where "min_nonce_length = 16"
definition max_nonce_length :: nat where "max_nonce_length = 120"

text \<open>\<open>str.isalnum\<close> of a code point up to 255.\<close>

definition isalnum :: "char \<Rightarrow> bool" where
  "isalnum c = (let n = of_char c :: nat in
     48 \<le> n \<and> n \<le> 57 \<or> 65 \<le> n \<and> n \<le> 90 \<or> 97 \<le> n \<and> n \<le> 122
     \<or> n \<in> {170, 178, 179, 181, 185, 186, 188, 189, 190}
     \<or> 192 \<le> n \<and> n \<le> 214 \<or> 216 \<le> n \<and> n \<le> 246 \<or> 248 \<le> n)"

definition nonce_ok :: "string \<Rightarrow> bool" where
  "nonce_ok nonce \<longleftrightarrow> min_nonce_length \<le> length nonce \<and> length nonce \<le> max_nonce_length
     \<and> list_all (\<lambda>c. isalnum c \<or> c \<in> set ''_-'') nonce"

definition authorize_participant_action ::
  "env \<Rightarrow> verifier \<Rightarrow> string \<Rightarrow> string \<Rightarrow> string \<Rightarrow> datetime \<Rightarrow> string \<Rightarrow> (string \<times> json) list \<Rightarrow> time \<Rightarrow> timedelta
   \<Rightarrow> error + verified_action" where
  "authorize_participant_action e verify participant_key operation nonce issued_at signature body t maximum_skew =
     (case issued_at of
        Naive _ \<Rightarrow> Inl (ActionAuthorizationError ''action timestamp must be timezone aware'')
      | Aware issued \<Rightarrow>
          if \<not> nonce_ok nonce then Inl (ActionAuthorizationError ''action nonce is invalid'')
          else if \<bar>t - issued\<bar> > maximum_skew
          then Inl (ActionAuthorizationError ''action timestamp is outside the accepted window'')
          else if \<not> verify_participant_action e verify participant_key operation nonce (isoformat_z issued) body signature
          then Inl (ActionAuthorizationError ''participant action proof is invalid'')
          else Inr \<lparr>va_command_id = ''cmd_'' @ hexdigest (env_sha256 e (encode (participant_key @ ''|'' @ nonce))),
                    va_actor_reference = ''key_sha256:'' @ hexdigest (env_sha256 e (encode participant_key))\<rparr>)"

definition verify_bootstrap_token :: "string \<Rightarrow> bytes \<Rightarrow> error + unit" where
  "verify_bootstrap_token supplied expected =
     (if supplied = [] \<or> encode supplied \<noteq> expected
      then Inl (ActionAuthorizationError ''bootstrap authentication failed'') else Inr ())"

section \<open>Encoding and decoding\<close>

text \<open>Every six bits have a character of their own, which reads back.\<close>

lemma b64_alphabet_digits: "map b64_digit b64_alphabet = map Some [0..<64]"
  by (simp add: b64_alphabet_def b64_digit_def upt_rec_numeral upt_conv_Cons)

lemma b64_digit_char: "n < 64 \<Longrightarrow> b64_digit (b64_char n) = Some n"
proof -
  assume n: "n < 64"
  have "length b64_alphabet = 64" by (simp add: b64_alphabet_def)
  with n have "b64_digit (b64_char n) = map b64_digit b64_alphabet ! n" by (simp add: b64_char_def)
  also have "\<dots> = Some n" using n by (simp add: b64_alphabet_digits)
  finally show "b64_digit (b64_char n) = Some n" .
qed

lemma b64_digit_plain: "b64_digit c = Some n \<Longrightarrow> c \<noteq> CHR ''='' \<and> (of_char c :: nat) < 128"
  by (auto simp: b64_digit_def Let_def split: if_splits)

lemma b64_char_plain: "n < 64 \<Longrightarrow> b64_char n \<noteq> CHR ''='' \<and> (of_char (b64_char n) :: nat) < 128"
  by (rule b64_digit_plain [OF b64_digit_char])

lemma b64_step:
  assumes "n < 64"
  shows "a2b_base64 0 left pads (b64_char n # cs) = a2b_base64 1 n 0 cs"
    "a2b_base64 (Suc 0) left pads (b64_char n # cs)
      = map_sum id (Cons (char_of (left * 4 + n div 16))) (a2b_base64 2 (n mod 16) 0 cs)"
    "a2b_base64 2 left pads (b64_char n # cs)
      = map_sum id (Cons (char_of (left * 16 + n div 4))) (a2b_base64 3 (n mod 4) 0 cs)"
    "a2b_base64 3 left pads (b64_char n # cs)
      = map_sum id (Cons (char_of (left * 64 + n))) (a2b_base64 0 0 0 cs)"
  using assms by (simp_all add: b64_digit_char b64_char_plain)

lemma b64_pad:
  "a2b_base64 2 left 0 ''=='' = Inr []" "a2b_base64 3 left 0 ''='' = Inr []"
  by simp_all

lemma pack: "q < k \<Longrightarrow> (m * k + q) div k = m" "q < k \<Longrightarrow> (m * k + q) mod k = q" for q k m :: nat
  by simp_all

lemma split_byte: "x div 4 * 4 + x mod 4 = x" "x div 16 * 16 + x mod 16 = x" "x div 64 * 64 + x mod 64 = x" for x :: nat
  by simp_all

lemma byte_parts: "(of_char c :: nat) div 4 < 64" "(of_char c :: nat) div 16 < 16" "(of_char c :: nat) div 64 < 4"
proof -
  have "(of_char c :: nat) < 256" by simp
  then show "(of_char c :: nat) div 4 < 64" "(of_char c :: nat) div 16 < 16" "(of_char c :: nat) div 64 < 4"
    by (simp_all add: less_mult_imp_div_less)
qed

lemma sextets:
  "y div 16 < 16 \<Longrightarrow> x mod 4 * 16 + y div 16 < 64" "z div 64 < 4 \<Longrightarrow> y mod 16 * 4 + z div 64 < 64"
  "z mod 64 < 64" "x mod 4 * 16 < 64" "y mod 16 * 4 < 64" for x y z :: nat
proof -
  have "x mod 4 < 4" "y mod 16 < 16" by simp_all
  then show "y div 16 < 16 \<Longrightarrow> x mod 4 * 16 + y div 16 < 64" "z div 64 < 4 \<Longrightarrow> y mod 16 * 4 + z div 64 < 64"
    "z mod 64 < 64" "x mod 4 * 16 < 64" "y mod 16 * 4 < 64" by simp_all
qed

lemma a2b_encoded: "a2b_base64 0 left pads (urlsafe_b64encode v) = Inr v"
proof (induction v arbitrary: left pads rule: urlsafe_b64encode.induct)
  case 1
  then show ?case by simp
next
  case (2 a)
  show ?case
    by (simp add: Let_def b64_step sextets byte_parts b64_pad split_byte del: a2b_base64.simps)
next
  case (3 a b)
  show ?case
    by (simp add: Let_def b64_step sextets byte_parts b64_pad pack split_byte del: a2b_base64.simps)
next
  case (4 a b c r)
  then show ?case
    by (simp add: Let_def b64_step sextets byte_parts pack split_byte del: a2b_base64.simps)
qed

text \<open>Stripping the padding and adding it again.\<close>

lemma plain_sextets:
  "n < 64 \<Longrightarrow> b64_char n \<noteq> CHR ''=''" "n < 64 \<Longrightarrow> (of_char (b64_char n) :: nat) < 128"
  using b64_char_plain by blast+

definition shaped :: "string \<Rightarrow> string \<Rightarrow> nat \<Rightarrow> bool" where
  "shaped t u k \<longleftrightarrow> t = u @ replicate k CHR ''='' \<and> CHR ''='' \<notin> set u \<and> k \<le> 2
     \<and> (length u + k) mod 4 = 0 \<and> is_ascii u"

lemma encoded_shape: "\<exists>u k. shaped (urlsafe_b64encode v) u k"
proof (induction v rule: urlsafe_b64encode.induct)
  case 1
  have "shaped (urlsafe_b64encode []) [] 0" by (simp add: shaped_def is_ascii_def)
  then show ?case by blast
next
  case (2 a)
  let ?x = "of_char a :: nat"
  have "shaped (urlsafe_b64encode [a]) [b64_char (?x div 4), b64_char (?x mod 4 * 16)] 2"
    by (simp add: shaped_def Let_def is_ascii_def plain_sextets plain_sextets(1) [THEN not_sym] sextets byte_parts
        numeral_2_eq_2)
  then show ?case by blast
next
  case (3 a b)
  let ?x = "of_char a :: nat" and ?y = "of_char b :: nat"
  have "shaped (urlsafe_b64encode [a, b])
      [b64_char (?x div 4), b64_char (?x mod 4 * 16 + ?y div 16), b64_char (?y mod 16 * 4)] 1"
    by (simp add: shaped_def Let_def is_ascii_def plain_sextets plain_sextets(1) [THEN not_sym] sextets byte_parts)
  then show ?case by blast
next
  case (4 a b c r)
  then obtain u k where u: "shaped (urlsafe_b64encode r) u k" by blast
  let ?x = "of_char a :: nat" and ?y = "of_char b :: nat" and ?z = "of_char c :: nat"
  let ?q = "[b64_char (?x div 4), b64_char (?x mod 4 * 16 + ?y div 16),
      b64_char (?y mod 16 * 4 + ?z div 64), b64_char (?z mod 64)]"
  have "is_ascii ?q" "CHR ''='' \<notin> set ?q"
    by (simp_all add: is_ascii_def plain_sextets plain_sextets(1) [THEN not_sym] sextets byte_parts)
  moreover have "(length (?q @ u) + k) mod 4 = (length u + k) mod 4" by simp
  ultimately have "shaped (urlsafe_b64encode (a # b # c # r)) (?q @ u) k"
    using u by (simp add: shaped_def Let_def is_ascii_def)
  then show ?case by blast
qed

lemma pad_count:
  assumes "k \<le> 2" "(l + k) mod 4 = 0"
  shows "nat (- int l mod 4) = k"
proof -
  have "(int l + int k) mod 4 = int ((l + k) mod 4)" by (simp add: zmod_int)
  moreover have "n \<le> 2 \<Longrightarrow> 0 \<le> n \<Longrightarrow> (m + n) mod 4 = 0 \<Longrightarrow> - m mod 4 = n" for m n :: int by presburger
  ultimately have "- int l mod 4 = int k" using assms by simp
  then show ?thesis by simp
qed

theorem b64_decode_encode: "b64_decode (b64_encode v) = Inr v"
proof -
  obtain u k where u: "urlsafe_b64encode v = u @ replicate k CHR ''=''" "CHR ''='' \<notin> set u" "k \<le> 2"
    "(length u + k) mod 4 = 0" "is_ascii u" using encoded_shape [of v] by (auto simp: shaped_def)
  have "dropWhile (\<lambda>x. x = CHR ''='') (rev u) = rev u" using u(2) by (cases "rev u") auto
  then have enc: "b64_encode v = u"
    by (simp add: b64_encode_def rstrip_def u(1) dropWhile_append)
  have "nat (- int (length u) mod 4) = k" by (rule pad_count [OF u(3,4)])
  with enc u(5) show ?thesis
    using a2b_encoded [of 0 0 v] by (simp add: b64_decode_def u(1))
qed

section \<open>What a proof proves\<close>

text \<open>
  The signed message determines the operation, the nonce, the time and the digest of the body; and
  the digested text determines the body.
\<close>

theorem signed_message_binds:
  assumes "canonical_json (action_signing_payload e operation nonce issued_at body)
    = canonical_json (action_signing_payload e operation' nonce' issued_at' body')"
  shows "operation = operation' \<and> nonce = nonce' \<and> issued_at = issued_at'
    \<and> hexdigest (env_sha256 e (canonical_json body)) = hexdigest (env_sha256 e (canonical_json body'))"
  using canonical_json_unique [OF assms] by (simp add: action_signing_payload_def)

text \<open>Exactly when an action is authorized, and as what command of what actor.\<close>

theorem authorize_accepts:
  "authorize_participant_action e verify key operation nonce issued_at signature body t skew = Inr a \<longleftrightarrow>
     (\<exists>issued. issued_at = Aware issued \<and> nonce_ok nonce \<and> \<bar>t - issued\<bar> \<le> skew
        \<and> verify_participant_action e verify key operation nonce (isoformat_z issued) body signature
        \<and> a = \<lparr>va_command_id = ''cmd_'' @ hexdigest (env_sha256 e (encode (key @ ''|'' @ nonce))),
               va_actor_reference = ''key_sha256:'' @ hexdigest (env_sha256 e (encode key))\<rparr>)"
  by (auto simp: authorize_participant_action_def split: datetime.split)

text \<open>A client that signs with the key it enrolled is authorized.\<close>

lemma startswith_key: "startswith key_prefix (key_prefix @ k)"
  by simp

theorem signed_action_verifies:
  assumes "verify public (env_ed25519_sign e message) message"
    and "message = canonical_json (action_signing_payload e operation nonce issued_at body)"
  shows "verify_participant_action e verify (key_prefix @ b64_encode public) operation nonce issued_at body
    (sign_action e operation nonce issued_at body)"
  using assms by (simp add: verify_participant_action_def sign_action_def b64_decode_encode)

text \<open>A presentation's proof verifies under the issuer's key.\<close>

theorem signature_verifies:
  assumes "verify public (env_ed25519_sign e (canonical_json payload)) (canonical_json payload)"
  shows "verify_proof verify (env_key_id e) (b64_encode public) payload (sign e payload)"
  using assms by (simp add: verify_proof_def sign_def b64_decode_encode)

end
