(* ===== verification/Inputs.thy ===== *)
theory Inputs
  imports Durable Proofs
begin

text \<open>
  The request models of \<open>src/kyn/api.py\<close>: one record per model, which values its fields accept, and
  the body it stands for in signatures and digests (\<open>_body\<close>). Parsing is pydantic's; the records
  are the parsed models, without the proof, which is a record of its own.
\<close>

section \<open>Patterns\<close>

definition in_range_char :: "nat \<Rightarrow> nat \<Rightarrow> char \<Rightarrow> bool" where
  "in_range_char a b c \<longleftrightarrow> a \<le> of_char c \<and> of_char c \<le> b"

definition digit :: "char \<Rightarrow> bool" where "digit c \<longleftrightarrow> in_range_char 48 57 c"
definition lower :: "char \<Rightarrow> bool" where "lower c \<longleftrightarrow> in_range_char 97 122 c"
definition upper :: "char \<Rightarrow> bool" where "upper c \<longleftrightarrow> in_range_char 65 90 c"

text \<open>\<open>[A-Za-z0-9_-]\<close>.\<close>

definition url_safe :: "char \<Rightarrow> bool" where
  "url_safe c \<longleftrightarrow> digit c \<or> lower c \<or> upper c \<or> c \<in> set ''_-''"

definition sized :: "nat \<Rightarrow> nat \<Rightarrow> string \<Rightarrow> bool" where
  "sized a b t \<longleftrightarrow> a \<le> length t \<and> length t \<le> b"

text \<open>\<open>^prefix[A-Za-z0-9_-]{a,b}$\<close>.\<close>

definition prefixed :: "string \<Rightarrow> nat \<Rightarrow> nat \<Rightarrow> string \<Rightarrow> bool" where
  "prefixed p a b t \<longleftrightarrow> startswith p t
     \<and> sized a b (drop (length p) t) \<and> list_all url_safe (drop (length p) t)"

definition id_of_kind :: "string \<Rightarrow> string \<Rightarrow> bool" where
  "id_of_kind kind t \<longleftrightarrow> prefixed (kind @ ''_'') 8 120 t"

text \<open>\<open>^[a-z][a-z0-9_]{2,b}$\<close>.\<close>

definition slug :: "nat \<Rightarrow> string \<Rightarrow> bool" where
  "slug b t \<longleftrightarrow> t \<noteq> [] \<and> lower (hd t) \<and> sized 2 b (tl t)
     \<and> list_all (\<lambda>c. lower c \<or> digit c \<or> c = CHR ''_'') (tl t)"

text \<open>\<open>^[0-9]+\.[0-9]+\.[0-9]+$\<close>.\<close>

definition dotted :: "string \<Rightarrow> bool" where
  "dotted t =
     (let a = takeWhile digit t; r = drop (length a) t;
          b = takeWhile digit (tl r); u = drop (length b) (tl r); c = tl u
      in a \<noteq> [] \<and> r \<noteq> [] \<and> hd r = CHR ''.'' \<and> b \<noteq> [] \<and> u \<noteq> [] \<and> hd u = CHR ''.''
         \<and> c \<noteq> [] \<and> list_all digit c)"

text \<open>\<open>^sha256:[0-9a-f]{64}$\<close>.\<close>

definition sha_reference :: "string \<Rightarrow> bool" where
  "sha_reference t \<longleftrightarrow> startswith ''sha256:'' t \<and> length t = 71
     \<and> list_all (\<lambda>c. digit c \<or> in_range_char 97 102 c) (drop 7 t)"

definition https :: "string \<Rightarrow> bool" where
  "https t \<longleftrightarrow> startswith ''https://'' t"

definition participant_key_pattern :: "string \<Rightarrow> bool" where
  "participant_key_pattern t \<longleftrightarrow> prefixed key_prefix 43 43 t"

section \<open>Proofs and bodies\<close>

record action_proof =
  prf_nonce :: string
  prf_issued_at :: datetime
  prf_signature :: string

definition valid_proof :: "action_proof \<Rightarrow> bool" where
  "valid_proof p \<longleftrightarrow> prefixed [] 16 120 (prf_nonce p) \<and> prefixed [] 86 86 (prf_signature p)"

text \<open>\<open>normalize\<close> of \<open>_body\<close>: lists are sorted by the text of their items.\<close>

fun normalize_json :: "json \<Rightarrow> json" where
  "normalize_json (JObject kvs) = JObject (map (\<lambda>(k, v). (k, normalize_json v)) kvs)"
| "normalize_json (JList xs) = JList (sort_key json_dumps (map normalize_json xs))"
| "normalize_json j = j"

text \<open>
  What the adapter runs with: the configured core, the iteration order of this process, Ed25519
  verification, the two readings of the wall clock, and the text pydantic writes for a timestamp.
\<close>

record web =
  web_env :: env
  web_iteration :: iteration
  web_verify :: verifier
  web_now :: time
  web_wall :: time
  web_clock_skew_seconds :: int
  web_bootstrap_token :: "bytes option"
  web_datetime_text :: "datetime \<Rightarrow> string"

definition jtime :: "web \<Rightarrow> datetime \<Rightarrow> json" where
  "jtime w d = JStr (web_datetime_text w d)"

definition jset :: "web \<Rightarrow> ('a \<Rightarrow> string) \<Rightarrow> 'a set \<Rightarrow> json" where
  "jset w key X = JList (map JStr (web_iteration w (key ` X)))"

primrec joption :: "('a \<Rightarrow> json) \<Rightarrow> 'a option \<Rightarrow> json" where
  "joption f None = JNull"
| "joption f (Some x) = f x"

text \<open>\<open>_body\<close>, of the fields that \<open>model_dump\<close> writes.\<close>

definition normalized :: "(string \<times> json) list \<Rightarrow> (string \<times> json) list" where
  "normalized dumped = map (\<lambda>(k, v). (k, normalize_json v)) dumped"

section \<open>Request models\<close>

definition valid_create_subject :: "string \<Rightarrow> bool" where
  "valid_create_subject participant_key \<longleftrightarrow> participant_key_pattern participant_key"

record activate_bootstrap_input =
  abi_participant_key :: string
  abi_public_label :: string
  abi_designation_reference :: string
  abi_policy_version :: string
  abi_expires_at :: datetime
  abi_release_version :: string
  abi_notice_version :: string
  abi_terms_url :: string
  abi_privacy_url :: string
  abi_operator_contact :: string
  abi_storage_posture :: storage_posture
  abi_backup_evidence_reference :: string
  abi_sensitive_evidence_enabled :: bool

definition valid_activate_bootstrap :: "activate_bootstrap_input \<Rightarrow> bool" where
  "valid_activate_bootstrap p \<longleftrightarrow>
     participant_key_pattern (abi_participant_key p) \<and> sized 1 120 (abi_public_label p)
     \<and> sha_reference (abi_designation_reference p) \<and> dotted (abi_policy_version p)
     \<and> dotted (abi_release_version p) \<and> dotted (abi_notice_version p) \<and> https (abi_terms_url p)
     \<and> https (abi_privacy_url p) \<and> sized 3 200 (abi_operator_contact p)
     \<and> sha_reference (abi_backup_evidence_reference p)"

definition activate_bootstrap_body :: "web \<Rightarrow> activate_bootstrap_input \<Rightarrow> (string \<times> json) list" where
  "activate_bootstrap_body w p = normalized [
     (''participant_key'', JStr (abi_participant_key p)), (''public_label'', JStr (abi_public_label p)),
     (''designation_reference'', JStr (abi_designation_reference p)),
     (''policy_version'', JStr (abi_policy_version p)), (''expires_at'', jtime w (abi_expires_at p)),
     (''release_version'', JStr (abi_release_version p)), (''notice_version'', JStr (abi_notice_version p)),
     (''terms_url'', JStr (abi_terms_url p)), (''privacy_url'', JStr (abi_privacy_url p)),
     (''operator_contact'', JStr (abi_operator_contact p)),
     (''storage_posture'', JStr (posture_value (abi_storage_posture p))),
     (''backup_evidence_reference'', JStr (abi_backup_evidence_reference p)),
     (''sensitive_evidence_enabled'', JBool (abi_sensitive_evidence_enabled p))]"

record register_claim_input =
  rci_actor_authority_grant_id :: string
  rci_claim_type :: string
  rci_definition_version :: string
  rci_policy_version :: string
  rci_method_class :: string
  rci_allowed_verification_bases :: "verification_basis set"
  rci_required_verification_bases :: "verification_basis set"
  rci_minimum_attestations :: int
  rci_minimum_independent_paths :: int
  rci_minimum_passed_audits :: int

definition valid_register_claim :: "register_claim_input \<Rightarrow> bool" where
  "valid_register_claim p \<longleftrightarrow>
     id_of_kind ''agr'' (rci_actor_authority_grant_id p) \<and> slug 119 (rci_claim_type p)
     \<and> dotted (rci_definition_version p) \<and> dotted (rci_policy_version p) \<and> slug 79 (rci_method_class p)
     \<and> 0 \<le> rci_minimum_attestations p \<and> 0 \<le> rci_minimum_independent_paths p
     \<and> 0 \<le> rci_minimum_passed_audits p"

definition register_claim_body :: "web \<Rightarrow> register_claim_input \<Rightarrow> (string \<times> json) list" where
  "register_claim_body w p = normalized [
     (''actor_authority_grant_id'', JStr (rci_actor_authority_grant_id p)),
     (''claim_type'', JStr (rci_claim_type p)), (''definition_version'', JStr (rci_definition_version p)),
     (''policy_version'', JStr (rci_policy_version p)), (''method_class'', JStr (rci_method_class p)),
     (''allowed_verification_bases'', jset w basis_value (rci_allowed_verification_bases p)),
     (''required_verification_bases'', jset w basis_value (rci_required_verification_bases p)),
     (''minimum_attestations'', JInt (rci_minimum_attestations p)),
     (''minimum_independent_paths'', JInt (rci_minimum_independent_paths p)),
     (''minimum_passed_audits'', JInt (rci_minimum_passed_audits p))]"

text \<open>\<open>MemberPresentationInput\<close> has the fields of \<open>member_form\<close>; a UUID is its text.\<close>

definition valid_member_presentation :: "member_form \<Rightarrow> bool" where
  "valid_member_presentation p \<longleftrightarrow>
     id_of_kind ''sub'' (mf_subject_id p) \<and> https (mf_audience p) \<and> length (mf_audience p) \<le> 500
     \<and> sha_reference (mf_manifest_hash p) \<and> sha_reference (mf_member_snapshot_digest p)"

definition member_presentation_body :: "web \<Rightarrow> member_form \<Rightarrow> (string \<times> json) list" where
  "member_presentation_body w p = normalized [
     (''subject_id'', JStr (mf_subject_id p)), (''audience'', JStr (mf_audience p)),
     (''determination_version_id'', JStr (mf_determination_version_id p)),
     (''manifest_hash'', JStr (mf_manifest_hash p)),
     (''member_snapshot_digest'', JStr (mf_member_snapshot_digest p)),
     (''member_snapshot_generated_at'', jtime w (mf_member_snapshot_generated_at p)),
     (''expires_at'', jtime w (mf_requested_expires_at p))]"

record request_claim_input =
  qci_subject_id :: string
  qci_claim_type :: string
  qci_definition_version :: string
  qci_policy_version :: string

definition valid_request_claim :: "request_claim_input \<Rightarrow> bool" where
  "valid_request_claim p \<longleftrightarrow> id_of_kind ''sub'' (qci_subject_id p) \<and> slug 119 (qci_claim_type p)
     \<and> dotted (qci_definition_version p) \<and> dotted (qci_policy_version p)"

definition request_claim_body :: "request_claim_input \<Rightarrow> (string \<times> json) list" where
  "request_claim_body p = normalized [
     (''subject_id'', JStr (qci_subject_id p)), (''claim_type'', JStr (qci_claim_type p)),
     (''definition_version'', JStr (qci_definition_version p)),
     (''policy_version'', JStr (qci_policy_version p))]"

definition valid_bootstrap_attestation :: "string \<Rightarrow> bool" where
  "valid_bootstrap_attestation authority_grant_id \<longleftrightarrow> id_of_kind ''agr'' authority_grant_id"

definition bootstrap_attestation_body :: "web \<Rightarrow> string \<Rightarrow> string \<Rightarrow> datetime \<Rightarrow> (string \<times> json) list" where
  "bootstrap_attestation_body w request_id authority_grant_id expires_at =
     (''request_id'', JStr request_id) # normalized [
     (''authority_grant_id'', JStr authority_grant_id), (''expires_at'', jtime w expires_at)]"

record grant_authority_input =
  gai_actor_authority_grant_id :: string
  gai_holder_subject_id :: string
  gai_capabilities :: "authority_capability set"
  gai_claim_types :: "string set"
  gai_method_classes :: "string set"
  gai_tier :: authority_tier
  gai_expires_at :: datetime
  gai_usage_cap :: "int option"
  gai_can_delegate :: bool
  gai_max_delegation_depth :: int
  gai_public_accountability_label :: "string option"

definition valid_grant_authority :: "grant_authority_input \<Rightarrow> bool" where
  "valid_grant_authority p \<longleftrightarrow>
     id_of_kind ''agr'' (gai_actor_authority_grant_id p) \<and> id_of_kind ''sub'' (gai_holder_subject_id p)
     \<and> (case gai_usage_cap p of None \<Rightarrow> True | Some n \<Rightarrow> 1 \<le> n)
     \<and> 0 \<le> gai_max_delegation_depth p \<and> gai_max_delegation_depth p \<le> 16
     \<and> (case gai_public_accountability_label p of None \<Rightarrow> True | Some t \<Rightarrow> length t \<le> 120)"

definition grant_authority_body :: "web \<Rightarrow> grant_authority_input \<Rightarrow> (string \<times> json) list" where
  "grant_authority_body w p = normalized [
     (''actor_authority_grant_id'', JStr (gai_actor_authority_grant_id p)),
     (''holder_subject_id'', JStr (gai_holder_subject_id p)),
     (''capabilities'', jset w capability_value (gai_capabilities p)),
     (''claim_types'', jset w (\<lambda>t. t) (gai_claim_types p)),
     (''method_classes'', jset w (\<lambda>t. t) (gai_method_classes p)),
     (''tier'', JStr (tier_value (gai_tier p))), (''expires_at'', jtime w (gai_expires_at p)),
     (''usage_cap'', joption JInt (gai_usage_cap p)), (''can_delegate'', JBool (gai_can_delegate p)),
     (''max_delegation_depth'', JInt (gai_max_delegation_depth p)),
     (''public_accountability_label'', joption JStr (gai_public_accountability_label p))]"

definition valid_revoke_authority :: "string \<Rightarrow> string \<Rightarrow> bool" where
  "valid_revoke_authority actor_id reason_code \<longleftrightarrow> id_of_kind ''agr'' actor_id \<and> slug 99 reason_code"

definition revoke_authority_body :: "string \<Rightarrow> string \<Rightarrow> string \<Rightarrow> (string \<times> json) list" where
  "revoke_authority_body authority_grant_id actor_id reason_code =
     (''authority_grant_id'', JStr authority_grant_id) # normalized [
     (''actor_authority_grant_id'', JStr actor_id), (''reason_code'', JStr reason_code)]"

record promote_authority_input =
  pai_actor_authority_grant_id :: string
  pai_source_authority_grant_ids :: "string list"
  pai_resulting_tier :: authority_tier
  pai_capabilities :: "authority_capability set"
  pai_expires_at :: datetime
  pai_public_accountability_label :: "string option"

definition valid_promote_authority :: "promote_authority_input \<Rightarrow> bool" where
  "valid_promote_authority p \<longleftrightarrow>
     id_of_kind ''agr'' (pai_actor_authority_grant_id p) \<and> pai_source_authority_grant_ids p \<noteq> []
     \<and> (case pai_public_accountability_label p of None \<Rightarrow> True | Some t \<Rightarrow> length t \<le> 120)"

definition promote_authority_body :: "web \<Rightarrow> promote_authority_input \<Rightarrow> (string \<times> json) list" where
  "promote_authority_body w p = normalized [
     (''actor_authority_grant_id'', JStr (pai_actor_authority_grant_id p)),
     (''source_authority_grant_ids'', JList (map JStr (pai_source_authority_grant_ids p))),
     (''resulting_tier'', JStr (tier_value (pai_resulting_tier p))),
     (''capabilities'', jset w capability_value (pai_capabilities p)),
     (''expires_at'', jtime w (pai_expires_at p)),
     (''public_accountability_label'', joption JStr (pai_public_accountability_label p))]"

definition valid_present_credential :: "string \<Rightarrow> bool" where
  "valid_present_credential audience \<longleftrightarrow> sized 1 200 audience"

definition present_credential_body :: "string \<Rightarrow> string \<Rightarrow> (string \<times> json) list" where
  "present_credential_body credential_id audience =
     (''credential_id'', JStr credential_id) # normalized [(''audience'', JStr audience)]"

definition valid_consent :: "string \<Rightarrow> string set \<Rightarrow> bool" where
  "valid_consent notice_version purposes \<longleftrightarrow> dotted notice_version \<and> purposes \<noteq> {}"

definition consent_body :: "web \<Rightarrow> string \<Rightarrow> string \<Rightarrow> string set \<Rightarrow> (string \<times> json) list" where
  "consent_body w subject_id notice_version purposes =
     (''subject_id'', JStr subject_id) # normalized [
     (''notice_version'', JStr notice_version), (''purposes'', jset w (\<lambda>t. t) purposes)]"

text \<open>\<open>OperatorReleaseInput\<close> has the fields of \<open>release_form\<close>.\<close>

definition valid_operator_release :: "release_form \<Rightarrow> bool" where
  "valid_operator_release p \<longleftrightarrow>
     id_of_kind ''agr'' (rf_actor_authority_grant_id p) \<and> dotted (rf_release_version p)
     \<and> dotted (rf_notice_version p) \<and> https (rf_terms_url p) \<and> https (rf_privacy_url p)
     \<and> sized 3 200 (rf_operator_contact p) \<and> sha_reference (rf_backup_evidence_reference p)"

definition operator_release_body :: "release_form \<Rightarrow> (string \<times> json) list" where
  "operator_release_body p = normalized [
     (''actor_authority_grant_id'', JStr (rf_actor_authority_grant_id p)),
     (''release_version'', JStr (rf_release_version p)), (''notice_version'', JStr (rf_notice_version p)),
     (''terms_url'', JStr (rf_terms_url p)), (''privacy_url'', JStr (rf_privacy_url p)),
     (''operator_contact'', JStr (rf_operator_contact p)),
     (''storage_posture'', JStr (posture_value (rf_storage_posture p))),
     (''backup_evidence_reference'', JStr (rf_backup_evidence_reference p)),
     (''sensitive_evidence_enabled'', JBool (rf_sensitive_evidence_enabled p))]"

definition valid_recovery_commitment :: "string \<Rightarrow> bool" where
  "valid_recovery_commitment commitment \<longleftrightarrow> sha_reference commitment"

definition recovery_commitment_body :: "string \<Rightarrow> string \<Rightarrow> (string \<times> json) list" where
  "recovery_commitment_body subject_id commitment =
     (''subject_id'', JStr subject_id) # normalized [(''commitment'', JStr commitment)]"

definition valid_recovery_request :: "string \<Rightarrow> string \<Rightarrow> string \<Rightarrow> bool" where
  "valid_recovery_request subject_id replacement_key secret \<longleftrightarrow>
     id_of_kind ''sub'' subject_id \<and> participant_key_pattern replacement_key \<and> sized 32 256 secret"

definition recovery_request_body :: "string \<Rightarrow> string \<Rightarrow> string \<Rightarrow> (string \<times> json) list" where
  "recovery_request_body subject_id replacement_key secret = normalized [
     (''subject_id'', JStr subject_id), (''replacement_participant_key'', JStr replacement_key),
     (''recovery_secret'', JStr secret)]"

text \<open>\<open>RecoveryDecisionInput\<close> and \<open>PrivacyDecisionInput\<close> have the same fields.\<close>

record decision_input =
  dci_actor_authority_grant_id :: string
  dci_approve :: bool
  dci_reason_code :: string

definition valid_decision :: "decision_input \<Rightarrow> bool" where
  "valid_decision p \<longleftrightarrow> id_of_kind ''agr'' (dci_actor_authority_grant_id p) \<and> slug 99 (dci_reason_code p)"

definition decision_body :: "string \<Rightarrow> string \<Rightarrow> decision_input \<Rightarrow> (string \<times> json) list" where
  "decision_body key_name key_value p =
     (key_name, JStr key_value) # normalized [
     (''actor_authority_grant_id'', JStr (dci_actor_authority_grant_id p)),
     (''approve'', JBool (dci_approve p)), (''reason_code'', JStr (dci_reason_code p))]"

definition valid_privacy_request :: "string \<Rightarrow> bool" where
  "valid_privacy_request reason_code \<longleftrightarrow> slug 99 reason_code"

definition privacy_request_body :: "string \<Rightarrow> privacy_request_kind \<Rightarrow> string \<Rightarrow> (string \<times> json) list" where
  "privacy_request_body subject_id kind reason_code =
     (''subject_id'', JStr subject_id) # normalized [
     (''kind'', JStr (privacy_kind_value kind)), (''reason_code'', JStr reason_code)]"

definition valid_invite_attestor :: "string \<Rightarrow> string \<Rightarrow> bool" where
  "valid_invite_attestor request_id verifier \<longleftrightarrow> id_of_kind ''clm'' request_id \<and> id_of_kind ''sub'' verifier"

definition invite_attestor_body :: "web \<Rightarrow> string \<Rightarrow> string \<Rightarrow> datetime \<Rightarrow> (string \<times> json) list" where
  "invite_attestor_body w request_id verifier expires_at = normalized [
     (''request_id'', JStr request_id), (''verifier_subject_id'', JStr verifier),
     (''expires_at'', jtime w expires_at)]"

record introduce_attestor_input =
  iai_actor_authority_grant_id :: string
  iai_request_id :: string
  iai_introducer_subject_id :: string
  iai_invited_verifier_subject_id :: string
  iai_expires_at :: datetime

definition valid_introduce_attestor :: "introduce_attestor_input \<Rightarrow> bool" where
  "valid_introduce_attestor p \<longleftrightarrow>
     id_of_kind ''agr'' (iai_actor_authority_grant_id p) \<and> id_of_kind ''clm'' (iai_request_id p)
     \<and> id_of_kind ''sub'' (iai_introducer_subject_id p)
     \<and> id_of_kind ''sub'' (iai_invited_verifier_subject_id p)"

definition introduce_attestor_body :: "web \<Rightarrow> introduce_attestor_input \<Rightarrow> (string \<times> json) list" where
  "introduce_attestor_body w p = normalized [
     (''actor_authority_grant_id'', JStr (iai_actor_authority_grant_id p)),
     (''request_id'', JStr (iai_request_id p)),
     (''introducer_subject_id'', JStr (iai_introducer_subject_id p)),
     (''invited_verifier_subject_id'', JStr (iai_invited_verifier_subject_id p)),
     (''expires_at'', jtime w (iai_expires_at p))]"

record issue_attestation_input =
  tai_invitation_id :: string
  tai_authority_grant_id :: string
  tai_introduction_id :: string
  tai_method_class :: string
  tai_expires_at :: datetime
  tai_verification_basis :: verification_basis

definition valid_issue_attestation :: "issue_attestation_input \<Rightarrow> bool" where
  "valid_issue_attestation p \<longleftrightarrow>
     id_of_kind ''inv'' (tai_invitation_id p) \<and> id_of_kind ''agr'' (tai_authority_grant_id p)
     \<and> id_of_kind ''int'' (tai_introduction_id p) \<and> slug 79 (tai_method_class p)"

definition issue_attestation_body :: "web \<Rightarrow> issue_attestation_input \<Rightarrow> (string \<times> json) list" where
  "issue_attestation_body w p = normalized [
     (''invitation_id'', JStr (tai_invitation_id p)),
     (''authority_grant_id'', JStr (tai_authority_grant_id p)),
     (''introduction_id'', JStr (tai_introduction_id p)), (''method_class'', JStr (tai_method_class p)),
     (''expires_at'', jtime w (tai_expires_at p)),
     (''verification_basis'', JStr (basis_value (tai_verification_basis p)))]"

record select_audit_input =
  sai_actor_authority_grant_id :: string
  sai_attestation_id :: string
  sai_basis :: audit_basis
  sai_selection_seed :: string

definition valid_select_audit :: "select_audit_input \<Rightarrow> bool" where
  "valid_select_audit p \<longleftrightarrow>
     id_of_kind ''agr'' (sai_actor_authority_grant_id p) \<and> id_of_kind ''att'' (sai_attestation_id p)
     \<and> sized 16 200 (sai_selection_seed p)"

definition select_audit_body :: "select_audit_input \<Rightarrow> (string \<times> json) list" where
  "select_audit_body p = normalized [
     (''actor_authority_grant_id'', JStr (sai_actor_authority_grant_id p)),
     (''attestation_id'', JStr (sai_attestation_id p)),
     (''basis'', JStr (audit_basis_value (sai_basis p))), (''selection_seed'', JStr (sai_selection_seed p))]"

text \<open>The decisions by an authority: of an audit, a challenge and an appeal.\<close>

definition valid_actor :: "string \<Rightarrow> bool" where
  "valid_actor actor_id \<longleftrightarrow> id_of_kind ''agr'' actor_id"

definition decide_audit_body :: "string \<Rightarrow> string \<Rightarrow> bool \<Rightarrow> (string \<times> json) list" where
  "decide_audit_body audit_id actor_id passed =
     (''audit_id'', JStr audit_id) # normalized [
     (''actor_authority_grant_id'', JStr actor_id), (''passed'', JBool passed)]"

definition challenge_decision_body :: "string \<Rightarrow> string \<Rightarrow> challenge_decision \<Rightarrow> (string \<times> json) list" where
  "challenge_decision_body challenge_id actor_id decision =
     (''challenge_id'', JStr challenge_id) # normalized [
     (''actor_authority_grant_id'', JStr actor_id), (''decision'', JStr (challenge_decision_value decision))]"

definition appeal_decision_body :: "string \<Rightarrow> string \<Rightarrow> appeal_decision \<Rightarrow> (string \<times> json) list" where
  "appeal_decision_body challenge_id actor_id decision =
     (''challenge_id'', JStr challenge_id) # normalized [
     (''actor_authority_grant_id'', JStr actor_id), (''decision'', JStr (appeal_decision_value decision))]"

definition valid_open_challenge :: "string \<Rightarrow> string \<Rightarrow> string \<Rightarrow> bool" where
  "valid_open_challenge challenger attestation_id reason_code \<longleftrightarrow>
     id_of_kind ''sub'' challenger \<and> id_of_kind ''att'' attestation_id \<and> slug 99 reason_code"

definition open_challenge_body :: "string \<Rightarrow> string \<Rightarrow> string \<Rightarrow> (string \<times> json) list" where
  "open_challenge_body challenger attestation_id reason_code = normalized [
     (''challenger_subject_id'', JStr challenger), (''attestation_id'', JStr attestation_id),
     (''reason_code'', JStr reason_code)]"

definition valid_code :: "string \<Rightarrow> bool" where
  "valid_code t \<longleftrightarrow> slug 99 t"

definition challenge_response_body :: "string \<Rightarrow> string \<Rightarrow> (string \<times> json) list" where
  "challenge_response_body challenge_id response_code =
     (''challenge_id'', JStr challenge_id) # normalized [(''response_code'', JStr response_code)]"

definition appeal_body :: "string \<Rightarrow> string \<Rightarrow> (string \<times> json) list" where
  "appeal_body challenge_id reason =
     (''challenge_id'', JStr challenge_id) # normalized [(''appeal_reason_code'', JStr reason)]"

section \<open>Bodies do not depend on the iteration order\<close>

text \<open>The sorted list of a set is the same in whatever order the set is iterated.\<close>

lemma sorted_texts:
  assumes "set xs = set ys" "distinct xs" "distinct ys"
  shows "sort_key json_dumps (map JStr xs) = sort_key json_dumps (map JStr ys)"
proof (rule map_sorted_distinct_set_unique [of json_dumps])
  have inj: "inj_on json_dumps (range JStr)" by (auto simp: inj_on_def json_string_inj)
  show "inj_on json_dumps (set (sort_key json_dumps (map JStr xs)) \<union> set (sort_key json_dumps (map JStr ys)))"
    by (rule inj_on_subset [OF inj]) auto
  show "sorted (map json_dumps (sort_key json_dumps (map JStr xs)))"
    "sorted (map json_dumps (sort_key json_dumps (map JStr ys)))" by (rule sorted_sort_key)+
  show "distinct (map json_dumps (sort_key json_dumps (map JStr xs)))"
    "distinct (map json_dumps (sort_key json_dumps (map JStr ys)))"
    using assms(2,3) by (auto simp: distinct_map inj_on_def json_string_inj)
  show "set (sort_key json_dumps (map JStr xs)) = set (sort_key json_dumps (map JStr ys))"
    using assms(1) by simp
qed

lemma jset_stable:
  assumes "iterates (web_iteration w)" "iterates (web_iteration w')" "finite (key ` X)"
  shows "normalize_json (jset w key X) = normalize_json (jset w' key X)"
proof -
  have "sort_key json_dumps (map JStr (web_iteration w (key ` X)))
      = sort_key json_dumps (map JStr (web_iteration w' (key ` X)))"
    using assms by (intro sorted_texts) (simp_all add: iterates_def)
  then show ?thesis by (simp add: jset_def comp_def)
qed

lemma jset_stable':
  "iterates (web_iteration w) \<Longrightarrow> iterates it \<Longrightarrow> finite (key ` X)
   \<Longrightarrow> normalize_json (jset (w\<lparr>web_iteration := it\<rparr>) key X) = normalize_json (jset w key X)"
  by (rule jset_stable) simp_all

theorem bodies_stable:
  assumes "iterates (web_iteration w)" "iterates it"
  shows "register_claim_body (w\<lparr>web_iteration := it\<rparr>) c = register_claim_body w c"
    "finite (gai_claim_types g) \<Longrightarrow> finite (gai_method_classes g)
     \<Longrightarrow> grant_authority_body (w\<lparr>web_iteration := it\<rparr>) g = grant_authority_body w g"
    "promote_authority_body (w\<lparr>web_iteration := it\<rparr>) p = promote_authority_body w p"
    "finite purposes \<Longrightarrow> consent_body (w\<lparr>web_iteration := it\<rparr>) i n purposes = consent_body w i n purposes"
  using assms
  by (simp_all add: register_claim_body_def grant_authority_body_def promote_authority_body_def
      consent_body_def normalized_def jtime_def jset_stable' del: normalize_json.simps)

end
