(* ===== verification/Api.thy ===== *)
theory Api
  imports Inputs
begin

text \<open>
  The routes of \<open>src/kyn/api.py\<close>: each looks up the key of the participant who must have signed,
  verifies the signed action, and hands one transition of the trust core to the durable service. A
  route ends in its JSON response or in the exception it leaves to the framework.
\<close>

section \<open>What the routes share\<close>

type_synonym response = "(string \<times> json) list"

text \<open>FastAPI answers 422 before the handler runs when a model does not validate.\<close>

definition checked :: "bool \<Rightarrow> (database, 'a) prog \<Rightarrow> (database, 'a) prog" where
  "checked ok m = (if ok then m else raise (HTTPException 422))"

text \<open>\<open>_authorize\<close>.\<close>

definition authorize_request ::
  "web \<Rightarrow> string \<Rightarrow> string \<Rightarrow> action_proof \<Rightarrow> (string \<times> json) list \<Rightarrow> error + verified_action" where
  "authorize_request w participant_key operation proof body =
     authorize_participant_action (web_env w) (web_verify w) participant_key operation (prf_nonce proof)
       (prf_issued_at proof) (prf_signature proof) body (web_now w) (seconds (web_clock_skew_seconds w))"

text \<open>Authorization followed by execution, the two steps of every handler that changes state.\<close>

definition perform ::
  "web \<Rightarrow> string \<Rightarrow> string \<Rightarrow> action_proof \<Rightarrow> (string \<times> json) list \<Rightarrow> transition_result action
   \<Rightarrow> (database, execution_result) prog" where
  "perform w participant_key operation proof body transition =
     bind (lift_sum (authorize_request w participant_key operation proof body)) (\<lambda>a.
     execute (web_iteration w) (web_env w) (web_wall w) (va_command_id a) operation (va_actor_reference a)
       body transition)"

text \<open>A call on the core that \<open>load_core\<close> restores; what it writes there is dropped.\<close>

definition peek :: "web \<Rightarrow> 'a action \<Rightarrow> (database, 'a) prog" where
  "peek w m = bind (load_core (web_env w)) (\<lambda>c. bind (on_core c m) (\<lambda>(x, _). ret x))"

definition record_json :: "web \<Rightarrow> trust_record \<Rightarrow> json" where
  "record_json w r = JObject (to_record (web_iteration w) r)"

text \<open>\<open>_response\<close>.\<close>

definition response_of :: "web \<Rightarrow> execution_result \<Rightarrow> response" where
  "response_of w r = [
     (''records'', JList (map (record_json w) (er_records r))),
     (''receipt'', record_json w (RReceipt (er_receipt r))),
     (''replayed'', JBool (er_replayed r))]"

text \<open>The handlers that look up a key, perform one transition and answer with its records.\<close>

definition submit ::
  "web \<Rightarrow> string action \<Rightarrow> string \<Rightarrow> action_proof \<Rightarrow> (string \<times> json) list \<Rightarrow> transition_result action
   \<Rightarrow> (database, response) prog" where
  "submit w lookup operation proof body transition =
     bind (peek w lookup) (\<lambda>participant_key.
     bind (perform w participant_key operation proof body transition) (\<lambda>r.
     ret (response_of w r)))"

definition result :: "trust_record list \<Rightarrow> receipt \<Rightarrow> transition_result action" where
  "result records r = ret \<lparr>tr_records = records, tr_receipt = r, tr_response_payload = None\<rparr>"

definition payload_result :: "(string \<times> json) list \<Rightarrow> receipt \<Rightarrow> transition_result action" where
  "payload_result p r = ret \<lparr>tr_records = [], tr_receipt = r, tr_response_payload = Some p\<rparr>"

text \<open>\<open>{**signing_payload, "proof": proof}\<close>.\<close>

definition with_proof :: "(string \<times> json) list \<Rightarrow> (string \<times> string) list \<Rightarrow> (string \<times> json) list" where
  "with_proof p proof = p @ [(''proof'', JObject (map (map_prod id JStr) proof))]"

section \<open>Accounts, releases and consent\<close>

definition create_subject_route :: "web \<Rightarrow> string \<Rightarrow> action_proof \<Rightarrow> (database, response) prog" where
  "create_subject_route w participant_key proof =
     checked (valid_create_subject participant_key \<and> valid_proof proof) (
     bind (perform w participant_key ''subject.create'' proof
       (normalized [(''participant_key'', JStr participant_key)])
       (bind (create_subject (web_env w) participant_key False) (\<lambda>(x, r). result [RSubject x] r))) (\<lambda>r.
     ret (response_of w r)))"

definition to_lower :: "char \<Rightarrow> char" where
  "to_lower c = (if upper c then char_of (of_char c + 32 :: nat) else c)"

definition activate_bootstrap_transition :: "web \<Rightarrow> activate_bootstrap_input \<Rightarrow> transition_result action" where
  "activate_bootstrap_transition w p =
     bind (create_subject (web_env w) (abi_participant_key p) True) (\<lambda>(x, _).
     bind (bootstrap_authority (web_env w) (sub_subject_id x) (abi_public_label p)
             (abi_designation_reference p) (abi_policy_version p) (abi_expires_at p)) (\<lambda>(b, g, _).
     bind (register_operator_release (web_env w)
             \<lparr>rf_actor_authority_grant_id = agr_authority_grant_id g,
              rf_release_version = abi_release_version p, rf_notice_version = abi_notice_version p,
              rf_terms_url = abi_terms_url p, rf_privacy_url = abi_privacy_url p,
              rf_operator_contact = abi_operator_contact p, rf_storage_posture = abi_storage_posture p,
              rf_backup_evidence_reference = abi_backup_evidence_reference p,
              rf_sensitive_evidence_enabled = abi_sensitive_evidence_enabled p\<rparr>) (\<lambda>(release, r).
     result [RSubject x, RBootstrapAuthority b, RAuthorityGrant g, ROperatorRelease release] r)))"

text \<open>The bearer credentials are the scheme and the token of the header, if it has any.\<close>

definition activate_bootstrap_route ::
  "web \<Rightarrow> activate_bootstrap_input \<Rightarrow> action_proof \<Rightarrow> (string \<times> string) option \<Rightarrow> (database, response) prog" where
  "activate_bootstrap_route w p proof bearer =
     checked (valid_activate_bootstrap p \<and> valid_proof proof) (
     case web_bootstrap_token w of
       None \<Rightarrow> raise (HTTPException 404)
     | Some expected \<Rightarrow>
         (case bearer of
            None \<Rightarrow> raise (HTTPException 401)
          | Some (scheme, supplied) \<Rightarrow>
              if map to_lower scheme \<noteq> ''bearer'' then raise (HTTPException 401)
              else bind (lift_sum (verify_bootstrap_token supplied expected)) (\<lambda>_.
                   bind (perform w (abi_participant_key p) ''authority.bootstrap_activate'' proof
                     (activate_bootstrap_body w p) (activate_bootstrap_transition w p)) (\<lambda>r.
                   ret (response_of w r)))))"

definition accept_consent_route ::
  "web \<Rightarrow> string \<Rightarrow> string \<Rightarrow> string set \<Rightarrow> action_proof \<Rightarrow> (database, response) prog" where
  "accept_consent_route w subject_id notice_version purposes proof =
     checked (valid_consent notice_version purposes \<and> valid_proof proof) (
     submit w (participant_key_for_subject subject_id) ''consent.accept'' proof
       (consent_body w subject_id notice_version purposes)
       (bind (accept_consent (web_env w) subject_id notice_version purposes) (\<lambda>(c, r).
        result [RConsentRecord c] r)))"

definition register_operator_release_route ::
  "web \<Rightarrow> release_form \<Rightarrow> action_proof \<Rightarrow> (database, response) prog" where
  "register_operator_release_route w p proof =
     checked (valid_operator_release p \<and> valid_proof proof) (
     submit w (participant_key_for_authority (rf_actor_authority_grant_id p)) ''operator_release.register''
       proof (operator_release_body p)
       (bind (register_operator_release (web_env w) p) (\<lambda>(release, r). result [ROperatorRelease release] r)))"

definition operator_release_route :: "web \<Rightarrow> (database, response) prog" where
  "operator_release_route w =
     bind (peek w (current_operator_release False)) (\<lambda>found.
     (case found of None \<Rightarrow> raise (HTTPException 503)
      | Some release \<Rightarrow> ret (to_record (web_iteration w) (ROperatorRelease release))))"

section \<open>Claims\<close>

definition register_claim_definition :: "register_claim_input \<Rightarrow> claim_definition" where
  "register_claim_definition p =
     \<lparr>cd_claim_type = rci_claim_type p, cd_definition_version = rci_definition_version p,
      cd_policy_version = rci_policy_version p, cd_method_class = rci_method_class p,
      cd_allowed_verification_bases = rci_allowed_verification_bases p,
      cd_required_verification_bases = rci_required_verification_bases p,
      cd_minimum_attestations = Some (rci_minimum_attestations p),
      cd_minimum_independent_paths = Some (rci_minimum_independent_paths p),
      cd_minimum_passed_audits = Some (rci_minimum_passed_audits p)\<rparr>"

text \<open>The definition is built between authorization and execution, and may be refused there.\<close>

definition register_claim_route :: "web \<Rightarrow> register_claim_input \<Rightarrow> action_proof \<Rightarrow> (database, response) prog" where
  "register_claim_route w p proof =
     checked (valid_register_claim p \<and> valid_proof proof) (
     bind (peek w (participant_key_for_authority (rci_actor_authority_grant_id p))) (\<lambda>participant_key.
     bind (lift_sum (authorize_request w participant_key ''claim_definition.register'' proof
             (register_claim_body w p))) (\<lambda>a.
     bind (lift_sum (check_claim_definition (register_claim_definition p))) (\<lambda>d.
     bind (execute (web_iteration w) (web_env w) (web_wall w) (va_command_id a) ''claim_definition.register''
             (va_actor_reference a) (register_claim_body w p)
             (bind (register_claim (web_env w) d (Some (rci_actor_authority_grant_id p))) (\<lambda>r.
              result [RClaimDefinition d] r))) (\<lambda>r.
     ret (response_of w r))))))"

definition request_claim_route :: "web \<Rightarrow> request_claim_input \<Rightarrow> action_proof \<Rightarrow> (database, response) prog" where
  "request_claim_route w p proof =
     checked (valid_request_claim p \<and> valid_proof proof) (
     submit w (participant_key_for_subject (qci_subject_id p)) ''claim.request'' proof (request_claim_body p)
       (bind (request_claim (web_env w) (qci_subject_id p) (qci_claim_type p) (qci_definition_version p)
                (qci_policy_version p)) (\<lambda>(q, r). result [RClaimRequest q] r)))"

section \<open>Authority\<close>

definition grant_authority_route :: "web \<Rightarrow> grant_authority_input \<Rightarrow> action_proof \<Rightarrow> (database, response) prog" where
  "grant_authority_route w p proof =
     checked (valid_grant_authority p \<and> valid_proof proof) (
     submit w (participant_key_for_authority (gai_actor_authority_grant_id p)) ''authority.grant'' proof
       (grant_authority_body w p)
       (bind (grant_authority (web_env w)
          \<lparr>dlg_actor_authority_grant_id = gai_actor_authority_grant_id p,
           dlg_holder_subject_id = gai_holder_subject_id p, dlg_capabilities = gai_capabilities p,
           dlg_claim_types = gai_claim_types p, dlg_method_classes = gai_method_classes p,
           dlg_tier = gai_tier p, dlg_expires_at = gai_expires_at p, dlg_usage_cap = gai_usage_cap p,
           dlg_can_delegate = gai_can_delegate p, dlg_max_delegation_depth = gai_max_delegation_depth p,
           dlg_public_accountability_label = gai_public_accountability_label p, dlg_basis = DELEGATED\<rparr>)
        (\<lambda>(g, r). result [RAuthorityGrant g] r)))"

definition revoke_authority_route ::
  "web \<Rightarrow> string \<Rightarrow> string \<Rightarrow> string \<Rightarrow> action_proof \<Rightarrow> (database, response) prog" where
  "revoke_authority_route w authority_grant_id actor_id reason_code proof =
     checked (valid_revoke_authority actor_id reason_code \<and> valid_proof proof) (
     submit w (participant_key_for_authority actor_id) ''authority.revoke'' proof
       (revoke_authority_body authority_grant_id actor_id reason_code)
       (bind (revoke_authority (web_env w) actor_id authority_grant_id reason_code) (\<lambda>(revoked, creds, r).
        result (map RAuthorityGrant revoked @ map RCredential creds) r)))"

definition promote_authority_route :: "web \<Rightarrow> promote_authority_input \<Rightarrow> action_proof \<Rightarrow> (database, response) prog" where
  "promote_authority_route w p proof =
     checked (valid_promote_authority p \<and> valid_proof proof) (
     submit w (participant_key_for_authority (pai_actor_authority_grant_id p)) ''authority.promote'' proof
       (promote_authority_body w p)
       (bind (promote_authority (web_env w) (pai_actor_authority_grant_id p) (pai_source_authority_grant_ids p)
                (pai_resulting_tier p) (pai_capabilities p) (pai_expires_at p)
                (pai_public_accountability_label p)) (\<lambda>(m, g, r).
        result [RAuthorityPromotion m, RAuthorityGrant g] r)))"

section \<open>Recovery\<close>

definition register_recovery_commitment_route ::
  "web \<Rightarrow> string \<Rightarrow> string \<Rightarrow> action_proof \<Rightarrow> (database, response) prog" where
  "register_recovery_commitment_route w subject_id commitment proof =
     checked (valid_recovery_commitment commitment \<and> valid_proof proof) (
     submit w (participant_key_for_subject subject_id) ''recovery.commitment_register'' proof
       (recovery_commitment_body subject_id commitment)
       (bind (register_recovery_commitment (web_env w) subject_id commitment) (\<lambda>(c, r).
        result [RRecoveryCommitment c] r)))"

text \<open>A recovery is requested under the replacement key.\<close>

definition request_recovery_route ::
  "web \<Rightarrow> string \<Rightarrow> string \<Rightarrow> string \<Rightarrow> action_proof \<Rightarrow> (database, response) prog" where
  "request_recovery_route w subject_id replacement_key secret proof =
     checked (valid_recovery_request subject_id replacement_key secret \<and> valid_proof proof) (
     bind (perform w replacement_key ''recovery.request'' proof
       (recovery_request_body subject_id replacement_key secret)
       (bind (request_recovery (web_env w) subject_id replacement_key secret) (\<lambda>(c, r).
        result [RRecoveryCase c] r))) (\<lambda>r.
     ret (response_of w r)))"

definition decide_recovery_route ::
  "web \<Rightarrow> string \<Rightarrow> decision_input \<Rightarrow> action_proof \<Rightarrow> (database, response) prog" where
  "decide_recovery_route w recovery_case_id p proof =
     checked (valid_decision p \<and> valid_proof proof) (
     submit w (participant_key_for_authority (dci_actor_authority_grant_id p)) ''recovery.decide'' proof
       (decision_body ''recovery_case_id'' recovery_case_id p)
       (bind (decide_recovery (web_env w) recovery_case_id (dci_actor_authority_grant_id p)
                (dci_approve p) (dci_reason_code p)) (\<lambda>(c, x, r).
        result [RRecoveryCase c, RSubject x] r)))"

section \<open>Privacy\<close>

definition open_privacy_request_route ::
  "web \<Rightarrow> string \<Rightarrow> privacy_request_kind \<Rightarrow> string \<Rightarrow> action_proof \<Rightarrow> (database, response) prog" where
  "open_privacy_request_route w subject_id request_kind reason_code proof =
     checked (valid_privacy_request reason_code \<and> valid_proof proof) (
     submit w (participant_key_for_subject subject_id) ''privacy.request'' proof
       (privacy_request_body subject_id request_kind reason_code)
       (bind (open_privacy_request (web_env w) subject_id request_kind reason_code) (\<lambda>(p, r).
        result [RPrivacyRequest p] r)))"

definition process_privacy_request_route ::
  "web \<Rightarrow> string \<Rightarrow> decision_input \<Rightarrow> action_proof \<Rightarrow> (database, response) prog" where
  "process_privacy_request_route w privacy_request_id p proof =
     checked (valid_decision p \<and> valid_proof proof) (
     submit w (participant_key_for_authority (dci_actor_authority_grant_id p)) ''privacy.process'' proof
       (decision_body ''privacy_request_id'' privacy_request_id p)
       (bind (process_privacy_request (web_env w) privacy_request_id (dci_actor_authority_grant_id p)
                (dci_approve p) (dci_reason_code p)) (\<lambda>(q, creds, r).
        result (RPrivacyRequest q # map RCredential creds) r)))"

text \<open>The dictionary that \<open>privacy_export\<close> returns.\<close>

definition export_payload :: "web \<Rightarrow> subject_export \<Rightarrow> (string \<times> json) list" where
  "export_payload w x = [
     (''export_version'', JInt (exp_version x)),
     (''generated_at'', JStr (isoformat_z (exp_generated_at x))),
     (''records'', JList (map (record_json w) (exp_records x)))]"

definition export_privacy_request_route :: "web \<Rightarrow> string \<Rightarrow> action_proof \<Rightarrow> (database, response) prog" where
  "export_privacy_request_route w privacy_request_id proof =
     checked (valid_proof proof) (
     bind (peek w (participant_key_for_privacy_request privacy_request_id)) (\<lambda>participant_key.
     bind (perform w participant_key ''privacy.export'' proof
       [(''privacy_request_id'', JStr privacy_request_id)]
       (bind (privacy_export (web_env w) privacy_request_id) (\<lambda>(x, r).
        payload_result (export_payload w x) r))) (\<lambda>r.
     ret [(''export'', joption JObject (er_response_payload r)),
          (''receipt'', record_json w (RReceipt (er_receipt r))),
          (''replayed'', JBool (er_replayed r))])))"

section \<open>Attestations\<close>

definition invite_attestor_route ::
  "web \<Rightarrow> string \<Rightarrow> string \<Rightarrow> datetime \<Rightarrow> action_proof \<Rightarrow> (database, response) prog" where
  "invite_attestor_route w request_id verifier expires_at proof =
     checked (valid_invite_attestor request_id verifier \<and> valid_proof proof) (
     submit w (participant_key_for_request request_id) ''attestor.invite'' proof
       (invite_attestor_body w request_id verifier expires_at)
       (bind (invite_attestor (web_env w) request_id verifier expires_at) (\<lambda>(v, r).
        result [RAttestorInvitation v] r)))"

definition introduce_attestor_route ::
  "web \<Rightarrow> introduce_attestor_input \<Rightarrow> action_proof \<Rightarrow> (database, response) prog" where
  "introduce_attestor_route w p proof =
     checked (valid_introduce_attestor p \<and> valid_proof proof) (
     submit w (participant_key_for_authority (iai_actor_authority_grant_id p)) ''attestor.introduce'' proof
       (introduce_attestor_body w p)
       (bind (introduce_attestor (web_env w) (iai_request_id p) (iai_introducer_subject_id p)
                (iai_invited_verifier_subject_id p) (iai_expires_at p)
                (Some (iai_actor_authority_grant_id p))) (\<lambda>(n, r).
        result [RIntroduction n] r)))"

definition issue_attestation_route ::
  "web \<Rightarrow> issue_attestation_input \<Rightarrow> action_proof \<Rightarrow> (database, response) prog" where
  "issue_attestation_route w p proof =
     checked (valid_issue_attestation p \<and> valid_proof proof) (
     submit w (participant_key_for_invitation (tai_invitation_id p)) ''attestation.issue'' proof
       (issue_attestation_body w p)
       (bind (issue_attestation (web_env w)
          \<lparr>af_invitation_id = tai_invitation_id p, af_grant_id = tai_authority_grant_id p,
           af_method_class = tai_method_class p, af_expires_at = tai_expires_at p,
           af_verification_basis = tai_verification_basis p,
           af_introduction_id = Some (tai_introduction_id p), af_independence_path = None\<rparr>)
        (\<lambda>(a, c, r). result [RAttestation a, RCredential c] r)))"

definition issue_bootstrap_attestation_route ::
  "web \<Rightarrow> string \<Rightarrow> string \<Rightarrow> datetime \<Rightarrow> action_proof \<Rightarrow> (database, response) prog" where
  "issue_bootstrap_attestation_route w request_id authority_grant_id expires_at proof =
     checked (valid_bootstrap_attestation authority_grant_id \<and> valid_proof proof) (
     submit w (participant_key_for_authority authority_grant_id) ''attestation.bootstrap_issue'' proof
       (bootstrap_attestation_body w request_id authority_grant_id expires_at)
       (bind (issue_bootstrap_attestation (web_env w) request_id authority_grant_id expires_at) (\<lambda>(a, c, r).
        result [RAttestation a, RCredential c] r)))"

section \<open>Audits and challenges\<close>

definition select_audit_route :: "web \<Rightarrow> select_audit_input \<Rightarrow> action_proof \<Rightarrow> (database, response) prog" where
  "select_audit_route w p proof =
     checked (valid_select_audit p \<and> valid_proof proof) (
     submit w (participant_key_for_authority (sai_actor_authority_grant_id p)) ''audit.select'' proof
       (select_audit_body p)
       (bind (select_audit (web_env w) (sai_attestation_id p) (sai_basis p) (sai_selection_seed p)
                (Some (sai_actor_authority_grant_id p))) (\<lambda>(a, r). result [RAudit a] r)))"

definition decide_audit_route ::
  "web \<Rightarrow> string \<Rightarrow> string \<Rightarrow> bool \<Rightarrow> action_proof \<Rightarrow> (database, response) prog" where
  "decide_audit_route w audit_id actor_id passed proof =
     checked (valid_actor actor_id \<and> valid_proof proof) (
     submit w (participant_key_for_authority actor_id) ''audit.decide'' proof
       (decide_audit_body audit_id actor_id passed)
       (bind (decide_audit (web_env w) audit_id passed (Some actor_id)) (\<lambda>(a, c, r).
        result [RAudit a, RCredential c] r)))"

definition open_challenge_route ::
  "web \<Rightarrow> string \<Rightarrow> string \<Rightarrow> string \<Rightarrow> action_proof \<Rightarrow> (database, response) prog" where
  "open_challenge_route w challenger attestation_id reason_code proof =
     checked (valid_open_challenge challenger attestation_id reason_code \<and> valid_proof proof) (
     submit w (participant_key_for_subject challenger) ''challenge.open'' proof
       (open_challenge_body challenger attestation_id reason_code)
       (bind (open_challenge (web_env w) attestation_id reason_code (Some challenger)) (\<lambda>(c, r).
        result [RChallenge c] r)))"

definition respond_to_challenge_route ::
  "web \<Rightarrow> string \<Rightarrow> string \<Rightarrow> action_proof \<Rightarrow> (database, response) prog" where
  "respond_to_challenge_route w challenge_id response_code proof =
     checked (valid_code response_code \<and> valid_proof proof) (
     submit w (participant_key_for_challenge_party challenge_id) ''challenge.respond'' proof
       (challenge_response_body challenge_id response_code)
       (bind (respond_to_challenge (web_env w) challenge_id response_code) (\<lambda>(c, r).
        result [RChallenge c] r)))"

definition decide_challenge_route ::
  "web \<Rightarrow> string \<Rightarrow> string \<Rightarrow> challenge_decision \<Rightarrow> action_proof \<Rightarrow> (database, response) prog" where
  "decide_challenge_route w challenge_id actor_id decision proof =
     checked (valid_actor actor_id \<and> valid_proof proof) (
     submit w (participant_key_for_authority actor_id) ''challenge.decide'' proof
       (challenge_decision_body challenge_id actor_id decision)
       (bind (decide_challenge (web_env w) challenge_id decision (Some actor_id)) (\<lambda>(c, k, r).
        result [RChallenge c, RCredential k] r)))"

definition appeal_challenge_route ::
  "web \<Rightarrow> string \<Rightarrow> string \<Rightarrow> action_proof \<Rightarrow> (database, response) prog" where
  "appeal_challenge_route w challenge_id reason proof =
     checked (valid_code reason \<and> valid_proof proof) (
     submit w (participant_key_for_challenge_party challenge_id) ''challenge.appeal'' proof
       (appeal_body challenge_id reason)
       (bind (appeal_challenge (web_env w) challenge_id reason) (\<lambda>(c, r). result [RChallenge c] r)))"

definition decide_appeal_route ::
  "web \<Rightarrow> string \<Rightarrow> string \<Rightarrow> appeal_decision \<Rightarrow> action_proof \<Rightarrow> (database, response) prog" where
  "decide_appeal_route w challenge_id actor_id decision proof =
     checked (valid_actor actor_id \<and> valid_proof proof) (
     submit w (participant_key_for_authority actor_id) ''appeal.decide'' proof
       (appeal_decision_body challenge_id actor_id decision)
       (bind (decide_appeal (web_env w) challenge_id decision (Some actor_id)) (\<lambda>(c, k, r).
        result [RChallenge c, RCredential k] r)))"

section \<open>Presentations and public records\<close>

text \<open>The answer to a presentation, which replays answer with as well.\<close>

definition presentation_response :: "web \<Rightarrow> string \<Rightarrow> execution_result \<Rightarrow> (database, response) prog" where
  "presentation_response w unavailable r =
     (case er_response_payload r of
        None \<Rightarrow> raise (RuntimeError unavailable)
      | Some p \<Rightarrow> ret [(''presentation'', JObject p), (''receipt'', record_json w (RReceipt (er_receipt r))),
                       (''replayed'', JBool (er_replayed r))])"

definition present_credential_route ::
  "web \<Rightarrow> string \<Rightarrow> string \<Rightarrow> action_proof \<Rightarrow> (database, response) prog" where
  "present_credential_route w credential_id audience proof =
     checked (valid_present_credential audience \<and> valid_proof proof) (
     bind (peek w (participant_key_for_credential credential_id)) (\<lambda>participant_key.
     bind (perform w participant_key ''credential.present'' proof (present_credential_body credential_id audience)
       (bind (present_credential (web_env w) credential_id audience) (\<lambda>(p, r).
        payload_result (with_proof (presentation_payload p) (prs_proof p)) r))) (\<lambda>r.
     presentation_response w ''stored presentation response is unavailable'' r)))"

definition create_member_presentation_route ::
  "web \<Rightarrow> member_form \<Rightarrow> action_proof \<Rightarrow> (database, response) prog" where
  "create_member_presentation_route w f proof =
     checked (valid_member_presentation f \<and> valid_proof proof) (
     bind (peek w (participant_key_for_subject (mf_subject_id f))) (\<lambda>participant_key.
     bind (perform w participant_key ''member.presentation'' proof (member_presentation_body w f)
       (bind (present_member (web_env w) f) (\<lambda>(p, r).
        payload_result (with_proof (member_payload p) (mpr_proof p)) r))) (\<lambda>r.
     presentation_response w ''member presentation response is unavailable'' r)))"

definition get_member_snapshot_route :: "web \<Rightarrow> (database, response) prog" where
  "get_member_snapshot_route w =
     bind (peek w (member_snapshot (web_env w))) (\<lambda>m. ret (with_proof (snapshot_payload m) (mss_proof m)))"

definition credential_status_route :: "web \<Rightarrow> string \<Rightarrow> (database, response) prog" where
  "credential_status_route w credential_id =
     bind (peek w (credential_status_by_id (web_env w) credential_id)) (\<lambda>st.
     ret (to_record (web_iteration w) (RCredentialStatus st)))"

definition public_events_route :: "web \<Rightarrow> (database, json) prog" where
  "public_events_route w =
     bind (peek w (gets public_events)) (\<lambda>vs. ret (JList (map (record_json w \<circ> RPublicEvent) vs)))"

definition public_receipt_route :: "web \<Rightarrow> string \<Rightarrow> (database, response) prog" where
  "public_receipt_route w receipt_id =
     bind (peek w (public_receipt receipt_id)) (\<lambda>r. ret (to_record (web_iteration w) (RReceipt r)))"

end
