(* ===== verification/Gateway.thy ===== *)
theory Gateway
  imports Api
begin

text \<open>
  The service as its clients see it: every route of \<open>src/kyn/api.py\<close> that changes state as one type of
  requests, what each of them must be signed with, and the databases that any sequence of requests
  leads to. Only a signed action of the participant concerned changes anything, at most once.
\<close>

section \<open>Requests\<close>

datatype post =
    Post_Subject string
  | Post_Bootstrap activate_bootstrap_input "(string \<times> string) option"
  | Post_Consent string string "string set"
  | Post_Operator_Release release_form
  | Post_Claim_Definition register_claim_input
  | Post_Claim_Request request_claim_input
  | Post_Authority_Grant grant_authority_input
  | Post_Authority_Revocation string string string
  | Post_Authority_Promotion promote_authority_input
  | Post_Recovery_Commitment string string
  | Post_Recovery_Case string string string
  | Post_Recovery_Decision string decision_input
  | Post_Privacy_Request string privacy_request_kind string
  | Post_Privacy_Decision string decision_input
  | Post_Privacy_Export string
  | Post_Invitation string string datetime
  | Post_Introduction introduce_attestor_input
  | Post_Attestation issue_attestation_input
  | Post_Bootstrap_Attestation string string datetime
  | Post_Audit select_audit_input
  | Post_Audit_Decision string string bool
  | Post_Challenge string string string
  | Post_Challenge_Response string string
  | Post_Challenge_Decision string string challenge_decision
  | Post_Appeal string string
  | Post_Appeal_Decision string string appeal_decision
  | Post_Presentation string string
  | Post_Member_Presentation member_form

fun serve_post :: "web \<Rightarrow> post \<Rightarrow> action_proof \<Rightarrow> (database, response) prog" where
  "serve_post w (Post_Subject k) proof = create_subject_route w k proof"
| "serve_post w (Post_Bootstrap p c) proof = activate_bootstrap_route w p proof c"
| "serve_post w (Post_Consent x n ps) proof = accept_consent_route w x n ps proof"
| "serve_post w (Post_Operator_Release p) proof = register_operator_release_route w p proof"
| "serve_post w (Post_Claim_Definition p) proof = register_claim_route w p proof"
| "serve_post w (Post_Claim_Request p) proof = request_claim_route w p proof"
| "serve_post w (Post_Authority_Grant p) proof = grant_authority_route w p proof"
| "serve_post w (Post_Authority_Revocation i actor reason) proof = revoke_authority_route w i actor reason proof"
| "serve_post w (Post_Authority_Promotion p) proof = promote_authority_route w p proof"
| "serve_post w (Post_Recovery_Commitment x c) proof = register_recovery_commitment_route w x c proof"
| "serve_post w (Post_Recovery_Case x k secret) proof = request_recovery_route w x k secret proof"
| "serve_post w (Post_Recovery_Decision i p) proof = decide_recovery_route w i p proof"
| "serve_post w (Post_Privacy_Request x kind reason) proof = open_privacy_request_route w x kind reason proof"
| "serve_post w (Post_Privacy_Decision i p) proof = process_privacy_request_route w i p proof"
| "serve_post w (Post_Privacy_Export i) proof = export_privacy_request_route w i proof"
| "serve_post w (Post_Invitation r v d) proof = invite_attestor_route w r v d proof"
| "serve_post w (Post_Introduction p) proof = introduce_attestor_route w p proof"
| "serve_post w (Post_Attestation p) proof = issue_attestation_route w p proof"
| "serve_post w (Post_Bootstrap_Attestation r g d) proof = issue_bootstrap_attestation_route w r g d proof"
| "serve_post w (Post_Audit p) proof = select_audit_route w p proof"
| "serve_post w (Post_Audit_Decision i actor passed) proof = decide_audit_route w i actor passed proof"
| "serve_post w (Post_Challenge x a reason) proof = open_challenge_route w x a reason proof"
| "serve_post w (Post_Challenge_Response i code) proof = respond_to_challenge_route w i code proof"
| "serve_post w (Post_Challenge_Decision i actor d) proof = decide_challenge_route w i actor d proof"
| "serve_post w (Post_Appeal i reason) proof = appeal_challenge_route w i reason proof"
| "serve_post w (Post_Appeal_Decision i actor d) proof = decide_appeal_route w i actor d proof"
| "serve_post w (Post_Presentation i audience) proof = present_credential_route w i audience proof"
| "serve_post w (Post_Member_Presentation f) proof = create_member_presentation_route w f proof"

text \<open>The participant whose key must have signed, looked up in the core.\<close>

fun acting_key :: "post \<Rightarrow> string action" where
  "acting_key (Post_Subject k) = ret k"
| "acting_key (Post_Bootstrap p c) = ret (abi_participant_key p)"
| "acting_key (Post_Consent x n ps) = participant_key_for_subject x"
| "acting_key (Post_Operator_Release p) = participant_key_for_authority (rf_actor_authority_grant_id p)"
| "acting_key (Post_Claim_Definition p) = participant_key_for_authority (rci_actor_authority_grant_id p)"
| "acting_key (Post_Claim_Request p) = participant_key_for_subject (qci_subject_id p)"
| "acting_key (Post_Authority_Grant p) = participant_key_for_authority (gai_actor_authority_grant_id p)"
| "acting_key (Post_Authority_Revocation i actor reason) = participant_key_for_authority actor"
| "acting_key (Post_Authority_Promotion p) = participant_key_for_authority (pai_actor_authority_grant_id p)"
| "acting_key (Post_Recovery_Commitment x c) = participant_key_for_subject x"
| "acting_key (Post_Recovery_Case x k secret) = ret k"
| "acting_key (Post_Recovery_Decision i p) = participant_key_for_authority (dci_actor_authority_grant_id p)"
| "acting_key (Post_Privacy_Request x kind reason) = participant_key_for_subject x"
| "acting_key (Post_Privacy_Decision i p) = participant_key_for_authority (dci_actor_authority_grant_id p)"
| "acting_key (Post_Privacy_Export i) = participant_key_for_privacy_request i"
| "acting_key (Post_Invitation r v d) = participant_key_for_request r"
| "acting_key (Post_Introduction p) = participant_key_for_authority (iai_actor_authority_grant_id p)"
| "acting_key (Post_Attestation p) = participant_key_for_invitation (tai_invitation_id p)"
| "acting_key (Post_Bootstrap_Attestation r g d) = participant_key_for_authority g"
| "acting_key (Post_Audit p) = participant_key_for_authority (sai_actor_authority_grant_id p)"
| "acting_key (Post_Audit_Decision i actor passed) = participant_key_for_authority actor"
| "acting_key (Post_Challenge x a reason) = participant_key_for_subject x"
| "acting_key (Post_Challenge_Response i code) = participant_key_for_challenge_party i"
| "acting_key (Post_Challenge_Decision i actor d) = participant_key_for_authority actor"
| "acting_key (Post_Appeal i reason) = participant_key_for_challenge_party i"
| "acting_key (Post_Appeal_Decision i actor d) = participant_key_for_authority actor"
| "acting_key (Post_Presentation i audience) = participant_key_for_credential i"
| "acting_key (Post_Member_Presentation f) = participant_key_for_subject (mf_subject_id f)"

fun operation_of :: "post \<Rightarrow> string" where
  "operation_of (Post_Subject k) = ''subject.create''"
| "operation_of (Post_Bootstrap p c) = ''authority.bootstrap_activate''"
| "operation_of (Post_Consent x n ps) = ''consent.accept''"
| "operation_of (Post_Operator_Release p) = ''operator_release.register''"
| "operation_of (Post_Claim_Definition p) = ''claim_definition.register''"
| "operation_of (Post_Claim_Request p) = ''claim.request''"
| "operation_of (Post_Authority_Grant p) = ''authority.grant''"
| "operation_of (Post_Authority_Revocation i actor reason) = ''authority.revoke''"
| "operation_of (Post_Authority_Promotion p) = ''authority.promote''"
| "operation_of (Post_Recovery_Commitment x c) = ''recovery.commitment_register''"
| "operation_of (Post_Recovery_Case x k secret) = ''recovery.request''"
| "operation_of (Post_Recovery_Decision i p) = ''recovery.decide''"
| "operation_of (Post_Privacy_Request x kind reason) = ''privacy.request''"
| "operation_of (Post_Privacy_Decision i p) = ''privacy.process''"
| "operation_of (Post_Privacy_Export i) = ''privacy.export''"
| "operation_of (Post_Invitation r v d) = ''attestor.invite''"
| "operation_of (Post_Introduction p) = ''attestor.introduce''"
| "operation_of (Post_Attestation p) = ''attestation.issue''"
| "operation_of (Post_Bootstrap_Attestation r g d) = ''attestation.bootstrap_issue''"
| "operation_of (Post_Audit p) = ''audit.select''"
| "operation_of (Post_Audit_Decision i actor passed) = ''audit.decide''"
| "operation_of (Post_Challenge x a reason) = ''challenge.open''"
| "operation_of (Post_Challenge_Response i code) = ''challenge.respond''"
| "operation_of (Post_Challenge_Decision i actor d) = ''challenge.decide''"
| "operation_of (Post_Appeal i reason) = ''challenge.appeal''"
| "operation_of (Post_Appeal_Decision i actor d) = ''appeal.decide''"
| "operation_of (Post_Presentation i audience) = ''credential.present''"
| "operation_of (Post_Member_Presentation f) = ''member.presentation''"

fun signed_body :: "web \<Rightarrow> post \<Rightarrow> (string \<times> json) list" where
  "signed_body w (Post_Subject k) = normalized [(''participant_key'', JStr k)]"
| "signed_body w (Post_Bootstrap p c) = activate_bootstrap_body w p"
| "signed_body w (Post_Consent x n ps) = consent_body w x n ps"
| "signed_body w (Post_Operator_Release p) = operator_release_body p"
| "signed_body w (Post_Claim_Definition p) = register_claim_body w p"
| "signed_body w (Post_Claim_Request p) = request_claim_body p"
| "signed_body w (Post_Authority_Grant p) = grant_authority_body w p"
| "signed_body w (Post_Authority_Revocation i actor reason) = revoke_authority_body i actor reason"
| "signed_body w (Post_Authority_Promotion p) = promote_authority_body w p"
| "signed_body w (Post_Recovery_Commitment x c) = recovery_commitment_body x c"
| "signed_body w (Post_Recovery_Case x k secret) = recovery_request_body x k secret"
| "signed_body w (Post_Recovery_Decision i p) = decision_body ''recovery_case_id'' i p"
| "signed_body w (Post_Privacy_Request x kind reason) = privacy_request_body x kind reason"
| "signed_body w (Post_Privacy_Decision i p) = decision_body ''privacy_request_id'' i p"
| "signed_body w (Post_Privacy_Export i) = [(''privacy_request_id'', JStr i)]"
| "signed_body w (Post_Invitation r v d) = invite_attestor_body w r v d"
| "signed_body w (Post_Introduction p) = introduce_attestor_body w p"
| "signed_body w (Post_Attestation p) = issue_attestation_body w p"
| "signed_body w (Post_Bootstrap_Attestation r g d) = bootstrap_attestation_body w r g d"
| "signed_body w (Post_Audit p) = select_audit_body p"
| "signed_body w (Post_Audit_Decision i actor passed) = decide_audit_body i actor passed"
| "signed_body w (Post_Challenge x a reason) = open_challenge_body x a reason"
| "signed_body w (Post_Challenge_Response i code) = challenge_response_body i code"
| "signed_body w (Post_Challenge_Decision i actor d) = challenge_decision_body i actor d"
| "signed_body w (Post_Appeal i reason) = appeal_body i reason"
| "signed_body w (Post_Appeal_Decision i actor d) = appeal_decision_body i actor d"
| "signed_body w (Post_Presentation i audience) = present_credential_body i audience"
| "signed_body w (Post_Member_Presentation f) = member_presentation_body w f"

text \<open>The routes that only read.\<close>

datatype query = Get_Member_Snapshot | Get_Status string | Get_Operator_Release | Get_Events | Get_Receipt string

fun serve_query :: "web \<Rightarrow> query \<Rightarrow> (database, json) prog" where
  "serve_query w Get_Member_Snapshot = bind (get_member_snapshot_route w) (\<lambda>r. ret (JObject r))"
| "serve_query w (Get_Status i) = bind (credential_status_route w i) (\<lambda>r. ret (JObject r))"
| "serve_query w Get_Operator_Release = bind (operator_release_route w) (\<lambda>r. ret (JObject r))"
| "serve_query w Get_Events = public_events_route w"
| "serve_query w (Get_Receipt i) = bind (public_receipt_route w i) (\<lambda>r. ret (JObject r))"

section \<open>Reading changes nothing\<close>

lemma peek_keeps [keeps]: "keeps (peek w m) (\<lambda>db. db = d)"
proof -
  have "keeps (load_core e) (\<lambda>db. db = d)" for e by (simp add: keeps_def load_core_reads)
  moreover have "keeps (on_core c m) (\<lambda>db. db = d)" for c by (simp add: keeps_def on_core_reads)
  ultimately show ?thesis unfolding peek_def by (intro keeps)
qed

lemma serve_query_keeps: "keeps (serve_query w q) (\<lambda>db. db = d)"
  by (cases q)
    (simp_all add: get_member_snapshot_route_def credential_status_route_def operator_release_route_def
      public_events_route_def public_receipt_route_def keeps split: option.split)

theorem queries_only_read: "snd (serve_query w q db) = db"
  using keepsD [OF serve_query_keeps [of w q db], of db] by simp

text \<open>What each of them runs on the core.\<close>

fun transition_of :: "web \<Rightarrow> post \<Rightarrow> transition_result action" where
  "transition_of w (Post_Subject k) =
     bind (create_subject (web_env w) k False) (\<lambda>(x, r). result [RSubject x] r)"
| "transition_of w (Post_Bootstrap p c) = activate_bootstrap_transition w p"
| "transition_of w (Post_Consent x n ps) =
     bind (accept_consent (web_env w) x n ps) (\<lambda>(c, r). result [RConsentRecord c] r)"
| "transition_of w (Post_Operator_Release p) =
     bind (register_operator_release (web_env w) p) (\<lambda>(release, r). result [ROperatorRelease release] r)"
| "transition_of w (Post_Claim_Definition p) =
     (case check_claim_definition (register_claim_definition p) of
        Inl er \<Rightarrow> raise er
      | Inr d \<Rightarrow> bind (register_claim (web_env w) d (Some (rci_actor_authority_grant_id p))) (\<lambda>r.
                 result [RClaimDefinition d] r))"
| "transition_of w (Post_Claim_Request p) =
     bind (request_claim (web_env w) (qci_subject_id p) (qci_claim_type p) (qci_definition_version p)
             (qci_policy_version p)) (\<lambda>(q, r). result [RClaimRequest q] r)"
| "transition_of w (Post_Authority_Grant p) =
     bind (grant_authority (web_env w)
       \<lparr>dlg_actor_authority_grant_id = gai_actor_authority_grant_id p,
        dlg_holder_subject_id = gai_holder_subject_id p, dlg_capabilities = gai_capabilities p,
        dlg_claim_types = gai_claim_types p, dlg_method_classes = gai_method_classes p,
        dlg_tier = gai_tier p, dlg_expires_at = gai_expires_at p, dlg_usage_cap = gai_usage_cap p,
        dlg_can_delegate = gai_can_delegate p, dlg_max_delegation_depth = gai_max_delegation_depth p,
        dlg_public_accountability_label = gai_public_accountability_label p, dlg_basis = DELEGATED\<rparr>)
     (\<lambda>(g, r). result [RAuthorityGrant g] r)"
| "transition_of w (Post_Authority_Revocation i actor reason) =
     bind (revoke_authority (web_env w) actor i reason) (\<lambda>(revoked, creds, r).
     result (map RAuthorityGrant revoked @ map RCredential creds) r)"
| "transition_of w (Post_Authority_Promotion p) =
     bind (promote_authority (web_env w) (pai_actor_authority_grant_id p) (pai_source_authority_grant_ids p)
             (pai_resulting_tier p) (pai_capabilities p) (pai_expires_at p)
             (pai_public_accountability_label p)) (\<lambda>(m, g, r).
     result [RAuthorityPromotion m, RAuthorityGrant g] r)"
| "transition_of w (Post_Recovery_Commitment x c) =
     bind (register_recovery_commitment (web_env w) x c) (\<lambda>(c, r). result [RRecoveryCommitment c] r)"
| "transition_of w (Post_Recovery_Case x k secret) =
     bind (request_recovery (web_env w) x k secret) (\<lambda>(c, r). result [RRecoveryCase c] r)"
| "transition_of w (Post_Recovery_Decision i p) =
     bind (decide_recovery (web_env w) i (dci_actor_authority_grant_id p) (dci_approve p)
             (dci_reason_code p)) (\<lambda>(c, x, r). result [RRecoveryCase c, RSubject x] r)"
| "transition_of w (Post_Privacy_Request x kind reason) =
     bind (open_privacy_request (web_env w) x kind reason) (\<lambda>(p, r). result [RPrivacyRequest p] r)"
| "transition_of w (Post_Privacy_Decision i p) =
     bind (process_privacy_request (web_env w) i (dci_actor_authority_grant_id p) (dci_approve p)
             (dci_reason_code p)) (\<lambda>(q, creds, r). result (RPrivacyRequest q # map RCredential creds) r)"
| "transition_of w (Post_Privacy_Export i) =
     bind (privacy_export (web_env w) i) (\<lambda>(x, r). payload_result (export_payload w x) r)"
| "transition_of w (Post_Invitation r v d) =
     bind (invite_attestor (web_env w) r v d) (\<lambda>(v, r). result [RAttestorInvitation v] r)"
| "transition_of w (Post_Introduction p) =
     bind (introduce_attestor (web_env w) (iai_request_id p) (iai_introducer_subject_id p)
             (iai_invited_verifier_subject_id p) (iai_expires_at p) (Some (iai_actor_authority_grant_id p)))
     (\<lambda>(n, r). result [RIntroduction n] r)"
| "transition_of w (Post_Attestation p) =
     bind (issue_attestation (web_env w)
       \<lparr>af_invitation_id = tai_invitation_id p, af_grant_id = tai_authority_grant_id p,
        af_method_class = tai_method_class p, af_expires_at = tai_expires_at p,
        af_verification_basis = tai_verification_basis p,
        af_introduction_id = Some (tai_introduction_id p), af_independence_path = None\<rparr>)
     (\<lambda>(a, c, r). result [RAttestation a, RCredential c] r)"
| "transition_of w (Post_Bootstrap_Attestation r g d) =
     bind (issue_bootstrap_attestation (web_env w) r g d) (\<lambda>(a, c, r).
     result [RAttestation a, RCredential c] r)"
| "transition_of w (Post_Audit p) =
     bind (select_audit (web_env w) (sai_attestation_id p) (sai_basis p) (sai_selection_seed p)
             (Some (sai_actor_authority_grant_id p))) (\<lambda>(a, r). result [RAudit a] r)"
| "transition_of w (Post_Audit_Decision i actor passed) =
     bind (decide_audit (web_env w) i passed (Some actor)) (\<lambda>(a, c, r). result [RAudit a, RCredential c] r)"
| "transition_of w (Post_Challenge x a reason) =
     bind (open_challenge (web_env w) a reason (Some x)) (\<lambda>(c, r). result [RChallenge c] r)"
| "transition_of w (Post_Challenge_Response i code) =
     bind (respond_to_challenge (web_env w) i code) (\<lambda>(c, r). result [RChallenge c] r)"
| "transition_of w (Post_Challenge_Decision i actor d) =
     bind (decide_challenge (web_env w) i d (Some actor)) (\<lambda>(c, k, r). result [RChallenge c, RCredential k] r)"
| "transition_of w (Post_Appeal i reason) =
     bind (appeal_challenge (web_env w) i reason) (\<lambda>(c, r). result [RChallenge c] r)"
| "transition_of w (Post_Appeal_Decision i actor d) =
     bind (decide_appeal (web_env w) i d (Some actor)) (\<lambda>(c, k, r). result [RChallenge c, RCredential k] r)"
| "transition_of w (Post_Presentation i audience) =
     bind (present_credential (web_env w) i audience) (\<lambda>(p, r).
     payload_result (with_proof (presentation_payload p) (prs_proof p)) r)"
| "transition_of w (Post_Member_Presentation f) =
     bind (present_member (web_env w) f) (\<lambda>(p, r).
     payload_result (with_proof (member_payload p) (mpr_proof p)) r)"

section \<open>Only signed actions change the database\<close>

text \<open>
  What a handler has done when it ends with a database other than the one it started from: it read
  the key of the participant concerned, accepted the proof over the body, and executed the
  transition as a command that was not known before.
\<close>

definition signed_change :: "web \<Rightarrow> post \<Rightarrow> action_proof \<Rightarrow> database \<Rightarrow> database \<Rightarrow> bool" where
  "signed_change w p proof db db' \<longleftrightarrow>
     (\<exists>key a r. peek w (acting_key p) db = (Inr key, db)
        \<and> authorize_request w key (operation_of p) proof (signed_body w p) = Inr a
        \<and> dget (db_commands db) (va_command_id a) = None
        \<and> execute (web_iteration w) (web_env w) (web_wall w) (va_command_id a) (operation_of p)
            (va_actor_reference a) (signed_body w p) (transition_of w p) db = (Inr r, db'))"

lemma signed_change_execute:
  assumes "signed_change w p proof db db'"
  obtains a :: verified_action and r where "execute (web_iteration w) (web_env w) (web_wall w) (va_command_id a) (operation_of p)
            (va_actor_reference a) (signed_body w p) (transition_of w p) db = (Inr r, db')"
  using assms by (auto simp: signed_change_def)

text \<open>A run from one database either ends there or satisfies a condition on where it ends.\<close>

definition only_at :: "database \<Rightarrow> (database \<Rightarrow> bool) \<Rightarrow> (database, 'a) prog \<Rightarrow> bool" where
  "only_at db P m \<longleftrightarrow> snd (m db) = db \<or> P (snd (m db))"

named_theorems only "runs that change the database only under a condition"

lemma only_raise [only]: "only_at db P (raise er)"
  by (simp add: only_at_def raise_def)

lemma only_checked [only]: "(ok \<Longrightarrow> only_at db P m) \<Longrightarrow> only_at db P (checked ok m)"
  by (simp add: checked_def only)

lemma only_option [only]:
  "(v = None \<Longrightarrow> only_at db P m) \<Longrightarrow> (\<And>x. v = Some x \<Longrightarrow> only_at db P (f x))
   \<Longrightarrow> only_at db P (case v of None \<Rightarrow> m | Some x \<Rightarrow> f x)"
  by (cases v) simp_all

lemma only_pair [only]:
  "(\<And>x y. v = (x, y) \<Longrightarrow> only_at db P (f x y)) \<Longrightarrow> only_at db P (case v of (x, y) \<Rightarrow> f x y)"
  by (cases v) simp

lemma only_if [only]:
  "(b \<Longrightarrow> only_at db P m) \<Longrightarrow> (\<not> b \<Longrightarrow> only_at db P n) \<Longrightarrow> only_at db P (if b then m else n)"
  by simp

lemma only_peek [only]:
  assumes "\<And>x. peek w m db = (Inr x, db) \<Longrightarrow> only_at db P (f x)"
  shows "only_at db P (bind (peek w m) f)"
proof -
  have "snd (peek w m db) = db" using keepsD [OF peek_keeps [of w m db], of db] by simp
  with assms show ?thesis
    by (cases "peek w m db") (auto simp: only_at_def bind_def split: sum.split)
qed

lemma only_lift_sum [only]:
  "(\<And>x. v = Inr x \<Longrightarrow> only_at db P (f x)) \<Longrightarrow> only_at db P (bind (lift_sum v) f)"
  by (cases v) (simp_all add: only_at_def bind_def lift_sum_def ret_def raise_def)

lemma only_then [only]:
  assumes "only_at db P m" "\<And>x d. keeps (f x) (\<lambda>db. db = d)"
  shows "only_at db P (bind m f)"
proof -
  have "snd (f x d) = d" for x d using keepsD [OF assms(2) [of x d], of d] by simp
  with assms(1) show ?thesis
    by (cases "m db"; cases "fst (m db)") (simp_all add: only_at_def bind_def)
qed

text \<open>A command that changes the database was not known, found the core and returned.\<close>

lemma replay_keeps: "keeps (replay row) (\<lambda>db. db = d)"
proof -
  have "keeps (lift_sum v) (\<lambda>db. db = d)" for v :: "error + 'a"
    by (simp add: lift_sum_def keeps split: sum.split)
  then show ?thesis
    unfolding replay_def by (intro keeps) (auto intro!: keeps split: list.split trust_record.split)
qed

lemma replay_reads: "snd (transaction (replay row) db) = db"
  using keepsD [OF replay_keeps [of row db], of db]
  by (cases "replay row db"; cases "fst (replay row db)") (simp_all add: transaction_def)

lemma execute_changed:
  assumes "snd (execute it e wall i op actor payload tr db) \<noteq> db"
  shows "dget (db_commands db) i = None" "\<exists>c. load_core e db = (Inr c, db)"
    "\<exists>r. execute it e wall i op actor payload tr db = (Inr r, snd (execute it e wall i op actor payload tr db))"
proof -
  show none: "dget (db_commands db) i = None"
    using assms replay_reads by (cases "dget (db_commands db) i") (auto simp: execute_known split: if_splits)
  show "\<exists>c. load_core e db = (Inr c, db)"
  proof (cases "load_core e db")
    case (Pair x d)
    with load_core_reads [of e db] have "d = db" by simp
    with Pair assms none show ?thesis
      by (cases x) (simp_all add: execute_def transaction_def bind_def gets_def)
  qed
  show "\<exists>r. execute it e wall i op actor payload tr db = (Inr r, snd (execute it e wall i op actor payload tr db))"
    using assms execute_rollback [of it e wall i op actor payload tr db]
    by (cases "execute it e wall i op actor payload tr db"; cases "fst (execute it e wall i op actor payload tr db)") auto
qed

lemma only_execute:
  assumes "\<And>db' r. dget (db_commands db) i = None \<Longrightarrow> \<exists>c. load_core e db = (Inr c, db)
    \<Longrightarrow> execute it e wall i op actor payload tr db = (Inr r, db') \<Longrightarrow> P db'"
  shows "only_at db P (execute it e wall i op actor payload tr)"
  using assms execute_changed [of it e wall i op actor payload tr db] by (auto simp: only_at_def)

lemma peek_ret: "\<exists>c. load_core (web_env w) db = (Inr c, db) \<Longrightarrow> peek w (ret k) db = (Inr k, db)"
  by (auto simp: peek_def bind_def on_core_def ret_def)

text \<open>The two shapes of a handler.\<close>

lemma only_perform:
  assumes "peek w (acting_key p) db = (Inr key, db) \<or> acting_key p = ret key"
    and "op = operation_of p" "body = signed_body w p" "tr = transition_of w p"
  shows "only_at db (signed_change w p proof db) (perform w key op proof body tr)"
  unfolding perform_def
proof (intro only_lift_sum only_execute)
  fix a db' r
  assume a: "authorize_request w key op proof body = Inr a" "dget (db_commands db) (va_command_id a) = None"
    "\<exists>c. load_core (web_env w) db = (Inr c, db)"
    "execute (web_iteration w) (web_env w) (web_wall w) (va_command_id a) op (va_actor_reference a) body tr db
      = (Inr r, db')"
  have "peek w (acting_key p) db = (Inr key, db)" using assms(1) peek_ret [OF a(3), of key] by auto
  with a assms(2-4) show "signed_change w p proof db db'" unfolding signed_change_def by blast
qed

lemma only_submit:
  assumes "acting_key p = lookup" "op = operation_of p" "body = signed_body w p" "tr = transition_of w p"
  shows "only_at db (signed_change w p proof db) (submit w lookup op proof body tr)"
  unfolding submit_def
  by (intro only only_then keeps only_perform) (use assms in simp_all)

lemma presentation_keeps [keeps]: "keeps (presentation_response w why r) (\<lambda>db. db = d)"
  unfolding presentation_response_def by (intro keeps)

lemmas routes =
  create_subject_route_def activate_bootstrap_route_def accept_consent_route_def
  register_operator_release_route_def register_claim_route_def request_claim_route_def
  grant_authority_route_def revoke_authority_route_def promote_authority_route_def
  register_recovery_commitment_route_def request_recovery_route_def decide_recovery_route_def
  open_privacy_request_route_def process_privacy_request_route_def export_privacy_request_route_def
  invite_attestor_route_def introduce_attestor_route_def issue_attestation_route_def
  issue_bootstrap_attestation_route_def select_audit_route_def decide_audit_route_def
  open_challenge_route_def respond_to_challenge_route_def decide_challenge_route_def
  appeal_challenge_route_def decide_appeal_route_def present_credential_route_def
  create_member_presentation_route_def

lemma serve_post_only: "only_at db (signed_change w p proof db) (serve_post w p proof)"
proof (cases "\<exists>q. p = Post_Claim_Definition q")
  case True
  then obtain q where p: "p = Post_Claim_Definition q" by blast
  show ?thesis
    unfolding p serve_post.simps routes
    by (intro only only_then only_execute keeps) (auto simp: signed_change_def)
next
  case False
  then show ?thesis
    by (cases p; simp only: serve_post.simps routes; intro only only_then only_perform only_submit keeps; simp)
qed

theorem only_signed_changes:
  "serve_post w p proof db = (x, db') \<Longrightarrow> db' \<noteq> db \<Longrightarrow> signed_change w p proof db db'"
  using serve_post_only [of db w p "proof"] by (simp add: only_at_def)

text \<open>The first operator needs the bootstrap token as well.\<close>

theorem bootstrap_needs_token:
  assumes "serve_post w (Post_Bootstrap p c) proof db = (x, db')" "db' \<noteq> db"
  shows "\<exists>expected scheme supplied. web_bootstrap_token w = Some expected \<and> c = Some (scheme, supplied)
    \<and> map to_lower scheme = ''bearer'' \<and> supplied \<noteq> [] \<and> encode supplied = expected"
proof -
  have "only_at db (\<lambda>db'. \<exists>expected scheme supplied. web_bootstrap_token w = Some expected \<and> c = Some (scheme, supplied)
    \<and> map to_lower scheme = ''bearer'' \<and> supplied \<noteq> [] \<and> encode supplied = expected)
    (serve_post w (Post_Bootstrap p c) proof)"
    unfolding serve_post.simps activate_bootstrap_route_def
    by (intro only only_then keeps) (simp_all add: only_at_def verify_bootstrap_token_def split: if_splits)
  with assms show ?thesis by (simp add: only_at_def)
qed

text \<open>A body does not depend on the order in which the process happens to iterate its sets.\<close>

fun finite_sets :: "post \<Rightarrow> bool" where
  "finite_sets (Post_Consent x n ps) \<longleftrightarrow> finite ps"
| "finite_sets (Post_Authority_Grant p) \<longleftrightarrow> finite (gai_claim_types p) \<and> finite (gai_method_classes p)"
| "finite_sets p \<longleftrightarrow> True"

theorem signed_body_stable:
  assumes "iterates (web_iteration w)" "iterates it" "finite_sets p"
  shows "signed_body (w\<lparr>web_iteration := it\<rparr>) p = signed_body w p"
  using assms bodies_stable [OF assms(1,2)]
  by (cases p) (simp_all add: activate_bootstrap_body_def member_presentation_body_def
      bootstrap_attestation_body_def invite_attestor_body_def introduce_attestor_body_def
      issue_attestation_body_def jtime_def)

section \<open>What requests lead to\<close>

lemma keeps_exec: "keeps (exec (e\<lparr>env_clock := k\<rparr>) c) (reachable e)"
proof -
  have "reachable e t" if "reachable e s" "exec (e\<lparr>env_clock := k\<rparr>) c s = (r, t)" for s r t
    using that reachable_exec [of "e\<lparr>env_clock := k\<rparr>" s c r t] by (simp add: reachable_clock)
  then show ?thesis by (metis keeps_def prod.collapse)
qed

lemmas calls_reachable =
  keeps_exec [where c = "Create_Subject i b" for i b, unfolded exec.simps keeps_call]
  keeps_exec [where c = "Bootstrap_Authority i j k l d" for i j k l d, unfolded exec.simps keeps_call]
  keeps_exec [where c = "Accept_Consent i j ps" for i j ps, unfolded exec.simps keeps_call]
  keeps_exec [where c = "Register_Operator_Release f" for f, unfolded exec.simps keeps_call]
  keeps_exec [where c = "Register_Claim d i" for d i, unfolded exec.simps keeps_call]
  keeps_exec [where c = "Request_Claim i j k l" for i j k l, unfolded exec.simps keeps_call]
  keeps_exec [where c = "Grant_Authority a" for a, unfolded exec.simps keeps_call]
  keeps_exec [where c = "Revoke_Authority i j k" for i j k, unfolded exec.simps keeps_call]
  keeps_exec [where c = "Promote_Authority i xs l cs d o'" for i xs l cs d o', unfolded exec.simps keeps_call]
  keeps_exec [where c = "Register_Recovery_Commitment i j" for i j, unfolded exec.simps keeps_call]
  keeps_exec [where c = "Request_Recovery i j l" for i j l, unfolded exec.simps keeps_call]
  keeps_exec [where c = "Decide_Recovery i j b l" for i j b l, unfolded exec.simps keeps_call]
  keeps_exec [where c = "Open_Privacy_Request i kd l" for i kd l, unfolded exec.simps keeps_call]
  keeps_exec [where c = "Process_Privacy_Request i j b l" for i j b l, unfolded exec.simps keeps_call]
  keeps_exec [where c = "Privacy_Export i" for i, unfolded exec.simps keeps_call]
  keeps_exec [where c = "Invite_Attestor i j d" for i j d, unfolded exec.simps keeps_call]
  keeps_exec [where c = "Introduce_Attestor i j l d o'" for i j l d o', unfolded exec.simps keeps_call]
  keeps_exec [where c = "Issue_Attestation f" for f, unfolded exec.simps keeps_call]
  keeps_exec [where c = "Issue_Bootstrap_Attestation i j d" for i j d, unfolded exec.simps keeps_call]
  keeps_exec [where c = "Select_Audit i b l o'" for i b l o', unfolded exec.simps keeps_call]
  keeps_exec [where c = "Decide_Audit i b o'" for i b o', unfolded exec.simps keeps_call]
  keeps_exec [where c = "Open_Challenge i j o'" for i j o', unfolded exec.simps keeps_call]
  keeps_exec [where c = "Respond_To_Challenge i j" for i j, unfolded exec.simps keeps_call]
  keeps_exec [where c = "Decide_Challenge i d o'" for i d o', unfolded exec.simps keeps_call]
  keeps_exec [where c = "Appeal_Challenge i j" for i j, unfolded exec.simps keeps_call]
  keeps_exec [where c = "Decide_Appeal i d o'" for i d o', unfolded exec.simps keeps_call]
  keeps_exec [where c = "Present_Credential i j" for i j, unfolded exec.simps keeps_call]
  keeps_exec [where c = "Present_Member f" for f, unfolded exec.simps keeps_call]

lemma keeps_case_sum [keeps]:
  "(\<And>x. v = Inl x \<Longrightarrow> keeps (f x) I) \<Longrightarrow> (\<And>x. v = Inr x \<Longrightarrow> keeps (g x) I)
   \<Longrightarrow> keeps (case v of Inl x \<Rightarrow> f x | Inr x \<Rightarrow> g x) I"
  by (cases v) simp_all

lemma keeps_result [keeps]: "keeps (result rs r) I" "keeps (payload_result j r) I"
  by (simp_all add: result_def payload_result_def keeps)

lemma transitions_reachable:
  assumes "web_env w = e\<lparr>env_clock := k\<rparr>"
  shows "keeps (transition_of w p) (reachable e)"
  by (cases p; simp only: transition_of.simps activate_bootstrap_transition_def assms; intro keeps calls_reachable)

text \<open>
  Any number of requests, each met by a process with a clock, an iteration order and a configuration of
  its own. What a transition stores are values that Python has: no timestamp outside of the years 1
  to 9999 and no infinite set.
\<close>

inductive answers :: "env \<Rightarrow> database \<Rightarrow> database \<Rightarrow> bool" for e where
  answered: "web_env w = e\<lparr>env_clock := k\<rparr> \<Longrightarrow> iterates (web_iteration w)
    \<Longrightarrow> (\<And>s r t. represents e db s \<Longrightarrow> transition_of w p s = (Inr r, t) \<Longrightarrow> storable_core t \<and> storable_result r)
    \<Longrightarrow> answers e db (snd (serve_post w p proof db))"

inductive_cases answers_cases: "answers e db db'"

definition served :: "env \<Rightarrow> database \<Rightarrow> bool" where
  "served e db \<longleftrightarrow> (answers e)\<^sup>*\<^sup>* empty_database db"

lemma answers_durable:
  assumes "answers e db db'" "durable e db"
  shows "durable e db'"
  using assms(1)
proof cases
  case (answered w k p "proof")
  show ?thesis
  proof (cases "db' = db")
    case True
    with assms(2) show ?thesis by simp
  next
    case False
    obtain x where "serve_post w p proof db = (x, db')" using answered(1) by (metis prod.collapse)
    from only_signed_changes [OF this False] obtain a :: verified_action and r where
      "execute (web_iteration w) (web_env w) (web_wall w) (va_command_id a) (operation_of p)
        (va_actor_reference a) (signed_body w p) (transition_of w p) db = (Inr r, db')"
      by (rule signed_change_execute)
    then show ?thesis
      using durable.executed [OF assms(2) answered(3) transitions_reachable [OF answered(2), of p],
          where clock = k and wall = "web_wall w" and i = "va_command_id a" and op = "operation_of p"
            and actor = "va_actor_reference a" and payload = "signed_body w p"] answered(2,4)
      by simp
  qed
qed

theorem served_durable: "served e db \<Longrightarrow> durable e db"
  unfolding served_def by (induction rule: rtranclp_induct) (auto intro: durable.created answers_durable)

text \<open>What any route finds in a database that requests led to.\<close>

theorem served_core:
  assumes "served e db"
  shows "\<exists>s. reachable e s \<and> represents e db s \<and> load_core e db = (Inr s, db)"
  using durable_represents [OF served_durable [OF assms]] load_core_represents by blast

section \<open>Commands are executed once\<close>

lemma execute_keeps_row:
  assumes "dget (db_commands db) j = Some row"
  shows "dget (db_commands (snd (execute it e wall i op actor payload tr db))) j = Some row"
proof (cases "dget (db_commands db) i")
  case (Some known)
  then show ?thesis using assms replay_reads [of known db] by (simp add: execute_known)
next
  case None
  then have "j \<noteq> i" using assms by auto
  let ?I = "\<lambda>db. dget (db_commands db) j = Some row"
  have wp: "keeps (transaction m) I" if "keeps m I" for m :: "(database, 'a) prog" and I
    using that by (auto simp: keeps_def transaction_def split: prod.split sum.split)
  have "keeps (load_core e) I" for I by (simp add: keeps_def load_core_reads)
  moreover have "keeps (on_core c tr) I" for c I by (simp add: keeps_def on_core_reads)
  moreover have "keeps (store_state w s) ?I" for w s by (simp add: store_state_def keeps)
  moreover have "keeps (insert_command i new) ?I" for new
    unfolding insert_command_def using \<open>j \<noteq> i\<close> by (intro keeps) (simp add: dict)
  moreover have "keeps (raise er) ?I" for er :: error by (rule keeps)
  ultimately have "keeps (bind (load_core e) (\<lambda>c. bind (on_core c tr) (\<lambda>(r, c').
            let serialized = map (to_record it) (tr_records r @ [RReceipt (tr_receipt r)]) in
            bind (store_state wall (export_snapshot it e c')) (\<lambda>_.
            bind (insert_command i
              \<lparr>row_operation = op, row_actor_reference = actor,
               row_request_digest = request_digest e payload,
               row_receipt_id = rcp_receipt_id (tr_receipt r), row_result_records = serialized,
               row_response_payload = tr_response_payload r,
               row_occurred_at = rcp_occurred_at (tr_receipt r)\<rparr>) (\<lambda>_.
            ret \<lparr>er_records = tr_records r, er_receipt = tr_receipt r, er_replayed = False,
                 er_response_payload = tr_response_payload r\<rparr>))))) ?I"
    unfolding Let_def by (intro keeps) simp_all
  from keepsD [OF wp [OF this], of db] assms None show ?thesis
    by (simp add: execute_def transaction_def bind_def gets_def)
qed

lemma answers_keep_rows:
  assumes "(answers e)\<^sup>*\<^sup>* db db'" "dget (db_commands db) j = Some row"
  shows "dget (db_commands db') j = Some row"
  using assms
proof (induction rule: rtranclp_induct)
  case (step d d')
  from step.hyps(2) show ?case
  proof cases
    case (answered w k p "proof")
    obtain x where run: "serve_post w p proof d = (x, d')" using answered(1) by (metis prod.collapse)
    show ?thesis
    proof (cases "d' = d")
      case False
      from only_signed_changes [OF run this] obtain a :: verified_action and r where
        "execute (web_iteration w) (web_env w) (web_wall w) (va_command_id a) (operation_of p)
          (va_actor_reference a) (signed_body w p) (transition_of w p) d = (Inr r, d')"
        by (rule signed_change_execute)
      with execute_keeps_row [OF step.IH [OF step.prems], of "web_iteration w" "web_env w" "web_wall w"
          "va_command_id a" "operation_of p" "va_actor_reference a" "signed_body w p" "transition_of w p"]
      show ?thesis by simp
    qed (use step in simp)
  qed
qed simp

text \<open>
  A command that took effect takes no effect again, however many requests come in between: it is
  answered with the result that it gave.
\<close>

theorem executed_once:
  assumes "represents e db s" "iterates it" "dget (db_commands db) i = None"
    and "execute it e wall i op actor payload tr db = (Inr r, db1)"
    and "\<And>r' t. tr s = (Inr r', t) \<Longrightarrow> storable_result r'"
    and "(answers e)\<^sup>*\<^sup>* db1 db2"
  shows "execute it' e wall' i op actor' payload tr' db2 = (Inr (r\<lparr>er_replayed := True\<rparr>), db2)"
proof -
  from assms(4) obtain x t where x: "tr s = (Inr x, t)" and r: "r = result_of False x"
    and db1: "db1 = stored wall (export_snapshot it e t) i (result_row it e op actor payload x) db"
    unfolding execute_new [OF assms(1,3)] by (auto split: prod.splits sum.splits if_splits)
  have "dget (db_commands db1) i = Some (result_row it e op actor payload x)"
    by (simp add: db1 stored_def dict)
  with assms(6) have "dget (db_commands db2) i = Some (result_row it e op actor payload x)"
    by (rule answers_keep_rows)
  from execute_again [OF this assms(2) assms(5) [OF x]] r show ?thesis by (simp add: result_of_def)
qed

end
