(* ===== verification/Configuration.thy ===== *)
theory Configuration
  imports Provisioning Gateway
begin

text \<open>
  Settings and start-up (\<open>src/kyn/config.py\<close>, \<open>src/kyn/main.py\<close>): the checks a configuration must
  pass, secrets that are read only from private files, the core that every request is answered with,
  and the HTTP status of the exceptions that a route leaves to the framework. The settings are
  pydantic's parsed fields, and a URL is its scheme and its normalized text.
\<close>

section \<open>Settings\<close>

datatype environment = Development | Integration | Production

record url =
  url_scheme :: string
  url_text :: string

record settings =
  set_environment :: environment
  set_database_url :: "string option"
  set_database_url_file :: "path option"
  set_issuer :: url
  set_policy_profile :: string
  set_bootstrap_public_label :: string
  set_signing_key_id :: string
  set_signing_seed_file :: path
  set_pairwise_secret_file :: path
  set_receipt_secret_file :: path
  set_bootstrap_enabled :: bool
  set_bootstrap_token_file :: "path option"
  set_action_clock_skew_seconds :: int
  set_bind_host :: string
  set_bind_port :: int
  set_forwarded_allow_ips :: string

text \<open>The bounds on the two integers, and then the model's validator.\<close>

definition field_bounds :: "settings \<Rightarrow> error + settings" where
  "field_bounds x =
     (if \<not> (15 \<le> set_action_clock_skew_seconds x \<and> set_action_clock_skew_seconds x \<le> 300)
         \<or> \<not> (1024 \<le> set_bind_port x \<and> set_bind_port x \<le> 65535)
      then Inl (ValueError ''settings are out of bounds'') else Inr x)"

definition production_requires_https_and_postgres :: "settings \<Rightarrow> error + settings" where
  "production_requires_https_and_postgres x =
     (if (set_database_url x = None) = (set_database_url_file x = None)
      then Inl (ValueError ''configure exactly one database URL source'')
      else if set_environment x = Production \<and> url_scheme (set_issuer x) \<noteq> ''https''
      then Inl (ValueError ''production issuer must use https'')
      else if set_environment x = Production \<and> set_database_url_file x = None
      then Inl (ValueError ''production database URL must come from a secret file'')
      else if set_environment x = Production \<and> set_bind_host x \<notin> {''127.0.0.1'', ''0.0.0.0''}
      then Inl (ValueError ''production bind host must be explicit'')
      else if set_bootstrap_enabled x \<and> set_bootstrap_token_file x = None
      then Inl (ValueError ''enabled bootstrap requires a token file'')
      else Inr x)"

text \<open>\<open>Settings()\<close>.\<close>

definition settings_of :: "settings \<Rightarrow> error + settings" where
  "settings_of x = (case field_bounds x of Inl er \<Rightarrow> Inl er | Inr y \<Rightarrow> production_requires_https_and_postgres y)"

section \<open>Secret files\<close>

definition read_secret_file :: "path \<Rightarrow> nat option \<Rightarrow> (machine, bytes) prog" where
  "read_secret_file p expected_bytes =
     bind (resolve True p) (\<lambda>resolved.
     bind (gets mch_files) (\<lambda>fs.
     if \<not> is_file fs resolved
     then raise (ValueError (''secret path is not a regular file: '' @ path_text resolved))
     else
     bind (stat_mode resolved) (\<lambda>mode.
     if mode AND 0x3F \<noteq> 0
     then raise (ValueError (''secret file permissions are too broad: '' @ path_text resolved))
     else
     bind (read_bytes resolved) (\<lambda>raw.
     case expected_bytes of
       Some n \<Rightarrow>
         if length raw \<noteq> n
         then raise (ValueError (''secret file must contain exactly '' @ decimal n @ '' raw bytes''))
         else ret raw
     | None \<Rightarrow>
         if length (strip raw) < minimum_secret_bytes
         then raise (ValueError ''secret file must contain at least 32 bytes'')
         else ret (strip raw)))))"

text \<open>
  \<open>bytes.decode("utf-8")\<close>, of the texts of the model: one byte, or two for a character from 128 to
  255. Everything else is refused.
\<close>

fun decode_utf8 :: "bytes \<Rightarrow> error + string" where
  "decode_utf8 [] = Inr []"
| "decode_utf8 (a # r) =
     (let x = of_char a :: nat in
      if x < 128 then map_sum id (Cons a) (decode_utf8 r)
      else case r of
        [] \<Rightarrow> Inl (ValueError ''invalid utf-8'')
      | b # r' \<Rightarrow> (let y = of_char b :: nat in
          if x \<in> {194, 195} \<and> 128 \<le> y \<and> y < 192
          then map_sum id (Cons (char_of (64 * (x - 192) + (y - 128)))) (decode_utf8 r')
          else Inl (ValueError ''invalid utf-8'')))"

text \<open>The newlines that reading in text mode leaves.\<close>

fun universal_newlines :: "string \<Rightarrow> string" where
  "universal_newlines [] = []"
| "universal_newlines (c # t) =
     (if c = CHR 13 then CHR 10 # (case t of [] \<Rightarrow> [] | d # r \<Rightarrow> if d = CHR 10 then universal_newlines r else universal_newlines t)
      else c # universal_newlines t)"

definition read_text :: "bytes \<Rightarrow> error + string" where
  "read_text v = map_sum id universal_newlines (decode_utf8 v)"

definition resolved_database_url :: "settings \<Rightarrow> (machine, string) prog" where
  "resolved_database_url x =
     bind (case set_database_url_file x of
             None \<Rightarrow> ret (set_database_url x)
           | Some p \<Rightarrow> bind (read_secret_file p None) (\<lambda>v. bind (lift_sum (decode_utf8 v)) (\<lambda>t. ret (Some t)))) (\<lambda>found.
     case found of
       None \<Rightarrow> raise (ValueError ''database URL is unavailable'')
     | Some t \<Rightarrow>
         if set_environment x = Production \<and> \<not> startswith ''postgresql+psycopg://'' t
         then raise (ValueError ''production KYN state requires PostgreSQL through psycopg'')
         else ret t)"

section \<open>Start-up\<close>

text \<open>Ed25519 from a seed, HMAC and SHA-256, and the clock of the process, which is always aware.\<close>

record primitives =
  prim_sign :: "bytes \<Rightarrow> bytes \<Rightarrow> bytes"
  prim_hmac :: "bytes \<Rightarrow> bytes \<Rightarrow> bytes"
  prim_sha256 :: "bytes \<Rightarrow> bytes"
  prim_clock :: "nat \<Rightarrow> time"

definition ed25519_seed_bytes :: nat where "ed25519_seed_bytes = 32"

text \<open>\<open>Ed25519Signer.from_seed\<close>: the signing function of the key.\<close>

definition from_seed :: "'m primitives_scheme \<Rightarrow> bytes \<Rightarrow> error + (bytes \<Rightarrow> bytes)" where
  "from_seed k seed =
     (if length seed \<noteq> ed25519_seed_bytes then Inl (ValueError ''Ed25519 seed must be exactly 32 bytes'')
      else Inr (prim_sign k seed))"

definition deployed_policy :: "settings \<Rightarrow> trust_policy" where
  "deployed_policy x = synthetic_policy\<lparr>pol_profile_id := set_policy_profile x, pol_enforce_authority := True,
     pol_enforce_release := True, pol_require_consent := True,
     pol_bootstrap_public_label := Some (set_bootstrap_public_label x)\<rparr>"

text \<open>The \<open>factory\<close> that \<open>create_core_factory\<close> returns, called.\<close>

definition core_factory :: "primitives \<Rightarrow> settings \<Rightarrow> bytes \<Rightarrow> bytes \<Rightarrow> bytes \<Rightarrow> error + (env \<times> core)" where
  "core_factory k x signing_seed pairwise_secret receipt_secret =
     (case from_seed k signing_seed of
        Inl er \<Rightarrow> Inl er
      | Inr signer \<Rightarrow>
          (case check_trust_policy (deployed_policy x) of
             Inl er \<Rightarrow> Inl er
           | Inr policy \<Rightarrow>
               trust_core \<lparr>env_issuer = rstrip CHR ''/'' (url_text (set_issuer x)), env_key_id = set_signing_key_id x,
                 env_ed25519_sign = signer, env_policy = policy, env_pairwise_secret = pairwise_secret,
                 env_receipt_secret = receipt_secret, env_hmac = prim_hmac k, env_sha256 = prim_sha256 k,
                 env_clock = (\<lambda>n. Aware (prim_clock k n))\<rparr>))"

text \<open>\<open>app.state\<close> after \<open>lifespan\<close> has started, and the public paths of the framework's own pages.\<close>

record application =
  app_database_url :: string
  app_factory :: "error + (env \<times> core)"
  app_bootstrap_token :: "bytes option"
  app_action_clock_skew_seconds :: int
  app_docs_url :: "string option"
  app_openapi_url :: "string option"

definition create_app :: "primitives \<Rightarrow> settings \<Rightarrow> (machine, application) prog" where
  "create_app k x =
     bind (read_secret_file (set_signing_seed_file x) (Some 32)) (\<lambda>signing_seed.
     bind (read_secret_file (set_pairwise_secret_file x) None) (\<lambda>pairwise_secret.
     bind (read_secret_file (set_receipt_secret_file x) None) (\<lambda>receipt_secret.
     bind (if set_bootstrap_enabled x then
             (case set_bootstrap_token_file x of
                None \<Rightarrow> ret None
              | Some p \<Rightarrow> bind (read_secret_file p None) (\<lambda>v. ret (Some v)))
           else ret None) (\<lambda>bootstrap_token.
     bind (resolved_database_url x) (\<lambda>database_url.
     ret \<lparr>app_database_url = database_url,
          app_factory = core_factory k x signing_seed pairwise_secret receipt_secret,
          app_bootstrap_token = bootstrap_token,
          app_action_clock_skew_seconds = set_action_clock_skew_seconds x,
          app_docs_url = (if set_environment x = Production then None else Some ''/docs''),
          app_openapi_url = (if set_environment x = Production then None else Some ''/openapi.json'')\<rparr>)))))"

text \<open>The service that the routes run with: what start-up fixes of the adapter's context.\<close>

definition started :: "application \<Rightarrow> web \<Rightarrow> error + web" where
  "started app w = map_sum id (\<lambda>(e, _). w\<lparr>web_env := e, web_bootstrap_token := app_bootstrap_token app,
     web_clock_skew_seconds := app_action_clock_skew_seconds app\<rparr>) (app_factory app)"

section \<open>HTTP status\<close>

text \<open>
  The exception handlers of \<open>create_app\<close>, the framework's own for \<open>HTTPException\<close>, and 500 for what
  nobody handles.
\<close>

fun status_of :: "error \<Rightarrow> int" where
  "status_of (ActionAuthorizationError _) = 401"
| "status_of (TrustCoreError _) = 409"
| "status_of (DurableStateError _) = 409"
| "status_of (HTTPException n) = n"
| "status_of _ = 500"

section \<open>Secrets are private\<close>

lemma read_secret_file_runs:
  "read_secret_file p n s =
     (case walk (mch_files s) True max_links [] p of
        Inl er \<Rightarrow> (Inl er, s)
      | Inr q \<Rightarrow> bind (gets mch_files) (\<lambda>fs.
         if \<not> is_file fs q
         then raise (ValueError (''secret path is not a regular file: '' @ path_text q))
         else
         bind (stat_mode q) (\<lambda>mode.
         if mode AND 0x3F \<noteq> 0
         then raise (ValueError (''secret file permissions are too broad: '' @ path_text q))
         else
         bind (read_bytes q) (\<lambda>raw.
         case n of
           Some n \<Rightarrow>
             if length raw \<noteq> n
             then raise (ValueError (''secret file must contain exactly '' @ decimal n @ '' raw bytes''))
             else ret raw
         | None \<Rightarrow>
             if length (strip raw) < minimum_secret_bytes
             then raise (ValueError ''secret file must contain at least 32 bytes'')
             else ret (strip raw)))) s)"
  by (simp add: read_secret_file_def resolve_def lift_sum_def run split: sum.split)

text \<open>Reading a secret through a path that stands for itself, and what reading one means in general.\<close>

definition fits :: "nat option \<Rightarrow> bytes \<Rightarrow> bytes \<Rightarrow> bool" where
  "fits expected content v \<longleftrightarrow> (case expected of
     Some n \<Rightarrow> v = content \<and> length content = n
   | None \<Rightarrow> v = strip content \<and> minimum_secret_bytes \<le> length v)"

lemma read_standing_secret:
  assumes "stands (mch_files s) p (File content m ow)" "m AND 0x3F = 0" "fits n content v"
  shows "read_secret_file p n s = (Inr v, s)"
proof -
  have "is_file (mch_files s) p" using stands_follow [OF assms(1)] by (simp add: is_file_iff)
  moreover have "walk (mch_files s) True max_links [] p = Inr p" using assms(1) by (simp add: stands_def)
  ultimately show ?thesis
    using locate_stands [OF assms(1)] assms(2,3)
    by (auto simp: read_secret_file_runs run stat_mode_def read_bytes_def fits_def split: option.split)
qed

text \<open>A resolved path resolves to itself.\<close>

lemma walk_again:
  "walk fs True n d todo = Inr q \<Longrightarrow> walk fs True k [] d = Inr d \<Longrightarrow> (d = [] \<or> todo = [] \<or> (\<exists>m ow. node_at fs d = Some (Directory m ow)))
   \<Longrightarrow> straight fs d \<Longrightarrow> walk fs True k [] q = Inr q"
proof (induction fs True n d todo rule: walk.induct)
  case (2 fs n d x todo)
  have root: "\<exists>m ow. node_at fs [] = Some (Directory m ow)"
    by (auto simp: node_at_def root_directory_def split: option.split node.split)
  then obtain m ow where dir: "node_at fs d = Some (Directory m ow)" using "2.prems"(3) by auto
  have further: "walk fs True k [] (d @ [x]) = Inr (d @ [x])"
    if "node_at fs (d @ [x]) = Some a" "\<forall>t. a \<noteq> Symlink t" for a
    using walk_snoc [of fs k "[]" d m ow x a] "2.prems"(2,4) dir that by simp
  show ?case
  proof (cases "node_at fs (d @ [x])")
    case (Some a)
    then show ?thesis
      using 2 further [OF Some] by (cases a) (auto simp: straight_snoc split: nat.splits if_splits)
  qed (use 2 in simp)
qed simp

lemma walk_resolved: "walk fs True n [] p = Inr q \<Longrightarrow> walk fs True k [] q = Inr q"
  using walk_again [of fs n "[]" p q k] by simp

text \<open>A secret is read exactly from a regular file that nobody but its owner may touch.\<close>

theorem secret_file_iff:
  "read_secret_file p n s = (Inr v, t) \<longleftrightarrow> t = s
     \<and> (\<exists>q content m ow. follow (mch_files s) p = Some (q, File content m ow) \<and> m AND 0x3F = 0 \<and> fits n content v)"
proof (cases "walk (mch_files s) True max_links [] p")
  case (Inl er)
  then show ?thesis by (simp add: read_secret_file_runs follow_def)
next
  case (Inr q)
  note again = walk_resolved [OF Inr, of max_links]
  show ?thesis
  proof (cases "\<exists>content m ow. node_at (mch_files s) q = Some (File content m ow)")
    case True
    then obtain content m ow where "node_at (mch_files s) q = Some (File content m ow)" by blast
    with again Inr show ?thesis
      by (auto simp: read_secret_file_runs follow_def is_file_iff run stat_mode_def read_bytes_def locate_def
          resolve_def lift_sum_def fetch_def fits_def split: option.split)
  next
    case False
    with again Inr show ?thesis
      by (auto simp: read_secret_file_runs follow_def is_file_iff run)
  qed
qed

section \<open>A service that starts\<close>

lemma core_factory_returns:
  assumes "length seed = 32" "minimum_secret_bytes \<le> length psecret" "minimum_secret_bytes \<le> length rsecret"
  shows "\<exists>e. core_factory k x seed psecret rsecret = Inr (e, new_core)
    \<and> pol_enforce_authority (env_policy e) \<and> pol_enforce_release (env_policy e) \<and> pol_require_consent (env_policy e)
    \<and> minimum_secret_bytes \<le> length (env_pairwise_secret e) \<and> minimum_secret_bytes \<le> length (env_receipt_secret e)"
  using assms
  by (simp add: core_factory_def from_seed_def ed25519_seed_bytes_def check_trust_policy_def deployed_policy_def
      synthetic_policy_def trust_core_def)

text \<open>What every request is answered with, once the service has started.\<close>

definition guarded :: "settings \<Rightarrow> application \<Rightarrow> bool" where
  "guarded x app \<longleftrightarrow> (\<exists>e. app_factory app = Inr (e, new_core)
     \<and> pol_enforce_authority (env_policy e) \<and> pol_enforce_release (env_policy e) \<and> pol_require_consent (env_policy e)
     \<and> minimum_secret_bytes \<le> length (env_pairwise_secret e) \<and> minimum_secret_bytes \<le> length (env_receipt_secret e))
     \<and> (case app_bootstrap_token app of
          None \<Rightarrow> \<not> set_bootstrap_enabled x \<or> set_bootstrap_token_file x = None
        | Some v \<Rightarrow> set_bootstrap_enabled x \<and> minimum_secret_bytes \<le> length v)
     \<and> (set_environment x = Production
          \<longrightarrow> startswith ''postgresql+psycopg://'' (app_database_url app) \<and> app_docs_url app = None \<and> app_openapi_url app = None)"

lemma wp_read_secret:
  "(\<And>v. (case n of Some k \<Rightarrow> length v = k | None \<Rightarrow> minimum_secret_bytes \<le> length v) \<Longrightarrow> Q v s)
   \<Longrightarrow> wp (read_secret_file p n) Q anyerr s"
  by (rule wpI) (auto simp: secret_file_iff fits_def split: option.splits)

lemma create_app_guarded: "wp (create_app k x) (\<lambda>app _. guarded x app) anyerr s"
  unfolding create_app_def resolved_database_url_def
  by (intro vcg wp_read_secret wp_lift_sum_vc TrueI) (auto simp: guarded_def core_factory_returns)

section \<open>A provisioned service starts\<close>

lemma decode_utf8_encode: "decode_utf8 (encode t) = Inr t"
proof (induction t)
  case (Cons c t)
  have enc: "encode (c # t) = utf8_char c @ encode t" by (simp add: encode_def)
  define n where "n = (of_char c :: nat)"
  have n: "n < 256" "c = char_of n" by (simp_all add: n_def)
  show ?case
  proof (cases "n < 128")
    case True
    then show ?thesis using Cons by (simp add: enc utf8_char_def n_def)
  next
    case False
    then have utf8: "utf8_char c = [char_of (192 + n div 64), char_of (128 + n mod 64)]"
      by (simp add: utf8_char_def n_def [symmetric])
    have "n div 64 < 4" using n(1) by (simp add: less_mult_imp_div_less)
    moreover have "2 \<le> n div 64" using False by (simp add: less_eq_div_iff_mult_less_eq)
    ultimately have "192 + n div 64 < 256" "n div 64 = 2 \<or> n div 64 = 3" by auto
    then have hi: "(of_char (char_of (192 + n div 64) :: char) :: nat) = 192 + n div 64" "n div 64 = 2 \<or> n div 64 = 3"
      by (simp_all only: of_char_of mod_less)
    have "n mod 64 < 64" by simp
    then have "128 + n mod 64 < 256" by linarith
    then have lo: "(of_char (char_of (128 + n mod 64) :: char) :: nat) = 128 + n mod 64"
      by (simp only: of_char_of mod_less)
    have "char_of (64 * (192 + n div 64 - 192) + (128 + n mod 64 - 128)) = c" using n(2) by simp
    moreover have "192 + n div 64 \<in> {194, 195}" using hi(2) by auto
    ultimately show ?thesis
      unfolding enc utf8 append.simps decode_utf8.simps Let_def hi(1) lo list.case using \<open>n mod 64 < 64\<close> Cons by simp
  qed
qed (simp add: encode_def)

lemma encode_append: "encode (a @ b) = encode a @ encode b"
  by (simp add: encode_def)

lemma strip_bounded: "\<not> space_byte a \<Longrightarrow> \<not> space_byte b \<Longrightarrow> space_byte c \<Longrightarrow> strip (a # v @ [b, c]) = a # v @ [b]"
  by (simp add: strip_def)

definition database_url_line :: "string \<Rightarrow> string \<Rightarrow> string" where
  "database_url_line password host = ''postgresql+psycopg://kyn:'' @ password @ ''@'' @ host @ '':5432/kyn''"

lemma strip_url: "strip (encode (database_url password host)) = encode (database_url_line password host)"
proof -
  let ?v = "encode (''ostgresql+psycopg://kyn:'' @ password @ ''@'' @ host @ '':5432/ky'')"
  have "encode (database_url password host) = CHR ''p'' # ?v @ [CHR ''n'', CHR 10]"
    "encode (database_url_line password host) = CHR ''p'' # ?v @ [CHR ''n'']"
    by (simp_all add: database_url_def database_url_line_def encode_append) (simp_all add: encode_def utf8_char_def)
  moreover have "\<not> space_byte (CHR ''p'')" "\<not> space_byte (CHR ''n'')" "space_byte (CHR 10)"
    by (simp_all add: space_byte_def)
  ultimately show ?thesis by (simp add: strip_bounded)
qed

lemma length_encode: "length t \<le> length (encode t)"
  by (induction t) (simp_all add: encode_def utf8_char_def Let_def)

lemma long_url: "minimum_secret_bytes \<le> length (encode (database_url_line password host))"
proof -
  have "minimum_secret_bytes \<le> length (database_url_line password host)"
    by (simp add: database_url_line_def minimum_secret_bytes_def)
  with length_encode show ?thesis by (rule le_trans [rotated])
qed

text \<open>Settings that point to the files \<open>provision\<close> made below \<open>root\<close>.\<close>

definition uses_secrets :: "settings \<Rightarrow> path \<Rightarrow> bool" where
  "uses_secrets x root \<longleftrightarrow> outputs root = [the (set_database_url_file x), set_signing_seed_file x,
      set_pairwise_secret_file x, set_receipt_secret_file x, the (set_bootstrap_token_file x)]
     \<and> set_database_url_file x \<noteq> None \<and> set_bootstrap_token_file x \<noteq> None"

theorem provisioned_starts:
  assumes "provisioned (mch_files t) root so po host" "uses_secrets x root"
  shows "\<exists>app. create_app k x t = (Inr app, t) \<and> guarded x app"
proof -
  obtain pw seed v4 v5 v6 where
    url: "secret_at (mch_files t) (root @ [''service'', ''database-url'']) (encode (database_url pw host)) 0x100 so"
    and seed: "length seed = signing_seed_bytes" "secret_at (mch_files t) (root @ [''service'', ''signing.seed'']) seed 0x100 so"
    and v4: "secret_at (mch_files t) (root @ [''service'', ''pairwise.secret'']) v4 0x100 so" "minimum_secret_bytes \<le> length (strip v4)"
    and v5: "secret_at (mch_files t) (root @ [''service'', ''receipt.secret'']) v5 0x100 so" "minimum_secret_bytes \<le> length (strip v5)"
    and v6: "secret_at (mch_files t) (root @ [''service'', ''bootstrap.token'']) v6 0x100 so" "minimum_secret_bytes \<le> length (strip v6)"
    using assms(1) unfolding provisioned_def by blast
  have paths: "set_database_url_file x = Some (root @ [''service'', ''database-url''])"
    "set_signing_seed_file x = root @ [''service'', ''signing.seed'']"
    "set_pairwise_secret_file x = root @ [''service'', ''pairwise.secret'']"
    "set_receipt_secret_file x = root @ [''service'', ''receipt.secret'']"
    "set_bootstrap_token_file x = Some (root @ [''service'', ''bootstrap.token''])"
    using assms(2) by (auto simp: uses_secrets_def outputs_def)
  have read: "read_secret_file p n t = (Inr v, t)"
    if "secret_at (mch_files t) p c 0x100 so" "fits n c v" for p c n v
    using read_standing_secret [of t p c "0x100" so n v] that by (simp add: secret_at_def)
  have reads:
    "read_secret_file (root @ [''service'', ''signing.seed'']) (Some 32) t = (Inr seed, t)"
    "read_secret_file (root @ [''service'', ''pairwise.secret'']) None t = (Inr (strip v4), t)"
    "read_secret_file (root @ [''service'', ''receipt.secret'']) None t = (Inr (strip v5), t)"
    "read_secret_file (root @ [''service'', ''bootstrap.token'']) None t = (Inr (strip v6), t)"
    "read_secret_file (root @ [''service'', ''database-url'']) None t = (Inr (encode (database_url_line pw host)), t)"
    using read [OF seed(2), of "Some 32" seed] read [OF v4(1), of None "strip v4"] read [OF v5(1), of None "strip v5"]
      read [OF v6(1), of None "strip v6"] read [OF url, of None "encode (database_url_line pw host)"]
      seed(1) v4(2) v5(2) v6(2) long_url
    by (simp_all add: fits_def signing_seed_bytes_def strip_url)
  have "startswith ''postgresql+psycopg://'' (database_url_line pw host)"
    by (simp add: database_url_line_def startswith_def)
  then have "resolved_database_url x t = (Inr (database_url_line pw host), t)"
    by (simp add: resolved_database_url_def paths run reads lift_sum_def decode_utf8_encode)
  then have "\<exists>app. create_app k x t = (Inr app, t)"
    by (cases "set_bootstrap_enabled x") (simp_all add: create_app_def paths run reads)
  then obtain app where app: "create_app k x t = (Inr app, t)" by blast
  with wpD [OF create_app_guarded app] show ?thesis by blast
qed

end
