(* ===== verification/Migration.thy ===== *)
theory Migration
  imports Configuration
begin

text \<open>
  The schema migrations (\<open>src/kyn/migrate.py\<close>): each file is run once, recorded with the digest of its
  text, and refused when its text is another one later. What a migration does to the data is
  PostgreSQL's: it is a parameter \<open>run\<close>, on data beside the table of migrations that the runner keeps.
\<close>

section \<open>Servers\<close>

record 'd store =
  sto_data :: 'd
  sto_versions :: "(string, string) dict option"

type_synonym 'd servers = "(string, 'd store) dict"

text \<open>\<open>str.replace(old, new, 1)\<close>.\<close>

fun replace_first :: "string \<Rightarrow> string \<Rightarrow> string \<Rightarrow> string" where
  "replace_first old new [] = (if old = [] then new else [])"
| "replace_first old new (c # t) =
     (if startswith old (c # t) then new @ drop (length old) (c # t) else c # replace_first old new t)"

definition psycopg_url :: "string \<Rightarrow> string" where
  "psycopg_url t = replace_first ''postgresql+psycopg://'' ''postgresql://'' t"

text \<open>\<open>with psycopg.connect(url) as connection\<close>: committed at the end, rolled back by a raise.\<close>

definition connected :: "string \<Rightarrow> ('d store, 'a) prog \<Rightarrow> ('d servers, 'a) prog" where
  "connected u m = (\<lambda>servers. case dget servers u of
     None \<Rightarrow> (Inl (OSError ''connection failed''), servers)
   | Some st \<Rightarrow> (case transaction m st of (r, st') \<Rightarrow> (r, dput u st' servers)))"

section \<open>Files\<close>

text \<open>\<open>[0-9][0-9][0-9][0-9]_*.sql\<close>.\<close>

definition migration_name :: "string \<Rightarrow> bool" where
  "migration_name n \<longleftrightarrow> 9 \<le> length n \<and> list_all digit (take 4 n) \<and> n ! 4 = CHR ''_''
     \<and> drop (length n - 4) n = ''.sql''"

definition digest_of :: "(bytes \<Rightarrow> bytes) \<Rightarrow> string \<Rightarrow> string" where
  "digest_of sha256 sql = ''sha256:'' @ hexdigest (sha256 (encode sql))"

section \<open>Migrations\<close>

definition create_version_table :: "('d store, unit) prog" where
  "create_version_table = modify (\<lambda>st. st\<lparr>sto_versions := (case sto_versions st of None \<Rightarrow> Some [] | Some v \<Rightarrow> Some v)\<rparr>)"

definition versions :: "'d store \<Rightarrow> (string, string) dict" where
  "versions st = (case sto_versions st of None \<Rightarrow> [] | Some v \<Rightarrow> v)"

text \<open>The columns hold 200 characters and a reference of the form the constraint asks for.\<close>

definition insert_version :: "string \<Rightarrow> string \<Rightarrow> ('d store, unit) prog" where
  "insert_version name digest =
     (if 200 < length name \<or> \<not> sha_reference digest then raise (IntegrityError ''kyn_schema_migrations'')
      else modify (\<lambda>st. st\<lparr>sto_versions := Some (dput name digest (versions st))\<rparr>))"

definition run_migration :: "(string \<Rightarrow> 'd \<Rightarrow> error + 'd) \<Rightarrow> string \<Rightarrow> ('d store, unit) prog" where
  "run_migration run sql =
     bind (gets sto_data) (\<lambda>d. bind (lift_sum (run sql d)) (\<lambda>d'. modify (\<lambda>st. st\<lparr>sto_data := d'\<rparr>)))"

text \<open>One turn of the loop: the names it appends to \<open>applied\<close>.\<close>

definition migrate_one ::
  "(string \<Rightarrow> 'd \<Rightarrow> error + 'd) \<Rightarrow> (bytes \<Rightarrow> bytes) \<Rightarrow> string \<times> bytes \<Rightarrow> ('d store, string list) prog" where
  "migrate_one run sha256 = (\<lambda>(name, content).
     bind (lift_sum (read_text content)) (\<lambda>sql.
     let digest = digest_of sha256 sql in
     bind (gets versions) (\<lambda>known.
     case dget known name of
       Some existing \<Rightarrow>
         if existing \<noteq> digest then raise (RuntimeError (''applied KYN migration digest changed: '' @ name))
         else ret []
     | None \<Rightarrow>
         bind (run_migration run sql) (\<lambda>_.
         bind (insert_version name digest) (\<lambda>_.
         ret [name])))))"

text \<open>The files of the directory are its entries by name; those that match are taken in order.\<close>

definition migration_files :: "(string, bytes) dict \<Rightarrow> (string \<times> bytes) list" where
  "migration_files files = sort_key fst (filter (\<lambda>f. migration_name (fst f)) files)"

definition migrate ::
  "(string \<Rightarrow> 'd \<Rightarrow> error + 'd) \<Rightarrow> (bytes \<Rightarrow> bytes) \<Rightarrow> error + string \<Rightarrow> (string, bytes) dict
   \<Rightarrow> ('d servers, string list) prog" where
  "migrate run sha256 configured_url files =
     (if migration_files files = [] then raise (RuntimeError ''no KYN migrations were found'')
      else bind (lift_sum configured_url) (\<lambda>u.
        connected (psycopg_url u) (
          bind create_version_table (\<lambda>_.
          bind (collect (migrate_one run sha256) (migration_files files)) (\<lambda>applied.
          ret (concat applied))))))"

section \<open>What a run leaves\<close>

text \<open>The files are recorded with the digest of their text.\<close>

definition pinned :: "(bytes \<Rightarrow> bytes) \<Rightarrow> (string \<times> bytes) list \<Rightarrow> (string, string) dict \<Rightarrow> bool" where
  "pinned sha256 fs known \<longleftrightarrow>
     (\<forall>(name, content) \<in> set fs. \<exists>sql. read_text content = Inr sql \<and> dget known name = Some (digest_of sha256 sql))"

text \<open>A run adds what it applies and forgets nothing.\<close>

definition remembers :: "(string, string) dict \<Rightarrow> (string, string) dict \<Rightarrow> bool" where
  "remembers known known' \<longleftrightarrow> (\<forall>name d. dget known name = Some d \<longrightarrow> dget known' name = Some d)"

lemma versions_update [simp]:
  "versions (st\<lparr>sto_versions := Some v\<rparr>) = v" "versions (st\<lparr>sto_data := d\<rparr>) = versions st"
  by (simp_all add: versions_def)

lemma migrate_one_effect:
  "wp (migrate_one run sha256 (name, content)) (\<lambda>xs t. pinned sha256 [(name, content)] (versions t)
     \<and> remembers (versions s) (versions t) \<and> (\<forall>k. k \<noteq> name \<longrightarrow> dget (versions t) k = dget (versions s) k)
     \<and> xs = (if dget (versions s) name = None then [name] else [])) anyerr s"
  unfolding migrate_one_def run_migration_def insert_version_def split
  by (intro vcg wp_lift_sum_vc TrueI) (auto simp: pinned_def remembers_def dict)

lemma migrate_all_effect:
  assumes "distinct (map fst fs)"
  shows "wp (collect (migrate_one run sha256) fs) (\<lambda>xs t. pinned sha256 fs (versions t)
     \<and> remembers (versions s) (versions t)
     \<and> concat xs = filter (\<lambda>name. dget (versions s) name = None) (map fst fs)) anyerr s"
  using assms
proof (induction fs arbitrary: s)
  case Nil
  then show ?case by (simp add: wp pinned_def remembers_def)
next
  case (Cons f fs)
  obtain name content where f: "f = (name, content)" by force
  have rest: "wp (collect (migrate_one run sha256) fs) (\<lambda>ys u. pinned sha256 (f # fs) (versions u)
       \<and> remembers (versions s) (versions u)
       \<and> concat (xs # ys) = filter (\<lambda>name. dget (versions s) name = None) (map fst (f # fs))) anyerr t"
    if t: "pinned sha256 [f] (versions t)" "remembers (versions s) (versions t)"
      "\<forall>k. k \<noteq> name \<longrightarrow> dget (versions t) k = dget (versions s) k"
      "xs = (if dget (versions s) name = None then [name] else [])" for xs and t :: "'a store"
  proof -
    have same: "filter (\<lambda>name. dget (versions t) name = None) (map fst fs) = filter (\<lambda>name. dget (versions s) name = None) (map fst fs)"
      using t(3) Cons.prems f by (intro filter_cong) auto
    have "distinct (map fst fs)" using Cons.prems by simp
    from Cons.IH [OF this, of t] show ?thesis
      by (rule wp_mono) (use t f same in \<open>auto simp: pinned_def remembers_def\<close>)
  qed
  have "wp (migrate_one run sha256 f) (\<lambda>xs. wp (collect (migrate_one run sha256) fs) (\<lambda>ys u. pinned sha256 (f # fs) (versions u)
       \<and> remembers (versions s) (versions u)
       \<and> concat (xs # ys) = filter (\<lambda>name. dget (versions s) name = None) (map fst (f # fs))) anyerr) anyerr s"
    using migrate_one_effect [of run sha256 name content s] unfolding f
    by (rule wp_mono) (use rest f in auto)
  then show ?case by (simp add: wp)
qed

lemma migrate_all_again:
  assumes "pinned sha256 fs (versions s)"
  shows "\<exists>xs. collect (migrate_one run sha256) fs s = (Inr xs, s) \<and> concat xs = []"
  using assms
proof (induction fs)
  case (Cons f fs)
  obtain name content where f: "f = (name, content)" by force
  from Cons.prems f obtain sql where "read_text content = Inr sql" "dget (versions s) name = Some (digest_of sha256 sql)"
    by (auto simp: pinned_def)
  then have "migrate_one run sha256 f s = (Inr [], s)"
    by (simp add: f migrate_one_def run lift_sum_def Let_def)
  moreover from Cons obtain xs where "collect (migrate_one run sha256) fs s = (Inr xs, s)" "concat xs = []"
    by (auto simp: pinned_def)
  ultimately show ?case by (simp add: run)
qed (simp add: run)

lemma table_stays: "keeps (collect (migrate_one run sha256) fs) (\<lambda>st. sto_versions st \<noteq> None)"
  unfolding migrate_one_def run_migration_def insert_version_def case_prod_unfold by (intro keeps) simp_all

section \<open>The runner\<close>

lemma migration_files_distinct: "distinct (dkeys files) \<Longrightarrow> distinct (map fst (migration_files files))"
  by (auto simp: migration_files_def distinct_map intro: inj_on_subset)

text \<open>A run that raises changes no server, whichever statement failed.\<close>

theorem failed_migration_changes_nothing:
  assumes "migrate run sha256 u files servers = (Inl er, servers')"
  shows "servers' = servers"
  using assms
  by (auto simp: migrate_def run lift_sum_def connected_def transaction_def dput_present
      split: if_splits sum.splits option.splits prod.splits)

theorem migration_effect:
  assumes "distinct (dkeys files)" "migrate run sha256 configured_url files servers = (Inr applied, servers')"
  shows "\<exists>u st st'. configured_url = Inr u \<and> dget servers (psycopg_url u) = Some st
    \<and> servers' = dput (psycopg_url u) st' servers \<and> sto_versions st' \<noteq> None
    \<and> pinned sha256 (migration_files files) (versions st') \<and> remembers (versions st) (versions st')
    \<and> applied = filter (\<lambda>name. dget (versions st) name = None) (map fst (migration_files files))"
proof -
  from assms(2) obtain u st st' where u: "configured_url = Inr u" "dget servers (psycopg_url u) = Some st"
    "servers' = dput (psycopg_url u) st' servers"
    and run: "bind create_version_table (\<lambda>_. bind (collect (migrate_one run sha256) (migration_files files)) (\<lambda>applied.
        ret (concat applied))) st = (Inr applied, st')"
    by (auto simp: migrate_def bind_def [of "lift_sum _"] lift_sum_def run_eqs connected_def transaction_def
        split: if_splits sum.splits option.splits prod.splits)
  let ?st = "st\<lparr>sto_versions := Some (versions st)\<rparr>"
  have made: "create_version_table st = (Inr (), ?st)"
    by (simp add: create_version_table_def modify_def versions_def split: option.split)
  with run obtain xs where xs: "collect (migrate_one run sha256) (migration_files files) ?st = (Inr xs, st')" "applied = concat xs"
    by (auto simp: bind_eq_Inr run_eqs)
  from wpD [OF migrate_all_effect [OF migration_files_distinct [OF assms(1)]] xs(1)]
    keepsD [OF table_stays [of run sha256 "migration_files files"], of ?st] xs u
  show ?thesis by auto
qed

text \<open>A second run, whatever the statements would do, has nothing to apply and changes nothing.\<close>

theorem migration_again:
  assumes "distinct (dkeys files)" "migrate run sha256 configured_url files servers = (Inr applied, servers')"
  shows "migrate run' sha256 configured_url files servers' = (Inr [], servers')"
proof -
  from migration_effect [OF assms] obtain u st st' where st: "configured_url = Inr u"
    "servers' = dput (psycopg_url u) st' servers" "sto_versions st' \<noteq> None"
    "pinned sha256 (migration_files files) (versions st')" by blast
  have "migration_files files \<noteq> []" using assms(2) by (auto simp: migrate_def run)
  moreover have "create_version_table st' = (Inr (), st')"
    using st(3) by (auto simp: create_version_table_def modify_def)
  moreover obtain xs where "collect (migrate_one run' sha256) (migration_files files) st' = (Inr xs, st')" "concat xs = []"
    using migrate_all_again [OF st(4)] by blast
  ultimately show ?thesis
    by (simp add: migrate_def run lift_sum_def connected_def transaction_def st dict dput_present)
qed

text \<open>A file whose text changed after it was applied stops the run.\<close>

theorem changed_migration_is_refused:
  assumes "distinct (dkeys files)" "dget servers (psycopg_url u) = Some st"
    and "(name, content) \<in> set (migration_files files)" "read_text content = Inr sql"
    and "dget (versions st) name = Some digest" "digest \<noteq> digest_of sha256 sql"
  shows "\<exists>er. migrate run sha256 (Inr u) files servers = (Inl er, servers)"
proof (cases "migrate run sha256 (Inr u) files servers")
  case (Pair r servers')
  show ?thesis
  proof (cases r)
    case (Inl er)
    with Pair failed_migration_changes_nothing [of run sha256 "Inr u" files servers er servers'] show ?thesis by simp
  next
    case (Inr applied)
    with Pair migration_effect [OF assms(1), of run sha256 "Inr u" servers applied servers'] assms(2) obtain st' where
      "servers' = dput (psycopg_url u) st' servers" "pinned sha256 (migration_files files) (versions st')" "remembers (versions st) (versions st')" by auto
    with assms(3-6) have False by (fastforce simp: pinned_def remembers_def)
    then show ?thesis ..
  qed
qed

end
