(* ===== verification/JsonReader.thy ===== *)
theory JsonReader
  imports CanonicalJson
begin

text \<open>
  \<open>json.loads\<close>, for the documents the operator's tools read: a recursive descent over the text, whose
  nesting is bounded by a number that its length bounds in turn. Numbers are integers, and characters
  are those below 256: other numbers and characters are refused.
\<close>

section \<open>Strings\<close>

definition json_space :: "char \<Rightarrow> bool" where
  "json_space c \<longleftrightarrow> c \<in> {CHR 32, CHR 9, CHR 10, CHR 13}"

definition skip :: "string \<Rightarrow> string" where
  "skip t = dropWhile json_space t"

text \<open>The character that one letter after a backslash stands for.\<close>

definition plain_escape :: "char \<Rightarrow> char option" where
  "plain_escape c =
     (if c = CHR 34 \<or> c = CHR 92 \<or> c = CHR ''/'' then Some c
      else if c = CHR ''b'' then Some (CHR 8) else if c = CHR ''f'' then Some (CHR 12)
      else if c = CHR ''n'' then Some (CHR 10) else if c = CHR ''r'' then Some (CHR 13)
      else if c = CHR ''t'' then Some (CHR 9) else None)"

definition hex_digit :: "char \<Rightarrow> nat option" where
  "hex_digit c = (let n = of_char c :: nat in
     if 48 \<le> n \<and> n \<le> 57 then Some (n - 48)
     else if 97 \<le> n \<and> n \<le> 102 then Some (n - 87)
     else if 65 \<le> n \<and> n \<le> 70 then Some (n - 55) else None)"

definition code_unit :: "char \<Rightarrow> char \<Rightarrow> char \<Rightarrow> char \<Rightarrow> char option" where
  "code_unit a b c d = (case (hex_digit a, hex_digit b, hex_digit c, hex_digit d) of
       (Some 0, Some 0, Some x, Some y) \<Rightarrow> Some (char_of (16 * x + y))
     | _ \<Rightarrow> None)"

definition prepend :: "'a \<Rightarrow> ('a list \<times> string) option \<Rightarrow> ('a list \<times> string) option" where
  "prepend x found = map_option (\<lambda>(xs, r). (x # xs, r)) found"

fun read_string :: "string \<Rightarrow> (string \<times> string) option" where
  "read_string [] = None"
| "read_string (c # r) =
     (if c = CHR 34 then Some ([], r)
      else if c = CHR 92 then
        (case r of
           [] \<Rightarrow> None
         | d # q \<Rightarrow>
             if d = CHR ''u'' then
               (case q of
                  h1 # h2 # h3 # h4 # q' \<Rightarrow>
                    (case code_unit h1 h2 h3 h4 of None \<Rightarrow> None | Some x \<Rightarrow> prepend x (read_string q'))
                | _ \<Rightarrow> None)
             else (case plain_escape d of None \<Rightarrow> None | Some x \<Rightarrow> prepend x (read_string q)))
      else if (of_char c :: nat) < 32 then None
      else prepend c (read_string r))"

section \<open>Values\<close>

definition read_digits :: "string \<Rightarrow> (int \<times> string) option" where
  "read_digits t = (let d = takeWhile digit_code t; r = drop (length d) t in
     if d = [] \<or> hd d = CHR ''0'' \<and> tl d \<noteq> [] \<or> r \<noteq> [] \<and> hd r \<in> {CHR ''.'', CHR ''e'', CHR ''E''} then None
     else Some (int (decimal_value d), r))"

definition read_number :: "string \<Rightarrow> (json \<times> string) option" where
  "read_number t =
     (if t \<noteq> [] \<and> hd t = CHR ''-'' then map_option (\<lambda>(n, r). (JInt (- n), r)) (read_digits (tl t))
      else map_option (\<lambda>(n, r). (JInt n, r)) (read_digits t))"

fun read_value :: "nat \<Rightarrow> string \<Rightarrow> (json \<times> string) option"
  and read_items :: "nat \<Rightarrow> string \<Rightarrow> (json list \<times> string) option"
  and read_members :: "nat \<Rightarrow> string \<Rightarrow> ((string \<times> json) list \<times> string) option" where
  "read_value 0 t = None"
| "read_value (Suc n) t =
     (case skip t of
        [] \<Rightarrow> None
      | c # r \<Rightarrow>
          if c = CHR 34 then map_option (\<lambda>(x, q). (JStr x, q)) (read_string r)
          else if c = CHR ''['' then
            (case skip r of
               [] \<Rightarrow> None
             | d # q \<Rightarrow> if d = CHR '']'' then Some (JList [], q)
                 else map_option (\<lambda>(xs, q). (JList xs, q)) (read_items n r))
          else if c = CHR ''{'' then
            (case skip r of
               [] \<Rightarrow> None
             | d # q \<Rightarrow> if d = CHR ''}'' then Some (JObject [], q)
                 else map_option (\<lambda>(kvs, q). (JObject (foldl (\<lambda>d (k, v). dput k v d) [] kvs), q)) (read_members n r))
          else if startswith ''null'' (c # r) then Some (JNull, drop 4 (c # r))
          else if startswith ''true'' (c # r) then Some (JBool True, drop 4 (c # r))
          else if startswith ''false'' (c # r) then Some (JBool False, drop 5 (c # r))
          else read_number (c # r))"
| "read_items 0 t = None"
| "read_items (Suc n) t =
     (case read_value n t of
        None \<Rightarrow> None
      | Some (x, r) \<Rightarrow>
          (case skip r of
             [] \<Rightarrow> None
           | c # q \<Rightarrow> if c = CHR '','' then prepend x (read_items n q)
               else if c = CHR '']'' then Some ([x], q) else None))"
| "read_members 0 t = None"
| "read_members (Suc n) t =
     (case skip t of
        [] \<Rightarrow> None
      | c # r \<Rightarrow> if c \<noteq> CHR 34 then None else
          (case read_string r of
             None \<Rightarrow> None
           | Some (k, q) \<Rightarrow>
               (case skip q of
                  [] \<Rightarrow> None
                | d # u \<Rightarrow> if d \<noteq> CHR '':'' then None else
                    (case read_value n u of
                       None \<Rightarrow> None
                     | Some (v, w) \<Rightarrow>
                         (case skip w of
                            [] \<Rightarrow> None
                          | f # x \<Rightarrow> if f = CHR '','' then prepend (k, v) (read_members n x)
                              else if f = CHR ''}'' then Some ([(k, v)], x) else None)))))"

text \<open>The whole text is one value.\<close>

definition json_loads :: "string \<Rightarrow> error + json" where
  "json_loads t = (case read_value (Suc (length t)) t of
       Some (j, r) \<Rightarrow> if skip r = [] then Inr j else Inl (ValueError ''Extra data'')
     | None \<Rightarrow> Inl (ValueError ''Expecting value''))"

section \<open>Reading what was written\<close>

lemma hex_digit_char: "n < 16 \<Longrightarrow> hex_digit (hex_char n) = Some n"
proof -
  assume n: "n < 16"
  have digits: "map hex_digit ''0123456789abcdef'' = map Some [0..<16]"
    by (simp add: hex_digit_def upt_rec_numeral upt_conv_Cons)
  have "hex_digit (hex_char n) = map hex_digit ''0123456789abcdef'' ! n"
    unfolding hex_char_def using n by (subst nth_map) simp_all
  also have "\<dots> = Some n" unfolding digits using n by simp
  finally show "hex_digit (hex_char n) = Some n" .
qed

lemma read_string_escaped: "read_string (json_escape_char c @ t) = prepend c (read_string t)"
proof -
  define n where "n = (of_char c :: nat)"
  have c: "c = char_of n" and n: "n < 256" by (simp_all add: n_def)
  have hex: "code_unit (CHR ''0'') (CHR ''0'') (hex_char (n div 16)) (hex_char n) = Some c"
  proof -
    have "hex_char n = hex_char (n mod 16)" by (simp add: hex_char_def)
    moreover have "n div 16 < 16" using n by (simp add: less_mult_imp_div_less)
    moreover have "hex_digit (CHR ''0'') = Some 0" by (simp add: hex_digit_def)
    ultimately show ?thesis using c by (simp add: code_unit_def hex_digit_char)
  qed
  consider "n \<in> {34, 92, 10, 13, 9, 12, 8}" | "32 \<le> n \<and> n < 127 \<and> n \<noteq> 34 \<and> n \<noteq> 92"
    | "n \<notin> {34, 92, 10, 13, 9, 12, 8} \<and> \<not> (32 \<le> n \<and> n < 127)" by blast
  then show ?thesis
  proof cases
    case 1
    have codes: "char_of (34 :: nat) = CHR 34" "char_of (92 :: nat) = CHR 92" "char_of (10 :: nat) = CHR 10"
      "char_of (13 :: nat) = CHR 13" "char_of (9 :: nat) = CHR 9" "char_of (12 :: nat) = CHR 12" "char_of (8 :: nat) = CHR 8"
      by (simp_all add: char_of_def bit_iff_odd)
    from 1 have "c \<in> {CHR 34, CHR 92, CHR 10, CHR 13, CHR 9, CHR 12, CHR 8}" unfolding c
      by (elim insertE emptyE) (simp_all only: codes insert_iff simp_thms)
    then show ?thesis
      by (elim insertE emptyE) (simp_all add: json_escape_char_def plain_escape_def)
  next
    case 2
    then have "c \<noteq> CHR 92" "c \<noteq> CHR 34" by (auto simp: n_def)
    with 2 show ?thesis by (simp add: json_escape_char_def n_def [symmetric])
  next
    case 3
    then have "json_escape_char c = CHR 92 # ''u00'' @ [hex_char (n div 16), hex_char n]"
      by (simp add: json_escape_char_def n_def [symmetric])
    then show ?thesis by (simp add: hex)
  qed
qed

lemma read_json_string: "read_string (concat (map json_escape_char x) @ CHR 34 # r) = Some (x, r)"
  by (induction x) (simp_all add: read_string_escaped prepend_def del: read_string.simps(2), simp)

lemma read_json_string_text: "json_string x @ r = CHR 34 # concat (map json_escape_char x) @ CHR 34 # r"
  by (simp add: json_string_def)

text \<open>What may follow a value: a space as well, where the text is not canonical.\<close>

definition value_ends :: "string \<Rightarrow> bool" where
  "value_ends r \<longleftrightarrow> r = [] \<or> json_space (hd r) \<or> hd r \<in> {CHR '','', CHR '']'', CHR ''}''}"

lemma ends_not_digit: "value_ends r \<Longrightarrow> takeWhile digit_code r = []"
  by (cases r) (auto simp: value_ends_def json_space_def digit_code_def)

lemma rest_items_ends: "close \<in> {CHR '']'', CHR ''}''} \<Longrightarrow> value_ends (rest_items item xs close r)"
  using rest_items_delimited [of close item xs r] by (auto simp: value_ends_def delimited_def)

text \<open>Numbers.\<close>

lemma decimal_leading: "tl (decimal n) \<noteq> [] \<Longrightarrow> hd (decimal n) \<noteq> CHR ''0''"
proof (induction n rule: decimal.induct)
  case (1 n)
  show ?case
  proof (cases "n < 10")
    case True
    with 1 show ?thesis by (subst (asm) (2) decimal.simps) simp
  next
    case False
    then have step: "decimal n = decimal (n div 10) @ [digit_char (n mod 10)]" by (subst decimal.simps) simp
    have "hd (decimal (n div 10)) \<noteq> CHR ''0''"
    proof (cases "n div 10 < 10")
      case True
      then have one: "decimal (n div 10) = [digit_char (n div 10)]" by (subst decimal.simps) simp
      have "digit_char (n div 10) \<noteq> CHR ''0''"
      proof
        assume "digit_char (n div 10) = CHR ''0''"
        with of_char_digit [OF True] have "48 + n div 10 = of_char (CHR ''0'')" by metis
        with False show False by simp
      qed
      with one show ?thesis by simp
    next
      case big: False
      then have "decimal (n div 10) = decimal (n div 10 div 10) @ [digit_char (n div 10 mod 10)]" by (subst decimal.simps) simp
      with decimal_nonempty [of "n div 10 div 10"] have "tl (decimal (n div 10)) \<noteq> []"
        by (cases "decimal (n div 10 div 10)") auto
      with 1 False show ?thesis by blast
    qed
    with step decimal_nonempty [of "n div 10"] show ?thesis by simp
  qed
qed

lemma read_digits_decimal: "value_ends r \<Longrightarrow> read_digits (decimal n @ r) = Some (int n, r)"
proof -
  assume r: "value_ends r"
  have digits: "takeWhile digit_code (decimal n @ r) = decimal n"
    using decimal_codes [of n] ends_not_digit [OF r] by (subst takeWhile_append2) (auto simp: list_all_iff)
  from r have "r = [] \<or> hd r \<notin> {CHR ''.'', CHR ''e'', CHR ''E''}" by (auto simp: value_ends_def json_space_def)
  then show ?thesis
    using decimal_leading [of n] decimal_nonempty [of n]
    by (auto simp: read_digits_def Let_def digits decimal_value_decimal)
qed

lemma read_number_text: "value_ends r \<Longrightarrow> read_number (int_text n @ r) = Some (JInt n, r)"
proof -
  assume r: "value_ends r"
  have "hd (decimal k @ q) \<noteq> CHR ''-''" for k q
    using hd_decimal [of k] decimal_nonempty [of k] by (auto simp: digit_code_def)
  then show ?thesis
    using read_digits_decimal [OF r] by (auto simp: read_number_def int_text_def decimal_nonempty)
qed

text \<open>No value starts with a space.\<close>

lemma dumps_start_space: "json_dumps j = c # t \<Longrightarrow> \<not> json_space c"
proof (cases j)
  case (JInt n)
  assume "json_dumps j = c # t"
  then have "digit_code c \<or> c = CHR ''-''"
    using JInt hd_decimal [of "nat n"] by (auto simp: int_text_def split: if_splits)
  then show ?thesis by (auto simp: json_space_def digit_code_def)
qed (auto simp: json_space_def json_string_def split: if_splits)

text \<open>Objects whose keys are distinct, all the way down, as those of a dictionary are.\<close>

fun distinct_keys :: "json \<Rightarrow> bool" where
  "distinct_keys (JObject kvs) \<longleftrightarrow> distinct (map fst kvs) \<and> list_all (\<lambda>(k, v). distinct_keys v) kvs"
| "distinct_keys (JList xs) \<longleftrightarrow> list_all distinct_keys xs"
| "distinct_keys _ \<longleftrightarrow> True"

lemma foldl_dput:
  "distinct (dkeys acc @ map fst kvs) \<Longrightarrow> foldl (\<lambda>d (k, v). dput k v d) acc kvs = acc @ kvs"
  by (induction kvs arbitrary: acc) (auto simp: dput_fresh)

section \<open>Texts of a value\<close>

lemma skip_start [simp]: "\<not> json_space c \<Longrightarrow> skip (c # t) = c # t"
  by (simp add: skip_def)

lemma not_space: "c \<in> {CHR '','', CHR '']'', CHR ''}'', CHR 34, CHR '':'', CHR ''['', CHR ''{'', CHR ''n'', CHR ''t'', CHR ''f'', CHR ''-''} \<Longrightarrow> \<not> json_space c"
  by (auto simp: json_space_def)

text \<open>White space between the parts of a text is passed over.\<close>

definition spaces :: "string \<Rightarrow> bool" where
  "spaces w \<longleftrightarrow> list_all json_space w"

lemma spaces_simps [simp]: "spaces []" "spaces (c # w) \<longleftrightarrow> json_space c \<and> spaces w" "spaces (v @ w) \<longleftrightarrow> spaces v \<and> spaces w"
  by (simp_all add: spaces_def)

lemma skip_spaces [simp]: "spaces w \<Longrightarrow> skip (w @ t) = skip t"
  by (induction w) (simp_all add: skip_def)

lemma spaces_skip: "spaces w \<longleftrightarrow> skip w = []"
  by (simp add: spaces_def skip_def list_all_iff)

lemma read_value_spaces: "spaces w \<Longrightarrow> read_value n (w @ t) = read_value n t"
  by (cases n) simp_all

lemma read_items_spaces: "spaces w \<Longrightarrow> read_items n (w @ t) = read_items n t"
  by (cases n) (simp_all add: read_value_spaces)

lemma read_members_spaces: "spaces w \<Longrightarrow> read_members n (w @ t) = read_members n t"
  by (cases n) simp_all

lemma ends_spaces: "spaces w \<Longrightarrow> value_ends r \<Longrightarrow> value_ends (w @ r)"
  by (cases w) (auto simp: value_ends_def)

lemma ends_bracket [simp]: "c \<in> {CHR '','', CHR '']'', CHR ''}''} \<Longrightarrow> value_ends (c # r)"
  by (auto simp: value_ends_def)

text \<open>
  A text that the reader takes for a value, wherever it stands. Texts of lists and objects are put
  together from those of their parts, with any spaces between them.
\<close>

definition reads :: "string \<Rightarrow> json \<Rightarrow> bool" where
  "reads t j \<longleftrightarrow> (\<exists>c u. t = c # u \<and> \<not> json_space c \<and> c \<noteq> CHR '']'')
     \<and> (\<forall>n r. length t \<le> n \<longrightarrow> value_ends r \<longrightarrow> read_value n (t @ r) = Some (j, r))"

lemma readsD: "reads t j \<Longrightarrow> length t \<le> n \<Longrightarrow> value_ends r \<Longrightarrow> read_value n (t @ r) = Some (j, r)"
  by (simp add: reads_def)

lemma reads_start: "reads t j \<Longrightarrow> \<exists>c u. t = c # u \<and> \<not> json_space c \<and> c \<noteq> CHR '']''"
  by (simp add: reads_def)

lemma read_items_join:
  assumes "list_all2 reads ts js" "ts \<noteq> []" "spaces w" "spaces v" "length (join (CHR '','' # w) ts) < n"
  shows "read_items n (join (CHR '','' # w) ts @ v @ CHR '']'' # r) = Some (js, r)"
  using assms
proof (induction ts js arbitrary: n rule: list_all2_induct)
  case (Cons t ts j js)
  obtain m where n: "n = Suc m" using Cons.prems by (cases n) auto
  show ?case
  proof (cases ts)
    case Nil
    with Cons.hyps have js: "js = []" by simp
    have "read_value m (t @ v @ CHR '']'' # r) = Some (j, v @ CHR '']'' # r)"
      using Cons.prems Cons.hyps(1) Nil n by (intro readsD ends_spaces) simp_all
    with Nil js n Cons.prems show ?thesis by (simp add: not_space)
  next
    case (Cons t' ts')
    let ?rest = "join (CHR '','' # w) ts @ v @ CHR '']'' # r"
    from Cons have whole: "join (CHR '','' # w) (t # ts) = t @ CHR '','' # w @ join (CHR '','' # w) ts" by simp
    have "read_value m (t @ CHR '','' # w @ ?rest) = Some (j, CHR '','' # w @ ?rest)"
      using Cons.prems(4) Cons.hyps(1) n whole by (intro readsD) simp_all
    moreover have "read_items m ?rest = Some (js, r)"
      using Cons.prems n whole Cons by (intro Cons.IH) simp_all
    ultimately show ?thesis
      using n Cons.prems(2) by (simp add: whole read_items_spaces not_space prepend_def)
  qed
qed simp

text \<open>A member of an object: its key, a colon with spaces after it, and its value.\<close>

definition reads_member :: "string \<Rightarrow> string \<times> json \<Rightarrow> bool" where
  "reads_member t kv \<longleftrightarrow> (\<exists>w u. t = json_string (fst kv) @ CHR '':'' # w @ u \<and> spaces w \<and> reads u (snd kv))"

lemma read_members_step:
  assumes "reads_member t kv" "length t \<le> n" "value_ends r"
  shows "read_members (Suc n) (t @ r) = (case skip r of
       [] \<Rightarrow> None
     | f # x \<Rightarrow> if f = CHR '','' then prepend kv (read_members n x)
         else if f = CHR ''}'' then Some ([kv], x) else None)"
proof -
  obtain k j where kv: "kv = (k, j)" by force
  from assms(1) obtain w u where t: "t = json_string k @ CHR '':'' # w @ u" "spaces w" "reads u j"
    by (auto simp: reads_member_def kv)
  have "read_value n (u @ r) = Some (j, r)" using t assms(2,3) by (intro readsD) simp_all
  then show ?thesis
    unfolding kv t(1) by (simp add: t(2) read_json_string_text read_json_string not_space read_value_spaces)
qed

lemma read_members_join:
  assumes "list_all2 reads_member ts kvs" "ts \<noteq> []" "spaces w" "spaces v" "length (join (CHR '','' # w) ts) < n"
  shows "read_members n (join (CHR '','' # w) ts @ v @ CHR ''}'' # r) = Some (kvs, r)"
  using assms
proof (induction ts kvs arbitrary: n rule: list_all2_induct)
  case (Cons t ts kv kvs)
  obtain m where n: "n = Suc m" using Cons.prems by (cases n) auto
  show ?case
  proof (cases ts)
    case Nil
    with Cons.hyps have "kvs = []" by simp
    moreover have "value_ends (v @ CHR ''}'' # r)" using Cons.prems by (intro ends_spaces) simp_all
    ultimately show ?thesis
      using Cons.prems Cons.hyps(1) Nil n by (simp del: read_members.simps(2) add: read_members_step not_space)
  next
    case (Cons t' ts')
    let ?rest = "join (CHR '','' # w) ts @ v @ CHR ''}'' # r"
    from Cons have whole: "join (CHR '','' # w) (t # ts) = t @ CHR '','' # w @ join (CHR '','' # w) ts" by simp
    have "read_members m ?rest = Some (kvs, r)"
      using Cons.prems n whole Cons by (intro Cons.IH) simp_all
    moreover have "length t \<le> m" using Cons.prems(4) n whole by simp
    ultimately show ?thesis
      using n Cons.prems(2) Cons.hyps(1) by (simp del: read_members.simps(2) add: whole read_members_step read_members_spaces not_space prepend_def)
  qed
qed simp

lemma join_start: "ts \<noteq> [] \<Longrightarrow> \<exists>u. join sep ts = hd ts @ u"
  by (cases "(sep, ts)" rule: join.cases) auto

lemma reads_list:
  assumes "list_all2 reads ts js" "spaces w" "spaces v"
  shows "reads (CHR ''['' # w @ join (CHR '','' # w) ts @ v @ '']'') (JList js)"
  unfolding reads_def
proof (intro conjI allI impI)
  show "\<exists>c u. CHR ''['' # w @ join (CHR '','' # w) ts @ v @ '']'' = c # u \<and> \<not> json_space c \<and> c \<noteq> CHR '']''"
    by (simp add: not_space)
  fix n r
  assume n: "length (CHR ''['' # w @ join (CHR '','' # w) ts @ v @ '']'') \<le> n"
  then obtain m where m: "n = Suc m" "length (join (CHR '','' # w) ts) < m" by (cases n) auto
  show "read_value n ((CHR ''['' # w @ join (CHR '','' # w) ts @ v @ '']'') @ r) = Some (JList js, r)"
  proof (cases "ts = []")
    case True
    with assms m show ?thesis by (simp add: not_space)
  next
    case False
    with assms(1) have "reads (hd ts) (hd js)" by (cases ts; cases js) simp_all
    then obtain c u where "hd ts = c # u" "\<not> json_space c" "c \<noteq> CHR '']''" using reads_start by blast
    moreover obtain x where "join (CHR '','' # w) ts = hd ts @ x" using join_start [OF False] by blast
    ultimately show ?thesis
      using read_items_join [OF assms(1) False assms(2,3) m(2), of r] assms(2) m(1)
      by (simp add: not_space read_items_spaces)
  qed
qed

lemma reads_object:
  assumes "list_all2 reads_member ts kvs" "spaces w" "spaces v" "distinct (map fst kvs)"
  shows "reads (CHR ''{'' # w @ join (CHR '','' # w) ts @ v @ ''}'') (JObject kvs)"
  unfolding reads_def
proof (intro conjI allI impI)
  show "\<exists>c u. CHR ''{'' # w @ join (CHR '','' # w) ts @ v @ ''}'' = c # u \<and> \<not> json_space c \<and> c \<noteq> CHR '']''"
    by (simp add: not_space)
  fix n r
  assume n: "length (CHR ''{'' # w @ join (CHR '','' # w) ts @ v @ ''}'') \<le> n"
  then obtain m where m: "n = Suc m" "length (join (CHR '','' # w) ts) < m" by (cases n) auto
  show "read_value n ((CHR ''{'' # w @ join (CHR '','' # w) ts @ v @ ''}'') @ r) = Some (JObject kvs, r)"
  proof (cases "ts = []")
    case True
    with assms m show ?thesis by (simp add: not_space)
  next
    case False
    with assms(1) have "reads_member (hd ts) (hd kvs)" by (cases ts; cases kvs) simp_all
    then obtain u where "hd ts = CHR 34 # u" by (auto simp: reads_member_def json_string_def)
    moreover obtain x where "join (CHR '','' # w) ts = hd ts @ x" using join_start [OF False] by blast
    ultimately show ?thesis
      using read_members_join [OF assms(1) False assms(2,3) m(2), of r] foldl_dput [of "[]" kvs] assms(2,4) m(1)
      by (simp add: not_space read_members_spaces)
  qed
qed

text \<open>A writer \<open>f\<close> of parts that are read as \<open>g\<close> of them.\<close>

lemma reads_list_map:
  assumes "\<And>x. x \<in> set xs \<Longrightarrow> reads (f x) (g x)" "spaces w" "spaces v"
  shows "reads (CHR ''['' # w @ join (CHR '','' # w) (map f xs) @ v @ '']'') (JList (map g xs))"
  by (rule reads_list) (use assms in \<open>simp_all add: list_all2_map1 list_all2_map2 list_all2_same\<close>)

lemma reads_object_map:
  assumes "\<And>k v. (k, v) \<in> set kvs \<Longrightarrow> reads (f v) (g v)" "spaces c" "spaces w" "spaces u" "distinct (map fst kvs)"
  shows "reads (CHR ''{'' # w @ join (CHR '','' # w) (map (\<lambda>(k, v). json_string k @ CHR '':'' # c @ f v) kvs) @ u @ ''}'')
    (JObject (map (\<lambda>(k, v). (k, g v)) kvs))"
proof (rule reads_object)
  have "reads_member (json_string k @ CHR '':'' # c @ f v) (k, g v)" if "(k, v) \<in> set kvs" for k v
    using assms(1) [OF that] assms(2) by (auto simp: reads_member_def)
  then show "list_all2 reads_member (map (\<lambda>(k, v). json_string k @ CHR '':'' # c @ f v) kvs) (map (\<lambda>(k, v). (k, g v)) kvs)"
    by (auto simp: list_all2_map1 list_all2_map2 list_all2_same)
  show "distinct (map fst (map (\<lambda>(k, v). (k, g v)) kvs))"
    using assms(5) by (simp add: comp_def case_prod_unfold)
qed (use assms in simp_all)

text \<open>The other values are their own texts.\<close>

lemma read_value_int:
  assumes "length (json_dumps (JInt k)) \<le> n" "value_ends r"
  shows "read_value n (json_dumps (JInt k) @ r) = Some (JInt k, r)"
proof -
  from assms(1) obtain m where "n = Suc m" by (cases n) (auto simp: int_text_def decimal_nonempty split: if_splits)
  obtain c t where start: "int_text k = c # t" "json_kind_of_char c = 2" using dumps_start [of "JInt k"] by auto
  have "\<not> json_space c" using dumps_start_space [of "JInt k" c t] start(1) by simp
  with start read_number_text [OF assms(2), of k] \<open>n = Suc m\<close> show ?thesis
    by (auto simp: json_kind_of_char_def startswith_def split: if_splits)
qed

lemma read_value_scalar:
  assumes "length (json_dumps j) \<le> n" "value_ends r" "json_kind j < 4"
  shows "read_value n (json_dumps j @ r) = Some (j, r)"
proof (cases j)
  case (JInt k)
  with read_value_int assms show ?thesis by blast
next
  case (JBool b)
  with assms show ?thesis by (cases n; cases b) (simp_all add: not_space startswith_def)
next
  case (JStr t)
  with assms show ?thesis by (cases n) (simp_all add: not_space read_json_string_text read_json_string json_string_def)
next
  case JNull
  with assms show ?thesis by (cases n) (simp_all add: not_space startswith_def)
qed (use assms in simp_all)

lemma reads_scalar: "json_kind j < 4 \<Longrightarrow> reads (json_dumps j) j"
  using dumps_start [of j] dumps_start_space [of j] by (auto simp: reads_def read_value_scalar simp del: json_dumps.simps)

section \<open>Documents\<close>

text \<open>A document is a text of a value with spaces around it.\<close>

theorem json_loads_reads:
  assumes "reads t j" "spaces w" "spaces v"
  shows "json_loads (w @ t @ v) = Inr j"
proof -
  have "value_ends v" using assms(3) by (cases v) (auto simp: value_ends_def)
  then have "read_value (Suc (length (w @ t @ v))) (w @ t @ v) = Some (j, v)"
    using assms(1,2) by (simp only: read_value_spaces) (intro readsD, simp_all)
  with assms(3) show ?thesis by (simp add: json_loads_def spaces_skip del: read_value.simps)
qed

text \<open>A value is read back from its canonical text, with the keys of its objects sorted.\<close>

theorem reads_dumps: "distinct_keys j \<Longrightarrow> reads (json_dumps j) (canon j)"
proof (induction j rule: canon.induct)
  case (1 kvs)
  define members where "members = sort_key fst kvs"
  have canon: "canon (JObject kvs) = JObject (map (\<lambda>(k, v). (k, canon v)) members)"
    using sort_key_map_prod [of canon kvs] by (simp add: members_def map_prod_def)
  have "reads (json_dumps v) (canon v)" if "(k, v) \<in> set members" for k v
    using that 1 by (auto simp: members_def list_all_iff)
  moreover have "distinct (map fst members)" using 1(2) by (simp add: members_def distinct_map)
  ultimately have "reads (CHR ''{'' # [] @ join (CHR '','' # []) (map (\<lambda>(k, v). json_string k @ CHR '':'' # [] @ json_dumps v) members) @ [] @ ''}'')
      (JObject (map (\<lambda>(k, v). (k, canon v)) members))"
    by (intro reads_object_map) simp_all
  then show ?case unfolding canon dumps_object members_def [symmetric] by (simp add: member_text_def [abs_def] case_prod_unfold)
next
  case (2 xs)
  then have "reads (CHR ''['' # [] @ join (CHR '','' # []) (map json_dumps xs) @ [] @ '']'') (JList (map canon xs))"
    by (intro reads_list_map) (simp_all add: list_all_iff)
  then show ?case by simp
qed (simp_all del: json_dumps.simps add: reads_scalar)

theorem json_loads_dumps:
  assumes "distinct_keys j" "skip w = []"
  shows "json_loads (json_dumps j @ w) = Inr (canon j)"
  using json_loads_reads [OF reads_dumps [OF assms(1)], of "[]" w] assms(2) by (simp add: spaces_skip [symmetric])

end
