(* ===== verification/JsonWriter.thy ===== *)
theory JsonWriter
  imports JsonReader
begin

text \<open>
  The other forms in which the program writes JSON: compact, as a request is sent, and indented, as a
  file is kept; and that \<open>json.loads\<close> reads both back.
\<close>

section \<open>Writing\<close>

text \<open>\<open>json.dumps(payload, separators=(",", ":"))\<close>: the keys stay in their order.\<close>

primrec json_compact :: "json \<Rightarrow> string" where
  "json_compact JNull = ''null''"
| "json_compact (JBool b) = (if b then ''true'' else ''false'')"
| "json_compact (JInt n) = int_text n"
| "json_compact (JStr t) = json_string t"
| "json_compact (JList xs) = ''['' @ join '','' (map json_compact xs) @ '']''"
| "json_compact (JObject kvs) =
     ''{'' @ join '','' (map (\<lambda>(k, v). json_string k @ '':'' @ v) (map (map_prod (\<lambda>k. k) json_compact) kvs)) @ ''}''"

text \<open>\<open>json.dumps(payload, indent=2, sort_keys=True)\<close>, at a level of indentation.\<close>

definition newline :: "nat \<Rightarrow> string" where
  "newline n = CHR 10 # replicate (2 * n) CHR 32"

definition enclose :: "string \<Rightarrow> string \<Rightarrow> nat \<Rightarrow> string list \<Rightarrow> string" where
  "enclose left right n items =
     (if items = [] then left @ right
      else left @ newline (Suc n) @ join ('','' @ newline (Suc n)) items @ newline n @ right)"

primrec json_indented :: "json \<Rightarrow> nat \<Rightarrow> string" where
  "json_indented JNull = (\<lambda>n. ''null'')"
| "json_indented (JBool b) = (\<lambda>n. if b then ''true'' else ''false'')"
| "json_indented (JInt k) = (\<lambda>n. int_text k)"
| "json_indented (JStr t) = (\<lambda>n. json_string t)"
| "json_indented (JList xs) = (\<lambda>n. enclose ''['' '']'' n (map (\<lambda>f. f (Suc n)) (map json_indented xs)))"
| "json_indented (JObject kvs) = (\<lambda>n. enclose ''{'' ''}'' n
     (map (\<lambda>(k, f). json_string k @ '': '' @ f (Suc n)) (sort_key fst (map (map_prod (\<lambda>k. k) json_indented) kvs))))"

section \<open>Reading it back\<close>

lemma spaces_newline [simp]: "spaces (newline n)"
  by (simp add: newline_def spaces_def json_space_def list_all_iff)

lemma reads_other_scalars:
  assumes "json_kind j < 4"
  shows "reads (json_compact j) j" "reads (json_indented j n) j"
  using reads_scalar [OF assms] assms by (cases j; simp)+

text \<open>A compact text keeps the order of the keys.\<close>

theorem reads_compact: "distinct_keys j \<Longrightarrow> reads (json_compact j) j"
proof (induction j rule: distinct_keys.induct)
  case (1 kvs)
  have "reads (json_compact v) v" if "(k, v) \<in> set kvs" for k v
    using that 1 by (auto simp: list_all_iff)
  then have "reads (CHR ''{'' # [] @ join (CHR '','' # []) (map (\<lambda>(k, v). json_string k @ CHR '':'' # [] @ json_compact v) kvs) @ [] @ ''}'')
      (JObject (map (\<lambda>(k, v). (k, v)) kvs))"
    using 1(2) by (intro reads_object_map) simp_all
  then show ?case by (simp add: comp_def case_prod_unfold)
next
  case (2 xs)
  then have "reads (CHR ''['' # [] @ join (CHR '','' # []) (map json_compact xs) @ [] @ '']'') (JList (map (\<lambda>x. x) xs))"
    by (intro reads_list_map) (simp_all add: list_all_iff)
  then show ?case by simp
qed (simp_all del: json_compact.simps add: reads_other_scalars)

text \<open>An indented text has them sorted.\<close>

lemma reads_enclosed_list:
  assumes "\<And>x. x \<in> set xs \<Longrightarrow> reads (f x) (g x)"
  shows "reads (enclose ''['' '']'' n (map f xs)) (JList (map g xs))"
proof (cases "xs = []")
  case True
  with reads_list_map [of "[]" f g "[]" "[]"] show ?thesis by (simp add: enclose_def)
next
  case False
  with reads_list_map [of xs f g "newline (Suc n)" "newline n"] assms show ?thesis by (simp add: enclose_def)
qed

lemma reads_enclosed_object:
  assumes "\<And>k v. (k, v) \<in> set kvs \<Longrightarrow> reads (f v) (g v)" "distinct (map fst kvs)"
  shows "reads (enclose ''{'' ''}'' n (map (\<lambda>(k, v). json_string k @ '': '' @ f v) kvs)) (JObject (map (\<lambda>(k, v). (k, g v)) kvs))"
proof (cases "kvs = []")
  case True
  with reads_object_map [of "[]" f g "[]" "[]" "[]"] show ?thesis by (simp add: enclose_def)
next
  case False
  with reads_object_map [of kvs f g "'' ''" "newline (Suc n)" "newline n"] assms show ?thesis
    by (simp add: enclose_def json_space_def)
qed

theorem reads_indented: "distinct_keys j \<Longrightarrow> reads (json_indented j n) (canon j)"
proof (induction j arbitrary: n rule: canon.induct)
  case (1 kvs)
  define members where "members = sort_key fst kvs"
  have canon: "canon (JObject kvs) = JObject (map (\<lambda>(k, v). (k, canon v)) members)"
    using sort_key_map_prod [of canon kvs] by (simp add: members_def map_prod_def)
  have written: "json_indented (JObject kvs) n
      = enclose ''{'' ''}'' n (map (\<lambda>(k, v). json_string k @ '': '' @ json_indented v (Suc n)) members)"
    by (simp add: members_def sort_key_map_prod comp_def case_prod_unfold)
  have "reads (json_indented v (Suc n)) (canon v)" if "(k, v) \<in> set members" for k v
    using that 1 by (auto simp: members_def list_all_iff)
  moreover have "distinct (map fst members)" using 1(2) by (simp add: members_def distinct_map)
  ultimately show ?case unfolding canon written by (rule reads_enclosed_object)
next
  case (2 xs)
  then have "reads (enclose ''['' '']'' n (map (\<lambda>x. json_indented x (Suc n)) xs)) (JList (map canon xs))"
    by (intro reads_enclosed_list) (simp_all add: list_all_iff)
  then show ?case by (simp add: comp_def)
qed (simp_all del: json_indented.simps add: reads_other_scalars)

end
