(* ===== verification/Activation.thy ===== *)
theory Activation
  imports Configuration JsonWriter
begin

text \<open>
  The activation client (\<open>src/kyn/activation.py\<close>): an encrypted participant key, a draft of the first
  authority with its release, the signed request that is prepared from it, its validation, and the
  submission whose response is checked and kept as evidence. Scrypt, AES-GCM and Ed25519 are the
  \<open>cryptography\<close> package's and fields of a toolkit; the conversions of pydantic are fields of another
  record; the network is an argument.
\<close>

section \<open>What the client relies on\<close>

record toolkit = primitives +
  tk_public :: "bytes \<Rightarrow> bytes"
  tk_scrypt :: "bytes \<Rightarrow> bytes \<Rightarrow> bytes"
  tk_encrypt :: "bytes \<Rightarrow> bytes \<Rightarrow> bytes \<Rightarrow> bytes \<Rightarrow> bytes"
  tk_decrypt :: "bytes \<Rightarrow> bytes \<Rightarrow> bytes \<Rightarrow> bytes \<Rightarrow> bytes option"

text \<open>How pydantic reads JSON, a timestamp, a truth value and an integer, and writes a timestamp.\<close>

record pydantic =
  pyd_datetime :: "json \<Rightarrow> datetime option"
  pyd_bool :: "json \<Rightarrow> bool option"
  pyd_int :: "json \<Rightarrow> int option"
  pyd_json :: "string \<Rightarrow> json option"
  pyd_datetime_text :: "datetime \<Rightarrow> string"

definition sum_bind :: "error + 'a \<Rightarrow> ('a \<Rightarrow> error + 'b) \<Rightarrow> error + 'b" where
  "sum_bind m f = (case m of Inl er \<Rightarrow> Inl er | Inr x \<Rightarrow> f x)"

text \<open>\<open>secrets.compare_digest\<close> of two texts, and the comparison of a timestamp with an aware one.\<close>

definition same_text :: "string \<Rightarrow> string \<Rightarrow> error + bool" where
  "same_text a b =
     (if is_ascii a \<and> is_ascii b then Inr (a = b)
      else Inl (TypeError ''comparing strings with non-ASCII characters is not supported''))"

definition not_after :: "datetime \<Rightarrow> time \<Rightarrow> error + bool" where
  "not_after d t = (case d of
     Naive _ \<Rightarrow> Inl (TypeError ''can't compare offset-naive and offset-aware datetimes'')
   | Aware u \<Rightarrow> Inr (u \<le> t))"

section \<open>The participant key\<close>

definition key_associated_data :: bytes where "key_associated_data = ''KYN KC activation key v1''"
definition minimum_passphrase_length :: nat where "minimum_passphrase_length = 16"
definition participant_seed_bytes :: nat where "participant_seed_bytes = 32"

record signer =
  sgn_key_id :: string
  sgn_public :: bytes
  sgn_sign :: "bytes \<Rightarrow> bytes"

definition signer_of :: "toolkit \<Rightarrow> string \<Rightarrow> bytes \<Rightarrow> error + signer" where
  "signer_of tk key_id seed =
     sum_bind (from_seed tk seed) (\<lambda>sg. Inr \<lparr>sgn_key_id = key_id, sgn_public = tk_public tk seed, sgn_sign = sg\<rparr>)"

definition public_key :: "signer \<Rightarrow> string" where
  "public_key g = b64_encode (sgn_public g)"

definition participant_key :: "signer \<Rightarrow> string" where
  "participant_key g = key_prefix @ public_key g"

text \<open>\<open>Ed25519Signer.sign_action\<close>, with the client's key.\<close>

definition client_sign_action :: "env \<Rightarrow> signer \<Rightarrow> string \<Rightarrow> string \<Rightarrow> string \<Rightarrow> (string \<times> json) list \<Rightarrow> string" where
  "client_sign_action e g = sign_action (e\<lparr>env_ed25519_sign := sgn_sign g\<rparr>)"

definition derive_key :: "toolkit \<Rightarrow> string \<Rightarrow> bytes \<Rightarrow> error + bytes" where
  "derive_key tk passphrase salt =
     (if length passphrase < minimum_passphrase_length
      then Inl (ValueError ''activation-key passphrase must contain at least 16 characters'')
      else Inr (tk_scrypt tk (encode passphrase) salt))"

text \<open>\<open>_private_parent\<close>.\<close>

definition private_parent :: "path \<Rightarrow> (machine, unit) prog" where
  "private_parent p =
     (let parent = butlast p in
      bind (gets mch_files) (\<lambda>fs.
      bind (if exists_at fs parent then
              (if is_symlink fs parent \<or> \<not> is_dir fs parent
               then raise (ValueError ''activation output parent is unsafe'') else ret ())
            else bind (mkdir 0x1C0 True False parent) (\<lambda>_. chmod parent 0x1C0)) (\<lambda>_.
      bind (stat_mode parent) (\<lambda>mode.
      if mode AND 0x3F \<noteq> 0 then raise (ValueError ''activation output parent permissions are too broad'')
      else ret ()))))"

definition key_payload :: "string \<Rightarrow> bytes \<Rightarrow> bytes \<Rightarrow> bytes \<Rightarrow> (string \<times> json) list" where
  "key_payload key salt nonce ciphertext = [
     (''key_file_version'', JInt 1),
     (''participant_key'', JStr key),
     (''kdf'', JObject [(''name'', JStr ''scrypt''), (''n'', JInt 32768), (''r'', JInt 8), (''p'', JInt 1),
                        (''salt'', JStr (b64_encode salt))]),
     (''cipher'', JObject [(''name'', JStr ''aes-256-gcm''), (''nonce'', JStr (b64_encode nonce))]),
     (''ciphertext'', JStr (b64_encode ciphertext))]"

definition create_encrypted_key ::
  "toolkit \<Rightarrow> (nat \<Rightarrow> nat \<Rightarrow> bytes) \<Rightarrow> path \<Rightarrow> string \<Rightarrow> bytes option \<Rightarrow> (machine, string) prog" where
  "create_encrypted_key tk random p passphrase given =
     bind (gets mch_files) (\<lambda>fs.
     if exists_at fs p then raise (FileExistsError ''refusing to replace an activation key file'')
     else
     bind (private_parent p) (\<lambda>_.
     let seed = (case given of None \<Rightarrow> random 0 participant_seed_bytes
                 | Some v \<Rightarrow> if v = [] then random 0 participant_seed_bytes else v) in
     if length seed \<noteq> participant_seed_bytes then raise (ValueError ''participant seed must be exactly 32 bytes'')
     else
     bind (lift_sum (signer_of tk ''kc-kyn-participant'' seed)) (\<lambda>g.
     let salt = random 1 16; nonce = random 2 12 in
     bind (lift_sum (derive_key tk passphrase salt)) (\<lambda>key.
     let ciphertext = tk_encrypt tk key nonce seed key_associated_data;
         payload = key_payload (participant_key g) salt nonce ciphertext in
     bind (create_file p 0x180 (encode (json_dumps (JObject payload) @ [CHR 10]))) (\<lambda>_.
     ret (participant_key g))))))"

text \<open>\<open>value.get(key, {})\<close>, \<open>value[key]\<close> and a text that is needed.\<close>

definition get_or_empty :: "json \<Rightarrow> string \<Rightarrow> error + json" where
  "get_or_empty j k = (case j of
     JObject kvs \<Rightarrow> Inr (case dget kvs k of None \<Rightarrow> JObject [] | Some v \<Rightarrow> v)
   | _ \<Rightarrow> Inl (TypeError ''object has no attribute get''))"

definition get_value :: "json \<Rightarrow> string \<Rightarrow> error + json option" where
  "get_value j k = (case j of
     JObject kvs \<Rightarrow> Inr (dget kvs k)
   | _ \<Rightarrow> Inl (TypeError ''object has no attribute get''))"

definition subscript :: "json \<Rightarrow> string \<Rightarrow> error + json" where
  "subscript j k = (case j of
     JObject kvs \<Rightarrow> (case dget kvs k of None \<Rightarrow> Inl (KeyError k) | Some v \<Rightarrow> Inr v)
   | _ \<Rightarrow> Inl (TypeError ''object is not subscriptable''))"

definition text_of :: "json \<Rightarrow> error + string" where
  "text_of j = (case j of JStr t \<Rightarrow> Inr t | _ \<Rightarrow> Inl (TypeError ''a text is needed''))"

definition decode_member :: "json \<Rightarrow> string \<Rightarrow> error + bytes" where
  "decode_member j k = sum_bind (subscript j k) (\<lambda>v. sum_bind (text_of v) b64_decode)"

text \<open>The format check, which stops at the first part that differs; \<open>True\<close> equals 1 in Python.\<close>

definition supported_key_file :: "json \<Rightarrow> error + bool" where
  "supported_key_file j =
     sum_bind (get_value j ''key_file_version'') (\<lambda>v.
     if v \<notin> {Some (JInt 1), Some (JBool True)} then Inr False else
     sum_bind (get_or_empty j ''kdf'') (\<lambda>kdf.
     sum_bind (get_value kdf ''name'') (\<lambda>n.
     if n \<noteq> Some (JStr ''scrypt'') then Inr False else
     sum_bind (get_or_empty j ''cipher'') (\<lambda>cipher.
     sum_bind (get_value cipher ''name'') (\<lambda>m. Inr (m = Some (JStr ''aes-256-gcm'')))))))"

text \<open>The steps after the file was read. A tag that does not fit is the package's \<open>InvalidTag\<close>.\<close>

definition open_key :: "toolkit \<Rightarrow> string \<Rightarrow> json \<Rightarrow> error + signer" where
  "open_key tk passphrase j =
     sum_bind (supported_key_file j) (\<lambda>ok.
     if \<not> ok then Inl (ValueError ''activation key file format is unsupported'')
     else
     sum_bind (sum_bind (subscript j ''kdf'') (\<lambda>kdf. decode_member kdf ''salt'')) (\<lambda>salt.
     sum_bind (sum_bind (subscript j ''cipher'') (\<lambda>cipher. decode_member cipher ''nonce'')) (\<lambda>nonce.
     sum_bind (derive_key tk passphrase salt) (\<lambda>key.
     sum_bind (decode_member j ''ciphertext'') (\<lambda>ciphertext.
     case tk_decrypt tk key nonce ciphertext key_associated_data of
       None \<Rightarrow> Inl (RuntimeError ''InvalidTag'')
     | Some seed \<Rightarrow>
         sum_bind (signer_of tk ''kc-kyn-participant'' seed) (\<lambda>g.
         sum_bind (sum_bind (subscript j ''participant_key'') text_of) (\<lambda>stored.
         sum_bind (same_text (participant_key g) stored) (\<lambda>same.
         if \<not> same then Inl (ValueError ''activation key public binding does not match'')
         else Inr g))))))))"

definition load_encrypted_key :: "toolkit \<Rightarrow> path \<Rightarrow> string \<Rightarrow> (machine, signer) prog" where
  "load_encrypted_key tk p passphrase =
     bind (gets mch_files) (\<lambda>fs.
     if is_symlink fs p \<or> \<not> is_file fs p then raise (ValueError ''activation key file is unsafe'')
     else
     bind (stat_mode p) (\<lambda>mode.
     if mode AND 0x3F \<noteq> 0 then raise (ValueError ''activation key file permissions are too broad'')
     else
     bind (read_bytes p) (\<lambda>v.
     bind (lift_sum (read_text v)) (\<lambda>t.
     bind (lift_sum (json_loads t)) (\<lambda>j.
     lift_sum (open_key tk passphrase j))))))"

section \<open>The draft\<close>

record activation_draft =
  dra_public_label :: string
  dra_designation_reference :: string
  dra_policy_version :: string
  dra_expires_at :: datetime
  dra_release_version :: string
  dra_notice_version :: string
  dra_terms_url :: string
  dra_privacy_url :: string
  dra_operator_contact :: string
  dra_storage_posture :: storage_posture
  dra_backup_evidence_reference :: string
  dra_sensitive_evidence_enabled :: bool

definition draft_fields :: "string list" where
  "draft_fields = [''public_label'', ''designation_reference'', ''policy_version'', ''expires_at'',
     ''release_version'', ''notice_version'', ''terms_url'', ''privacy_url'', ''operator_contact'',
     ''storage_posture'', ''backup_evidence_reference'', ''sensitive_evidence_enabled'']"

text \<open>The constraints on the fields.\<close>

definition valid_draft :: "activation_draft \<Rightarrow> bool" where
  "valid_draft d \<longleftrightarrow> sized 1 120 (dra_public_label d) \<and> sha_reference (dra_designation_reference d)
     \<and> dotted (dra_policy_version d) \<and> dotted (dra_release_version d) \<and> dotted (dra_notice_version d)
     \<and> https (dra_terms_url d) \<and> https (dra_privacy_url d) \<and> sized 3 200 (dra_operator_contact d)
     \<and> sha_reference (dra_backup_evidence_reference d)"

definition accepted_bootstrap_boundary :: "activation_draft \<Rightarrow> error + activation_draft" where
  "accepted_bootstrap_boundary d =
     (if dra_public_label d \<noteq> ''KC Streich''
      then Inl (ValueError ''activation draft must use the accepted KC public label'')
      else if dra_sensitive_evidence_enabled d
      then Inl (ValueError ''KYN-000C activation cannot enable sensitive evidence'')
      else if CHR ''@'' \<notin> set (dra_operator_contact d)
      then Inl (ValueError ''activation draft requires a public operator contact'')
      else Inr d)"

definition str_field :: "(string \<times> json) list \<Rightarrow> string \<Rightarrow> string option" where
  "str_field kvs k = (case dget kvs k of Some (JStr t) \<Rightarrow> Some t | _ \<Rightarrow> None)"

definition posture_of :: "string \<Rightarrow> storage_posture option" where
  "posture_of t = (if t = posture_value PROVISIONAL_BETA then Some PROVISIONAL_BETA
     else if t = posture_value DURABLE_PRODUCTION then Some DURABLE_PRODUCTION else None)"

text \<open>The fields of a body; the last one has a default.\<close>

definition read_draft :: "pydantic \<Rightarrow> (string \<times> json) list \<Rightarrow> activation_draft option" where
  "read_draft pyd kvs =
     Option.bind (str_field kvs ''public_label'') (\<lambda>a1.
     Option.bind (str_field kvs ''designation_reference'') (\<lambda>a2.
     Option.bind (str_field kvs ''policy_version'') (\<lambda>a3.
     Option.bind (Option.bind (dget kvs ''expires_at'') (pyd_datetime pyd)) (\<lambda>a4.
     Option.bind (str_field kvs ''release_version'') (\<lambda>a5.
     Option.bind (str_field kvs ''notice_version'') (\<lambda>a6.
     Option.bind (str_field kvs ''terms_url'') (\<lambda>a7.
     Option.bind (str_field kvs ''privacy_url'') (\<lambda>a8.
     Option.bind (str_field kvs ''operator_contact'') (\<lambda>a9.
     Option.bind (Option.bind (str_field kvs ''storage_posture'') posture_of) (\<lambda>a10.
     Option.bind (str_field kvs ''backup_evidence_reference'') (\<lambda>a11.
     Option.bind (case dget kvs ''sensitive_evidence_enabled'' of None \<Rightarrow> Some False | Some j \<Rightarrow> pyd_bool pyd j) (\<lambda>a12.
     Some \<lparr>dra_public_label = a1, dra_designation_reference = a2, dra_policy_version = a3, dra_expires_at = a4,
        dra_release_version = a5, dra_notice_version = a6, dra_terms_url = a7, dra_privacy_url = a8,
        dra_operator_contact = a9, dra_storage_posture = a10, dra_backup_evidence_reference = a11,
        dra_sensitive_evidence_enabled = a12\<rparr>))))))))))))"

text \<open>\<open>ActivationDraft.model_validate\<close>: pydantic gathers what is wrong with the fields in one error.\<close>

definition validate_draft :: "pydantic \<Rightarrow> (string \<times> json) list \<Rightarrow> error + activation_draft" where
  "validate_draft pyd kvs =
     (case read_draft pyd kvs of
        Some d \<Rightarrow>
          if list_all (\<lambda>k. k \<in> set draft_fields) (dkeys kvs) \<and> valid_draft d then accepted_bootstrap_boundary d
          else Inl (ValueError ''validation error for ActivationDraft'')
      | None \<Rightarrow> Inl (ValueError ''validation error for ActivationDraft''))"

text \<open>\<open>draft.model_dump(mode="json")\<close>.\<close>

definition draft_json :: "pydantic \<Rightarrow> activation_draft \<Rightarrow> (string \<times> json) list" where
  "draft_json pyd d = [
     (''public_label'', JStr (dra_public_label d)),
     (''designation_reference'', JStr (dra_designation_reference d)),
     (''policy_version'', JStr (dra_policy_version d)),
     (''expires_at'', JStr (pyd_datetime_text pyd (dra_expires_at d))),
     (''release_version'', JStr (dra_release_version d)),
     (''notice_version'', JStr (dra_notice_version d)),
     (''terms_url'', JStr (dra_terms_url d)),
     (''privacy_url'', JStr (dra_privacy_url d)),
     (''operator_contact'', JStr (dra_operator_contact d)),
     (''storage_posture'', JStr (posture_value (dra_storage_posture d))),
     (''backup_evidence_reference'', JStr (dra_backup_evidence_reference d)),
     (''sensitive_evidence_enabled'', JBool (dra_sensitive_evidence_enabled d))]"

section \<open>Preparing and validating\<close>

record prepared_activation =
  pre_prepared_version :: int
  pre_activation_body_digest :: string
  pre_request :: "(string \<times> json) list"
  pre_prepared_at :: datetime

definition activation_body :: "pydantic \<Rightarrow> activation_draft \<Rightarrow> string \<Rightarrow> (string \<times> json) list" where
  "activation_body pyd d key = (''participant_key'', JStr key) # draft_json pyd d"

definition body_digest :: "env \<Rightarrow> (string \<times> json) list \<Rightarrow> string" where
  "body_digest e body = ''sha256:'' @ hexdigest (env_sha256 e (canonical_json body))"

text \<open>\<open>digest[-12:]\<close>.\<close>

definition digest_tail :: "string \<Rightarrow> string" where
  "digest_tail t = drop (length t - 12) t"

definition bootstrap_operation :: string where
  "bootstrap_operation = ''authority.bootstrap_activate''"

definition prepare_activation ::
  "env \<Rightarrow> pydantic \<Rightarrow> (nat \<Rightarrow> nat \<Rightarrow> bytes) \<Rightarrow> activation_draft \<Rightarrow> signer \<Rightarrow> string \<Rightarrow> time
   \<Rightarrow> error + prepared_activation" where
  "prepare_activation e pyd random d g confirmation current =
     sum_bind (not_after (dra_expires_at d) current) (\<lambda>over.
     if over then Inl (ValueError ''KC authority expiry must be in the future'')
     else
     let body = activation_body pyd d (participant_key g);
         digest = body_digest e body;
         expected = ''ACTIVATE '' @ digest_tail digest in
     sum_bind (same_text confirmation expected) (\<lambda>same.
     if \<not> same then Inl (ValueError (''activation confirmation must equal '' @ expected))
     else
     let issued_at = isoformat_z current;
         nonce = token_urlsafe random 0 18;
         signature = client_sign_action e g bootstrap_operation nonce issued_at body in
     if \<not> sha_reference digest then Inl (ValueError ''validation error for PreparedActivation'')
     else
     Inr \<lparr>pre_prepared_version = 1, pre_activation_body_digest = digest,
        pre_request = body @ [(''proof'', JObject [(''nonce'', JStr nonce), (''issued_at'', JStr issued_at),
                                                  (''signature'', JStr signature)])],
        pre_prepared_at = Aware current\<rparr>))"

text \<open>\<open>_activation_body_from_request\<close>.\<close>

definition proof_fields :: "string set" where
  "proof_fields = {''nonce'', ''issued_at'', ''signature''}"

definition activation_body_from_request :: "pydantic \<Rightarrow> (string \<times> json) list \<Rightarrow> error + (string \<times> json) list" where
  "activation_body_from_request pyd request =
     (case dget request ''proof'' of
        Some (JObject p) \<Rightarrow>
          if set (dkeys p) \<noteq> proof_fields then Inl (ValueError ''prepared activation proof is invalid'')
          else
            let body = filter (\<lambda>(k, v). k \<noteq> ''proof'') request in
            (case dget body ''participant_key'' of
               Some (JStr key) \<Rightarrow>
                 if \<not> startswith key_prefix key then Inl (ValueError ''prepared activation participant key is invalid'')
                 else sum_bind (validate_draft pyd (filter (\<lambda>(k, v). k \<noteq> ''participant_key'') body)) (\<lambda>d.
                   Inr (activation_body pyd d key))
             | _ \<Rightarrow> Inl (ValueError ''prepared activation participant key is invalid''))
      | _ \<Rightarrow> Inl (ValueError ''prepared activation proof is invalid''))"

text \<open>\<open>_validate_prepared\<close>.\<close>

definition validate_prepared ::
  "env \<Rightarrow> verifier \<Rightarrow> pydantic \<Rightarrow> prepared_activation \<Rightarrow> time \<Rightarrow> error + (string \<times> json) list" where
  "validate_prepared e verify pyd p t =
     sum_bind (activation_body_from_request pyd (pre_request p)) (\<lambda>body.
     sum_bind (same_text (body_digest e body) (pre_activation_body_digest p)) (\<lambda>same.
     if \<not> same then Inl (ValueError ''prepared activation body digest does not match'')
     else
     sum_bind (validate_draft pyd (filter (\<lambda>(k, v). k \<noteq> ''participant_key'') body)) (\<lambda>d.
     sum_bind (not_after (dra_expires_at d) t) (\<lambda>over.
     if over then Inl (ValueError ''KC authority expiry must be in the future'')
     else
     case dget (pre_request p) ''proof'' of
       Some (JObject pf) \<Rightarrow>
         (case (str_field pf ''nonce'', str_field pf ''issued_at'', str_field pf ''signature'', str_field body ''participant_key'') of
            (Some nonce, Some issued_at, Some signature, Some key) \<Rightarrow>
              if \<not> verify_participant_action e verify key bootstrap_operation nonce issued_at body signature
              then Inl (ValueError ''prepared activation signature is invalid'')
              else Inr (pre_request p)
          | _ \<Rightarrow> Inl (ValueError ''prepared activation proof is invalid''))
     | _ \<Rightarrow> Inl (ValueError ''prepared activation proof is invalid'')))))"

section \<open>JSON as it is sent and kept\<close>

text \<open>\<open>_write_evidence\<close>.\<close>

definition write_evidence :: "path \<Rightarrow> (string \<times> json) list \<Rightarrow> (machine, unit) prog" where
  "write_evidence p evidence =
     bind (gets mch_files) (\<lambda>fs.
     if exists_at fs p then raise (FileExistsError ''refusing to replace activation evidence'')
     else
     bind (private_parent p) (\<lambda>_.
     create_file p 0x180 (encode (json_indented (JObject evidence) 0 @ [CHR 10]))))"

section \<open>Submission\<close>

text \<open>
  \<open>urllib.parse.urlsplit\<close>, as far as it is used: the scheme, and the name of the host without
  credentials, brackets or port.
\<close>

definition alpha :: "char \<Rightarrow> bool" where
  "alpha c \<longleftrightarrow> lower c \<or> upper c"

definition cleaned_url :: "string \<Rightarrow> string" where
  "cleaned_url t = filter (\<lambda>c. c \<notin> {CHR 9, CHR 10, CHR 13}) (dropWhile (\<lambda>c. (of_char c :: nat) \<le> 32) t)"

definition split_scheme :: "string \<Rightarrow> string \<times> string" where
  "split_scheme t = (let s = takeWhile (\<lambda>c. c \<noteq> CHR '':'') t; r = drop (length s) t in
     if r \<noteq> [] \<and> s \<noteq> [] \<and> alpha (hd s) \<and> list_all (\<lambda>c. alpha c \<or> digit c \<or> c \<in> set ''+-.'') s
     then (map to_lower s, tl r) else ([], t))"

definition hostname_of :: "string \<Rightarrow> string option" where
  "hostname_of r =
     (if \<not> startswith ''//'' r then None
      else
        let netloc = takeWhile (\<lambda>c. c \<notin> set ''/?#'') (drop 2 r);
            hostinfo = rev (takeWhile (\<lambda>c. c \<noteq> CHR ''@'') (rev netloc));
            bracket = dropWhile (\<lambda>c. c \<noteq> CHR ''['') hostinfo;
            name = (if bracket \<noteq> [] then takeWhile (\<lambda>c. c \<noteq> CHR '']'') (tl bracket)
                    else takeWhile (\<lambda>c. c \<noteq> CHR '':'') hostinfo)
        in if name = [] then None else Some (map to_lower name))"

datatype reply =
    Reply bytes
  | HttpError nat

text \<open>What the network answers to a posted request, by its URL, headers and data.\<close>

type_synonym network = "string \<Rightarrow> (string \<times> string) list \<Rightarrow> bytes \<Rightarrow> reply"

definition trusted_api :: "string \<Rightarrow> bool" where
  "trusted_api base = (let (scheme, r) = split_scheme (cleaned_url base) in
     scheme = ''https'' \<or> hostname_of r \<in> {Some ''localhost'', Some ''127.0.0.1''} \<and> scheme = ''http'')"

text \<open>\<open>_post_activation\<close>; the detail of an HTTP error is left out of its message.\<close>

definition post_activation :: "network \<Rightarrow> string \<Rightarrow> string \<Rightarrow> (string \<times> json) list \<Rightarrow> error + (string \<times> json) list" where
  "post_activation net api_url tok payload =
     (let base = rstrip CHR ''/'' api_url in
      if \<not> trusted_api base then Inl (ValueError ''activation API must use HTTPS or local loopback HTTP'')
      else (case net (base @ ''/v1/bootstrap/activate'')
              [(''Authorization'', ''Bearer '' @ tok), (''Content-Type'', ''application/json'')]
              (encode (json_compact (JObject payload))) of
         HttpError code \<Rightarrow> Inl (RuntimeError (''KYN activation failed with HTTP '' @ decimal code))
       | Reply v \<Rightarrow> sum_bind (decode_utf8 v) (\<lambda>t. sum_bind (json_loads t) (\<lambda>j.
           (case j of JObject r \<Rightarrow> Inr r | _ \<Rightarrow> Inl (RuntimeError ''KYN activation returned an invalid response''))))))"

definition bootstrap_record_types :: "string set" where
  "bootstrap_record_types = {''subject'', ''bootstrap_authority'', ''authority_grant'', ''operator_release''}"

text \<open>The records by their type; a later one replaces an earlier one.\<close>

definition by_type :: "json list \<Rightarrow> (string, (string \<times> json) list) dict" where
  "by_type records = foldl (\<lambda>d item. case item of
       JObject kvs \<Rightarrow> (case str_field kvs ''record_type'' of None \<Rightarrow> d | Some t \<Rightarrow> dput t kvs d)
     | _ \<Rightarrow> d) [] records"

definition expected_release :: "(string \<times> json) list \<Rightarrow> (string \<times> json option) list" where
  "expected_release body = map (\<lambda>k. (k, dget body k))
     [''release_version'', ''notice_version'', ''terms_url'', ''privacy_url'', ''operator_contact'',
      ''storage_posture'', ''backup_evidence_reference'']"

text \<open>\<open>_validate_activation_response\<close>; zero equals \<open>False\<close> in Python.\<close>

definition validate_activation_response ::
  "pydantic \<Rightarrow> (string \<times> json) list \<Rightarrow> prepared_activation \<Rightarrow> error + unit" where
  "validate_activation_response pyd response p =
     (case dget response ''records'' of
        Some (JList records) \<Rightarrow>
          if length records \<noteq> card bootstrap_record_types
          then Inl (RuntimeError ''KYN activation response did not contain four bootstrap records'')
          else
            let found = by_type records in
            if set (dkeys found) \<noteq> bootstrap_record_types
            then Inl (RuntimeError ''KYN activation response record types are invalid'')
            else
            sum_bind (activation_body_from_request pyd (pre_request p)) (\<lambda>body.
            let member = (\<lambda>t k. dget (the (dget found t)) k) in
            if member ''subject'' ''participant_key'' \<noteq> dget body ''participant_key''
            then Inl (RuntimeError ''KYN activation response changed the KC participant key'')
            else if member ''bootstrap_authority'' ''public_label'' \<noteq> dget body ''public_label''
            then Inl (RuntimeError ''KYN activation response changed the KC public label'')
            else if list_ex (\<lambda>(k, v). member ''operator_release'' k \<noteq> v) (expected_release body)
              \<or> member ''operator_release'' ''sensitive_evidence_enabled'' \<notin> {Some (JBool False), Some (JInt 0)}
            then Inl (RuntimeError ''KYN activation response does not match the accepted release'')
            else (case dget response ''receipt'' of
                Some (JObject r) \<Rightarrow>
                  if dget r ''record_type'' \<noteq> Some (JStr ''receipt'')
                  then Inl (RuntimeError ''KYN activation response did not contain a receipt'') else Inr ()
              | _ \<Rightarrow> Inl (RuntimeError ''KYN activation response did not contain a receipt'')))
      | _ \<Rightarrow> Inl (RuntimeError ''KYN activation response did not contain four bootstrap records''))"

text \<open>The evidence of a submission.\<close>

definition activation_evidence ::
  "string \<Rightarrow> prepared_activation \<Rightarrow> (string \<times> json) list \<Rightarrow> (string \<times> json) list \<Rightarrow> time \<Rightarrow> (string \<times> json) list" where
  "activation_evidence api_url p payload response recorded_at = [
     (''evidence_version'', JInt 1),
     (''operation'', JStr bootstrap_operation),
     (''api_url'', JStr (rstrip CHR ''/'' api_url)),
     (''activation_body_digest'', JStr (pre_activation_body_digest p)),
     (''request'', JObject payload),
     (''response'', JObject response),
     (''recorded_at'', JStr (isoformat_z recorded_at))]"

definition submit_prepared_activation ::
  "env \<Rightarrow> verifier \<Rightarrow> pydantic \<Rightarrow> network \<Rightarrow> string \<Rightarrow> prepared_activation \<Rightarrow> path \<Rightarrow> path \<Rightarrow> string \<Rightarrow> time \<Rightarrow> time
   \<Rightarrow> (machine, (string \<times> json) list) prog" where
  "submit_prepared_activation e verify pyd net api_url p token_file evidence_path confirmation current recorded_at =
     bind (gets mch_files) (\<lambda>fs.
     if exists_at fs evidence_path
     then raise (FileExistsError ''refusing activation because the evidence path already exists'')
     else
     bind (lift_sum (validate_prepared e verify pyd p current)) (\<lambda>payload.
     let expected = ''SUBMIT '' @ digest_tail (pre_activation_body_digest p) in
     bind (lift_sum (same_text confirmation expected)) (\<lambda>same.
     if \<not> same then raise (ValueError (''submission confirmation must equal '' @ expected))
     else
     bind (read_secret_file token_file None) (\<lambda>v.
     bind (lift_sum (decode_utf8 v)) (\<lambda>tok.
     bind (lift_sum (post_activation net api_url tok payload)) (\<lambda>response.
     bind (lift_sum (validate_activation_response pyd response p)) (\<lambda>_.
     bind (write_evidence evidence_path (activation_evidence api_url p payload response recorded_at)) (\<lambda>_.
     ret response))))))))"

definition activate ::
  "env \<Rightarrow> verifier \<Rightarrow> pydantic \<Rightarrow> network \<Rightarrow> (nat \<Rightarrow> nat \<Rightarrow> bytes) \<Rightarrow> string \<Rightarrow> activation_draft \<Rightarrow> signer \<Rightarrow> path \<Rightarrow> path
   \<Rightarrow> string \<Rightarrow> time \<Rightarrow> time \<Rightarrow> (machine, (string \<times> json) list) prog" where
  "activate e verify pyd net random api_url d g token_file evidence_path confirmation current recorded_at =
     bind (lift_sum (prepare_activation e pyd random d g confirmation current)) (\<lambda>p.
     submit_prepared_activation e verify pyd net api_url p token_file evidence_path
       (''SUBMIT '' @ digest_tail (pre_activation_body_digest p)) current recorded_at)"

section \<open>What is prepared is accepted\<close>

text \<open>
  pydantic reads back what it wrote, and gives a truth value for a truth value: what the client and
  the server rely on to see the same body.
\<close>

definition pydantic_laws :: "pydantic \<Rightarrow> bool" where
  "pydantic_laws pyd \<longleftrightarrow> (\<forall>d. pyd_datetime pyd (JStr (pyd_datetime_text pyd d)) = Some d)
     \<and> (\<forall>b. pyd_bool pyd (JBool b) = Some b)"

definition accepted_draft :: "activation_draft \<Rightarrow> bool" where
  "accepted_draft d \<longleftrightarrow> valid_draft d \<and> accepted_bootstrap_boundary d = Inr d"

lemma posture_of_value: "posture_of (posture_value x) = Some x"
  by (cases x) (simp_all add: posture_of_def)

lemma dget_simps: "dget [] k = None" "dget ((k', v) # d) k = (if k = k' then Some v else dget d k)"
  by simp_all

lemma draft_reads_back:
  assumes "pydantic_laws pyd" "accepted_draft d"
  shows "validate_draft pyd (draft_json pyd d) = Inr d"
proof -
  have "read_draft pyd (draft_json pyd d) = Some d"
    using assms(1) by (simp add: read_draft_def draft_json_def str_field_def posture_of_value pydantic_laws_def)
  moreover have "dkeys (draft_json pyd d) = draft_fields"
    by (simp add: draft_json_def draft_fields_def)
  ultimately show ?thesis
    using assms(2) by (simp add: validate_draft_def accepted_draft_def Ball_set [symmetric])
qed

lemma dget_append: "dget (a @ b) k = (case dget a k of None \<Rightarrow> dget b k | Some v \<Rightarrow> Some v)"
  by (simp add: map_add_def)

lemma activation_body_keys: "dkeys (activation_body pyd d key) = ''participant_key'' # draft_fields"
  by (simp add: activation_body_def draft_json_def draft_fields_def)

lemma activation_body_parts:
  "filter (\<lambda>(k, v). k \<noteq> ''proof'') (activation_body pyd d key) = activation_body pyd d key"
  "filter (\<lambda>(k, v). k \<noteq> ''participant_key'') (activation_body pyd d key) = draft_json pyd d"
  "dget (activation_body pyd d key) ''proof'' = None"
  "dget (activation_body pyd d key) ''participant_key'' = Some (JStr key)"
  by (simp_all add: activation_body_def draft_json_def)

lemma sha_reference_ascii: "sha_reference t \<Longrightarrow> is_ascii t"
proof -
  assume t: "sha_reference t"
  have "take 7 t = ''sha256:''" using t by (simp add: sha_reference_def startswith_def eval_nat_numeral)
  then have split: "t = ''sha256:'' @ drop 7 t" by (metis append_take_drop_id)
  have "list_all (\<lambda>c. (of_char c :: nat) < 128) (drop 7 t)"
    using t by (auto simp: sha_reference_def digit_def in_range_char_def list_all_iff)
  then have "is_ascii (''sha256:'' @ drop 7 t)" by (simp add: is_ascii_def)
  with split show ?thesis by simp
qed

text \<open>The digest of 32 bytes is a reference of the form the models ask for.\<close>

lemma hex_char_class: "digit (hex_char n) \<or> in_range_char 97 102 (hex_char n)"
proof -
  have "list_all (\<lambda>c. digit c \<or> in_range_char 97 102 c) ''0123456789abcdef''"
    by (simp add: digit_def in_range_char_def)
  moreover have "n mod 16 < length ''0123456789abcdef''" by simp
  ultimately show ?thesis unfolding hex_char_def list_all_length by blast
qed

lemma sha_reference_hexdigest: "length v = 32 \<Longrightarrow> sha_reference (''sha256:'' @ hexdigest v)"
proof -
  assume "length v = 32"
  then have "length (''sha256:'' @ hexdigest v) = 71" by simp
  moreover have "list_all (\<lambda>c. digit c \<or> in_range_char 97 102 c) (hexdigest v)"
    using hex_char_class by (auto simp: hexdigest_def list_all_iff Let_def)
  moreover have "drop 7 (''sha256:'' @ hexdigest v) = hexdigest v" by (simp add: eval_nat_numeral)
  moreover have "startswith ''sha256:'' (''sha256:'' @ hexdigest v)" by (rule startswith_append)
  ultimately show ?thesis unfolding sha_reference_def by (simp only: simp_thms)
qed

text \<open>What \<open>prepare_activation\<close> returns, when it returns.\<close>

lemma prepared_shape:
  assumes "prepare_activation e pyd random d g confirmation t = Inr p"
  shows "\<exists>u. dra_expires_at d = Aware u \<and> t < u
    \<and> (let body = activation_body pyd d (participant_key g) in
       is_ascii (body_digest e body) \<and> sha_reference (body_digest e body) \<and> pre_activation_body_digest p = body_digest e body
       \<and> pre_request p = body @ [(''proof'', JObject [
            (''nonce'', JStr (token_urlsafe random 0 18)), (''issued_at'', JStr (isoformat_z t)),
            (''signature'', JStr (client_sign_action e g bootstrap_operation (token_urlsafe random 0 18) (isoformat_z t) body))])])"
proof -
  from assms show ?thesis
    by (auto simp: prepare_activation_def sum_bind_def not_after_def same_text_def Let_def sha_reference_ascii
        split: datetime.splits if_splits sum.splits)
qed

lemma prepare_succeeds:
  assumes "\<And>v. length (env_sha256 e v) = 32" "dra_expires_at d = Aware u" "t < u"
    and "confirmation = ''ACTIVATE '' @ digest_tail (body_digest e (activation_body pyd d (participant_key g)))"
  shows "\<exists>p. prepare_activation e pyd random d g confirmation t = Inr p"
proof -
  let ?digest = "body_digest e (activation_body pyd d (participant_key g))"
  have sha: "sha_reference ?digest" unfolding body_digest_def by (intro sha_reference_hexdigest assms(1))
  then have "is_ascii (digest_tail ?digest)"
    using sha_reference_ascii [OF sha] by (auto simp: is_ascii_def digest_tail_def list_all_iff dest: in_set_dropD)
  then have "is_ascii confirmation" by (simp add: assms(4) is_ascii_def)
  with sha assms(2,3) show ?thesis
    by (simp add: prepare_activation_def sum_bind_def not_after_def same_text_def Let_def assms(4))
qed

lemma client_verifies:
  assumes "\<And>m. verify (sgn_public g) (sgn_sign g m) m"
  shows "verify_participant_action e verify (participant_key g) operation nonce issued_at body
    (client_sign_action e g operation nonce issued_at body)"
proof -
  have "action_signing_payload (e\<lparr>env_ed25519_sign := f\<rparr>) = action_signing_payload e" for f
    by (simp add: action_signing_payload_def fun_eq_iff)
  then show ?thesis
    using assms by (simp add: verify_participant_action_def client_sign_action_def sign_action_def participant_key_def
        public_key_def b64_decode_encode)
qed

text \<open>
  The validation looks members up by name, so it does not depend on their order, which a request loses
  in a file with sorted keys.
\<close>

definition same_members :: "(string \<times> json) list \<Rightarrow> (string \<times> json) list \<Rightarrow> bool" where
  "same_members a b \<longleftrightarrow> set (dkeys a) = set (dkeys b) \<and> (\<forall>k. dget a k = dget b k)"

lemma dget_filter_key: "dget (filter (\<lambda>(k, v). k \<noteq> x) d) k = (if k = x then None else dget d k)"
  by (induction d) auto

lemma same_members_filter:
  "same_members a b \<Longrightarrow> same_members (filter (\<lambda>(k, v). k \<noteq> x) a) (filter (\<lambda>(k, v). k \<noteq> x) b)"
proof -
  have keys: "set (dkeys (filter (\<lambda>(k, v). k \<noteq> x) d)) = set (dkeys d) - {x}" for d :: "(string \<times> json) list"
    by force
  assume "same_members a b"
  then show ?thesis unfolding same_members_def dget_filter_key keys by simp
qed

lemma validate_draft_cong: "same_members a b \<Longrightarrow> validate_draft pyd a = validate_draft pyd b"
proof -
  assume same: "same_members a b"
  then have "read_draft pyd a = read_draft pyd b" by (simp add: read_draft_def str_field_def same_members_def)
  moreover have "list_all q (dkeys a) = list_all q (dkeys b)" for q
    using same unfolding same_members_def list_all_iff by simp
  ultimately show ?thesis by (simp only: validate_draft_def)
qed

lemma body_of_request:
  assumes laws: "pydantic_laws pyd" and draft: "accepted_draft d"
    and request: "same_members r (activation_body pyd d (participant_key g) @ [(''proof'', JObject pf)])"
    and pf: "set (dkeys pf) = proof_fields"
  shows "activation_body_from_request pyd r = Inr (activation_body pyd d (participant_key g))"
proof -
  define body where "body = activation_body pyd d (participant_key g)"
  note parts = activation_body_parts [of pyd d "participant_key g", folded body_def]
  have read: "validate_draft pyd (draft_json pyd d) = Inr d" by (rule draft_reads_back [OF laws draft])
  have signed: "dget r ''proof'' = Some (JObject pf)"
    using request parts unfolding same_members_def dget_append body_def by simp
  have rest: "same_members (filter (\<lambda>(k, v). k \<noteq> ''proof'') r) body"
    using same_members_filter [OF request, of "''proof''"] parts by (simp add: body_def)
  then have key: "dget (filter (\<lambda>(k, v). k \<noteq> ''proof'') r) ''participant_key'' = Some (JStr (participant_key g))"
    using parts by (simp add: same_members_def)
  have "validate_draft pyd (filter (\<lambda>(k, v). k \<noteq> ''participant_key'') (filter (\<lambda>(k, v). k \<noteq> ''proof'') r)) = Inr d"
    using validate_draft_cong [OF same_members_filter [OF rest, of "''participant_key''"]] parts read by simp
  moreover have "startswith key_prefix (participant_key g)" by (simp add: participant_key_def)
  ultimately show ?thesis
    using signed pf key by (simp add: activation_body_from_request_def sum_bind_def body_def Let_def)
qed

lemma request_is_validated:
  assumes laws: "pydantic_laws pyd" and draft: "accepted_draft d"
    and scheme: "\<And>m. verify (sgn_public g) (sgn_sign g m) m"
    and late: "not_after (dra_expires_at d) t = Inr False"
    and digest: "is_ascii (body_digest e (activation_body pyd d (participant_key g)))"
      "pre_activation_body_digest p = body_digest e (activation_body pyd d (participant_key g))"
    and request: "same_members (pre_request p) (activation_body pyd d (participant_key g) @ [(''proof'', JObject pf)])"
    and pf: "same_members pf [(''nonce'', JStr nonce), (''issued_at'', JStr issued_at),
      (''signature'', JStr (client_sign_action e g bootstrap_operation nonce issued_at (activation_body pyd d (participant_key g))))]"
  shows "validate_prepared e verify pyd p t = Inr (pre_request p)"
proof -
  define body where "body = activation_body pyd d (participant_key g)"
  note parts = activation_body_parts [of pyd d "participant_key g", folded body_def]
  have signed: "dget (pre_request p) ''proof'' = Some (JObject pf)" "set (dkeys pf) = proof_fields"
    using request pf parts unfolding same_members_def dget_append body_def by (simp_all add: proof_fields_def insert_commute)
  have fields: "str_field pf ''nonce'' = Some nonce" "str_field pf ''issued_at'' = Some issued_at"
    "str_field pf ''signature'' = Some (client_sign_action e g bootstrap_operation nonce issued_at body)"
    "str_field body ''participant_key'' = Some (participant_key g)"
    using pf parts by (simp_all add: same_members_def str_field_def body_def)
  show ?thesis
    using client_verifies [of verify g, OF scheme, of e bootstrap_operation nonce issued_at body]
    by (simp add: validate_prepared_def body_of_request [OF laws draft request signed(2), folded body_def] sum_bind_def same_text_def
        digest [folded body_def] parts(2) draft_reads_back [OF laws draft] late signed(1) fields)
qed

text \<open>A prepared request passes the client's own validation for as long as the authority it asks for lasts.\<close>

theorem prepared_is_validated:
  assumes laws: "pydantic_laws pyd" and draft: "accepted_draft d"
    and scheme: "\<And>m. verify (sgn_public g) (sgn_sign g m) m"
    and prepared: "prepare_activation e pyd random d g confirmation t = Inr p"
    and late: "not_after (dra_expires_at d) t' = Inr False"
  shows "validate_prepared e verify pyd p t' = Inr (pre_request p)"
  using prepared_shape [OF prepared]
  by (auto simp: Let_def same_members_def intro!: request_is_validated [where d = d and g = g] laws draft scheme late)

section \<open>The server accepts what was prepared\<close>

text \<open>The request model that the server parses from the body.\<close>

definition input_of :: "activation_draft \<Rightarrow> string \<Rightarrow> activate_bootstrap_input" where
  "input_of d key = \<lparr>abi_participant_key = key, abi_public_label = dra_public_label d,
     abi_designation_reference = dra_designation_reference d, abi_policy_version = dra_policy_version d,
     abi_expires_at = dra_expires_at d, abi_release_version = dra_release_version d,
     abi_notice_version = dra_notice_version d, abi_terms_url = dra_terms_url d, abi_privacy_url = dra_privacy_url d,
     abi_operator_contact = dra_operator_contact d, abi_storage_posture = dra_storage_posture d,
     abi_backup_evidence_reference = dra_backup_evidence_reference d,
     abi_sensitive_evidence_enabled = dra_sensitive_evidence_enabled d\<rparr>"

lemma same_body:
  assumes "web_datetime_text w = pyd_datetime_text pyd"
  shows "activate_bootstrap_body w (input_of d key) = activation_body pyd d key"
  using assms
  by (simp add: activate_bootstrap_body_def input_of_def activation_body_def draft_json_def normalized_def jtime_def)

text \<open>A nonce of 18 random bytes is 24 characters of the URL-safe alphabet.\<close>

definition nonce_char :: "char \<Rightarrow> bool" where
  "nonce_char c \<longleftrightarrow> isalnum c \<or> c \<in> set ''_-''"

lemma b64_char_nonce: "nonce_char (b64_char n)"
proof -
  have "list_all nonce_char b64_alphabet"
    by (simp add: b64_alphabet_def nonce_char_def isalnum_def)
  moreover have "n mod 64 < length b64_alphabet" by (simp add: b64_alphabet_def)
  ultimately show ?thesis by (simp add: b64_char_def list_all_length)
qed

lemma encoded_thirds:
  "length v mod 3 = 0 \<Longrightarrow> list_all nonce_char (urlsafe_b64encode v) \<and> length (urlsafe_b64encode v) = length v div 3 * 4"
proof (induction v rule: urlsafe_b64encode.induct)
  case (4 a b c r)
  have "Suc (Suc (Suc n)) mod 3 = n mod 3" "Suc (Suc (Suc n)) div 3 = Suc (n div 3)" for n :: nat by presburger+
  with 4 show ?case by (simp add: Let_def b64_char_nonce)
qed simp_all

lemma rstrip_none: "c \<notin> set t \<Longrightarrow> rstrip c t = t"
  by (cases t rule: rev_cases) (auto simp: rstrip_def)

lemma token_nonce_ok:
  assumes "length (random k 18) = 18"
  shows "nonce_ok (token_urlsafe random k 18)"
proof -
  let ?t = "urlsafe_b64encode (random k 18)"
  have t: "list_all nonce_char ?t" "length ?t = 24" using encoded_thirds [of "random k 18"] assms by simp_all
  have "\<not> nonce_char CHR ''=''" by (simp add: nonce_char_def isalnum_def)
  with t(1) have "CHR ''='' \<notin> set ?t" by (auto simp: list_all_iff)
  then have "b64_encode (random k 18) = ?t" by (simp add: b64_encode_def rstrip_none)
  with t show ?thesis
    by (simp add: token_urlsafe_def nonce_ok_def min_nonce_length_def max_nonce_length_def nonce_char_def [abs_def])
qed

text \<open>
  The proof in a prepared request, as the server parses it: its authorization succeeds for as long as
  the timestamp is within the accepted window.
\<close>

theorem server_authorizes_prepared:
  assumes scheme: "\<And>m. web_verify w (sgn_public g) (sgn_sign g m) m"
    and prepared: "prepare_activation (web_env w) pyd random d g confirmation t = Inr p"
    and random: "length (random 0 18) = 18"
    and dates: "web_datetime_text w = pyd_datetime_text pyd"
    and window: "\<bar>web_now w - t\<bar> \<le> seconds (web_clock_skew_seconds w)"
  shows "\<exists>nonce signature a. dget (pre_request p) ''proof'' = Some (JObject [(''nonce'', JStr nonce),
        (''issued_at'', JStr (isoformat_z t)), (''signature'', JStr signature)])
     \<and> authorize_request w (participant_key g) bootstrap_operation
         \<lparr>prf_nonce = nonce, prf_issued_at = Aware t, prf_signature = signature\<rparr>
         (activate_bootstrap_body w (input_of d (participant_key g))) = Inr a"
proof -
  let ?body = "activation_body pyd d (participant_key g)"
  let ?nonce = "token_urlsafe random 0 18"
  let ?signature = "client_sign_action (web_env w) g bootstrap_operation ?nonce (isoformat_z t) ?body"
  have "dget (pre_request p) ''proof'' = Some (JObject [(''nonce'', JStr ?nonce),
        (''issued_at'', JStr (isoformat_z t)), (''signature'', JStr ?signature)])"
  proof -
    from prepared_shape [OF prepared] obtain pf where "pre_request p = ?body @ [(''proof'', JObject pf)]"
      "pf = [(''nonce'', JStr ?nonce), (''issued_at'', JStr (isoformat_z t)), (''signature'', JStr ?signature)]"
      by (auto simp: Let_def)
    then show ?thesis by (simp only: dget_append activation_body_parts option.case) simp
  qed
  moreover have "\<exists>a. authorize_request w (participant_key g) bootstrap_operation
         \<lparr>prf_nonce = ?nonce, prf_issued_at = Aware t, prf_signature = ?signature\<rparr>
         (activate_bootstrap_body w (input_of d (participant_key g))) = Inr a"
    using token_nonce_ok [of random 0, OF random] window client_verifies [of "web_verify w" g, OF scheme]
    by (simp add: authorize_request_def authorize_participant_action_def same_body [OF dates])
  ultimately show ?thesis by blast
qed

section \<open>The key file\<close>

text \<open>Reading a text file gives the text that was written, when it has no carriage return.\<close>

lemma universal_newlines_id: "CHR 13 \<notin> set t \<Longrightarrow> universal_newlines t = t"
  by (induction t rule: universal_newlines.induct) auto

lemma escaped_no_cr: "CHR 13 \<notin> set (json_escape_char c)"
proof -
  have "hex_char n \<noteq> CHR 13 \<and> CHR 13 \<noteq> hex_char n" for n
  proof -
    have "list_all (\<lambda>c. c \<noteq> CHR 13) ''0123456789abcdef''" by simp
    moreover have "n mod 16 < length ''0123456789abcdef''" by simp
    ultimately show ?thesis unfolding hex_char_def list_all_length by metis
  qed
  moreover have "32 \<le> (of_char c :: nat) \<Longrightarrow> c \<noteq> CHR 13" by auto
  ultimately show ?thesis by (auto simp: json_escape_char_def Let_def)
qed

lemma int_no_cr: "CHR 13 \<notin> set (int_text n)"
proof -
  have "CHR 13 \<notin> set (decimal k)" for k
    using decimal_codes [of k] by (auto simp: list_all_iff digit_code_def)
  then show ?thesis by (simp add: int_text_def)
qed

lemma string_no_cr: "CHR 13 \<notin> set (json_string t)"
  using escaped_no_cr by (auto simp: json_string_def)

lemma join_no_cr: "CHR 13 \<notin> set (join '','' xs) \<longleftrightarrow> (\<forall>x \<in> set xs. CHR 13 \<notin> set x)"
  by (induction "'',''" xs rule: join.induct) auto

lemma dumps_no_cr: "CHR 13 \<notin> set (json_dumps j)"
proof (induction j)
  case (JObject kvs)
  then have "\<forall>(k, v) \<in> set kvs. CHR 13 \<notin> set (json_dumps v)" by force
  then show ?case
    unfolding dumps_object using string_no_cr by (auto simp: join_no_cr member_text_def)
qed (auto simp: int_no_cr string_no_cr join_no_cr)

lemma read_text_encode: "CHR 13 \<notin> set t \<Longrightarrow> read_text (encode t) = Inr t"
  by (simp add: read_text_def decode_utf8_encode universal_newlines_id)

lemma key_payload_reads:
  "json_loads (json_dumps (JObject (key_payload key salt nonce ct)) @ [CHR 10]) = Inr (canon (JObject (key_payload key salt nonce ct)))"
  by (rule json_loads_dumps) (simp_all add: key_payload_def skip_def json_space_def)

lemma key_payload_sorted:
  "canon (JObject (key_payload key salt nonce ct)) = JObject [
     (''cipher'', JObject [(''name'', JStr ''aes-256-gcm''), (''nonce'', JStr (b64_encode nonce))]),
     (''ciphertext'', JStr (b64_encode ct)),
     (''kdf'', JObject [(''n'', JInt 32768), (''name'', JStr ''scrypt''), (''p'', JInt 1), (''r'', JInt 8),
                        (''salt'', JStr (b64_encode salt))]),
     (''key_file_version'', JInt 1),
     (''participant_key'', JStr key)]"
  by (simp add: key_payload_def)

lemma open_key_payload:
  assumes "signer_of tk ''kc-kyn-participant'' seed = Inr g" "derive_key tk passphrase salt = Inr key"
    and "tk_decrypt tk key nonce ct key_associated_data = Some seed" "is_ascii (participant_key g)"
  shows "open_key tk passphrase (canon (JObject (key_payload (participant_key g) salt nonce ct))) = Inr g"
  unfolding key_payload_sorted
  using assms
  by (simp add: open_key_def supported_key_file_def get_value_def get_or_empty_def subscript_def decode_member_def
      text_of_def sum_bind_def b64_decode_encode same_text_def)

lemma participant_key_ascii: "is_ascii (participant_key g)"
proof -
  obtain u k where "shaped (urlsafe_b64encode (sgn_public g)) u k" using encoded_shape by blast
  then have u: "urlsafe_b64encode (sgn_public g) = u @ replicate k CHR ''=''" "CHR ''='' \<notin> set u" "is_ascii u"
    by (simp_all add: shaped_def)
  have "dropWhile (\<lambda>x. x = c) (replicate k c @ t) = dropWhile (\<lambda>x. x = c) t" for c :: char and k t
    by (induction k) simp_all
  with u have "is_ascii u" "b64_encode (sgn_public g) = u"
    using rstrip_none [of "CHR ''=''" u] by (simp_all add: b64_encode_def rstrip_def)
  moreover have "is_ascii key_prefix" by (simp add: is_ascii_def key_prefix_def)
  ultimately show ?thesis by (simp add: participant_key_def public_key_def is_ascii_def)
qed

lemma load_written_key:
  assumes "follow (mch_files t) p = Some (q, File (encode (json_dumps (JObject (key_payload (participant_key g) salt nonce ct)) @ [CHR 10])) m ow)"
    and "\<not> is_symlink (mch_files t) p" "m AND 0x3F = 0"
    and "signer_of tk ''kc-kyn-participant'' seed = Inr g" "derive_key tk passphrase salt = Inr key"
    and "tk_decrypt tk key nonce ct key_associated_data = Some seed"
  shows "load_encrypted_key tk p passphrase t = (Inr g, t)"
proof -
  let ?text = "json_dumps (JObject (key_payload (participant_key g) salt nonce ct)) @ [CHR 10]"
  have "read_text (encode ?text) = Inr ?text"
    using dumps_no_cr by (intro read_text_encode) (simp del: json_dumps.simps)
  moreover note key_payload_reads [of "participant_key g" salt nonce ct]
  moreover note open_key_payload [OF assms(4-6) participant_key_ascii]
  ultimately show ?thesis
    using follow_reads [OF assms(1)] assms(2,3) by (simp add: load_encrypted_key_def run lift_sum_def)
qed

text \<open>A file made for its owner alone is private, whatever the \<open>umask\<close>.\<close>

lemma private_mode: "(0x180 AND NOT u :: permissions) AND 0x3F = 0"
proof -
  have "(0x180 AND 0x3F :: permissions) = 0" by simp
  then show ?thesis by (metis and.assoc and.commute and_zero_eq)
qed

theorem key_file_opens:
  assumes decrypts: "\<And>k n v a. tk_decrypt tk k n (tk_encrypt tk k n v a) a = Some v"
    and created: "create_encrypted_key tk random p passphrase given s = (Inr key, t)"
  shows "\<exists>g. load_encrypted_key tk p passphrase t = (Inr g, t) \<and> participant_key g = key"
proof -
  from created obtain s1 seed g salt nonce k where made: "signer_of tk ''kc-kyn-participant'' seed = Inr g"
    "derive_key tk passphrase salt = Inr k" "key = participant_key g"
    "create_file p 0x180 (encode (json_dumps (JObject (key_payload (participant_key g) salt nonce
       (tk_encrypt tk k nonce seed key_associated_data))) @ [CHR 10])) s1 = (Inr (), t)"
    by (auto simp: create_encrypted_key_def bind_eq_Inr run_eqs lift_sum_def Let_def
        split: if_splits sum.splits option.splits)
  from created_file [OF made(4)] have "load_encrypted_key tk p passphrase t = (Inr g, t)"
    using load_written_key [OF _ _ private_mode made(1,2) decrypts] by blast
  with made(3) show ?thesis by blast
qed

section \<open>What a submission leaves behind\<close>

text \<open>The request carries a signature, under its own key, of the body that its digest is of.\<close>

definition signed_request :: "env \<Rightarrow> verifier \<Rightarrow> pydantic \<Rightarrow> prepared_activation \<Rightarrow> bool" where
  "signed_request e verify pyd p \<longleftrightarrow> (\<exists>body key pf nonce issued_at signature.
     activation_body_from_request pyd (pre_request p) = Inr body \<and> body_digest e body = pre_activation_body_digest p
     \<and> str_field body ''participant_key'' = Some key \<and> dget (pre_request p) ''proof'' = Some (JObject pf)
     \<and> str_field pf ''nonce'' = Some nonce \<and> str_field pf ''issued_at'' = Some issued_at
     \<and> str_field pf ''signature'' = Some signature
     \<and> verify_participant_action e verify key bootstrap_operation nonce issued_at body signature)"

lemma validated_is_signed:
  "validate_prepared e verify pyd p t = Inr payload \<Longrightarrow> payload = pre_request p \<and> signed_request e verify pyd p"
  by (auto simp: validate_prepared_def signed_request_def sum_bind_def same_text_def
      split: sum.splits if_splits option.splits json.splits)

lemma extending_private_parent [keeps]: "keeps (private_parent p) (extending fs)"
  unfolding private_parent_def by (intro keeps)

text \<open>A submission that returns was confirmed, was answered, and left its evidence in a private file.\<close>

theorem submission_leaves_evidence:
  assumes "submit_prepared_activation e verify pyd net api_url p token_file evidence_path confirmation current recorded_at s
      = (Inr response, t)"
  shows "validate_prepared e verify pyd p current = Inr (pre_request p)"
    and "confirmation = ''SUBMIT '' @ digest_tail (pre_activation_body_digest p)"
    and "\<exists>v tok. read_secret_file token_file None s = (Inr v, s) \<and> decode_utf8 v = Inr tok
      \<and> post_activation net api_url tok (pre_request p) = Inr response"
    and "validate_activation_response pyd response p = Inr ()"
    and "\<not> exists_at (mch_files s) evidence_path"
    and "\<exists>q m ow. follow (mch_files t) evidence_path = Some (q,
        File (encode (json_indented (JObject (activation_evidence api_url p (pre_request p) response recorded_at)) 0 @ [CHR 10])) m ow)
      \<and> m AND 0x3F = 0"
proof -
  have secret: "read_secret_file token_file None s = (Inr v, s') \<Longrightarrow> s' = s" for v s'
    by (simp add: secret_file_iff)
  from assms obtain payload v tok where validated: "validate_prepared e verify pyd p current = Inr payload"
    and confirmed: "same_text confirmation (''SUBMIT '' @ digest_tail (pre_activation_body_digest p)) = Inr True"
    and opened: "read_secret_file token_file None s = (Inr v, s)" "decode_utf8 v = Inr tok"
    and posted: "post_activation net api_url tok payload = Inr response" "validate_activation_response pyd response p = Inr ()"
    and fresh: "\<not> exists_at (mch_files s) evidence_path"
    and written: "write_evidence evidence_path (activation_evidence api_url p payload response recorded_at) s = (Inr (), t)"
    by (auto simp: submit_prepared_activation_def bind_eq_Inr run_eqs lift_sum_def Let_def
        dest: secret split: if_splits sum.splits)
  from validated_is_signed [OF validated] have payload: "payload = pre_request p" by simp
  from written obtain s1 where
    made: "create_file evidence_path 0x180 (encode (json_indented (JObject (activation_evidence api_url p payload response recorded_at)) 0 @ [CHR 10])) s1 = (Inr (), t)"
    by (auto simp: write_evidence_def bind_eq_Inr run_eqs simp del: json_indented.simps split: if_splits)
  from created_file [OF made] private_mode show "\<exists>q m ow. follow (mch_files t) evidence_path = Some (q,
        File (encode (json_indented (JObject (activation_evidence api_url p (pre_request p) response recorded_at)) 0 @ [CHR 10])) m ow)
      \<and> m AND 0x3F = 0"
    unfolding payload by blast
  from confirmed show "confirmation = ''SUBMIT '' @ digest_tail (pre_activation_body_digest p)"
    by (simp add: same_text_def split: if_splits)
  from validated show "validate_prepared e verify pyd p current = Inr (pre_request p)" by (simp add: payload)
  from opened posted show "\<exists>v tok. read_secret_file token_file None s = (Inr v, s) \<and> decode_utf8 v = Inr tok
      \<and> post_activation net api_url tok (pre_request p) = Inr response" by (auto simp: payload)
qed (use assms in \<open>auto simp: submit_prepared_activation_def bind_eq_Inr run_eqs lift_sum_def Let_def split: if_splits sum.splits\<close>)

end
