(* ===== verification/Tools.thy ===== *)
theory Tools
  imports Migration Activation
begin

text \<open>
  The programs an operator runs: the activation client's command line (\<open>src/kyn/activation.py\<close>), the
  provisioning and migration commands (\<open>src/kyn/provision.py\<close>, \<open>src/kyn/migrate.py\<close>), and the start
  of the service (\<open>src/kyn/cli.py\<close>, \<open>src/kyn/database.py\<close>, \<open>src/kyn/main.py\<close>). An invocation is
  what \<open>argparse\<close> makes of the arguments; a console has the machine, the database servers, the lines that
  are typed in answer to prompts, and the lines that were shown.
\<close>

section \<open>The console\<close>

record 'd console =
  con_machine :: machine
  con_servers :: "'d servers"
  con_typed :: "string list"
  con_shown :: "string list"

definition on_machine :: "(machine, 'a) prog \<Rightarrow> ('d console, 'a) prog" where
  "on_machine m = (\<lambda>s. case m (con_machine s) of (r, t) \<Rightarrow> (r, s\<lparr>con_machine := t\<rparr>))"

definition on_servers :: "('d servers, 'a) prog \<Rightarrow> ('d console, 'a) prog" where
  "on_servers m = (\<lambda>s. case m (con_servers s) of (r, t) \<Rightarrow> (r, s\<lparr>con_servers := t\<rparr>))"

definition print_line :: "string \<Rightarrow> ('d console, unit) prog" where
  "print_line line = modify (\<lambda>s. s\<lparr>con_shown := con_shown s @ [line]\<rparr>)"

text \<open>\<open>input(prompt)\<close> and \<open>getpass.getpass(prompt)\<close>.\<close>

definition ask :: "string \<Rightarrow> ('d console, string) prog" where
  "ask prompt =
     bind (print_line prompt) (\<lambda>_.
     bind (gets con_typed) (\<lambda>typed.
     case typed of
       [] \<Rightarrow> raise (EOFError ''EOF when reading a line'')
     | line # rest \<Rightarrow> bind (modify (\<lambda>s. s\<lparr>con_typed := rest\<rparr>)) (\<lambda>_. ret line)))"

text \<open>\<open>Path.read_text(encoding="utf-8")\<close>.\<close>

definition read_text_file :: "path \<Rightarrow> (machine, string) prog" where
  "read_text_file p = bind (read_bytes p) (\<lambda>v. lift_sum (read_text v))"

section \<open>A value in a line of output\<close>

text \<open>\<open>repr\<close> of a text of the model: the characters up to 255 that are not printable are escaped.\<close>

definition repr_char :: "char \<Rightarrow> char \<Rightarrow> string" where
  "repr_char quote c = (let n = of_char c :: nat in
     if c = quote \<or> c = CHR 92 then [CHR 92, c]
     else if n = 10 then [CHR 92, CHR ''n''] else if n = 13 then [CHR 92, CHR ''r'']
     else if n = 9 then [CHR 92, CHR ''t'']
     else if n < 32 \<or> 127 \<le> n \<and> n \<le> 160 \<or> n = 173 then CHR 92 # ''x'' @ hexdigest [c]
     else [c])"

definition repr_string :: "string \<Rightarrow> string" where
  "repr_string t = (let quote = (if CHR 39 \<in> set t \<and> CHR 34 \<notin> set t then CHR 34 else CHR 39) in
     [quote] @ concat (map (repr_char quote) t) @ [quote])"

primrec repr_json :: "json \<Rightarrow> string" where
  "repr_json JNull = ''None''"
| "repr_json (JBool b) = (if b then ''True'' else ''False'')"
| "repr_json (JInt n) = int_text n"
| "repr_json (JStr t) = repr_string t"
| "repr_json (JList xs) = ''['' @ join '', '' (map repr_json xs) @ '']''"
| "repr_json (JObject kvs) =
     ''{'' @ join '', '' (map (\<lambda>(k, v). repr_string k @ '': '' @ v) (map (map_prod (\<lambda>k. k) repr_json) kvs)) @ ''}''"

text \<open>\<open>str\<close>, which an f-string uses.\<close>

definition str_json :: "json \<Rightarrow> string" where
  "str_json j = (case j of JStr t \<Rightarrow> t | _ \<Rightarrow> repr_json j)"

section \<open>The activation client\<close>

text \<open>What the client's process has at hand; the clock is read once for the request and once for the evidence.\<close>

record client =
  cli_toolkit :: toolkit
  cli_env :: env
  cli_verify :: verifier
  cli_pydantic :: pydantic
  cli_network :: network
  cli_random :: "nat \<Rightarrow> nat \<Rightarrow> bytes"
  cli_now :: time
  cli_recorded_at :: time

text \<open>The parsed arguments.\<close>

datatype invocation =
    KeyInit path
  | Inspect path path
  | Activate string path path path path
  | Prepare path path path
  | Submit string path path path

text \<open>\<open>_passphrase\<close>.\<close>

definition passphrase :: "bool \<Rightarrow> ('d console, string) prog" where
  "passphrase confirm =
     bind (ask ''Activation-key passphrase: '') (\<lambda>first.
     if confirm then
       bind (ask ''Confirm activation-key passphrase: '') (\<lambda>second.
       bind (lift_sum (same_text first second)) (\<lambda>same.
       if \<not> same then raise (ValueError ''activation-key passphrases do not match'') else ret first))
     else ret first)"

text \<open>\<open>ActivationDraft.model_validate_json\<close> and \<open>_draft\<close>.\<close>

definition draft_of_text :: "pydantic \<Rightarrow> string \<Rightarrow> error + activation_draft" where
  "draft_of_text pyd t = (case pyd_json pyd t of
     Some (JObject kvs) \<Rightarrow> validate_draft pyd kvs
   | _ \<Rightarrow> Inl (ValueError ''validation error for ActivationDraft''))"

definition read_draft_file :: "pydantic \<Rightarrow> path \<Rightarrow> (machine, activation_draft) prog" where
  "read_draft_file pyd p = bind (read_text_file p) (\<lambda>t. lift_sum (draft_of_text pyd t))"

text \<open>\<open>prepared.model_dump(mode="json")\<close>, and \<open>PreparedActivation.model_validate_json\<close>.\<close>

definition prepared_json :: "pydantic \<Rightarrow> prepared_activation \<Rightarrow> (string \<times> json) list" where
  "prepared_json pyd p = [
     (''prepared_version'', JInt (pre_prepared_version p)),
     (''activation_body_digest'', JStr (pre_activation_body_digest p)),
     (''request'', JObject (pre_request p)),
     (''prepared_at'', JStr (pyd_datetime_text pyd (pre_prepared_at p)))]"

definition prepared_fields :: "string list" where
  "prepared_fields = [''prepared_version'', ''activation_body_digest'', ''request'', ''prepared_at'']"

definition read_prepared :: "pydantic \<Rightarrow> (string \<times> json) list \<Rightarrow> prepared_activation option" where
  "read_prepared pyd kvs =
     Option.bind (case dget kvs ''prepared_version'' of None \<Rightarrow> Some 1 | Some j \<Rightarrow> pyd_int pyd j) (\<lambda>version.
     Option.bind (str_field kvs ''activation_body_digest'') (\<lambda>digest.
     Option.bind (case dget kvs ''request'' of Some (JObject r) \<Rightarrow> Some r | _ \<Rightarrow> None) (\<lambda>request.
     Option.bind (Option.bind (dget kvs ''prepared_at'') (pyd_datetime pyd)) (\<lambda>prepared_at.
     Some \<lparr>pre_prepared_version = version, pre_activation_body_digest = digest, pre_request = request,
        pre_prepared_at = prepared_at\<rparr>))))"

definition prepared_of_text :: "pydantic \<Rightarrow> string \<Rightarrow> error + prepared_activation" where
  "prepared_of_text pyd t = (case pyd_json pyd t of
     Some (JObject kvs) \<Rightarrow>
       (case read_prepared pyd kvs of
          Some p \<Rightarrow>
            if list_all (\<lambda>k. k \<in> set prepared_fields) (dkeys kvs) \<and> 1 \<le> pre_prepared_version p
              \<and> pre_prepared_version p \<le> 1 \<and> sha_reference (pre_activation_body_digest p)
            then Inr p else Inl (ValueError ''validation error for PreparedActivation'')
        | None \<Rightarrow> Inl (ValueError ''validation error for PreparedActivation''))
   | _ \<Rightarrow> Inl (ValueError ''validation error for PreparedActivation''))"

definition read_prepared_file :: "pydantic \<Rightarrow> path \<Rightarrow> (machine, prepared_activation) prog" where
  "read_prepared_file pyd p = bind (read_text_file p) (\<lambda>t. lift_sum (prepared_of_text pyd t))"

text \<open>The line that reports a receipt.\<close>

definition receipt_line :: "(string \<times> json) list \<Rightarrow> error + string" where
  "receipt_line response =
     sum_bind (get_or_empty (JObject response) ''receipt'') (\<lambda>receipt.
     sum_bind (get_value receipt ''receipt_id'') (\<lambda>receipt_id.
     Inr (''KC activation recorded. Receipt: ''
       @ (case receipt_id of None \<Rightarrow> ''unavailable'' | Some j \<Rightarrow> str_json j))))"

definition report_receipt :: "(string \<times> json) list \<Rightarrow> ('d console, unit) prog" where
  "report_receipt response = bind (lift_sum (receipt_line response)) print_line"

definition key_init :: "client \<Rightarrow> path \<Rightarrow> ('d console, unit) prog" where
  "key_init c output_path =
     bind (passphrase True) (\<lambda>secret.
     bind (on_machine (create_encrypted_key (cli_toolkit c) (cli_random c) output_path secret None)) (\<lambda>key.
     print_line (''Encrypted KC participant key created. Public key: '' @ key)))"

definition submit_command :: "client \<Rightarrow> string \<Rightarrow> path \<Rightarrow> path \<Rightarrow> path \<Rightarrow> ('d console, unit) prog" where
  "submit_command c api_url request token_file evidence =
     bind (on_machine (read_prepared_file (cli_pydantic c) request)) (\<lambda>p.
     bind (ask (''Type SUBMIT '' @ digest_tail (pre_activation_body_digest p) @ '' to continue: '')) (\<lambda>confirmation.
     bind (on_machine (submit_prepared_activation (cli_env c) (cli_verify c) (cli_pydantic c) (cli_network c)
            api_url p token_file evidence confirmation (cli_now c) (cli_recorded_at c))) (\<lambda>response.
     report_receipt response)))"

text \<open>The steps that \<open>inspect\<close>, \<open>prepare\<close> and \<open>activate\<close> begin with.\<close>

definition inspect :: "client \<Rightarrow> path \<Rightarrow> path \<Rightarrow> ('d console, signer \<times> activation_draft \<times> string) prog" where
  "inspect c key_file draft_file =
     bind (passphrase False) (\<lambda>secret.
     bind (on_machine (load_encrypted_key (cli_toolkit c) key_file secret)) (\<lambda>g.
     bind (on_machine (read_draft_file (cli_pydantic c) draft_file)) (\<lambda>d.
     let body = activation_body (cli_pydantic c) d (participant_key g);
         digest = body_digest (cli_env c) body in
     bind (print_line (json_indented (JObject body) 0)) (\<lambda>_.
     bind (print_line (''Activation body digest: '' @ digest)) (\<lambda>_.
     ret (g, d, digest))))))"

definition ask_activate :: "string \<Rightarrow> ('d console, string) prog" where
  "ask_activate digest = ask (''Type ACTIVATE '' @ digest_tail digest @ '' to continue: '')"

definition prepare_command :: "client \<Rightarrow> path \<Rightarrow> path \<Rightarrow> path \<Rightarrow> ('d console, unit) prog" where
  "prepare_command c key_file draft_file output_path =
     bind (inspect c key_file draft_file) (\<lambda>(g, d, digest).
     bind (ask_activate digest) (\<lambda>confirmation.
     bind (lift_sum (prepare_activation (cli_env c) (cli_pydantic c) (cli_random c) d g confirmation (cli_now c))) (\<lambda>p.
     bind (on_machine (write_evidence output_path (prepared_json (cli_pydantic c) p))) (\<lambda>_.
     print_line ''Signed activation request created without a private key or server secret.''))))"

definition activate_command :: "client \<Rightarrow> string \<Rightarrow> path \<Rightarrow> path \<Rightarrow> path \<Rightarrow> path \<Rightarrow> ('d console, unit) prog" where
  "activate_command c api_url key_file draft_file token_file evidence =
     bind (inspect c key_file draft_file) (\<lambda>(g, d, digest).
     bind (ask_activate digest) (\<lambda>confirmation.
     bind (on_machine (activate (cli_env c) (cli_verify c) (cli_pydantic c) (cli_network c) (cli_random c)
            api_url d g token_file evidence confirmation (cli_now c) (cli_recorded_at c))) (\<lambda>response.
     report_receipt response)))"

fun activation_main :: "client \<Rightarrow> invocation \<Rightarrow> ('d console, unit) prog" where
  "activation_main c (KeyInit output_path) = key_init c output_path"
| "activation_main c (Submit api_url request token_file evidence) = submit_command c api_url request token_file evidence"
| "activation_main c (Inspect key_file draft_file) = bind (inspect c key_file draft_file) (\<lambda>_. ret ())"
| "activation_main c (Prepare key_file draft_file output_path) = prepare_command c key_file draft_file output_path"
| "activation_main c (Activate api_url key_file draft_file token_file evidence) =
     activate_command c api_url key_file draft_file token_file evidence"

section \<open>Provisioning and migrating\<close>

text \<open>The options of \<open>provision\<close>; the ones left out have a default.\<close>

record provision_options =
  pro_root :: path
  pro_service_uid :: "int option"
  pro_service_gid :: "int option"
  pro_postgres_uid :: "int option"
  pro_postgres_gid :: "int option"
  pro_database_host :: "string option"
  pro_state_root :: "path option"

definition or_default :: "'a option \<Rightarrow> 'a \<Rightarrow> 'a" where
  "or_default x y = (case x of None \<Rightarrow> y | Some z \<Rightarrow> z)"

definition provision_main :: "(nat \<Rightarrow> nat \<Rightarrow> bytes) \<Rightarrow> provision_options \<Rightarrow> ('d console, unit) prog" where
  "provision_main random a =
     bind (on_machine (provision random (pro_root a)
            \<lparr>own_uid = or_default (pro_service_uid a) 10010, own_gid = or_default (pro_service_gid a) 10010\<rparr>
            \<lparr>own_uid = or_default (pro_postgres_uid a) 999, own_gid = or_default (pro_postgres_gid a) 10010\<rparr>
            (or_default (pro_database_host a) ''kyn-database'') (pro_state_root a))) (\<lambda>_.
     print_line ''KYN secret files created or verified without displaying credential values.'')"

text \<open>
  The regular files in a directory, by name, through links. An entry of another kind is left out: a
  migration is taken to be a file.
\<close>

definition directory_files :: "files \<Rightarrow> path \<Rightarrow> (string, bytes) dict" where
  "directory_files fs p = (case follow fs p of
     Some (d, Directory _ _) \<Rightarrow>
       concat (map (\<lambda>q. if q = [] \<or> butlast q \<noteq> d then [] else
         (case follow fs q of Some (_, File v _ _) \<Rightarrow> [(last q, v)] | _ \<Rightarrow> [])) (dkeys fs))
   | _ \<Rightarrow> [])"

text \<open>\<open>get_settings\<close> reads the settings from the environment; \<open>migrate\<close> reads the URL when it connects.\<close>

definition migrate_main ::
  "(string \<Rightarrow> 'd \<Rightarrow> error + 'd) \<Rightarrow> (bytes \<Rightarrow> bytes) \<Rightarrow> settings \<Rightarrow> path option \<Rightarrow> ('d console, unit) prog" where
  "migrate_main run sha256 environ dir =
     bind (lift_sum (settings_of environ)) (\<lambda>x.
     bind (gets con_machine) (\<lambda>m.
     bind (on_servers (migrate run sha256 (fst (resolved_database_url x m))
            (directory_files (mch_files m) (or_default dir [''app'', ''migrations''])))) (\<lambda>applied.
     print_line (''KYN schema verified; '' @ decimal (length applied) @ '' migration(s) applied.''))))"

section \<open>Starting the service\<close>

text \<open>The engine and the factory of sessions, and the arguments of \<open>uvicorn.run\<close>.\<close>

record engine =
  eng_url :: string
  eng_pool_pre_ping :: bool

record session_factory =
  fac_engine :: engine
  fac_expire_on_commit :: bool

definition create_database_engine :: "string \<Rightarrow> engine" where
  "create_database_engine u = \<lparr>eng_url = u, eng_pool_pre_ping = True\<rparr>"

definition create_session_factory :: "engine \<Rightarrow> session_factory" where
  "create_session_factory x = \<lparr>fac_engine = x, fac_expire_on_commit = False\<rparr>"

record server_options =
  srv_app :: string
  srv_factory :: bool
  srv_host :: string
  srv_port :: int
  srv_proxy_headers :: bool
  srv_forwarded_allow_ips :: string

text \<open>\<open>cli.api\<close>.\<close>

definition api :: "settings \<Rightarrow> error + server_options" where
  "api environ = sum_bind (settings_of environ) (\<lambda>x. Inr
     \<lparr>srv_app = ''kyn.main:create_app'', srv_factory = True, srv_host = set_bind_host x, srv_port = set_bind_port x,
      srv_proxy_headers = True, srv_forwarded_allow_ips = set_forwarded_allow_ips x\<rparr>)"

text \<open>The health route: \<open>connect\<close> is how connecting with an engine and a first statement go.\<close>

definition health :: "(engine \<Rightarrow> string \<Rightarrow> error + unit) \<Rightarrow> application \<Rightarrow> settings \<Rightarrow> error + json" where
  "health connect app x =
     sum_bind (connect (create_database_engine (app_database_url app)) ''SELECT 1'') (\<lambda>_.
     Inr (JObject [(''status'', JStr ''ok''), (''policy_profile'', JStr (set_policy_profile x))]))"

section \<open>What the commands leave alone\<close>

text \<open>A predicate on the machine, and the servers as they are.\<close>

definition holds :: "(machine \<Rightarrow> bool) \<Rightarrow> 'd servers \<Rightarrow> 'd console \<Rightarrow> bool" where
  "holds I servers s \<longleftrightarrow> I (con_machine s) \<and> con_servers s = servers"

lemma keeps_on_machine [keeps]: "keeps m I \<Longrightarrow> keeps (on_machine m) (holds I servers)"
  unfolding keeps_def on_machine_def holds_def by (auto split: prod.split dest: spec [of _ "con_machine s" for s])

lemma keeps_print_line [keeps]: "keeps (print_line line) (holds I servers)"
  unfolding print_line_def by (rule keeps_modify) (simp add: holds_def)

lemma keeps_ask [keeps]: "keeps (ask prompt) (holds I servers)"
proof -
  have "keeps (case typed of [] \<Rightarrow> raise er | line # rest \<Rightarrow> bind (modify (\<lambda>s. s\<lparr>con_typed := rest\<rparr>)) (\<lambda>_. ret line))
      (holds I servers)" for typed er
    by (cases typed) (auto intro!: keeps simp: holds_def)
  then show ?thesis unfolding ask_def by (intro keeps)
qed

lemma keeps_console [keeps]:
  "keeps (passphrase confirm) (holds I servers)" "keeps (ask_activate digest) (holds I servers)"
  "keeps (report_receipt response) (holds I servers)"
  unfolding passphrase_def ask_activate_def report_receipt_def by (intro keeps)+

lemma keeps_reading [keeps]:
  "keeps (read_text_file p) I" "keeps (read_draft_file pyd p) I" "keeps (read_prepared_file pyd p) I"
  "keeps (load_encrypted_key tk p secret) I" "keeps (read_secret_file p n) I"
  unfolding read_text_file_def read_draft_file_def read_prepared_file_def load_encrypted_key_def read_secret_file_def
  by (intro keeps)+

lemma extending_client [keeps]:
  "keeps (create_encrypted_key tk random p secret seed) (extending fs)"
  "keeps (write_evidence p evidence) (extending fs)"
  unfolding create_encrypted_key_def write_evidence_def by (intro keeps)+

lemma extending_submission [keeps]:
  "keeps (submit_prepared_activation e verify pyd net api_url p token_file evidence confirmation t1 t2) (extending fs)"
  "keeps (activate e verify pyd net random api_url d g token_file evidence confirmation t1 t2) (extending fs)"
  unfolding activate_def submit_prepared_activation_def by (intro keeps)+

text \<open>\<open>inspect\<close>, and what the other commands begin with, only reads.\<close>

lemma inspect_reads: "keeps (inspect c key_file draft_file) (holds I servers)"
  unfolding inspect_def by (intro keeps)

lemma extending_commands: "keeps (activation_main c cmd) (holds (extending fs) servers)"
  by (cases cmd) (auto simp: key_init_def prepare_command_def activate_command_def submit_command_def intro!: keeps inspect_reads)

lemma extending_provision_main: "keeps (provision_main random a) (holds (extending fs) servers)"
  unfolding provision_main_def by (intro keeps extending_provision)

text \<open>Migrating reads the machine only.\<close>

lemma migrate_main_reads: "keeps (migrate_main run sha256 environ dir) (\<lambda>s. con_machine s = m)"
proof -
  have "keeps (on_servers x) (\<lambda>s. con_machine s = m)" for x :: "('d servers, 'b) prog"
    by (auto simp: keeps_def on_servers_def split: prod.split)
  then show ?thesis unfolding migrate_main_def print_line_def by (intro keeps) simp_all
qed

section \<open>A request in a file\<close>

text \<open>What the file holds of an object: its members sorted, and theirs.\<close>

definition sorted_members :: "(string \<times> json) list \<Rightarrow> (string \<times> json) list" where
  "sorted_members kvs = sort_key fst (map (\<lambda>(k, v). (k, canon v)) kvs)"

lemma canon_sorted: "canon (JObject kvs) = JObject (sorted_members kvs)"
  by (simp add: sorted_members_def)

lemma dkeys_sorted: "set (dkeys (sorted_members kvs)) = set (dkeys kvs)"
  by (force simp: sorted_members_def)

lemma dget_sorted:
  assumes "distinct (dkeys kvs)"
  shows "dget (sorted_members kvs) k = map_option canon (dget kvs k)"
proof -
  let ?m = "map (\<lambda>(k, v). (k, canon v)) kvs"
  have keys: "map fst ?m = dkeys kvs" by (simp add: case_prod_unfold comp_def)
  have same: "map_of (sort_key fst zs) = map_of zs" if "distinct (dkeys zs)" for zs :: "(string \<times> json) list"
    using that by (subst map_of_inject_set) (simp_all add: distinct_map)
  have "map_of (sort_key fst ?m) = map_of ?m" by (rule same) (simp only: keys assms)
  then show ?thesis by (simp add: sorted_members_def map_of_map)
qed

text \<open>How deep the objects and lists of a value are nested at most.\<close>

fun nests_within :: "nat \<Rightarrow> json \<Rightarrow> bool" where
  "nests_within n (JObject kvs) \<longleftrightarrow> n \<noteq> 0 \<and> list_all (\<lambda>(k, v). nests_within (n - 1) v) kvs"
| "nests_within n (JList xs) \<longleftrightarrow> n \<noteq> 0 \<and> list_all (nests_within (n - 1)) xs"
| "nests_within n _ \<longleftrightarrow> True"

lemma nests_within_canon: "nests_within n (canon j) = nests_within n j"
  by (induction n j rule: nests_within.induct) (auto simp: list_all_iff)

text \<open>
  What the client relies on when pydantic parses a text: that it reads the JSON that \<open>json.loads\<close>
  reads, as far as it is not nested deeper than its parser allows, and a number as an integer.
\<close>

definition json_laws :: "pydantic \<Rightarrow> bool" where
  "json_laws pyd \<longleftrightarrow> (\<forall>t j. json_loads t = Inr j \<longrightarrow> nests_within 100 j \<longrightarrow> pyd_json pyd t = Some j)
     \<and> (\<forall>n. pyd_int pyd (JInt n) = Some n)"

lemma newline_spaces: "spaces [CHR 10]" "spaces []"
  by (simp_all add: spaces_def json_space_def)

lemma indented_parses:
  assumes "json_laws pyd" "distinct_keys j" "nests_within 100 j"
  shows "pyd_json pyd (json_indented j 0 @ [CHR 10]) = Some (canon j)"
  using assms json_loads_reads [OF reads_indented [OF assms(2), of 0] newline_spaces(2,1)]
  by (simp add: json_laws_def nests_within_canon)

lemma prepared_reads_back:
  assumes "pydantic_laws pyd" "json_laws pyd"
    and "distinct_keys (JObject (pre_request p))" "nests_within 99 (JObject (pre_request p))"
    and "pre_prepared_version p = 1" "sha_reference (pre_activation_body_digest p)"
  shows "prepared_of_text pyd (json_indented (JObject (prepared_json pyd p)) 0 @ [CHR 10])
    = Inr (p\<lparr>pre_request := sorted_members (pre_request p)\<rparr>)"
proof -
  let ?m = "prepared_json pyd p"
  have keys: "dkeys ?m = prepared_fields" by (simp add: prepared_json_def prepared_fields_def)
  have "distinct_keys (JObject ?m)" "nests_within 100 (JObject ?m)"
    using assms(3,4) by (simp_all add: prepared_json_def)
  then have parsed: "pyd_json pyd (json_indented (JObject ?m) 0 @ [CHR 10]) = Some (JObject (sorted_members ?m))"
    using indented_parses [OF assms(2)] by (simp add: canon_sorted del: canon.simps json_indented.simps)
  have fields: "dget (sorted_members ?m) k = map_option canon (dget ?m k)" for k
    by (rule dget_sorted) (simp add: keys prepared_fields_def)
  have "dget (sorted_members ?m) ''prepared_version'' = Some (JInt (pre_prepared_version p))"
    "dget (sorted_members ?m) ''activation_body_digest'' = Some (JStr (pre_activation_body_digest p))"
    "dget (sorted_members ?m) ''request'' = Some (JObject (sorted_members (pre_request p)))"
    "dget (sorted_members ?m) ''prepared_at'' = Some (JStr (pyd_datetime_text pyd (pre_prepared_at p)))"
    unfolding fields by (simp_all add: prepared_json_def canon_sorted del: canon.simps(1))
  then have "read_prepared pyd (sorted_members ?m) = Some (p\<lparr>pre_request := sorted_members (pre_request p)\<rparr>)"
    using assms(1,2) by (simp add: read_prepared_def str_field_def pydantic_laws_def json_laws_def)
  moreover have "list_all (\<lambda>k. k \<in> set prepared_fields) (dkeys (sorted_members ?m))"
    using keys dkeys_sorted [of ?m] by (metis list_all_iff)
  ultimately show ?thesis using assms(5,6) by (simp add: prepared_of_text_def parsed del: json_indented.simps)
qed

text \<open>A draft that was written as JSON is read as that draft.\<close>

lemma written_draft_reads:
  assumes "pydantic_laws pyd" "json_laws pyd" "accepted_draft d"
  shows "draft_of_text pyd (json_dumps (JObject (draft_json pyd d))) = Inr d"
proof -
  let ?m = "draft_json pyd d"
  have keys: "distinct (dkeys ?m)" by (simp add: draft_json_def)
  have scalars: "canon v = v \<and> distinct_keys v \<and> nests_within 99 v" if "(k, v) \<in> set ?m" for k v
    using that by (auto simp: draft_json_def)
  then have "map_option canon (dget ?m k) = dget ?m k" for k
    by (cases "dget ?m k") (auto dest: map_of_SomeD)
  then have "same_members (sorted_members ?m) ?m"
    unfolding same_members_def dkeys_sorted dget_sorted [OF keys] by simp
  moreover have "distinct_keys (JObject ?m)" "nests_within 100 (JObject ?m)" using keys scalars by (auto simp: list_all_iff)
  with assms(2) json_loads_reads [OF reads_dumps newline_spaces(2,2), of "JObject ?m"]
  have "pyd_json pyd (json_dumps (JObject ?m)) = Some (JObject (sorted_members ?m))"
    by (simp add: json_laws_def canon_sorted [symmetric] nests_within_canon del: canon.simps json_dumps.simps)
  ultimately show ?thesis
    using validate_draft_cong [of "sorted_members ?m" ?m pyd] draft_reads_back [OF assms(1,3)]
    by (simp add: draft_of_text_def del: json_dumps.simps)
qed

section \<open>What was confirmed is what is submitted\<close>

lemma on_machine_Inr: "on_machine m s = (Inr x, t) \<longleftrightarrow> (\<exists>u. m (con_machine s) = (Inr x, u) \<and> t = s\<lparr>con_machine := u\<rparr>)"
  by (auto simp: on_machine_def split: prod.splits)

lemma print_line_Inr: "print_line line s = (Inr x, t) \<longleftrightarrow> t = s\<lparr>con_shown := con_shown s @ [line]\<rparr>"
  by (auto simp: print_line_def run_eqs)

lemma ask_Inr: "ask prompt s = (Inr line, t) \<longleftrightarrow>
    (\<exists>rest. con_typed s = line # rest \<and> t = s\<lparr>con_shown := con_shown s @ [prompt], con_typed := rest\<rparr>)"
  by (auto simp: ask_def bind_eq_Inr print_line_Inr run_eqs split: list.split)

lemma lift_sum_Inr: "lift_sum r s = (Inr x, t) \<longleftrightarrow> r = Inr x \<and> t = s"
  by (auto simp: lift_sum_def run_eqs split: sum.split)

lemma sum_bind_Inr: "sum_bind r f = Inr y \<longleftrightarrow> (\<exists>x. r = Inr x \<and> f x = Inr y)"
  by (simp add: sum_bind_def split: sum.split)

lemma validated_draft_accepted: "validate_draft pyd kvs = Inr d \<Longrightarrow> accepted_draft d"
  by (auto simp: validate_draft_def accepted_draft_def accepted_bootstrap_boundary_def split: option.splits if_splits)

lemma evidence_file:
  assumes "write_evidence p evidence s = (Inr (), t)"
  shows "\<exists>q m ow. follow (mch_files t) p = Some (q, File (encode (json_indented (JObject evidence) 0 @ [CHR 10])) m ow)"
proof -
  from assms obtain s1 where "create_file p 0x180 (encode (json_indented (JObject evidence) 0 @ [CHR 10])) s1 = (Inr (), t)"
    by (auto simp: write_evidence_def bind_eq_Inr run_eqs simp del: json_indented.simps split: if_splits)
  from created_file [OF this] show ?thesis by blast
qed

text \<open>No text the client writes has a carriage return, so it is read as it was written.\<close>

lemma join_chars: "set (join s xs) \<subseteq> set s \<union> (\<Union>x \<in> set xs. set x)"
  by (induction s xs rule: join.induct) auto

lemma enclose_no_cr:
  assumes "CHR 13 \<notin> set l" "CHR 13 \<notin> set r" "\<And>x. x \<in> set items \<Longrightarrow> CHR 13 \<notin> set x"
  shows "CHR 13 \<notin> set (enclose l r n items)"
proof -
  have "CHR 13 \<notin> set (newline k)" for k by (simp add: newline_def)
  moreover from this have "CHR 13 \<notin> set (join ('','' @ newline k) items)" for k
    using join_chars [of "'','' @ newline k" items] assms(3) by fastforce
  ultimately show ?thesis using assms(1,2) by (simp add: enclose_def)
qed

lemma indented_no_cr: "CHR 13 \<notin> set (json_indented j n)"
proof (induction j arbitrary: n)
  case (JObject kvs)
  then have "CHR 13 \<notin> set (json_indented v k)" if "(a, v) \<in> set kvs" for a v k
    using that by force
  moreover have "json_indented (JObject kvs) n
      = enclose ''{'' ''}'' n (map (\<lambda>(k, v). json_string k @ '': '' @ json_indented v (Suc n)) (sort_key fst kvs))"
    by (simp add: sort_key_map_prod comp_def case_prod_unfold)
  ultimately show ?case by (simp only:) (rule enclose_no_cr, auto simp: string_no_cr)
next
  case (JList xs)
  have "CHR 13 \<notin> set (enclose ''['' '']'' n (map (\<lambda>x. json_indented x (Suc n)) xs))"
    by (rule enclose_no_cr) (use JList in auto)
  then show ?case by (simp add: comp_def)
qed (simp_all add: int_no_cr string_no_cr)

text \<open>What \<open>prepare_activation\<close> returns is a request that survives the file.\<close>

lemma body_scalars: "(k, v) \<in> set (activation_body pyd d key) \<Longrightarrow> canon v = v \<and> distinct_keys v \<and> nests_within n v"
  by (auto simp: activation_body_def draft_json_def)

lemma prepared_request_survives:
  assumes prepared: "prepare_activation e pyd random d g confirmation t = Inr p"
  shows "distinct_keys (JObject (pre_request p))" "nests_within 99 (JObject (pre_request p))"
    "pre_prepared_version p = 1" "sha_reference (pre_activation_body_digest p)"
    "confirmation = ''ACTIVATE '' @ digest_tail (pre_activation_body_digest p)"
proof -
  let ?body = "activation_body pyd d (participant_key g)"
  from prepared_shape [OF prepared] obtain x y z where
    request: "pre_request p = ?body @ [(''proof'', JObject [(''nonce'', JStr x), (''issued_at'', JStr y), (''signature'', JStr z)])]"
    and sha: "sha_reference (body_digest e ?body)" "pre_activation_body_digest p = body_digest e ?body"
    by (auto simp: Let_def)
  have keys: "dkeys (pre_request p) = ''participant_key'' # draft_fields @ [''proof'']"
    by (simp add: request activation_body_keys)
  show "distinct_keys (JObject (pre_request p))" "nests_within 99 (JObject (pre_request p))"
    using keys body_scalars [of _ _ pyd d "participant_key g"]
    by (auto simp: request list_all_iff draft_fields_def)
  show "sha_reference (pre_activation_body_digest p)" using sha by simp
  show "pre_prepared_version p = 1" "confirmation = ''ACTIVATE '' @ digest_tail (pre_activation_body_digest p)"
    using prepared sha(2)
    by (auto simp: prepare_activation_def sum_bind_def same_text_def Let_def split: sum.splits if_splits)
qed

lemma sorted_request:
  assumes prepared: "prepare_activation e pyd random d g confirmation t = Inr p"
  shows "\<exists>pf nonce issued_at. set (dkeys pf) = proof_fields
    \<and> same_members (sorted_members (pre_request p)) (activation_body pyd d (participant_key g) @ [(''proof'', JObject pf)])
    \<and> same_members pf [(''nonce'', JStr nonce), (''issued_at'', JStr issued_at),
      (''signature'', JStr (client_sign_action e g bootstrap_operation nonce issued_at (activation_body pyd d (participant_key g))))]"
proof -
  let ?body = "activation_body pyd d (participant_key g)"
  from prepared_shape [OF prepared] obtain pf nonce issued_at where
    request: "pre_request p = ?body @ [(''proof'', JObject pf)]"
    and pf: "pf = [(''nonce'', JStr nonce), (''issued_at'', JStr issued_at),
      (''signature'', JStr (client_sign_action e g bootstrap_operation nonce issued_at ?body))]"
    by (auto simp: Let_def)
  have keys: "distinct (dkeys (pre_request p))" "distinct (dkeys pf)"
    using prepared_request_survives(1) [OF prepared] by (simp_all add: pf)
  have "same_members (sorted_members pf) pf"
    unfolding same_members_def dkeys_sorted dget_sorted [OF keys(2)] by (simp add: pf)
  moreover have "set (dkeys (sorted_members pf)) = proof_fields"
    unfolding dkeys_sorted by (simp add: pf proof_fields_def insert_commute)
  moreover have "same_members (sorted_members (pre_request p)) (?body @ [(''proof'', JObject (sorted_members pf))])"
  proof -
    have "canon v = v" if "dget ?body k = Some v" for k v
      using body_scalars [OF map_of_SomeD [OF that]] by blast
    then show ?thesis
      unfolding same_members_def dkeys_sorted dget_sorted [OF keys(1)]
      unfolding request dget_append by (auto simp: canon_sorted simp del: canon.simps(1) split: option.splits)
  qed
  ultimately show ?thesis unfolding pf by blast
qed

lemma sorted_request_validates:
  assumes laws: "pydantic_laws pyd" and draft: "accepted_draft d"
    and scheme: "\<And>m. verify (sgn_public g) (sgn_sign g m) m"
    and prepared: "prepare_activation e pyd random d g confirmation t = Inr p"
    and late: "not_after (dra_expires_at d) t' = Inr False"
  shows "validate_prepared e verify pyd (p\<lparr>pre_request := sorted_members (pre_request p)\<rparr>) t'
    = Inr (sorted_members (pre_request p))"
proof -
  from sorted_request [OF prepared] obtain pf nonce issued_at where
    members: "same_members (sorted_members (pre_request p)) (activation_body pyd d (participant_key g) @ [(''proof'', JObject pf)])"
      "same_members pf [(''nonce'', JStr nonce), (''issued_at'', JStr issued_at),
        (''signature'', JStr (client_sign_action e g bootstrap_operation nonce issued_at (activation_body pyd d (participant_key g))))]"
    by blast
  from prepared_shape [OF prepared] have
    digest: "is_ascii (body_digest e (activation_body pyd d (participant_key g)))"
      "pre_activation_body_digest p = body_digest e (activation_body pyd d (participant_key g))"
    by (auto simp: Let_def)
  have "validate_prepared e verify pyd (p\<lparr>pre_request := sorted_members (pre_request p)\<rparr>) t'
      = Inr (pre_request (p\<lparr>pre_request := sorted_members (pre_request p)\<rparr>))"
    by (rule request_is_validated [where g = g and verify = verify, OF laws draft scheme late digest(1) _ _ members(2)]) (simp_all add: digest(2) members(1))
  then show ?thesis by simp
qed

text \<open>The file that \<open>prepare\<close> writes is read as the request with its members sorted.\<close>

lemma prepared_file_reads:
  assumes "pydantic_laws pyd" "json_laws pyd"
    and "prepare_activation e pyd random d g confirmation t = Inr p"
    and "follow (mch_files m) f = Some (q, File (encode (json_indented (JObject (prepared_json pyd p)) 0 @ [CHR 10])) mode ow)"
  shows "read_prepared_file pyd f m = (Inr (p\<lparr>pre_request := sorted_members (pre_request p)\<rparr>), m)"
proof -
  let ?text = "json_indented (JObject (prepared_json pyd p)) 0 @ [CHR 10]"
  have "read_text (encode ?text) = Inr ?text"
    using indented_no_cr by (intro read_text_encode) (simp del: json_indented.simps)
  then show ?thesis
    using follow_reads(1) [OF assms(4)] prepared_reads_back [OF assms(1,2) prepared_request_survives(1-4) [OF assms(3)]]
    by (simp add: read_prepared_file_def read_text_file_def run lift_sum_def del: json_indented.simps)
qed

text \<open>The signer a key file gives signs with the key of a seed, and the draft a file gives is accepted.\<close>

definition seed_signs :: "client \<Rightarrow> bool" where
  "seed_signs c \<longleftrightarrow> (\<forall>seed m. cli_verify c (tk_public (cli_toolkit c) seed) (prim_sign (cli_toolkit c) seed m) m)"

lemma loaded_signer:
  assumes "load_encrypted_key (cli_toolkit c) p secret s = (Inr g, t)" "seed_signs c"
  shows "cli_verify c (sgn_public g) (sgn_sign g m) m"
proof -
  from assms(1) obtain seed where "signer_of (cli_toolkit c) ''kc-kyn-participant'' seed = Inr g"
    by (auto simp: load_encrypted_key_def bind_eq_Inr run_eqs lift_sum_Inr open_key_def sum_bind_Inr
        split: if_splits option.splits)
  with assms(2) show ?thesis by (auto simp: signer_of_def sum_bind_Inr from_seed_def seed_signs_def split: if_splits)
qed

lemma read_draft_accepted:
  assumes "read_draft_file pyd p s = (Inr d, t)"
  shows "accepted_draft d"
proof -
  from assms obtain u where "draft_of_text pyd u = Inr d"
    by (auto simp: read_draft_file_def bind_eq_Inr lift_sum_Inr)
  then obtain kvs where "validate_draft pyd kvs = Inr d"
    by (auto simp: draft_of_text_def split: option.splits json.splits)
  then show ?thesis by (rule validated_draft_accepted)
qed

lemma inspect_Inr:
  assumes "inspect c key_file draft_file s = (Inr (g, d, digest), t)"
  shows "\<exists>secret m1 m2. con_typed s = secret # con_typed t
    \<and> load_encrypted_key (cli_toolkit c) key_file secret (con_machine s) = (Inr g, m1)
    \<and> read_draft_file (cli_pydantic c) draft_file m1 = (Inr d, m2)
    \<and> digest = body_digest (cli_env c) (activation_body (cli_pydantic c) d (participant_key g))
    \<and> ''Activation body digest: '' @ digest \<in> set (con_shown t)"
  using assms
  by (auto simp: inspect_def passphrase_def Let_def bind_eq_Inr ask_Inr print_line_Inr on_machine_Inr run_eqs
      simp del: json_indented.simps)

text \<open>
  After \<open>prepare\<close> has returned, the file it made is read back as a request whose digest was shown and
  confirmed, and which passes the validation that \<open>submit\<close> begins with, as long as the authority lasts.
\<close>

lemma prepare_makes_request:
  assumes laws: "pydantic_laws (cli_pydantic c)" "json_laws (cli_pydantic c)" "seed_signs c"
    and ran: "activation_main c (Prepare key_file draft_file output_path) s = (Inr (), t)"
  shows "\<exists>p u. read_prepared_file (cli_pydantic c) output_path (con_machine t) = (Inr p, con_machine t)
    \<and> ''Activation body digest: '' @ pre_activation_body_digest p \<in> set (con_shown t)
    \<and> ''ACTIVATE '' @ digest_tail (pre_activation_body_digest p) \<in> set (con_typed s)
    \<and> cli_now c < u
    \<and> (\<forall>now < u. validate_prepared (cli_env c) (cli_verify c) (cli_pydantic c) p now = Inr (pre_request p))"
proof -
  let ?pyd = "cli_pydantic c"
  from ran obtain s1 s2 s3 g d digest confirmation p where
    inspected: "inspect c key_file draft_file s = (Inr (g, d, digest), s1)"
    and asked: "ask_activate digest s1 = (Inr confirmation, s2)"
    and prepared: "prepare_activation (cli_env c) ?pyd (cli_random c) d g confirmation (cli_now c) = Inr p"
    and wrote: "on_machine (write_evidence output_path (prepared_json ?pyd p)) s2 = (Inr (), s3)"
    and told: "print_line ''Signed activation request created without a private key or server secret.'' s3 = (Inr (), t)"
    by (auto simp: prepare_command_def bind_eq_Inr lift_sum_Inr)
  from inspect_Inr [OF inspected] obtain secret m1 m2 where typed: "con_typed s = secret # con_typed s1"
    and loaded: "load_encrypted_key (cli_toolkit c) key_file secret (con_machine s) = (Inr g, m1)"
    and drafted: "read_draft_file ?pyd draft_file m1 = (Inr d, m2)"
    and shown: "''Activation body digest: '' @ body_digest (cli_env c) (activation_body ?pyd d (participant_key g)) \<in> set (con_shown s1)"
    by blast
  from asked have asked: "con_typed s1 = confirmation # con_typed s2" "set (con_shown s1) \<subseteq> set (con_shown s2)"
    by (auto simp: ask_activate_def ask_Inr)
  from wrote told have written: "write_evidence output_path (prepared_json ?pyd p) (con_machine s2) = (Inr (), con_machine t)"
    "set (con_shown s2) \<subseteq> set (con_shown t)" by (auto simp: on_machine_Inr print_line_Inr)
  let ?p = "p\<lparr>pre_request := sorted_members (pre_request p)\<rparr>"
  from evidence_file [OF written(1)] have "read_prepared_file ?pyd output_path (con_machine t) = (Inr ?p, con_machine t)"
    using prepared_file_reads [OF laws(1,2) prepared] by blast
  moreover from prepared_shape [OF prepared] obtain u where u: "dra_expires_at d = Aware u" "cli_now c < u"
    and digest: "pre_activation_body_digest p = body_digest (cli_env c) (activation_body ?pyd d (participant_key g))"
    by (auto simp: Let_def)
  moreover have "validate_prepared (cli_env c) (cli_verify c) ?pyd ?p now = Inr (pre_request ?p)" if "now < u" for now
    using sorted_request_validates [where g = g and verify = "cli_verify c", OF laws(1) read_draft_accepted [OF drafted] loaded_signer [OF loaded laws(3)] prepared] that u
    by (simp add: not_after_def)
  ultimately show ?thesis
    using shown typed asked written(2) prepared_request_survives(5) [OF prepared] by (intro exI [of _ ?p] exI [of _ u]) auto
qed

section \<open>What a submission means\<close>

text \<open>
  The request was valid at the clock's reading, the secret in the token file authorized its sending to
  the bootstrap route, and the answer was accepted.
\<close>

definition submitted ::
  "client \<Rightarrow> string \<Rightarrow> path \<Rightarrow> prepared_activation \<Rightarrow> (string \<times> json) list \<Rightarrow> machine \<Rightarrow> bool" where
  "submitted c api_url token_file p response m \<longleftrightarrow>
     validate_prepared (cli_env c) (cli_verify c) (cli_pydantic c) p (cli_now c) = Inr (pre_request p)
     \<and> (\<exists>v tok. read_secret_file token_file None m = (Inr v, m) \<and> decode_utf8 v = Inr tok
          \<and> post_activation (cli_network c) api_url tok (pre_request p) = Inr response)
     \<and> validate_activation_response (cli_pydantic c) response p = Inr ()"

text \<open>The request and its answer are in a file that only its owner may read.\<close>

definition recorded ::
  "client \<Rightarrow> string \<Rightarrow> path \<Rightarrow> prepared_activation \<Rightarrow> (string \<times> json) list \<Rightarrow> machine \<Rightarrow> bool" where
  "recorded c api_url evidence_path p response m \<longleftrightarrow> (\<exists>q mode ow. mode AND 0x3F = 0
     \<and> follow (mch_files m) evidence_path = Some (q,
         File (encode (json_indented (JObject (activation_evidence api_url p (pre_request p) response (cli_recorded_at c))) 0
                 @ [CHR 10])) mode ow))"

definition ask_submit :: "prepared_activation \<Rightarrow> string" where
  "ask_submit p = ''Type SUBMIT '' @ digest_tail (pre_activation_body_digest p) @ '' to continue: ''"

lemma reading_leaves: "read_prepared_file pyd p m = (Inr x, m') \<Longrightarrow> m' = m"
  using keepsD [OF keeps_reading(3) [of pyd p "\<lambda>m'. m' = m"], of m] by simp

lemma post_trusted: "post_activation net api_url tok payload = Inr response \<Longrightarrow> trusted_api (rstrip CHR ''/'' api_url)"
  by (simp add: post_activation_def Let_def split: if_splits)

lemma submission_effect:
  assumes "activation_main c (Submit api_url request token_file evidence_path) s = (Inr (), t)"
  shows "\<exists>p response line.
      read_prepared_file (cli_pydantic c) request (con_machine s) = (Inr p, con_machine s)
    \<and> con_typed s = (''SUBMIT '' @ digest_tail (pre_activation_body_digest p)) # con_typed t
    \<and> signed_request (cli_env c) (cli_verify c) (cli_pydantic c) p
    \<and> trusted_api (rstrip CHR ''/'' api_url)
    \<and> submitted c api_url token_file p response (con_machine s)
    \<and> \<not> exists_at (mch_files (con_machine s)) evidence_path
    \<and> recorded c api_url evidence_path p response (con_machine t)
    \<and> receipt_line response = Inr line \<and> con_shown t = con_shown s @ [ask_submit p, line]"
proof -
  from assms obtain p confirmation response line m s2 where
    opened: "read_prepared_file (cli_pydantic c) request (con_machine s) = (Inr p, m)"
    and asked: "ask (ask_submit p) (s\<lparr>con_machine := m\<rparr>) = (Inr confirmation, s2)"
    and sent: "submit_prepared_activation (cli_env c) (cli_verify c) (cli_pydantic c) (cli_network c)
        api_url p token_file evidence_path confirmation (cli_now c) (cli_recorded_at c) (con_machine s2) = (Inr response, con_machine t)"
    and told: "receipt_line response = Inr line" "con_shown t = con_shown s2 @ [line]" "con_typed t = con_typed s2"
    by (auto simp: submit_command_def bind_eq_Inr on_machine_Inr report_receipt_def lift_sum_Inr print_line_Inr ask_submit_def)
  have m: "m = con_machine s" by (rule reading_leaves [OF opened])
  from asked have asked: "con_typed s = confirmation # con_typed s2" "con_shown s2 = con_shown s @ [ask_submit p]"
    and s2: "con_machine s2 = con_machine s" by (auto simp: ask_Inr m)
  note effect = submission_leaves_evidence [OF sent, unfolded s2]
  have "submitted c api_url token_file p response (con_machine s)" "recorded c api_url evidence_path p response (con_machine t)"
    using effect by (auto simp: submitted_def recorded_def simp del: json_indented.simps)
  moreover have "trusted_api (rstrip CHR ''/'' api_url)" using effect(3) post_trusted by blast
  moreover have "signed_request (cli_env c) (cli_verify c) (cli_pydantic c) p"
    using validated_is_signed [OF effect(1)] by simp
  ultimately show ?thesis
    using opened m asked told effect(2,5) by (intro exI [of _ p] exI [of _ response] exI [of _ line]) simp
qed

end
