(* ===== verification/Example.thy ===== *)
theory Example
  imports Custody
begin

text \<open>
  A worked example: a small deployment driven through seventeen calls, from its first account to a
  credential that is in force, audited and challenged. Each call is evaluated in the kernel, so the
  states below are reachable, and the properties of the development are applied to them.
\<close>

section \<open>Configuration and calls\<close>

definition demo_env :: env where
  "demo_env = \<lparr>env_issuer = ''https://kyn.example'', env_key_id = ''k1'', env_ed25519_sign = (\<lambda>m. []),
     env_policy = synthetic_policy\<lparr>pol_enforce_authority := True, pol_enforce_release := True,
       pol_require_consent := True, pol_bootstrap_public_label := Some ''KC''\<rparr>,
     env_pairwise_secret = replicate 32 CHR ''p'', env_receipt_secret = replicate 32 CHR ''r'',
     env_hmac = (\<lambda>k m. []), env_sha256 = (\<lambda>m. replicate 32 (CHR 0xAA)), env_clock = (\<lambda>n. Aware (int n))\<rparr>"

definition demo_reference :: string where
  "demo_reference = ''sha256:'' @ replicate 64 CHR ''a''"

definition demo_release :: release_form where
  "demo_release = \<lparr>rf_actor_authority_grant_id = ''agr_00000001'', rf_release_version = ''2.0.0'',
     rf_notice_version = ''1.0.0'', rf_terms_url = ''https://t'', rf_privacy_url = ''https://p'',
     rf_operator_contact = ''a@b'', rf_storage_posture = PROVISIONAL_BETA,
     rf_backup_evidence_reference = demo_reference, rf_sensitive_evidence_enabled = False\<rparr>"

definition demo_claim :: claim_definition where
  "demo_claim =
     \<lparr>cd_claim_type = ''resident'', cd_definition_version = ''1'', cd_policy_version = ''1'',
     cd_method_class = ''meet'', cd_allowed_verification_bases = {PEER_ATTESTED, BOOTSTRAP_VOUCHED},
     cd_required_verification_bases = {}, cd_minimum_attestations = Some 1,
     cd_minimum_independent_paths = Some 1, cd_minimum_passed_audits = Some 0\<rparr>"

definition demo_delegation :: delegation where
  "demo_delegation = \<lparr>dlg_actor_authority_grant_id = ''agr_00000001'', dlg_holder_subject_id = ''sub_00000002'',
     dlg_capabilities = {ATTEST_CLAIM, GRANT_AUTHORITY}, dlg_claim_types = {''resident''},
     dlg_method_classes = {''*''}, dlg_tier = VERIFIER, dlg_expires_at = Aware 900000,
     dlg_usage_cap = Some 5, dlg_can_delegate = True, dlg_max_delegation_depth = 2,
     dlg_public_accountability_label = None, dlg_basis = DELEGATED\<rparr>"

definition demo_attesting :: attestation_form where
  "demo_attesting = \<lparr>af_invitation_id = ''inv_00000001'', af_grant_id = ''agr_00000002'',
     af_method_class = ''meet'', af_expires_at = Aware 800000, af_verification_basis = PEER_ATTESTED,
     af_introduction_id = Some ''int_00000001'', af_independence_path = None\<rparr>"

section \<open>The records the calls file\<close>

definition demo_kyn :: subject where
  "demo_kyn =
     \<lparr>sub_subject_id = ''sub_00000001'', sub_participant_key = Some ''did:key:ed25519:a'',
     sub_created_at = 0, sub_deleted_at = None\<rparr>"

definition demo_bootstrap :: bootstrap_authority where
  "demo_bootstrap =
     \<lparr>bst_bootstrap_id = ''bst_00000001'', bst_policy_version = ''1.0.0'',
     bst_authority_subject_id = ''sub_00000001'', bst_public_label = ''KC'', bst_designation_reference
     = demo_reference, bst_activated_at = 2, bst_expires_at = 1000000, bst_non_transitive =
     True\<rparr>"

definition demo_root :: "int \<Rightarrow> authority_grant" where
  "demo_root n =
     \<lparr>agr_authority_grant_id = ''agr_00000001'', agr_holder_subject_id = ''sub_00000001'',
     agr_issuer_authority_grant_id = None, agr_capabilities = all_capabilities, agr_claim_types =
     {''*''}, agr_method_classes = {''*''}, agr_tier = OPERATOR, agr_basis = BOOTSTRAP_DESIGNATION,
     agr_issued_at = 2, agr_expires_at = 1000000, agr_usage_cap = None, agr_used_count = n,
     agr_can_delegate = True, agr_delegation_depth = 0, agr_max_delegation_depth = 4,
     agr_public_accountability_label = Some ''KC'', agr_revoked_at = None, agr_revocation_reason =
     None\<rparr>"

definition demo_notice :: operator_release where
  "demo_notice =
     \<lparr>rel_release_id = ''rel_00000001'', rel_release_version = ''2.0.0'', rel_notice_version =
     ''1.0.0'', rel_terms_url = ''https://t'', rel_privacy_url = ''https://p'', rel_operator_contact =
     ''a@b'', rel_storage_posture = PROVISIONAL_BETA, rel_backup_evidence_reference = demo_reference,
     rel_sensitive_evidence_enabled = False, rel_activated_by_authority_grant_id = ''agr_00000001'',
     rel_activated_at = 5, rel_supersedes_release_id = None, rel_suspended_at = None\<rparr>"

definition demo_bob :: subject where
  "demo_bob =
     \<lparr>sub_subject_id = ''sub_00000002'', sub_participant_key = Some ''did:key:ed25519:b'',
     sub_created_at = 7, sub_deleted_at = None\<rparr>"

definition demo_carol :: subject where
  "demo_carol =
     \<lparr>sub_subject_id = ''sub_00000003'', sub_participant_key = Some ''did:key:ed25519:c'',
     sub_created_at = 9, sub_deleted_at = None\<rparr>"

definition demo_consent :: consent_record where
  "demo_consent =
     \<lparr>cns_consent_id = ''cns_00000001'', cns_subject_id = ''sub_00000003'', cns_notice_version =
     ''1.0.0'', cns_purposes = {''kyn_claim_processing'', ''kyn_campaign_member_ballot''},
     cns_granted_at = 11, cns_withdrawn_at = None\<rparr>"

definition demo_request :: claim_request where
  "demo_request =
     \<lparr>clm_request_id = ''clm_00000001'', clm_subject_id = ''sub_00000003'', clm_definition =
     demo_claim, clm_requested_at = 15\<rparr>"

definition demo_delegate :: "int \<Rightarrow> authority_grant" where
  "demo_delegate n =
     \<lparr>agr_authority_grant_id = ''agr_00000002'', agr_holder_subject_id = ''sub_00000002'',
     agr_issuer_authority_grant_id = Some ''agr_00000001'', agr_capabilities = {ATTEST_CLAIM,
     GRANT_AUTHORITY}, agr_claim_types = {''resident''}, agr_method_classes = {''*''}, agr_tier =
     VERIFIER, agr_basis = DELEGATED, agr_issued_at = 18, agr_expires_at = 900000, agr_usage_cap = Some
     5, agr_used_count = n, agr_can_delegate = True, agr_delegation_depth = 1, agr_max_delegation_depth
     = 2, agr_public_accountability_label = None, agr_revoked_at = None, agr_revocation_reason =
     None\<rparr>"

definition demo_invitation :: attestor_invitation where
  "demo_invitation =
     \<lparr>inv_invitation_id = ''inv_00000001'', inv_request_id = ''clm_00000001'',
     inv_verifier_subject_id = ''sub_00000002'', inv_created_at = 22, inv_expires_at = 700000\<rparr>"

definition demo_introduction :: introduction where
  "demo_introduction =
     \<lparr>int_introduction_id = ''int_00000001'', int_request_id = ''clm_00000001'',
     int_introducer_subject_id = ''sub_00000001'', int_invited_verifier_subject_id = ''sub_00000002'',
     int_created_at = 26, int_expires_at = 700000\<rparr>"

definition demo_attestation :: attestation where
  "demo_attestation =
     \<lparr>att_attestation_id = ''att_00000001'', att_request_id = ''clm_00000001'', att_grant_id =
     ''agr_00000002'', att_verifier_subject_id = ''sub_00000002'', att_independence_path = ''path_'',
     att_method_class = ''meet'', att_issued_at = 28, att_expires_at = 800000, att_verification_basis =
     PEER_ATTESTED, att_state = ATT_ACTIVE, att_invalidation_reason = None\<rparr>"

definition demo_credential :: credential where
  "demo_credential =
     \<lparr>crd_credential_id = ''crd_00000001'', crd_request_id = ''clm_00000001'', crd_definition =
     demo_claim, crd_state = CRED_ACTIVE, crd_dependency_attestation_ids = [''att_00000001''],
     crd_issued_at = 30, crd_expires_at = 2592000000030, crd_status_reference =
     ''https://kyn.example/status/crd_00000001'', crd_updated_at = 30, crd_verification_bases =
     [PEER_ATTESTED]\<rparr>"

definition demo_commitment :: recovery_commitment where
  "demo_commitment =
     \<lparr>rcm_recovery_commitment_id = ''rcm_00000001'', rcm_subject_id = ''sub_00000003'',
     rcm_commitment = demo_reference, rcm_created_at = 32, rcm_consumed_at = None\<rparr>"

definition demo_audit :: audit where
  "demo_audit =
     \<lparr>aud_audit_id = ''aud_00000001'', aud_attestation_id = ''att_00000001'', aud_basis =
     RANDOM, aud_selection_receipt = ''sel_'', aud_selected_at = 35, aud_state = AUDIT_PENDING,
     aud_decided_at = None\<rparr>"

definition demo_challenge :: challenge where
  "demo_challenge =
     \<lparr>chg_challenge_id = ''chg_00000001'', chg_attestation_id = ''att_00000001'',
     chg_reason_code = ''why'', chg_opened_at = 37, chg_state = OPEN, chg_response_code = None,
     chg_decision = None, chg_appeal_reason_code = None, chg_appeal_decision = None, chg_decided_at =
     None, chg_challenger_subject_id = Some ''sub_00000003''\<rparr>"

definition demo_challenge_later :: challenge where
  "demo_challenge_later =
     \<lparr>chg_challenge_id = ''chg_00000001'', chg_attestation_id = ''att_00000001'',
     chg_reason_code = ''why'', chg_opened_at = 37, chg_state = RESPONDED, chg_response_code = Some
     ''reply'', chg_decision = None, chg_appeal_reason_code = None, chg_appeal_decision = None,
     chg_decided_at = None, chg_challenger_subject_id = Some ''sub_00000003''\<rparr>"

definition demo_audit_later :: audit where
  "demo_audit_later =
     \<lparr>aud_audit_id = ''aud_00000001'', aud_attestation_id = ''att_00000001'', aud_basis =
     RANDOM, aud_selection_receipt = ''sel_'', aud_selected_at = 35, aud_state = AUDIT_PASSED,
     aud_decided_at = Some 41\<rparr>"

definition demo_credential_later :: credential where
  "demo_credential_later =
     \<lparr>crd_credential_id = ''crd_00000001'', crd_request_id = ''clm_00000001'', crd_definition =
     demo_claim, crd_state = CRED_ACTIVE, crd_dependency_attestation_ids = [''att_00000001''],
     crd_issued_at = 30, crd_expires_at = 2592000000030, crd_status_reference =
     ''https://kyn.example/status/crd_00000001'', crd_updated_at = 42, crd_verification_bases =
     [AUDIT_CORROBORATED, PEER_ATTESTED]\<rparr>"

section \<open>The states\<close>

definition demo_0 :: core where
  "demo_0 = new_core"

definition demo_1 :: core where
  "demo_1 = demo_0\<lparr>
     clock_reads := 2,
     counters := [(''sub'', 1), (''evt'', 1)],
     subjects := [(''sub_00000001'', demo_kyn)],
     events := events demo_0 @ [event_of demo_env ''evt_00000001'' ''subject.created'' ''created''
     ''subject'' 1],
     receipts := receipts demo_0 @ [receipt_of demo_env ''evt_00000001'' ''subject.created''
     ''created'' 1]\<rparr>"

definition demo_2 :: core where
  "demo_2 = demo_1\<lparr>
     clock_reads := 4,
     counters := [(''sub'', 1), (''evt'', 2), (''bst'', 1), (''agr'', 1)],
     bootstrap_authorities := [(''bst_00000001'', demo_bootstrap)],
     authority_grants := [(''agr_00000001'', demo_root 0)],
     events := events demo_1 @ [event_of demo_env ''evt_00000002'' ''authority.bootstrap_activated''
     ''active'' ''authority'' 3],
     receipts := receipts demo_1 @ [receipt_of demo_env ''evt_00000002''
     ''authority.bootstrap_activated'' ''active'' 3]\<rparr>"

definition demo_3 :: core where
  "demo_3 = demo_2\<lparr>
     clock_reads := 7,
     counters := [(''sub'', 1), (''evt'', 3), (''bst'', 1), (''agr'', 1), (''rel'', 1)],
     operator_releases := [(''rel_00000001'', demo_notice)],
     authority_grants := [(''agr_00000001'', demo_root 1)],
     events := events demo_2 @ [event_of demo_env ''evt_00000003'' ''operator_release.activated''
     ''active'' ''release'' 6],
     receipts := receipts demo_2 @ [receipt_of demo_env ''evt_00000003'' ''operator_release.activated''
     ''active'' 6]\<rparr>"

definition demo_4 :: core where
  "demo_4 = demo_3\<lparr>
     clock_reads := 9,
     counters := [(''sub'', 2), (''evt'', 4), (''bst'', 1), (''agr'', 1), (''rel'', 1)],
     subjects := [(''sub_00000001'', demo_kyn), (''sub_00000002'', demo_bob)],
     events := events demo_3 @ [event_of demo_env ''evt_00000004'' ''subject.created'' ''created''
     ''subject'' 8],
     receipts := receipts demo_3 @ [receipt_of demo_env ''evt_00000004'' ''subject.created''
     ''created'' 8]\<rparr>"

definition demo_5 :: core where
  "demo_5 = demo_4\<lparr>
     clock_reads := 11,
     counters := [(''sub'', 3), (''evt'', 5), (''bst'', 1), (''agr'', 1), (''rel'', 1)],
     subjects := [(''sub_00000001'', demo_kyn), (''sub_00000002'', demo_bob), (''sub_00000003'',
     demo_carol)],
     events := events demo_4 @ [event_of demo_env ''evt_00000005'' ''subject.created'' ''created''
     ''subject'' 10],
     receipts := receipts demo_4 @ [receipt_of demo_env ''evt_00000005'' ''subject.created''
     ''created'' 10]\<rparr>"

definition demo_6 :: core where
  "demo_6 = demo_5\<lparr>
     clock_reads := 13,
     counters := [(''sub'', 3), (''evt'', 6), (''bst'', 1), (''agr'', 1), (''rel'', 1), (''cns'', 1)],
     consents := [(''cns_00000001'', demo_consent)],
     events := events demo_5 @ [event_of demo_env ''evt_00000006'' ''consent.accepted'' ''active''
     ''consent'' 12],
     receipts := receipts demo_5 @ [receipt_of demo_env ''evt_00000006'' ''consent.accepted''
     ''active'' 12]\<rparr>"

definition demo_7 :: core where
  "demo_7 = demo_6\<lparr>
     clock_reads := 15,
     counters := [(''sub'', 3), (''evt'', 7), (''bst'', 1), (''agr'', 1), (''rel'', 1), (''cns'', 1)],
     claims := [((''resident'', ''1'', ''1''), demo_claim)],
     authority_grants := [(''agr_00000001'', demo_root 2)],
     events := events demo_6 @ [event_of demo_env ''evt_00000007'' ''claim_definition.registered''
     ''registered'' ''claim_definition'' 14],
     receipts := receipts demo_6 @ [receipt_of demo_env ''evt_00000007''
     ''claim_definition.registered'' ''registered'' 14]\<rparr>"

definition demo_8 :: core where
  "demo_8 = demo_7\<lparr>
     clock_reads := 17,
     counters := [(''sub'', 3), (''evt'', 8), (''bst'', 1), (''agr'', 1), (''rel'', 1), (''cns'', 1),
     (''clm'', 1)],
     requests := [(''clm_00000001'', demo_request)],
     events := events demo_7 @ [event_of demo_env ''evt_00000008'' ''claim.requested'' ''pending''
     ''claim_request'' 16],
     receipts := receipts demo_7 @ [receipt_of demo_env ''evt_00000008'' ''claim.requested''
     ''pending'' 16]\<rparr>"

definition demo_9 :: core where
  "demo_9 = demo_8\<lparr>
     clock_reads := 21,
     counters := [(''sub'', 3), (''evt'', 9), (''bst'', 1), (''agr'', 2), (''rel'', 1), (''cns'', 1),
     (''clm'', 1)],
     authority_grants := [(''agr_00000001'', demo_root 3), (''agr_00000002'', demo_delegate 0)],
     events := events demo_8 @ [event_of demo_env ''evt_00000009'' ''authority.granted'' ''active''
     ''authority'' 20],
     receipts := receipts demo_8 @ [receipt_of demo_env ''evt_00000009'' ''authority.granted''
     ''active'' 20]\<rparr>"

definition demo_10 :: core where
  "demo_10 = demo_9\<lparr>
     clock_reads := 24,
     counters := [(''sub'', 3), (''evt'', 10), (''bst'', 1), (''agr'', 2), (''rel'', 1), (''cns'', 1),
     (''clm'', 1), (''inv'', 1)],
     invitations := [(''inv_00000001'', demo_invitation)],
     events := events demo_9 @ [event_of demo_env ''evt_00000010'' ''attestor.invited'' ''pending''
     ''invitation'' 23],
     receipts := receipts demo_9 @ [receipt_of demo_env ''evt_00000010'' ''attestor.invited''
     ''pending'' 23]\<rparr>"

definition demo_11 :: core where
  "demo_11 = demo_10\<lparr>
     clock_reads := 28,
     counters := [(''sub'', 3), (''evt'', 11), (''bst'', 1), (''agr'', 2), (''rel'', 1), (''cns'', 1),
     (''clm'', 1), (''inv'', 1), (''int'', 1)],
     authority_grants := [(''agr_00000001'', demo_root 4), (''agr_00000002'', demo_delegate 0)],
     introductions := [(''int_00000001'', demo_introduction)],
     events := events demo_10 @ [event_of demo_env ''evt_00000011'' ''attestor.introduced'' ''pending''
     ''introduction'' 27],
     receipts := receipts demo_10 @ [receipt_of demo_env ''evt_00000011'' ''attestor.introduced''
     ''pending'' 27]\<rparr>"

definition demo_12 :: core where
  "demo_12 = demo_11\<lparr>
     clock_reads := 32,
     counters := [(''sub'', 3), (''evt'', 12), (''bst'', 1), (''agr'', 2), (''rel'', 1), (''cns'', 1),
     (''clm'', 1), (''inv'', 1), (''int'', 1), (''att'', 1), (''crd'', 1)],
     authority_grants := [(''agr_00000001'', demo_root 4), (''agr_00000002'', demo_delegate 1)],
     attestations := [(''att_00000001'', demo_attestation)],
     credentials := [(''crd_00000001'', demo_credential)],
     credential_by_request := [(''clm_00000001'', ''crd_00000001'')],
     events := events demo_11 @ [event_of demo_env ''evt_00000012'' ''attestation.issued'' ''active''
     ''attestation'' 31],
     receipts := receipts demo_11 @ [receipt_of demo_env ''evt_00000012'' ''attestation.issued''
     ''active'' 31]\<rparr>"

definition demo_13 :: core where
  "demo_13 = demo_12\<lparr>
     clock_reads := 34,
     counters := [(''sub'', 3), (''evt'', 13), (''bst'', 1), (''agr'', 2), (''rel'', 1), (''cns'', 1),
     (''clm'', 1), (''inv'', 1), (''int'', 1), (''att'', 1), (''crd'', 1), (''rcm'', 1)],
     recovery_commitments := [(''rcm_00000001'', demo_commitment)],
     events := events demo_12 @ [event_of demo_env ''evt_00000013'' ''recovery.commitment_registered''
     ''active'' ''recovery'' 33],
     receipts := receipts demo_12 @ [receipt_of demo_env ''evt_00000013''
     ''recovery.commitment_registered'' ''active'' 33]\<rparr>"

definition demo_14 :: core where
  "demo_14 = demo_13\<lparr>
     clock_reads := 37,
     counters := [(''sub'', 3), (''evt'', 14), (''bst'', 1), (''agr'', 2), (''rel'', 1), (''cns'', 1),
     (''clm'', 1), (''inv'', 1), (''int'', 1), (''att'', 1), (''crd'', 1), (''rcm'', 1), (''aud'', 1)],
     authority_grants := [(''agr_00000001'', demo_root 5), (''agr_00000002'', demo_delegate 1)],
     audits := [(''aud_00000001'', demo_audit)],
     events := events demo_13 @ [event_of demo_env ''evt_00000014'' ''audit.selected'' ''pending''
     ''audit'' 36],
     receipts := receipts demo_13 @ [receipt_of demo_env ''evt_00000014'' ''audit.selected''
     ''pending'' 36]\<rparr>"

definition demo_15 :: core where
  "demo_15 = demo_14\<lparr>
     clock_reads := 39,
     counters := [(''sub'', 3), (''evt'', 15), (''bst'', 1), (''agr'', 2), (''rel'', 1), (''cns'', 1),
     (''clm'', 1), (''inv'', 1), (''int'', 1), (''att'', 1), (''crd'', 1), (''rcm'', 1), (''aud'', 1),
     (''chg'', 1)],
     challenges := [(''chg_00000001'', demo_challenge)],
     events := events demo_14 @ [event_of demo_env ''evt_00000015'' ''challenge.opened'' ''open''
     ''challenge'' 38],
     receipts := receipts demo_14 @ [receipt_of demo_env ''evt_00000015'' ''challenge.opened'' ''open''
     38]\<rparr>"

definition demo_16 :: core where
  "demo_16 = demo_15\<lparr>
     clock_reads := 40,
     counters := [(''sub'', 3), (''evt'', 16), (''bst'', 1), (''agr'', 2), (''rel'', 1), (''cns'', 1),
     (''clm'', 1), (''inv'', 1), (''int'', 1), (''att'', 1), (''crd'', 1), (''rcm'', 1), (''aud'', 1),
     (''chg'', 1)],
     challenges := [(''chg_00000001'', demo_challenge_later)],
     events := events demo_15 @ [event_of demo_env ''evt_00000016'' ''challenge.responded''
     ''responded'' ''challenge'' 39],
     receipts := receipts demo_15 @ [receipt_of demo_env ''evt_00000016'' ''challenge.responded''
     ''responded'' 39]\<rparr>"

definition demo_17 :: core where
  "demo_17 = demo_16\<lparr>
     clock_reads := 44,
     counters := [(''sub'', 3), (''evt'', 17), (''bst'', 1), (''agr'', 2), (''rel'', 1), (''cns'', 1),
     (''clm'', 1), (''inv'', 1), (''int'', 1), (''att'', 1), (''crd'', 1), (''rcm'', 1), (''aud'', 1),
     (''chg'', 1)],
     authority_grants := [(''agr_00000001'', demo_root 6), (''agr_00000002'', demo_delegate 1)],
     audits := [(''aud_00000001'', demo_audit_later)],
     credentials := [(''crd_00000001'', demo_credential_later)],
     events := events demo_16 @ [event_of demo_env ''evt_00000017'' ''audit.decided'' ''passed''
     ''audit'' 43],
     receipts := receipts demo_16 @ [receipt_of demo_env ''evt_00000017'' ''audit.decided'' ''passed''
     43]\<rparr>"

section \<open>The calls, evaluated\<close>

lemma char_digits:
  "char_of (48::nat) = CHR ''0''" "char_of (49::nat) = CHR ''1''" "char_of (50::nat) = CHR ''2''"
  "char_of (51::nat) = CHR ''3''" "char_of (52::nat) = CHR ''4''" "char_of (53::nat) = CHR ''5''"
  "char_of (54::nat) = CHR ''6''" "char_of (55::nat) = CHR ''7''" "char_of (56::nat) = CHR ''8''"
  "char_of (57::nat) = CHR ''9''"
  by code_simp+

lemma demo_bases:
  "sorted_bases {PEER_ATTESTED} = [PEER_ATTESTED]"
  "sorted_bases {AUDIT_CORROBORATED, PEER_ATTESTED} = [AUDIT_CORROBORATED, PEER_ATTESTED]"
  by code_simp+

lemma replicate_numeral: "replicate (numeral n) x = x # replicate (pred_numeral n) x"
  by (simp add: numeral_eq_Suc)

lemma publish_run:
  "publish e op out agg s = (case env_clock e (clock_reads s) of
     Naive _ \<Rightarrow> (Inl (RuntimeError ''clock must return a timezone-aware datetime''), tick s)
   | Aware t \<Rightarrow> (Inr (receipt_of e (next_id ''evt'' (counters s)) op out t), published e op out agg t (tick s)))"
  by (simp add: publish_def now_def new_id_def run bump_def tick_def published_def next_id_def Let_def split: datetime.split)

lemmas texts = startswith_def ident_def format_08d_def pad0_def decimal.simps digit_char_def
  receipt_token_def token_def encode_def char_digits replicate_numeral b64_encode_def rstrip_def

lemmas helpers = call_def run Let_def reject_if_def now_def new_id_def publish_run published_def tick_def bump_def next_id_def counter_def fetch_def
  require_defs comparable_def compare_digest_def is_ascii_def current_operator_release_def
  require_active_release_def unsuspended_def has_active_consent_def withdraw_consents_def
  withdraw_if_active_def authorize_if_required_def consume_authority_def validate_authority_def
  put_authority_grant_def put_release_def put_attestation_def put_challenge_def out_of_scope_def scope_subset_def
  cap_reached_def below_one_def blank_def recalculate_def credential_identity_def
  active_attestations_def grant_is_active_def passed_audits_def qualifies_def threshold_def
  audited_ids_def credential_bases_def recalculated_state_def credential_unchanged_def
  resolve_attestation_authority_def resolve_independence_path_def live_under_grant_def

lemmas demo_records = demo_env_def synthetic_policy_def demo_reference_def sha256_reference_length_def demo_release_def demo_claim_def demo_delegation_def demo_attesting_def
  days_def minutes_def seconds_def demo_bases demo_kyn_def demo_bootstrap_def demo_root_def demo_notice_def demo_bob_def demo_carol_def demo_consent_def demo_request_def demo_delegate_def demo_invitation_def demo_introduction_def demo_attestation_def demo_credential_def demo_commitment_def demo_audit_def demo_challenge_def demo_challenge_later_def demo_audit_later_def demo_credential_later_def

text \<open>What each dictionary of a state holds.\<close>

lemmas views =
   arg_cong [where f = clock_reads] arg_cong [where f = counters] arg_cong [where f = subjects]
   arg_cong [where f = operator_releases] arg_cong [where f = consents]
   arg_cong [where f = recovery_commitments] arg_cong [where f = recovery_cases]
   arg_cong [where f = privacy_requests] arg_cong [where f = claims] arg_cong [where f = requests]
   arg_cong [where f = grants] arg_cong [where f = bootstrap_authorities]
   arg_cong [where f = authority_grants] arg_cong [where f = authority_promotions]
   arg_cong [where f = invitations] arg_cong [where f = introductions]
   arg_cong [where f = attestations] arg_cong [where f = audits] arg_cong [where f = challenges]
   arg_cong [where f = credentials] arg_cong [where f = credential_by_request]

lemmas demo_0_views = views [OF demo_0_def, unfolded new_core_def, simplified]
lemmas demo_1_views = views [OF demo_1_def, simplified, simplified demo_0_views]
lemmas demo_2_views = views [OF demo_2_def, simplified, simplified demo_1_views]
lemmas demo_3_views = views [OF demo_3_def, simplified, simplified demo_2_views]
lemmas demo_4_views = views [OF demo_4_def, simplified, simplified demo_3_views]
lemmas demo_5_views = views [OF demo_5_def, simplified, simplified demo_4_views]
lemmas demo_6_views = views [OF demo_6_def, simplified, simplified demo_5_views]
lemmas demo_7_views = views [OF demo_7_def, simplified, simplified demo_6_views]
lemmas demo_8_views = views [OF demo_8_def, simplified, simplified demo_7_views]
lemmas demo_9_views = views [OF demo_9_def, simplified, simplified demo_8_views]
lemmas demo_10_views = views [OF demo_10_def, simplified, simplified demo_9_views]
lemmas demo_11_views = views [OF demo_11_def, simplified, simplified demo_10_views]
lemmas demo_12_views = views [OF demo_12_def, simplified, simplified demo_11_views]
lemmas demo_13_views = views [OF demo_13_def, simplified, simplified demo_12_views]
lemmas demo_14_views = views [OF demo_14_def, simplified, simplified demo_13_views]
lemmas demo_15_views = views [OF demo_15_def, simplified, simplified demo_14_views]
lemmas demo_16_views = views [OF demo_16_def, simplified, simplified demo_15_views]
lemmas demo_17_views = views [OF demo_17_def, simplified, simplified demo_16_views]

lemma step_1: "exec demo_env (Create_Subject ''did:key:ed25519:a'' True) demo_0 = (Inr (), demo_1)"
  by (simp add: demo_1_def demo_0_views create_subject_def demo_records helpers texts)

lemma step_2: "exec demo_env (Bootstrap_Authority ''sub_00000001'' ''KC'' demo_reference ''1.0.0'' (Aware 1000000)) demo_1 = (Inr (), demo_2)"
  by (simp add: demo_2_def demo_1_views bootstrap_authority_def demo_records helpers texts)

lemma step_3: "exec demo_env (Register_Operator_Release demo_release) demo_2 = (Inr (), demo_3)"
  by (simp add: demo_3_def demo_2_views register_operator_release_def demo_records helpers texts)

lemma step_4: "exec demo_env (Create_Subject ''did:key:ed25519:b'' False) demo_3 = (Inr (), demo_4)"
  by (simp add: demo_4_def demo_3_views create_subject_def demo_records helpers texts)

lemma step_5: "exec demo_env (Create_Subject ''did:key:ed25519:c'' False) demo_4 = (Inr (), demo_5)"
  by (simp add: demo_5_def demo_4_views create_subject_def demo_records helpers texts)

lemma step_6: "exec demo_env (Accept_Consent ''sub_00000003'' ''1.0.0'' {''kyn_claim_processing'', ''kyn_campaign_member_ballot''}) demo_5 = (Inr (), demo_6)"
  by (simp add: demo_6_def demo_5_views accept_consent_def demo_records helpers texts)

lemma step_7: "exec demo_env (Register_Claim demo_claim (Some ''agr_00000001'')) demo_6 = (Inr (), demo_7)"
  by (simp add: demo_7_def demo_6_views register_claim_def demo_records helpers texts)

lemma step_8: "exec demo_env (Request_Claim ''sub_00000003'' ''resident'' ''1'' ''1'') demo_7 = (Inr (), demo_8)"
  by (simp add: demo_8_def demo_7_views request_claim_def demo_records helpers texts)

lemma step_9: "exec demo_env (Grant_Authority demo_delegation) demo_8 = (Inr (), demo_9)"
  by (simp add: demo_9_def demo_8_views grant_authority_def demo_records helpers texts)

lemma step_10: "exec demo_env (Invite_Attestor ''clm_00000001'' ''sub_00000002'' (Aware 700000)) demo_9 = (Inr (), demo_10)"
  by (simp add: demo_10_def demo_9_views invite_attestor_def demo_records helpers texts)

lemma step_11: "exec demo_env (Introduce_Attestor ''clm_00000001'' ''sub_00000001'' ''sub_00000002'' (Aware 700000)
     (Some ''agr_00000001'')) demo_10 = (Inr (), demo_11)"
  by (simp add: demo_11_def demo_10_views introduce_attestor_def demo_records helpers texts)

lemma step_12: "exec demo_env (Issue_Attestation demo_attesting) demo_11 = (Inr (), demo_12)"
  by (simp add: demo_12_def demo_11_views issue_attestation_def demo_records helpers texts)

lemma step_13: "exec demo_env (Register_Recovery_Commitment ''sub_00000003'' demo_reference) demo_12 = (Inr (), demo_13)"
  by (simp add: demo_13_def demo_12_views register_recovery_commitment_def demo_records helpers texts)

lemma step_14: "exec demo_env (Select_Audit ''att_00000001'' RANDOM ''seed'' (Some ''agr_00000001'')) demo_13 = (Inr (), demo_14)"
  by (simp add: demo_14_def demo_13_views select_audit_def demo_records helpers texts)

lemma step_15: "exec demo_env (Open_Challenge ''att_00000001'' ''why'' (Some ''sub_00000003'')) demo_14 = (Inr (), demo_15)"
  by (simp add: demo_15_def demo_14_views open_challenge_def demo_records helpers texts)

lemma step_16: "exec demo_env (Respond_To_Challenge ''chg_00000001'' ''reply'') demo_15 = (Inr (), demo_16)"
  by (simp add: demo_16_def demo_15_views respond_to_challenge_def demo_records helpers texts)

lemma step_17: "exec demo_env (Decide_Audit ''aud_00000001'' True (Some ''agr_00000001'')) demo_16 = (Inr (), demo_17)"
  by (simp add: demo_17_def demo_16_views decide_audit_def demo_records helpers texts)

text \<open>A revocation in the ninth state returns.\<close>

lemma step_revoke:
  "\<exists>t. exec demo_env (Revoke_Authority ''agr_00000001'' ''agr_00000002'' ''left'') demo_9 = (Inr (), t)"
  by (simp add: demo_9_views revoke_authority_def revoke_one_def invalidate_under_def rests_on_def invalidate_def
      recalculate_all_def revocation_closure.simps Collect_conv_if demo_records helpers texts)

text \<open>A deletion is asked for and approved, in the twelfth state and with a recovery waiting in the thirteenth.\<close>

lemmas privacy_steps = request_recovery_def decide_recovery_def apply_recovery_def open_privacy_request_def
  process_privacy_request_def invalidate_subject_state_def requests_of_def revoke_if_held_def erase_subject_def
  invalidate_def recalculate_all_def Collect_conv_if

lemma step_delete:
  "\<exists>s t x p. exec demo_env (Open_Privacy_Request ''sub_00000003'' DELETION ''left'') demo_12 = (Inr (), s)
     \<and> dget (privacy_requests s) ''prv_00000001'' = Some p \<and> prv_kind p = DELETION \<and> prv_subject_id p = ''sub_00000003''
     \<and> process_privacy_request demo_env ''prv_00000001'' ''agr_00000001'' True ''asked'' s = (Inr x, t)"
  by (simp add: demo_12_views demo_records helpers texts privacy_steps)

lemma hex_digits: "hex_char 10 = CHR ''a''" "hex_char 170 = CHR ''a''"
  by code_simp+

lemma step_revive:
  "\<exists>s1 s2 s3 s4 b c. exec demo_env (Request_Recovery ''sub_00000003'' ''did:key:ed25519:z'' ''secret'') demo_13 = (Inr (), s1)
     \<and> exec demo_env (Open_Privacy_Request ''sub_00000003'' DELETION ''left'') s1 = (Inr (), s2)
     \<and> exec demo_env (Process_Privacy_Request ''prv_00000001'' ''agr_00000001'' True ''asked'') s2 = (Inr (), s3)
     \<and> exec demo_env (Decide_Recovery ''rcv_00000001'' ''agr_00000001'' True ''shown'') s3 = (Inr (), s4)
     \<and> dget (recovery_cases s4) ''rcv_00000001'' = Some c \<and> rcv_state c = RCV_APPROVED
     \<and> dget (subjects s4) ''sub_00000003'' = Some b \<and> sub_deleted_at b \<noteq> None \<and> sub_participant_key b = Some ''did:key:ed25519:z''"
  by (simp add: demo_13_views demo_records helpers texts privacy_steps sha256_ref_def encode_def hexdigest_def hex_digits)

section \<open>The states are reachable\<close>

lemma demo_committed: "committed demo_env demo_9" "committed demo_env demo_12" "committed demo_env demo_13" "committed demo_env demo_17"
proof -
  have 0: "committed demo_env demo_0" unfolding demo_0_def by (rule committed.fresh)
  note steps = committed_exec [OF _ step_1] committed_exec [OF _ step_2] committed_exec [OF _ step_3]
    committed_exec [OF _ step_4] committed_exec [OF _ step_5] committed_exec [OF _ step_6] committed_exec [OF _ step_7]
    committed_exec [OF _ step_8] committed_exec [OF _ step_9] committed_exec [OF _ step_10] committed_exec [OF _ step_11]
    committed_exec [OF _ step_12] committed_exec [OF _ step_13] committed_exec [OF _ step_14] committed_exec [OF _ step_15]
    committed_exec [OF _ step_16] committed_exec [OF _ step_17]
  show 9: "committed demo_env demo_9" by (rule steps 0)+
  show 12: "committed demo_env demo_12" by (rule steps 9)+
  show 13: "committed demo_env demo_13" by (rule steps 12)+
  show "committed demo_env demo_17" by (rule steps 13)+
qed

lemma demo_reachable: "reachable demo_env demo_9" "reachable demo_env demo_12" "reachable demo_env demo_15" "reachable demo_env demo_17"
proof -
  have "committed demo_env demo_15"
    by (rule committed_exec [OF committed_exec [OF demo_committed(3) step_14] step_15])
  with demo_committed show "reachable demo_env demo_9" "reachable demo_env demo_12" "reachable demo_env demo_15" "reachable demo_env demo_17"
    by (simp_all add: committed_reachable)
qed

text \<open>
  A recovery that waits when its subject is deleted can still be approved: the deleted account has a
  key again.
\<close>

lemma demo_recovered:
  "\<exists>s c b. committed demo_env s \<and> dget (recovery_cases s) ''rcv_00000001'' = Some c \<and> rcv_state c = RCV_APPROVED
     \<and> dget (subjects s) ''sub_00000003'' = Some b \<and> sub_deleted_at b \<noteq> None \<and> sub_participant_key b \<noteq> None"
  using step_revive demo_committed(3) committed_exec by (metis option.distinct(1))

end
