(* ===== verification/Scenario.thy ===== *)
theory Scenario
  imports Gateway Example
begin

text \<open>
  The service in operation, on a small scale: a participant enrols through the HTTP adapter of a
  service with an empty database. The request is evaluated step by step, and the properties of the
  adapter and of the durable service are applied to it.
\<close>

section \<open>A service and a request\<close>

text \<open>Enrolment is open to anyone, and the label of the first operator is known.\<close>

abbreviation open_policy :: trust_policy where
  "open_policy \<equiv> synthetic_policy\<lparr>pol_bootstrap_public_label := Some ''KC''\<rparr>"

abbreviation open_env :: env where
  "open_env \<equiv> demo_env\<lparr>env_policy := open_policy, env_sha256 := (\<lambda>m. [])\<rparr>"

definition demo_web :: web where
  "demo_web = \<lparr>web_env = open_env, web_iteration = sorted_list_of_set,
     web_verify = (\<lambda>key signature message. True), web_now = 0, web_wall = 0, web_clock_skew_seconds = 300,
     web_bootstrap_token = Some ''token'', web_datetime_text = (\<lambda>_. ''1970-01-01T00:00:00Z'')\<rparr>"

definition demo_key :: string where
  "demo_key = key_prefix @ replicate 43 CHR ''A''"

definition demo_proof :: action_proof where
  "demo_proof = \<lparr>prf_nonce = replicate 16 CHR ''n'', prf_issued_at = Aware 0, prf_signature = replicate 86 CHR ''A''\<rparr>"

definition demo_action :: verified_action where
  "demo_action = \<lparr>va_command_id = ''cmd_'', va_actor_reference = ''key_sha256:''\<rparr>"

lemma iterates_sorted [simp]: "iterates sorted_list_of_set" "iterates (rev \<circ> sorted_list_of_set)"
  by (simp_all add: iterates_def)

lemma demo_web_simps [simp]:
  "web_env demo_web = open_env"
  "web_iteration demo_web = sorted_list_of_set" "web_verify demo_web = (\<lambda>key signature message. True)"
  "web_now demo_web = 0" "web_wall demo_web = 0" "web_clock_skew_seconds demo_web = 300"
  by (simp_all add: demo_web_def)

lemma demo_valid: "valid_create_subject demo_key" "valid_proof demo_proof" "nonce_ok (prf_nonce demo_proof)"
  by code_simp+

lemma demo_decodes:
  "\<exists>key. b64_decode (drop (length key_prefix) demo_key) = Inr key"
  "\<exists>sig. b64_decode (prf_signature demo_proof) = Inr sig"
proof -
  have "(case b64_decode (drop (length key_prefix) demo_key) of Inr key \<Rightarrow> True | Inl er \<Rightarrow> False)"
    "(case b64_decode (prf_signature demo_proof) of Inr sig \<Rightarrow> True | Inl er \<Rightarrow> False)"
    by code_simp+
  then show "\<exists>key. b64_decode (drop (length key_prefix) demo_key) = Inr key"
    "\<exists>sig. b64_decode (prf_signature demo_proof) = Inr sig" by (auto split: sum.splits)
qed

lemma demo_authorized: "authorize_request demo_web demo_key op demo_proof body = Inr demo_action"
proof -
  have "startswith key_prefix demo_key" by (simp add: demo_key_def)
  with demo_decodes have "verify_participant_action e (\<lambda>key signature message. True) demo_key op nonce issued body
      (prf_signature demo_proof)" for e nonce issued
    by (auto simp: verify_participant_action_def)
  then show ?thesis
    using demo_valid(3) by (simp add: authorize_request_def authorize_accepts demo_action_def)
      (simp add: demo_proof_def demo_env_def seconds_def hexdigest_def)
qed

section \<open>What the request does\<close>

abbreviation demo_subject :: subject where
  "demo_subject \<equiv> \<lparr>sub_subject_id = ''sub_00000001'', sub_participant_key = Some demo_key,
     sub_created_at = 0, sub_deleted_at = None\<rparr>"

definition demo_enrolled :: core where
  "demo_enrolled = demo_0\<lparr>
     clock_reads := 2,
     counters := [(''sub'', 1), (''evt'', 1)],
     subjects := [(''sub_00000001'', demo_subject)],
     events := events demo_0 @ [event_of (web_env demo_web) ''evt_00000001'' ''subject.created'' ''created''
       ''subject'' 1],
     receipts := receipts demo_0 @ [receipt_of (web_env demo_web) ''evt_00000001'' ''subject.created''
       ''created'' 1]\<rparr>"

definition demo_result :: transition_result where
  "demo_result = \<lparr>tr_records = [RSubject demo_subject],
     tr_receipt = receipt_of (web_env demo_web) ''evt_00000001'' ''subject.created'' ''created'' 1,
     tr_response_payload = None\<rparr>"

lemma demo_transition: "transition_of demo_web (Post_Subject demo_key) new_core = (Inr demo_result, demo_enrolled)"
proof -
  have key: "startswith ''did:key:'' demo_key" by code_simp
  have clock: "env_clock demo_env n = Aware (int n)" for n by (simp add: demo_env_def)
  have free: "\<not> pol_enforce_release synthetic_policy" by (simp add: synthetic_policy_def)
  show ?thesis
    by (fold demo_0_def) (simp add: demo_enrolled_def demo_result_def demo_0_views create_subject_def result_def
        key clock free char_digits replicate_numeral run Let_def reject_if_def now_def new_id_def publish_run published_def tick_def bump_def
        next_id_def counter_def fetch_def ident_def format_08d_def pad0_def decimal.simps digit_char_def)
qed

lemma demo_represented: "represents e empty_database new_core"
  using identifiers_reachable [OF reachable.fresh [of e]]
  by (simp add: represents_def empty_database_def storable_core_def snapshot_records_def new_core_def)

lemma demo_storable: "storable_core demo_enrolled" "storable_result demo_result"
proof -
  have "representable 0" "representable 1" by code_simp+
  then show "storable_core demo_enrolled" "storable_result demo_result"
    by (simp_all add: storable_core_def storable_result_def snapshot_records_def demo_enrolled_def demo_result_def
        demo_0_views demo_0_def new_core_def event_of_def receipt_of_def)
qed

definition demo_database :: database where
  "demo_database = stored 0 (export_snapshot sorted_list_of_set (web_env demo_web) demo_enrolled) ''cmd_''
     (result_row sorted_list_of_set (web_env demo_web) ''subject.create'' ''key_sha256:''
        (signed_body demo_web (Post_Subject demo_key)) demo_result) empty_database"

lemma demo_executed:
  "execute sorted_list_of_set (web_env demo_web) 0 ''cmd_'' ''subject.create'' ''key_sha256:''
     (signed_body demo_web (Post_Subject demo_key)) (transition_of demo_web (Post_Subject demo_key)) empty_database
   = (Inr (result_of False demo_result), demo_database)"
proof -
  have "dget (db_commands empty_database) i = None" "\<not> receipt_taken empty_database j" for i j
    by (simp_all add: empty_database_def receipt_taken_def)
  then show ?thesis
    using execute_new [OF demo_represented [of "web_env demo_web"], of "''cmd_''"] demo_transition
    by (simp add: demo_database_def del: demo_web_simps)
qed

lemma demo_served:
  "serve_post demo_web (Post_Subject demo_key) demo_proof empty_database
    = (Inr (response_of demo_web (result_of False demo_result)), demo_database)"
  using demo_executed demo_authorized [of "''subject.create''" "signed_body demo_web (Post_Subject demo_key)"] demo_valid
  by (simp add: create_subject_route_def checked_def perform_def bind_def lift_sum_def ret_def demo_action_def)

lemma demo_changed: "demo_database \<noteq> empty_database"
proof -
  have "db_commands demo_database \<noteq> []" by (simp add: demo_database_def stored_def empty_database_def)
  then show ?thesis by (metis empty_database_def database.select_convs(2))
qed

lemma demo_answers: "answers open_env empty_database demo_database"
proof -
  let ?e = "open_env"
  have "answers ?e empty_database (snd (serve_post demo_web (Post_Subject demo_key) demo_proof empty_database))"
  proof (rule answers.answered)
    show "web_env demo_web = ?e\<lparr>env_clock := env_clock demo_env\<rparr>" by simp
    show "iterates (web_iteration demo_web)" by simp
    show "storable_core t \<and> storable_result r"
      if "represents ?e empty_database s" "transition_of demo_web (Post_Subject demo_key) s = (Inr r, t)" for s r t
    proof -
      from that(1) have s: "s = new_core" by (simp add: represents_def empty_database_def)
      from trans [OF sym [OF that(2) [unfolded s]] demo_transition] demo_storable show ?thesis by simp
    qed
  qed
  then show ?thesis by (simp add: demo_served del: serve_post.simps)
qed


section \<open>The first operator\<close>

definition demo_bootstrap_request :: activate_bootstrap_input where
  "demo_bootstrap_request = \<lparr>abi_participant_key = demo_key, abi_public_label = ''KC'',
     abi_designation_reference = demo_reference, abi_policy_version = ''1.0.0'', abi_expires_at = Aware 1000000,
     abi_release_version = ''2.0.0'', abi_notice_version = ''1.0.0'', abi_terms_url = ''https://t'',
     abi_privacy_url = ''https://p'', abi_operator_contact = ''a@b'', abi_storage_posture = PROVISIONAL_BETA,
     abi_backup_evidence_reference = demo_reference, abi_sensitive_evidence_enabled = False\<rparr>"

lemma demo_bootstrap_valid: "valid_activate_bootstrap demo_bootstrap_request"
  by code_simp

lemma demo_bootstrapped:
  "\<exists>r t. activate_bootstrap_transition demo_web demo_bootstrap_request new_core = (Inr r, t)"
proof -
  have key: "startswith ''did:key:'' demo_key" by code_simp
  have clock: "env_clock demo_env n = Aware (int n)" for n by (simp add: demo_env_def)
  have free: "\<not> pol_enforce_release synthetic_policy" "pol_bootstrap_public_label synthetic_policy = None"
    by (simp_all add: synthetic_policy_def)
  have ref: "startswith ''sha256:'' demo_reference" "length demo_reference = sha256_reference_length"
    "startswith ''https://'' ''https://t''" "startswith ''https://'' ''https://p''" by code_simp+
  show ?thesis
    by (fold demo_0_def) (simp add: activate_bootstrap_transition_def demo_bootstrap_request_def demo_0_views
        create_subject_def bootstrap_authority_def register_operator_release_def result_def key clock free ref
        char_digits replicate_numeral run Let_def reject_if_def now_def new_id_def publish_run published_def tick_def
        bump_def next_id_def counter_def fetch_def ident_def format_08d_def pad0_def decimal.simps digit_char_def
        require_defs comparable_def compare_digest_def is_ascii_def current_operator_release_def unsuspended_def
        consume_authority_def validate_authority_def put_authority_grant_def put_release_def out_of_scope_def
        cap_reached_def all_capabilities_def)
qed

text \<open>On an empty database, a command whose transition returns is stored.\<close>

lemma execute_empty:
  assumes "tr new_core = (Inr r, t)"
  shows "\<exists>x db'. execute it e wall i op actor payload tr empty_database = (Inr x, db') \<and> db' \<noteq> empty_database"
proof -
  let ?db = "stored wall (export_snapshot it e t) i (result_row it e op actor payload r) empty_database"
  have "dget (db_commands empty_database) i = None" "\<not> receipt_taken empty_database j" for j
    by (simp_all add: empty_database_def receipt_taken_def)
  then have "execute it e wall i op actor payload tr empty_database = (Inr (result_of False r), ?db)"
    using execute_new [OF demo_represented [of e], of i] assms by simp
  moreover have "db_commands ?db \<noteq> []" by (simp add: stored_def empty_database_def)
  then have "?db \<noteq> empty_database" by (metis empty_database_def database.select_convs(2))
  ultimately show ?thesis by blast
qed

lemma demo_bootstrap_served:
  "\<exists>x db'. serve_post demo_web (Post_Bootstrap demo_bootstrap_request (Some (''Bearer'', ''token''))) demo_proof
     empty_database = (Inr x, db') \<and> db' \<noteq> empty_database"
proof -
  obtain r t where "activate_bootstrap_transition demo_web demo_bootstrap_request new_core = (Inr r, t)"
    using demo_bootstrapped by blast
  from execute_empty [of "activate_bootstrap_transition demo_web demo_bootstrap_request" r t, OF this, of "web_iteration demo_web" "web_env demo_web" "web_wall demo_web" "''cmd_''"
      "''authority.bootstrap_activate''" "''key_sha256:''" "activate_bootstrap_body demo_web demo_bootstrap_request"]
  obtain x db' where x: "execute (web_iteration demo_web) (web_env demo_web) (web_wall demo_web) ''cmd_''
      ''authority.bootstrap_activate'' ''key_sha256:'' (activate_bootstrap_body demo_web demo_bootstrap_request)
      (activate_bootstrap_transition demo_web demo_bootstrap_request) empty_database = (Inr x, db')"
    "db' \<noteq> empty_database" by blast
  have "map to_lower ''Bearer'' = ''bearer''" by code_simp
  moreover have "verify_bootstrap_token ''token'' ''token'' = Inr ()" by code_simp
  moreover have "web_bootstrap_token demo_web = Some ''token''" by (simp add: demo_web_def)
  moreover have "abi_participant_key demo_bootstrap_request = demo_key" by (simp add: demo_bootstrap_request_def)
  ultimately show ?thesis
    using x demo_bootstrap_valid demo_valid demo_authorized [of "''authority.bootstrap_activate''"
        "activate_bootstrap_body demo_web demo_bootstrap_request"]
    by (simp add: activate_bootstrap_route_def checked_def perform_def bind_def lift_sum_def ret_def demo_action_def
        del: list.map demo_web_simps)
qed

section \<open>A state that is stored\<close>

lemma demo_times:
  "list_all representable [0, 1, 2, 3, 4, 5, 6, 7, 8, 9, 10, 11, 12, 13, 14, 15, 16, 17, 18, 19, 20, 21, 22, 23, 24, 25,
    26, 27, 28, 29, 30, 31, 32, 33, 34, 35, 36, 37, 38, 39, 700000, 800000, 900000, 1000000, 2592000000030]"
  by code_simp

lemma demo_accepted: "accepted demo_claim"
  by (simp add: accepted_def check_claim_definition_def demo_claim_def negative_threshold_def)

lemmas demo_logs =
  arg_cong [OF demo_1_def, where f = events, simplified] arg_cong [OF demo_1_def, where f = receipts, simplified]
  arg_cong [OF demo_2_def, where f = events, simplified] arg_cong [OF demo_2_def, where f = receipts, simplified]
  arg_cong [OF demo_3_def, where f = events, simplified] arg_cong [OF demo_3_def, where f = receipts, simplified]
  arg_cong [OF demo_4_def, where f = events, simplified] arg_cong [OF demo_4_def, where f = receipts, simplified]
  arg_cong [OF demo_5_def, where f = events, simplified] arg_cong [OF demo_5_def, where f = receipts, simplified]
  arg_cong [OF demo_6_def, where f = events, simplified] arg_cong [OF demo_6_def, where f = receipts, simplified]
  arg_cong [OF demo_7_def, where f = events, simplified] arg_cong [OF demo_7_def, where f = receipts, simplified]
  arg_cong [OF demo_8_def, where f = events, simplified] arg_cong [OF demo_8_def, where f = receipts, simplified]
  arg_cong [OF demo_9_def, where f = events, simplified] arg_cong [OF demo_9_def, where f = receipts, simplified]
  arg_cong [OF demo_10_def, where f = events, simplified] arg_cong [OF demo_10_def, where f = receipts, simplified]
  arg_cong [OF demo_11_def, where f = events, simplified] arg_cong [OF demo_11_def, where f = receipts, simplified]
  arg_cong [OF demo_12_def, where f = events, simplified] arg_cong [OF demo_12_def, where f = receipts, simplified]
  arg_cong [OF demo_13_def, where f = events, simplified] arg_cong [OF demo_13_def, where f = receipts, simplified]
  arg_cong [OF demo_14_def, where f = events, simplified] arg_cong [OF demo_14_def, where f = receipts, simplified]
  arg_cong [OF demo_15_def, where f = events, simplified] arg_cong [OF demo_15_def, where f = receipts, simplified]

lemma demo_log:
  "map evt_occurred_at (events demo_15) = [1, 3, 6, 8, 10, 12, 14, 16, 20, 23, 27, 31, 33, 36, 38]"
  "map rcp_occurred_at (receipts demo_15) = [1, 3, 6, 8, 10, 12, 14, 16, 20, 23, 27, 31, 33, 36, 38]"
  by (simp_all add: demo_logs event_of_def receipt_of_def demo_0_views demo_0_def new_core_def)

lemma demo_stored: "storable_core demo_15"
proof -
  have "\<forall>t \<in> set (map evt_occurred_at (events demo_15)). representable t"
    "\<forall>t \<in> set (map rcp_occurred_at (receipts demo_15)). representable t"
    unfolding demo_log using demo_times by simp_all
  then show ?thesis
    using demo_times demo_accepted
    by (simp add: storable_core_def snapshot_records_def demo_15_views demo_records ball_Un)
qed

end
