(* ===== verification/Rollout.thy ===== *)
theory Rollout
  imports Tools Scenario
begin

text \<open>
  A deployment set up from nothing: secrets provisioned on an empty machine, a schema migrated on a
  fresh server, a key made, and an activation prepared. Each run is evaluated in the kernel.
\<close>

section \<open>Provisioning\<close>

definition demo_random :: "nat \<Rightarrow> nat \<Rightarrow> bytes" where
  "demo_random k n = replicate n CHR ''a''"

definition demo_owner :: owner where
  "demo_owner = \<lparr>own_uid = 0, own_gid = 0\<rparr>"

text \<open>An empty machine, with the usual \<open>umask\<close> of 022.\<close>

definition demo_machine :: machine where
  "demo_machine = \<lparr>mch_files = [], mch_process = demo_owner, mch_umask = 0x12\<rparr>"

lemma demo_random_length: "length (demo_random k n) = n"
  by (simp add: demo_random_def)

lemma demo_apart: "apart (mch_files s) [''srv''] None"
  by (simp add: apart_def)

lemma demo_provisioned:
  "\<exists>t. provision demo_random [''srv''] demo_owner demo_owner ''db'' None demo_machine = (Inr (outputs [''srv'']), t)"
proof -
  have "fst (provision demo_random [''srv''] demo_owner demo_owner ''db'' None demo_machine) = Inr (outputs [''srv''])"
    by code_simp
  then show ?thesis by (cases "provision demo_random [''srv''] demo_owner demo_owner ''db'' None demo_machine") simp
qed

section \<open>Settings of the deployment\<close>

definition demo_settings :: settings where
  "demo_settings = \<lparr>set_environment = Production, set_database_url = None,
     set_database_url_file = Some [''srv'', ''service'', ''database-url''],
     set_issuer = \<lparr>url_scheme = ''https'', url_text = ''https://kyn.example/''\<rparr>,
     set_policy_profile = ''kyn-000c-public-beta-v1'', set_bootstrap_public_label = ''KC Streich'',
     set_signing_key_id = ''kyn-beta-presentation-1'', set_signing_seed_file = [''srv'', ''service'', ''signing.seed''],
     set_pairwise_secret_file = [''srv'', ''service'', ''pairwise.secret''],
     set_receipt_secret_file = [''srv'', ''service'', ''receipt.secret''],
     set_bootstrap_enabled = True, set_bootstrap_token_file = Some [''srv'', ''service'', ''bootstrap.token''],
     set_action_clock_skew_seconds = 120, set_bind_host = ''127.0.0.1'', set_bind_port = 8090,
     set_forwarded_allow_ips = ''127.0.0.1''\<rparr>"

lemma demo_settings_valid: "settings_of demo_settings = Inr demo_settings"
  by (simp add: settings_of_def field_bounds_def production_requires_https_and_postgres_def demo_settings_def)

lemma demo_uses_secrets: "uses_secrets demo_settings [''srv'']"
  by (simp add: uses_secrets_def outputs_def demo_settings_def)

section \<open>A migration\<close>

text \<open>A server whose data is the list of statements it ran, and one file.\<close>

definition demo_run :: "string \<Rightarrow> string list \<Rightarrow> error + string list" where
  "demo_run sql d = Inr (d @ [sql])"

definition demo_sha256 :: "bytes \<Rightarrow> bytes" where
  "demo_sha256 v = replicate 32 (if v = [] then CHR ''a'' else hd v)"

definition demo_url :: string where
  "demo_url = ''postgresql+psycopg://db/kyn''"

definition demo_servers :: "string list servers" where
  "demo_servers = [(''postgresql://db/kyn'', \<lparr>sto_data = [], sto_versions = None\<rparr>)]"

definition demo_migrations :: "(string, bytes) dict" where
  "demo_migrations = [(''README'', ''none''), (''0001_kyn.sql'', ''SELECT 1'')]"

definition demo_migrated :: "string list servers" where
  "demo_migrated = [(''postgresql://db/kyn'', \<lparr>sto_data = [''SELECT 1''],
     sto_versions = Some [(''0001_kyn.sql'', digest_of demo_sha256 ''SELECT 1'')]\<rparr>)]"

lemma demo_migrates:
  "migrate demo_run demo_sha256 (Inr demo_url) demo_migrations demo_servers = (Inr [''0001_kyn.sql''], demo_migrated)"
proof -
  have plain: "read_text ''SELECT 1'' = Inr ''SELECT 1''" and files: "migration_files demo_migrations = [(''0001_kyn.sql'', ''SELECT 1'')]"
    and u: "psycopg_url demo_url = ''postgresql://db/kyn''" by code_simp+
  have "length (demo_sha256 v) = 32" for v by (simp add: demo_sha256_def)
  then have "sha_reference (digest_of demo_sha256 t)" for t
    unfolding digest_of_def by (intro sha_reference_hexdigest)
  then have one: "migrate_one demo_run demo_sha256 (''0001_kyn.sql'', ''SELECT 1'') (st\<lparr>sto_versions := Some []\<rparr>)
      = (Inr [''0001_kyn.sql''], \<lparr>sto_data = sto_data st @ [''SELECT 1''],
           sto_versions = Some [(''0001_kyn.sql'', digest_of demo_sha256 ''SELECT 1'')]\<rparr>)" for st
    by (cases st) (simp add: migrate_one_def run lift_sum_def plain Let_def versions_def run_migration_def demo_run_def
        insert_version_def modify_def)
  show ?thesis
    using one [of "\<lparr>sto_data = [], sto_versions = None\<rparr>"]
    by (simp add: migrate_def files lift_sum_def connected_def demo_servers_def u transaction_def run
        create_version_table_def modify_def demo_migrated_def)
qed

lemma demo_migrations_distinct: "distinct (dkeys demo_migrations)"
  by (simp add: demo_migrations_def)

section \<open>An activation\<close>

definition demo_pydantic :: pydantic where
  "demo_pydantic = \<lparr>pyd_datetime = (\<lambda>j. case j of JStr (c # t) \<Rightarrow>
         (case read_number t of Some (JInt n, []) \<Rightarrow> Some (if c = CHR ''A'' then Aware n else Naive n) | _ \<Rightarrow> None)
       | _ \<Rightarrow> None),
     pyd_bool = (\<lambda>j. case j of JBool b \<Rightarrow> Some b | _ \<Rightarrow> None),
     pyd_int = (\<lambda>j. case j of JInt n \<Rightarrow> Some n | _ \<Rightarrow> None),
     pyd_json = (\<lambda>t. case json_loads t of Inr j \<Rightarrow> Some j | Inl _ \<Rightarrow> None),
     pyd_datetime_text = (\<lambda>d. case d of Aware n \<Rightarrow> CHR ''A'' # int_text n | Naive n \<Rightarrow> CHR ''N'' # int_text n)\<rparr>"

lemma demo_laws: "pydantic_laws demo_pydantic"
  using read_number_text [of "[]"]
  by (auto simp: pydantic_laws_def demo_pydantic_def value_ends_def split: datetime.split)

definition demo_signer :: signer where
  "demo_signer = \<lparr>sgn_key_id = ''kc-kyn-participant'', sgn_public = replicate 32 CHR ''k'', sgn_sign = (\<lambda>m. replicate 64 CHR ''s'')\<rparr>"

definition demo_reference :: string where
  "demo_reference = ''sha256:'' @ replicate 64 CHR ''a''"

definition demo_draft :: activation_draft where
  "demo_draft = \<lparr>dra_public_label = ''KC Streich'', dra_designation_reference = demo_reference,
     dra_policy_version = ''1.0.0'', dra_expires_at = Aware 1000000, dra_release_version = ''1.0.0'',
     dra_notice_version = ''1.0.0'', dra_terms_url = ''https://kyn.example/terms'',
     dra_privacy_url = ''https://kyn.example/privacy'', dra_operator_contact = ''kc@kyn.example'',
     dra_storage_posture = PROVISIONAL_BETA, dra_backup_evidence_reference = demo_reference,
     dra_sensitive_evidence_enabled = False\<rparr>"

text \<open>The service in operation, with the hash of the example and the client's writing of timestamps.\<close>

definition demo_service :: web where
  "demo_service = demo_web\<lparr>web_env := open_env\<lparr>env_sha256 := demo_sha256\<rparr>,
     web_datetime_text := pyd_datetime_text demo_pydantic\<rparr>"

definition demo_confirmation :: string where
  "demo_confirmation = ''ACTIVATE '' @ digest_tail (body_digest (web_env demo_service)
     (activation_body demo_pydantic demo_draft (participant_key demo_signer)))"

lemma demo_accepted_draft: "accepted_draft demo_draft"
  by code_simp

lemma demo_prepared:
  "\<exists>p. prepare_activation (web_env demo_service) demo_pydantic demo_random demo_draft demo_signer demo_confirmation 0 = Inr p"
proof -
  have "length (env_sha256 (web_env demo_service) v) = 32" for v
    by (simp add: demo_service_def demo_sha256_def)
  then show ?thesis
    by (rule prepare_succeeds [of _ demo_draft 1000000]) (simp_all add: demo_confirmation_def demo_draft_def)
qed

section \<open>A key file\<close>

text \<open>A cipher that keeps the text as it is, which decrypts as it must.\<close>

definition demo_toolkit :: toolkit where
  "demo_toolkit = \<lparr>prim_sign = (\<lambda>seed m. seed), prim_hmac = (\<lambda>k m. m), prim_sha256 = demo_sha256, prim_clock = int,
     tk_public = (\<lambda>seed. seed), tk_scrypt = (\<lambda>passphrase salt. passphrase @ salt),
     tk_encrypt = (\<lambda>k n v a. v), tk_decrypt = (\<lambda>k n v a. Some v)\<rparr>"

definition demo_passphrase :: string where
  "demo_passphrase = ''sixteen or more letters''"

lemma demo_key_made:
  "\<exists>key t. create_encrypted_key demo_toolkit demo_random [''keys'', ''kc.json''] demo_passphrase None demo_machine = (Inr key, t)"
proof -
  let ?p = "[''keys'', ''kc.json'']"
  have "fst (private_parent ?p demo_machine) = Inr ()"
    "entry (mch_files (snd (private_parent ?p demo_machine))) ?p = Inr ?p"
    "node_at (mch_files (snd (private_parent ?p demo_machine))) ?p = None" by code_simp+
  then obtain s where parent: "private_parent ?p demo_machine = (Inr (), s)"
    and made: "\<And>v. create_file ?p 0x180 v s
      = (Inr (), s\<lparr>mch_files := dput ?p (File v (0x180 AND NOT (mch_umask s)) (mch_process s)) (mch_files s)\<rparr>)"
    by (cases "private_parent ?p demo_machine") (simp add: create_file_def run lift_sum_def put_node_def modify_def)
  have "\<not> exists_at (mch_files demo_machine) ?p" by code_simp
  moreover have "derive_key demo_toolkit demo_passphrase salt = Inr (demo_passphrase @ salt)" for salt
    by (simp add: derive_key_def demo_passphrase_def minimum_passphrase_length_def demo_toolkit_def encode_def utf8_char_def)
  ultimately show ?thesis
    using parent made
    by (simp add: create_encrypted_key_def run Let_def signer_of_def from_seed_def ed25519_seed_bytes_def demo_random_def
        participant_seed_bytes_def lift_sum_def sum_bind_def)
qed

section \<open>The commands on a console\<close>

text \<open>A machine with a key file and a draft in a private directory.\<close>

definition demo_seed :: bytes where
  "demo_seed = replicate 32 CHR ''a''"

definition demo_participant :: signer where
  "demo_participant = \<lparr>sgn_key_id = ''kc-kyn-participant'', sgn_public = demo_seed, sgn_sign = (\<lambda>m. demo_seed)\<rparr>"

definition demo_key_file :: bytes where
  "demo_key_file = encode (json_dumps (JObject (key_payload (participant_key demo_participant) ''salt'' ''nonce'' demo_seed)) @ [CHR 10])"

definition demo_draft_file :: bytes where
  "demo_draft_file = encode (json_dumps (JObject (draft_json demo_pydantic demo_draft)))"

definition office :: "bytes \<Rightarrow> bytes \<Rightarrow> machine" where
  "office k d = \<lparr>mch_files = [([''keys''], Directory 0x1C0 demo_owner), ([''keys'', ''kc.json''], File k 0x180 demo_owner),
     ([''keys'', ''draft.json''], File d 0x180 demo_owner)], mch_process = demo_owner, mch_umask = 0x12\<rparr>"

definition demo_client :: client where
  "demo_client = \<lparr>cli_toolkit = demo_toolkit, cli_env = web_env demo_service, cli_verify = (\<lambda>key signature m. key = signature),
     cli_pydantic = demo_pydantic, cli_network = (\<lambda>u hs v. HttpError 503), cli_random = demo_random, cli_now = 0,
     cli_recorded_at = 0\<rparr>"

definition demo_console :: "string list console" where
  "demo_console = \<lparr>con_machine = office demo_key_file demo_draft_file, con_servers = demo_servers,
     con_typed = [demo_passphrase, ''ACTIVATE '' @ digest_tail (body_digest (web_env demo_service)
       (activation_body demo_pydantic demo_draft (participant_key demo_participant)))],
     con_shown = []\<rparr>"

definition demo_prepare :: invocation where
  "demo_prepare = Prepare [''keys'', ''kc.json''] [''keys'', ''draft.json''] [''keys'', ''request.json'']"

lemma demo_json_laws: "json_laws demo_pydantic"
  by (simp add: json_laws_def demo_pydantic_def)

lemma demo_seed_signs: "seed_signs demo_client"
  by (simp add: seed_signs_def demo_client_def demo_toolkit_def)

lemma office_files:
  "follow (mch_files (office k d)) [''keys'', ''kc.json''] = Some ([''keys'', ''kc.json''], File k 0x180 demo_owner)"
  "follow (mch_files (office k d)) [''keys'', ''draft.json''] = Some ([''keys'', ''draft.json''], File d 0x180 demo_owner)"
  "\<not> is_symlink (mch_files (office k d)) [''keys'', ''kc.json'']"
  "\<not> exists_at (mch_files (office k d)) [''keys'', ''request.json'']"
  "private_parent [''keys'', ''request.json''] (office k d) = (Inr (), office k d)"
  "entry (mch_files (office k d)) [''keys'', ''request.json''] = Inr [''keys'', ''request.json'']"
  "node_at (mch_files (office k d)) [''keys'', ''request.json''] = None"
  by code_simp+

lemma demo_derived: "derive_key demo_toolkit demo_passphrase salt = Inr (demo_passphrase @ salt)"
  by (simp add: derive_key_def demo_passphrase_def minimum_passphrase_length_def demo_toolkit_def encode_def utf8_char_def)

lemma demo_loads:
  "load_encrypted_key demo_toolkit [''keys'', ''kc.json''] demo_passphrase (office demo_key_file d) = (Inr demo_participant, office demo_key_file d)"
proof (rule load_written_key)
  show "signer_of demo_toolkit ''kc-kyn-participant'' demo_seed = Inr demo_participant"
    by (simp add: signer_of_def from_seed_def ed25519_seed_bytes_def demo_seed_def sum_bind_def demo_toolkit_def demo_participant_def)
  show "follow (mch_files (office demo_key_file d)) [''keys'', ''kc.json''] = Some ([''keys'', ''kc.json''],
      File (encode (json_dumps (JObject (key_payload (participant_key demo_participant) ''salt'' ''nonce'' demo_seed)) @ [CHR 10])) 0x180 demo_owner)"
    using office_files(1) unfolding demo_key_file_def .
  show "(0x180 AND 0x3F :: permissions) = 0" by simp
  show "derive_key demo_toolkit demo_passphrase ''salt'' = Inr (demo_passphrase @ ''salt'')" by (rule demo_derived)
qed (simp_all add: office_files(3) demo_toolkit_def)

lemma demo_reads_draft:
  "read_draft_file demo_pydantic [''keys'', ''draft.json''] (office k demo_draft_file) = (Inr demo_draft, office k demo_draft_file)"
  using follow_reads(1) [OF office_files(2), of k demo_draft_file] written_draft_reads [OF demo_laws demo_json_laws demo_accepted_draft]
  by (simp add: read_draft_file_def read_text_file_def run lift_sum_def demo_draft_file_def read_text_encode dumps_no_cr del: json_dumps.simps)

lemma demo_writes:
  "\<exists>m. write_evidence [''keys'', ''request.json''] kvs (office k d) = (Inr (), m)"
  using office_files(4-7)
  by (simp add: write_evidence_def create_file_def run lift_sum_def put_node_def del: json_indented.simps)

lemma demo_prepare_runs: "\<exists>t. activation_main demo_client demo_prepare demo_console = (Inr (), t)"
proof -
  let ?e = "web_env demo_service" and ?key = "participant_key demo_participant"
  let ?digest = "body_digest ?e (activation_body demo_pydantic demo_draft ?key)"
  have "length (env_sha256 ?e v) = 32" for v by (simp add: demo_service_def demo_sha256_def)
  then obtain p where p: "prepare_activation ?e demo_pydantic demo_random demo_draft demo_participant
      (''ACTIVATE '' @ digest_tail ?digest) 0 = Inr p"
    using prepare_succeeds [of ?e demo_draft 1000000 0 _ demo_pydantic demo_participant demo_random]
    by (auto simp: demo_draft_def)
  obtain m where m: "write_evidence [''keys'', ''request.json''] (prepared_json demo_pydantic p)
      (office demo_key_file demo_draft_file) = (Inr (), m)" using demo_writes by blast
  show ?thesis
    using p m
    by (simp add: demo_prepare_def prepare_command_def inspect_def passphrase_def ask_activate_def ask_def print_line_def
        on_machine_def run Let_def demo_console_def demo_client_def demo_loads demo_reads_draft lift_sum_def del: json_indented.simps)
qed

section \<open>A submission\<close>

text \<open>A server's machine with a request and a token, and a service that answers with what it recorded.\<close>

definition demo_token :: bytes where
  "demo_token = replicate 32 CHR ''t''"

definition counter_machine :: "bytes \<Rightarrow> machine" where
  "counter_machine r = \<lparr>mch_files = [([''run''], Directory 0x1C0 demo_owner), ([''run'', ''request.json''], File r 0x180 demo_owner),
     ([''run'', ''token''], File demo_token 0x100 demo_owner)], mch_process = demo_owner, mch_umask = 0x12\<rparr>"

definition demo_response :: "(string \<times> json) list" where
  "demo_response = [
     (''records'', JList [
        JObject [(''record_type'', JStr ''subject''), (''participant_key'', JStr (participant_key demo_participant))],
        JObject [(''record_type'', JStr ''bootstrap_authority''), (''public_label'', JStr ''KC Streich'')],
        JObject [(''record_type'', JStr ''authority_grant'')],
        JObject [(''record_type'', JStr ''operator_release''), (''release_version'', JStr ''1.0.0''), (''notice_version'', JStr ''1.0.0''),
          (''terms_url'', JStr ''https://kyn.example/terms''), (''privacy_url'', JStr ''https://kyn.example/privacy''),
          (''operator_contact'', JStr ''kc@kyn.example''), (''storage_posture'', JStr (posture_value PROVISIONAL_BETA)),
          (''backup_evidence_reference'', JStr demo_reference), (''sensitive_evidence_enabled'', JBool False)]]),
     (''receipt'', JObject [(''record_type'', JStr ''receipt''), (''receipt_id'', JStr ''rcp_00000001'')])]"

definition demo_submitter :: client where
  "demo_submitter = demo_client\<lparr>cli_network := (\<lambda>u hs v. Reply (encode (json_compact (JObject demo_response))))\<rparr>"

definition demo_submit :: invocation where
  "demo_submit = Submit ''https://kyn.example'' [''run'', ''request.json''] [''run'', ''token''] [''run'', ''evidence.json'']"

lemma counter_files:
  "follow (mch_files (counter_machine r)) [''run'', ''request.json''] = Some ([''run'', ''request.json''], File r 0x180 demo_owner)"
  "follow (mch_files (counter_machine r)) [''run'', ''token''] = Some ([''run'', ''token''], File demo_token 0x100 demo_owner)"
  "\<not> exists_at (mch_files (counter_machine r)) [''run'', ''evidence.json'']"
  "private_parent [''run'', ''evidence.json''] (counter_machine r) = (Inr (), counter_machine r)"
  "entry (mch_files (counter_machine r)) [''run'', ''evidence.json''] = Inr [''run'', ''evidence.json'']"
  "node_at (mch_files (counter_machine r)) [''run'', ''evidence.json''] = None"
  by code_simp+

lemma demo_token_read: "read_secret_file [''run'', ''token''] None (counter_machine r) = (Inr demo_token, counter_machine r)"
proof -
  have "fits None demo_token demo_token" by code_simp
  moreover have "(0x100 AND 0x3F :: permissions) = 0" by simp
  ultimately show ?thesis using counter_files(2) [of r] unfolding secret_file_iff by blast
qed

lemma demo_posted: "post_activation (cli_network demo_submitter) ''https://kyn.example'' tok payload = Inr demo_response"
proof -
  have "trusted_api (rstrip CHR ''/'' ''https://kyn.example'')" by code_simp
  moreover have "distinct_keys (JObject demo_response)" by (simp add: demo_response_def)
  from json_loads_reads [OF reads_compact [OF this] newline_spaces(2,2)]
  have "json_loads (json_compact (JObject demo_response)) = Inr (JObject demo_response)" by (simp del: json_compact.simps)
  ultimately show ?thesis
    by (simp add: post_activation_def Let_def demo_submitter_def decode_utf8_encode sum_bind_def del: json_compact.simps)
qed

lemma demo_response_valid:
  assumes "activation_body_from_request demo_pydantic (pre_request p)
    = Inr (activation_body demo_pydantic demo_draft (participant_key demo_participant))"
  shows "validate_activation_response demo_pydantic demo_response p = Inr ()"
proof -
  have "card bootstrap_record_types = 4" by (simp add: bootstrap_record_types_def)
  moreover have "{''subject'', ''bootstrap_authority'', ''authority_grant'', ''operator_release''} = bootstrap_record_types"
    by (simp add: bootstrap_record_types_def)
  ultimately show ?thesis
    by (simp add: validate_activation_response_def demo_response_def by_type_def str_field_def assms sum_bind_def
        expected_release_def activation_body_def draft_json_def demo_draft_def)
qed

lemma demo_submits:
  "\<exists>s t :: string list console. activation_main demo_submitter demo_submit s = (Inr (), t) \<and> con_typed t = []"
proof -
  let ?e = "web_env demo_service" and ?key = "participant_key demo_participant"
  let ?digest = "body_digest ?e (activation_body demo_pydantic demo_draft ?key)"
  have "length (env_sha256 ?e v) = 32" for v by (simp add: demo_service_def demo_sha256_def)
  then obtain p where p: "prepare_activation ?e demo_pydantic demo_random demo_draft demo_participant
      (''ACTIVATE '' @ digest_tail ?digest) 0 = Inr p"
    using prepare_succeeds [of ?e demo_draft 1000000 0 _ demo_pydantic demo_participant demo_random]
    by (auto simp: demo_draft_def)
  let ?p = "p\<lparr>pre_request := sorted_members (pre_request p)\<rparr>"
  let ?m = "counter_machine (encode (json_indented (JObject (prepared_json demo_pydantic p)) 0 @ [CHR 10]))"
  have opened: "read_prepared_file demo_pydantic [''run'', ''request.json''] ?m = (Inr ?p, ?m)"
    by (rule prepared_file_reads [OF demo_laws demo_json_laws p counter_files(1)])
  have valid: "validate_prepared ?e (cli_verify demo_client) demo_pydantic ?p 0 = Inr (sorted_members (pre_request p))"
    by (rule sorted_request_validates [OF demo_laws demo_accepted_draft _ p])
      (simp_all add: demo_client_def demo_participant_def demo_draft_def not_after_def)
  have "activation_body_from_request demo_pydantic (pre_request ?p) = Inr (activation_body demo_pydantic demo_draft ?key)"
    using sorted_request [OF p] body_of_request [OF demo_laws demo_accepted_draft] by auto
  note answered = demo_response_valid [OF this]
  obtain m where m: "write_evidence [''run'', ''evidence.json''] (activation_evidence ''https://kyn.example'' ?p
      (sorted_members (pre_request p)) demo_response 0) ?m = (Inr (), m)"
    using counter_files(4-6) counter_files(3)
    by (simp add: write_evidence_def create_file_def run lift_sum_def put_node_def del: json_indented.simps)
  have ascii: "is_ascii (''SUBMIT '' @ digest_tail (pre_activation_body_digest p))"
    using sha_reference_ascii [OF prepared_request_survives(4) [OF p]]
    by (auto simp: is_ascii_def digest_tail_def list_all_iff dest: in_set_dropD)
  have "decode_utf8 demo_token = Inr demo_token" by code_simp
  moreover have "\<exists>line. receipt_line demo_response = Inr line"
    by (simp add: receipt_line_def demo_response_def get_or_empty_def get_value_def sum_bind_def)
  moreover have "cli_env demo_submitter = ?e" "cli_verify demo_submitter = cli_verify demo_client"
    "cli_pydantic demo_submitter = demo_pydantic" "cli_now demo_submitter = 0" "cli_recorded_at demo_submitter = 0"
    by (simp_all add: demo_submitter_def demo_client_def)
  ultimately have "\<exists>t. activation_main demo_submitter demo_submit (demo_console\<lparr>con_machine := ?m,
      con_typed := [''SUBMIT '' @ digest_tail (pre_activation_body_digest p)]\<rparr>) = (Inr (), t) \<and> con_typed t = []"
    using opened valid answered m ascii counter_files(3) demo_token_read demo_posted
    by (auto simp: demo_submit_def submit_command_def run on_machine_def ask_def print_line_def report_receipt_def lift_sum_def
        submit_prepared_activation_def same_text_def simp del: json_indented.simps)
  then show ?thesis by blast
qed

end
