(* ===== verification/Spec2Isabelle.thy ===== *)
theory Spec2Isabelle
  imports Electorate Erasure Rollout
begin

text \<open>
  The trust core of KYN, a service that keeps accounts, consents, delegated authority, attestations
  and credentials, and tells relying parties which claims about a participant are in force.

  The program. \<open>TrustCore\<close> (\<open>src/kyn/service.py\<close>) holds all state in memory, in about twenty
  dictionaries of the records of \<open>src/kyn/models.py\<close>, and changes it by some forty methods that check
  their inputs in a fixed order and raise on the first that fails. \<open>src/kyn/crypto.py\<close> gives canonical
  JSON, digests, signatures and tokens. \<open>src/kyn/contracts.py\<close> turns records into JSON payloads and
  back, driven by the type hints of the classes. \<open>DurableTrustService\<close> (\<open>src/kyn/persistence.py\<close>)
  keeps one snapshot of the core and a table of commands in a database: each command restores a core
  from the snapshot, runs one transition, and stores the new snapshot with the result, or the result
  of the first time is replayed. \<open>src/kyn/api.py\<close> is the HTTP adapter: it validates a request, looks
  up the key of the participant who must have signed it, authorizes the signed body
  (\<open>src/kyn/auth.py\<close>) and executes the command. The operator's tools (\<open>src/kyn/activation.py\<close>,
  \<open>provision.py\<close>, \<open>migrate.py\<close>, \<open>config.py\<close>, \<open>main.py\<close>) set a deployment up and activate it.

  How it is modelled. A method is a program \<open>'s \<Rightarrow> (error + 'a) \<times> 's\<close>: an exception is a value that
  keeps the state reached so far, as a Python method does, and the checks stand in the order of the
  source, with its messages. The attributes of the core are the record \<open>core\<close>, with the readings of
  its clock counted in \<open>clock_reads\<close>; what its constructor is given (clock, keys, policy profile) and
  the primitives of the cryptography library (Ed25519, SHA-256, HMAC) are functions of the
  environment \<open>env\<close>, about which nothing is assumed unless a theorem says so. Dictionaries are lists
  of entries in insertion order, as Python's are; sets are sets, and an iteration over one is a
  parameter \<open>it\<close> that \<open>iterates\<close>. Integers are unbounded as in Python, instants are microseconds from
  the epoch, strings are lists of characters below 256, and bytes are the values of \<open>encode\<close>.
  Every definition computes, so that the examples are evaluated in the kernel.

  Theories, in the order of the program, each with the part of the source it models or speaks of:
    Prelude        exceptions, programs, weakest preconditions, dictionaries, counters
    Models         \<open>models.py\<close>: records, enumerations and constructor checks
    Encoding       UTF-8, base64url, hex digits, \<open>isoformat\<close>, canonical JSON (\<open>crypto.py\<close>)
    Calendar       \<open>fromisoformat\<close>, the dates it reads and its round trip
    CanonicalJson  canonical JSON can be read back, so equal text means equal value
    TrustState     \<open>TrustCore\<close>'s attributes, clock, counters, public log and lookups
    Proofs         \<open>crypto.py\<close> and \<open>auth.py\<close>: keys, signed messages, action proofs, bootstrap token
    Credentials    which attestations count, \<open>_recalculate\<close>, credential status
    Authority      bootstrap root, delegation, promotion, consumption, revocation
    Enrollment     releases, accounts, consent, claim definitions and requests
    Recovery       recovery commitments, cases and their decision
    Attestations   verifier grants, invitations, introductions, attestations
    Reviews        audits, challenges, appeals
    Privacy        privacy requests: withdrawal, deletion, export
    Presentation   credential presentations, member snapshots and presentations
    Service        the operations of \<open>TrustCore\<close> as one type of calls, and reachable states
    Wire, Contracts, Serialization   \<open>contracts.py\<close>: type hints, to and from JSON, round trip
    Snapshot       \<open>export_snapshot\<close>, \<open>restore_snapshot\<close> and the migration of version 1
    Durable        \<open>persistence.py\<close>: the two tables, \<open>execute\<close>, \<open>load_core\<close>
    Inputs, Api    \<open>api.py\<close>: request models and their patterns, signed bodies, the routes
    Gateway        every route that changes state as one type of requests, and the served databases
    Identifiers, Ledger, Delegation, Revocation, ReviewCycle, Assurance, Membership, Custody, Electorate,
    Erasure        the invariants and effects of the core's operations
    Example, Scenario   a core driven through seventeen calls and one served request
    Files          the part of the POSIX file system that the tools use
    Provisioning   \<open>provision.py\<close>: the secrets and directories of a deployment
    Configuration  \<open>config.py\<close>, \<open>main.py\<close> and \<open>create_app\<close>: from the environment to the service
    Migration      \<open>migrate.py\<close>: the SQL files that a database has been brought to
    JsonReader, JsonWriter   \<open>json.loads\<close>, and the texts that \<open>json.dumps\<close> writes, which it reads back
    Activation     \<open>activation.py\<close>: the owner's key file, the prepared request, its submission
    Tools          the commands of \<open>activation.py\<close>, \<open>provision.py\<close> and \<open>migrate.py\<close> on a console, and the
                   arguments of \<open>cli.py\<close> and \<open>database.py\<close>
    Rollout        a deployment provisioned, started, migrated and activated

  What is shown. Properties of the core hold of \<open>reachable\<close> states: those reached from the empty core
  by any sequence of the operations of \<open>Service\<close>, with any arguments, whether the calls return or
  raise. Authority only shrinks along delegation, and revocation takes back exactly what descends
  from a grant; a credential says what the evidence says; audits and challenges follow their state
  machines; identifiers are never issued twice, and the public log only grows; a participant's key changes by a
  decision alone, a deletion ends what a participant takes part in, and who was eligible at an instant
  never changes after it. Recovery cases are bound to their commitments in \<open>committed\<close> states, those
  that calls which return lead to: a decision that raises half-way would leave the case decided and the
  commitment open, and the database rolls it back. The serialization
  theorems say that every record, and every reachable core, is restored from its JSON form exactly.
  With them the database refines the core: in every database that the routes can produce
  (\<open>served\<close>) the stored snapshot stands for a reachable core, so that the invariants hold of what is
  stored; a command takes effect once, and nothing changes without a signature of the participant
  concerned. Around it, provisioning creates what is missing and never replaces what is there, its
  secrets are those the service reads back when it starts, a migration is applied once and its text
  is pinned by its digest, and a request that the activation client prepares is one that the
  server's bootstrap route authorizes. What the operator confirmed at the \<open>prepare\<close> command is what
  the \<open>submit\<close> command reads from the file; a submission that returns was confirmed and valid and
  leaves its evidence; and no command changes a file that is there. The interfaces between the parts are locales: what a component relies on is its
  assumption, and an interpretation on the definitions of the model discharges it.

  Bounds. The loop of \<open>revoke_authority\<close> that runs until a pass adds nothing is modelled as that
  loop over a growing set of identifiers of grants on file, with a termination proof by the grants
  not yet in it; all other loops are over collections. The proofs need no fuel. Timestamps are
  \<open>representable\<close> where a theorem speaks of text: those of the years 1 to 9999, all that Python has.

  Files and processes. A \<open>machine\<close> is the owner and the \<open>umask\<close> of the process and a map from
  absolute paths to nodes: files with their bytes, and directories, each with owner and permission
  bits, and symbolic links. A path is walked name by name with its links followed, at most forty of
  them as in the kernel, and the calls of \<open>pathlib\<close> and \<open>os\<close> that the tools make are programs over
  the machine whose failures are the exceptions Python raises. The process is the superuser who
  provisions: the source checks modes itself where it relies on them, and no call is refused for want
  of permission.

  Not modelled. HTTP itself and the types of \<open>pydantic\<close> (the routes take the request models
  themselves; how a timestamp is written in a signed body is a parameter, and so is what the activation
  client's reader does with a draft), database sessions and the row lock (commands are taken one
  after the other), the derivation of keys and the ciphers of the key file (parameters with the law
  that what was sealed opens again), the network between client and server, and \<open>argparse\<close>: the
  commands of the tools take the parsed arguments, and read and print lines of a console. The
  surrogate and multi-byte characters of Python strings are left out, except that what depends on
  them is a parameter.
\<close>

section \<open>Authority\<close>

text \<open>
  C1. Every authority grant of a reachable state is the one bootstrap root or was issued by a grant
  on file that bounds it: its capabilities, claim types, methods, tier, expiry and delegation limit
  lie within its issuer's, the issuer may delegate, and it sits one level below its issuer. It is
  never used more often than its cap.
\<close>

theorem authority_is_attenuated:
  assumes "reachable e s" "dget (authority_grants s) i = Some g"
  shows "usage_ok g \<and> agr_issued_at g < agr_expires_at g
     \<and> (case agr_issuer_authority_grant_id g of
          None \<Rightarrow> root_grant g
        | Some j \<Rightarrow> \<exists>p. dget (authority_grants s) j = Some p \<and> attenuated p g)"
  using delegations_reachable [OF assms(1)] assms(2)
  by (auto simp: authority_ok_def delegations_ok_def grant_ok_def split: option.splits)

theorem authority_is_attenuated_witness:
  "\<exists>p. dget (authority_grants demo_15) ''agr_00000001'' = Some p \<and> attenuated p (demo_delegate 1)"
  using authority_is_attenuated [OF demo_reachable(3), of "''agr_00000002''" "demo_delegate 1"]
  by (simp add: demo_15_views demo_delegate_def)

text \<open>
  C2. Delegation composes: a grant that descends from another, through any number of issuers, stays
  within it, and every grant descends from the root in at most four steps.
\<close>

theorem authority_chains_are_bounded:
  assumes "reachable e s" "dget (authority_grants s) i = Some g"
  shows "(\<exists>r p. descends (authority_grants s) i r \<and> dget (authority_grants s) r = Some p \<and> root_grant p)
     \<and> 0 \<le> agr_delegation_depth g \<and> agr_delegation_depth g \<le> agr_max_delegation_depth g
     \<and> agr_max_delegation_depth g \<le> 4
     \<and> (\<forall>a p. descends (authority_grants s) i a \<longrightarrow> dget (authority_grants s) a = Some p \<longrightarrow> within p g)"
proof -
  have ok: "delegations_ok (authority_grants s)"
    using delegations_reachable [OF assms(1)] by (simp add: authority_ok_def)
  from grant_depth [OF ok assms(2)] descends_within [OF _ ok assms(2)] show ?thesis by blast
qed

theorem authority_chains_are_bounded_witness:
  "\<exists>r p. descends (authority_grants demo_15) ''agr_00000002'' r
      \<and> dget (authority_grants demo_15) r = Some p \<and> root_grant p"
  using authority_chains_are_bounded [OF demo_reachable(3), of "''agr_00000002''" "demo_delegate 1"]
  by (simp add: demo_15_views)




text \<open>
  C5. The loop that collects what a revocation takes back ends: after at most as many passes as there
  are grants outside of the set it starts with, a pass adds nothing. What it leaves is the least set
  that has the revoked grant and, with a grant, every grant it issued.
\<close>

theorem revocation_closure_is_least:
  "(\<exists>n \<le> card (set (map agr_authority_grant_id gs) - ids).
      revocation_pass gs (((\<lambda>S. fst (revocation_pass gs S False)) ^^ n) ids) False = (revocation_closure gs ids, False))
   \<and> ids \<subseteq> revocation_closure gs ids \<and> closed_under_issue gs (revocation_closure gs ids)
   \<and> (\<forall>S. ids \<subseteq> S \<longrightarrow> closed_under_issue gs S \<longrightarrow> revocation_closure gs ids \<subseteq> S)"
  using closure_passes [of gs ids] revocation_closure_least [of ids gs] by blast

theorem revocation_closure_is_least_witness:
  "revocation_closure [demo_root 0, demo_delegate 0] {''agr_00000001''} \<subseteq> {''agr_00000001'', ''agr_00000002''}"
  by (rule revocation_closure_is_least [THEN conjunct2, THEN conjunct2, THEN conjunct2, rule_format])
    (simp_all add: closed_under_issue_def demo_root_def demo_delegate_def)

section \<open>Credentials\<close>



text \<open>
  C7. In a reachable state, and with an aware clock, asking for the status of any credential on file
  by its status reference returns, and answers from the evidence at that moment: expired exactly when the
  credential's term is over, and otherwise the recalculated state.
\<close>

theorem credential_status_is_current:
  assumes "reachable e s" "clocked e" "dget (credentials s) i = Some c"
  shows "\<exists>x t c' u v. credential_status e (crd_status_reference c) s = (Inr x, t)
     \<and> env_clock e (clock_reads s) = Aware u \<and> env_clock e (Suc (clock_reads s)) = Aware v
     \<and> dget (credentials t) i = Some c' \<and> continues c c' \<and> reflects e s (crd_request_id c) u c'
     \<and> cst_state x = (if crd_expires_at c \<le> v then CRED_EXPIRED else crd_state c')"
  by (rule credential_status_answers [OF credentials_reachable [OF assms(1)] assms(2,3)])

theorem credential_status_is_current_witness:
  "\<exists>x t. credential_status demo_env (crd_status_reference demo_credential) demo_15 = (Inr x, t)"
  using credential_status_is_current [OF demo_reachable(3), of "''crd_00000001''" demo_credential]
  by (auto simp: demo_15_views clocked_def demo_env_def)

text \<open>
  C8. Whatever is called, a credential stays on file with its identifier, request, definition,
  dates and status reference, and once it has left the provisional state it never returns to it.
\<close>

theorem credential_history:
  assumes "reachable e s" "dget (credentials s) i = Some c" "exec e cmd s = (r, t)"
  shows "\<exists>c'. dget (credentials t) i = Some c' \<and> continues c c'"
  using keepsD [OF later_exec [of e cmd i c], of s] credentials_reachable [OF assms(1)] assms(2,3)
  by (auto simp: later_def)

theorem credential_history_witness:
  "\<exists>c'. dget (credentials demo_15) ''crd_00000001'' = Some c' \<and> continues demo_credential c'"
  using credential_history [OF demo_reachable(2) _ step_13, of "''crd_00000001''" demo_credential]
  by (simp add: demo_12_views demo_13_views demo_15_views)

section \<open>Audits, challenges and appeals\<close>

text \<open>
  C9. In a reachable state no two audits are of the same attestation, and an audit has a decision time
  exactly when it is decided.
\<close>

theorem one_audit_per_attestation:
  assumes "reachable e s" "dget (audits s) i = Some x" "dget (audits s) j = Some y"
    "aud_attestation_id x = aud_attestation_id y"
  shows "i = j \<and> x = y \<and> (aud_state x = AUDIT_PENDING \<longleftrightarrow> aud_decided_at x = None)"
  using audits_reachable [OF assms(1)] assms(2-4) unfolding audits_ok_def by (metis option.inject)

theorem one_audit_per_attestation_witness:
  "aud_state demo_audit = AUDIT_PENDING \<longleftrightarrow> aud_decided_at demo_audit = None"
  using one_audit_per_attestation [OF demo_reachable(3), of "''aud_00000001''" demo_audit "''aud_00000001''" demo_audit]
  by (simp add: demo_15_views)

text \<open>
  C10. Every call moves every challenge on file along at most one edge of the review state machine:
  open to responded or decided, responded to decided, decided to appealed, appealed to closed.
  It never changes what was challenged, when, or by whom.
\<close>

theorem challenges_move_one_step:
  assumes "reachable e s" "dget (challenges s) i = Some c" "exec e cmd s = (r, t)"
  shows "\<exists>c'. dget (challenges t) i = Some c' \<and> (c' = c \<or> challenge_step c c')"
proof -
  have "kept chg_challenge_id ''chg'' challenges s"
    using identifiers_reachable [OF assms(1)] by (simp add: identifiers_ok_def)
  from challenge_call [OF assms(2) this, of e cmd] assms(3) show ?thesis
    by (auto simp: wp_def moved_def split: sum.splits)
qed

theorem challenges_move_one_step_witness:
  "\<exists>c. dget (challenges demo_17) ''chg_00000001'' = Some c \<and> challenge_step demo_challenge c"
  using challenges_move_one_step [OF demo_reachable(3) _ step_16, of "''chg_00000001''" demo_challenge]
  by (simp add: demo_15_views demo_16_views demo_17_views) (simp add: demo_challenge_def demo_challenge_later_def)

text \<open>
  C11. In a reachable state the optional fields of a challenge say what its state says: a response
  when it is responded, a decision and its time from the decision on, a reason from the appeal on, and the
  decision of the appeal exactly when it is closed.
\<close>

theorem challenges_are_well_formed:
  assumes "reachable e s" "dget (challenges s) i = Some c"
  shows "challenge_ok c"
proof -
  have "\<forall>i c. dget (challenges s) i = Some c \<longrightarrow> challenge_ok c"
    by (rule reachable_invariant [OF assms(1)]) (simp_all add: challenges_exec, simp add: new_core_def)
  with assms(2) show ?thesis by blast
qed

theorem challenges_are_well_formed_witness: "challenge_ok demo_challenge"
  using challenges_are_well_formed [OF demo_reachable(3), of "''chg_00000001''"] by (simp add: demo_15_views)

section \<open>Records\<close>



text \<open>
  C13. The public log is append-only: whatever is called, and whether or not it returns, the events
  and receipts published before stay in place, in order.
\<close>

theorem log_is_append_only:
  "exec e c s = (r, t) \<Longrightarrow> \<exists>vs rs. events t = events s @ vs \<and> receipts t = receipts s @ rs \<and> length vs = length rs"
  using keepsD [OF growing_exec [of e c], of "events s" "receipts s" s] by (auto simp: extends_log_def)

theorem log_is_append_only_witness: "\<exists>vs. events demo_13 = events demo_12 @ vs"
  using log_is_append_only [OF step_13] by blast

text \<open>
  C14. In a reachable state every dictionary has one entry per identifier, each under the identifier
  that the record itself carries, issued before and so never issued again; each claim definition is filed under
  its own key, and the index of credentials by request is exact.
\<close>

theorem identifiers_are_unique:
  assumes "reachable e s"
  shows "identifiers_ok s"
  by (rule identifiers_reachable) (rule assms)

theorem identifiers_are_unique_witness: "identifiers_ok demo_15"
  by (rule identifiers_are_unique) (rule demo_reachable)

text \<open>
  C15. In a reachable state at most one operator release is in force, and no subject has two active
  consents, two open recovery commitments, two recovery cases waiting for a decision, or two privacy
  requests of the same kind waiting for one.
\<close>

theorem one_at_a_time:
  assumes "reachable e s"
  shows "length (filter (\<lambda>r. rel_suspended_at r = None) (dvals (operator_releases s))) \<le> 1
     \<and> one_consent (consents s) \<and> one_commitment (recovery_commitments s) \<and> one_case (recovery_cases s)
     \<and> one_privacy_request (privacy_requests s)"
proof -
  have ok: "waiting_ok s" "consents_ok s" "releases_ok s" using memberships_reachable [OF assms] by auto
  then have "distinct (dkeys (operator_releases s))" by (simp add: releases_ok_def kept_def store_ok_def)
  from unique_by_length [OF this] ok show ?thesis by (simp add: waiting_ok_def consents_ok_def releases_ok_def)
qed

theorem one_at_a_time_witness: "one_consent (consents demo_15)"
  using one_at_a_time [OF demo_reachable(3)] by simp

section \<open>Participants\<close>

text \<open>
  C16. The record of a subject changes only by the approval of a waiting deletion request, which takes
  the key away and dates the deletion by the clock, or of a waiting recovery case, which replaces the
  key by the one of the case; each under an unrevoked grant that carries the capability for it. This
  holds whatever is called, whether the call returns or raises.
\<close>

theorem keys_change_by_decision:
  assumes "reachable e s" "exec e c s = (r, t)" "dget (subjects s) x = Some a"
  shows "\<exists>b. dget (subjects t) x = Some b \<and> custody_step e s c x a b"
proof -
  have "kept sub_subject_id ''sub'' subjects s"
    using identifiers_reachable [OF assms(1)] by (simp add: identifiers_ok_def)
  from custody_steps [OF this, of e c x] assms(2,3) show ?thesis
    by (auto simp: wp_def custody_kept_def split: sum.splits)
qed

theorem keys_change_by_decision_witness:
  "\<exists>b. dget (subjects demo_13) ''sub_00000003'' = Some b
     \<and> custody_step demo_env demo_12 (Register_Recovery_Commitment ''sub_00000003'' Example.demo_reference) ''sub_00000003'' demo_carol b"
  by (rule keys_change_by_decision [OF demo_reachable(2) step_13]) (simp add: demo_12_views)

text \<open>
  C17. In every state that calls which return lead to, a recovery case names a recovery commitment of
  its own subject, open while the case waits and spent once it is approved, and no commitment serves
  two cases that are not rejected: showing a secret replaces a key once.
\<close>

theorem commitments_serve_one_recovery:
  assumes "committed e s"
  shows "(\<forall>i c. dget (recovery_cases s) i = Some c \<longrightarrow>
        (\<exists>k. dget (recovery_commitments s) (rcv_recovery_commitment_id c) = Some k \<and> rcm_subject_id k = rcv_subject_id c
           \<and> (rcv_state c = RCV_PENDING \<longrightarrow> rcm_consumed_at k = None)
           \<and> (rcv_state c = RCV_APPROVED \<longrightarrow> rcm_consumed_at k \<noteq> None)))
     \<and> (\<forall>i j c d. dget (recovery_cases s) i = Some c \<longrightarrow> dget (recovery_cases s) j = Some d
          \<longrightarrow> rcv_state c \<noteq> RCV_REJECTED \<longrightarrow> rcv_state d \<noteq> RCV_REJECTED
          \<longrightarrow> rcv_recovery_commitment_id c = rcv_recovery_commitment_id d \<longrightarrow> i = j)"
  using custody_committed [OF assms] unfolding custody_ok_def cases_bound_def case_bound_def unique_by_def by blast

theorem commitments_serve_one_recovery_witness:
  "\<exists>s c k. committed demo_env s \<and> dget (recovery_cases s) ''rcv_00000001'' = Some c \<and> rcv_state c = RCV_APPROVED
     \<and> dget (recovery_commitments s) (rcv_recovery_commitment_id c) = Some k \<and> rcm_consumed_at k \<noteq> None"
proof -
  obtain s c where "committed demo_env s" "dget (recovery_cases s) ''rcv_00000001'' = Some c" "rcv_state c = RCV_APPROVED"
    using demo_recovered by blast
  with commitments_serve_one_recovery [of demo_env s] show ?thesis by blast
qed

text \<open>
  C18. An approved deletion that returns ends the subject's part: the account has no key and is dated as
  deleted, none of its consents is in force, every grant it holds is revoked, no attestation by it or
  about one of its claims is active, and no credential that needs an attestation is active on one of
  its claims.
\<close>

theorem deletion_ends_participation:
  assumes "reachable e s" "dget (privacy_requests s) i = Some p" "prv_kind p = DELETION"
    and "process_privacy_request e i actor True reason s = (Inr x, t)"
  shows "(\<exists>a. dget (subjects t) (prv_subject_id p) = Some a \<and> sub_participant_key a = None \<and> sub_deleted_at a \<noteq> None)
     \<and> cleared (prv_subject_id p) (consents t) \<and> unheld (prv_subject_id p) (authority_grants t)
     \<and> forsaken (requests_of t (prv_subject_id p)) (prv_subject_id p) (attestations t)
     \<and> ended e (requests_of t (prv_subject_id p)) (credentials t)"
  using wpD [OF deletion_departs [OF assms(1-3)] assms(4)] by (simp add: departed_def)

theorem deletion_ends_participation_witness:
  "\<exists>t. cleared ''sub_00000003'' (consents t) \<and> forsaken (requests_of t ''sub_00000003'') ''sub_00000003'' (attestations t)"
proof -
  obtain s t x p where step: "exec demo_env (Open_Privacy_Request ''sub_00000003'' DELETION ''left'') demo_12 = (Inr (), s)"
      "dget (privacy_requests s) ''prv_00000001'' = Some p" "prv_kind p = DELETION" "prv_subject_id p = ''sub_00000003''"
      "process_privacy_request demo_env ''prv_00000001'' ''agr_00000001'' True ''asked'' s = (Inr x, t)"
    using step_delete by blast
  from deletion_ends_participation [OF reachable_exec [OF demo_reachable(2) step(1)] step(2,3,5)] step(4)
  show ?thesis by auto
qed

text \<open>
  C19. The electorate of an instant is frozen: no call made after it changes which subjects were
  eligible then, nor the digest of their snapshot, so that a ballot can check the digest it was issued
  under. The call must not approve the deletion of a subject who is deleted already, since that would
  date the deletion anew.
\<close>

theorem electorate_is_frozen:
  assumes "reachable e s" "exec e c s = (r, t)" "clock_after e t0" "deletes_once s c"
  shows "member_snapshot_values e t release notice t0 = member_snapshot_values e s release notice t0"
proof -
  have stores: "kept sub_subject_id ''sub'' subjects u \<and> kept cns_consent_id ''cns'' consents u" if "reachable e u" for u
    using identifiers_reachable [OF that] by (simp add: identifiers_ok_def)
  have "eligible_subjects u t0 = sorted_list_of_set (electorate t0 u)" if "reachable e u" for u
    using stores [OF that] by (intro eligible_subjects_electorate) (auto simp: kept_def intro: store_ok_distinct)
  moreover have "electorate t0 t = electorate t0 s"
    using electorate_call [OF assms(3,4)] stores [OF assms(1)] assms(2) by (auto simp: wp_def split: sum.splits)
  ultimately show ?thesis
    using assms(1) reachable_exec [OF assms(1,2)] by (simp add: member_snapshot_values_def)
qed

theorem electorate_is_frozen_witness:
  "\<exists>r t. exec (demo_env\<lparr>env_clock := \<lambda>_. Aware 100\<rparr>) (Accept_Consent ''sub_00000003'' ''1.0.0'' {''kyn_claim_processing''}) demo_12 = (r, t)
     \<and> eligible_subjects t 90 = eligible_subjects demo_12 90"
proof -
  let ?e = "demo_env\<lparr>env_clock := \<lambda>_. Aware 100\<rparr>" and ?c = "Accept_Consent ''sub_00000003'' ''1.0.0'' {''kyn_claim_processing''}"
  obtain r t where run: "exec ?e ?c demo_12 = (r, t)" by (cases "exec ?e ?c demo_12")
  have "reachable ?e demo_12" by (simp add: reachable_clock demo_reachable)
  from electorate_is_frozen [OF this run, of 90] run show ?thesis
    by (simp add: clock_after_def deletes_once_def member_snapshot_values_def Let_def)
qed

section \<open>Serialized records\<close>

text \<open>
  C20. Every record that Python can hold is read back from its JSON form as it was, in whatever
  order the sets in it were written.
\<close>

theorem record_round_trip:
  assumes "iterates it" "storable r"
  shows "from_record (to_record it r) = Inr r"
  by (rule from_record_to_record) (rule assms)+

theorem record_round_trip_witness:
  "from_record (to_record sorted_list_of_set (RClaimDefinition demo_claim)) = Inr (RClaimDefinition demo_claim)"
  by (rule record_round_trip) (simp_all add: demo_accepted)



text \<open>
  C22. The contract is not as exact as its error message says: a payload with a nested claim may
  carry a stray field named definition, of any value, which is dropped in silence.
\<close>

theorem stray_definition_is_dropped:
  assumes "iterates it" "storable r" "definition_of r = Some d"
  shows "from_record (to_record it r @ [(''definition'', j)]) = Inr r"
  by (rule read_nested [OF assms]) simp

theorem stray_definition_is_dropped_witness:
  "from_record (to_record sorted_list_of_set (RClaimRequest demo_request) @ [(''definition'', JNull)])
     = Inr (RClaimRequest demo_request)"
  using demo_times demo_accepted
  by (intro stray_definition_is_dropped) (simp_all add: demo_request_def)

section \<open>The durable service\<close>

text \<open>
  C23. The snapshot of a reachable state restores that state exactly into a fresh core.
\<close>

theorem snapshot_restores:
  assumes "reachable e s" "iterates it" "storable_core s"
  shows "restore_snapshot e (export_snapshot it e s) new_core = (Inr (), s\<lparr>clock_reads := 0\<rparr>)"
  using restore_export [OF identifiers_reachable [OF assms(1)] assms(2), of e 0] assms(3)
  by (simp add: storable_core_def new_core_def)

theorem snapshot_restores_witness:
  "restore_snapshot demo_env (export_snapshot sorted_list_of_set demo_env demo_15) new_core
     = (Inr (), demo_15\<lparr>clock_reads := 0\<rparr>)"
  by (rule snapshot_restores [OF demo_reachable(3) _ demo_stored]) simp

text \<open>
  C24. The database refines the trust core in memory: whatever requests were answered, it stands for
  a reachable state, which every route loads; so every invariant of reachable states holds of what
  is stored.
\<close>

theorem database_refines_core:
  assumes "served e db"
  shows "\<exists>s. reachable e s \<and> represents e db s \<and> load_core e db = (Inr s, db)"
  by (rule served_core) (rule assms)

theorem database_refines_core_witness:
  "\<exists>s. reachable open_env s
     \<and> load_core open_env demo_database = (Inr s, demo_database)"
proof -
  have "served open_env demo_database"
    unfolding served_def using demo_answers by blast
  from database_refines_core [OF this] show ?thesis by blast
qed

text \<open>
  C25. A command on a database that stands for a core runs its transition on that core, unless its
  identifier is on file. If the transition raises, or its receipt was issued before, nothing is stored;
  otherwise the new core and the result are stored together, under the identifier of the command. With
  an identifier on file, nothing is stored either: another operation or another payload is refused,
  and the same ones are answered from the row.
\<close>

theorem command_is_a_transaction:
  assumes "represents e db s"
  shows "execute it e wall i op actor payload tr db =
    (case dget (db_commands db) i of
       Some row \<Rightarrow>
         if row_request_digest row \<noteq> request_digest e payload \<or> row_operation row \<noteq> op
         then (Inl (DurableStateError ''command identifier was reused for different input''), db)
         else transaction (replay row) db
     | None \<Rightarrow> (case tr s of
         (Inl er, _) \<Rightarrow> (Inl er, db)
       | (Inr r, c) \<Rightarrow>
           if receipt_taken db (rcp_receipt_id (tr_receipt r)) then (Inl (IntegrityError ''receipt_id''), db)
           else (Inr (result_of False r),
                 stored wall (export_snapshot it e c) i (result_row it e op actor payload r) db)))"
  using execute_new [OF assms] execute_known by (cases "dget (db_commands db) i") simp_all

theorem command_is_a_transaction_witness:
  "execute sorted_list_of_set demo_env 0 ''cmd_'' ''x'' ''y'' [] (raise (TrustCoreError ''no'')) empty_database
     = (Inl (TrustCoreError ''no''), empty_database)"
  using command_is_a_transaction [OF demo_represented, of sorted_list_of_set demo_env 0 "''cmd_''" "''x''" "''y''" "[]"
      "raise (TrustCoreError ''no'')"]
  by (simp add: raise_def empty_database_def)

text \<open>
  C26. A command takes effect once. However many requests come after it, the same identifier,
  operation and payload give the result of the first time again, marked as replayed, and change nothing.
\<close>

theorem commands_are_idempotent:
  assumes "represents e db s" "iterates it" "dget (db_commands db) i = None"
    and "execute it e wall i op actor payload tr db = (Inr r, db1)"
    and "\<And>r' t. tr s = (Inr r', t) \<Longrightarrow> storable_result r'"
    and "(answers e)\<^sup>*\<^sup>* db1 db2"
  shows "execute it' e wall' i op actor' payload tr' db2 = (Inr (r\<lparr>er_replayed := True\<rparr>), db2)"
  by (rule executed_once [OF assms])

theorem commands_are_idempotent_witness:
  "execute (rev \<circ> sorted_list_of_set) (web_env demo_web) 5 ''cmd_'' ''subject.create'' ''other''
     (signed_body demo_web (Post_Subject demo_key)) (raise (TrustCoreError ''no'')) demo_database
   = (Inr (result_of True demo_result), demo_database)"
proof -
  have "execute (rev \<circ> sorted_list_of_set) (web_env demo_web) 5 ''cmd_'' ''subject.create'' ''other''
     (signed_body demo_web (Post_Subject demo_key)) (raise (TrustCoreError ''no'')) demo_database
   = (Inr ((result_of False demo_result)\<lparr>er_replayed := True\<rparr>), demo_database)"
    by (rule commands_are_idempotent [OF demo_represented iterates_sorted(1) _ demo_executed])
      (use demo_transition demo_storable in \<open>auto simp: empty_database_def\<close>)
  then show ?thesis by (simp add: result_of_def)
qed

text \<open>
  C27. The version of the stored state counts the commands on file; they have distinct identifiers and
  distinct receipts, and there is no state before the first.
\<close>

theorem version_counts_commands:
  assumes "served e db"
  shows "(case db_state db of None \<Rightarrow> db_commands db = []
          | Some row \<Rightarrow> st_version row = int (length (db_commands db)) \<and> 1 \<le> st_version row)
     \<and> distinct (dkeys (db_commands db)) \<and> distinct (map row_receipt_id (dvals (db_commands db)))"
proof -
  have "rows_ok e db" "versions_ok db" using durable_represents [OF served_durable [OF assms]] by blast+
  moreover have "db_commands db \<noteq> [] \<Longrightarrow> 1 \<le> int (length (db_commands db))"
    by (cases "db_commands db") simp_all
  ultimately show ?thesis by (auto simp: rows_ok_def versions_ok_def split: option.split)
qed

theorem version_counts_commands_witness: "map_option st_version (db_state demo_database) = Some 1"
proof -
  have "served open_env demo_database"
    unfolding served_def using demo_answers by blast
  moreover have "length (db_commands demo_database) = 1" "db_state demo_database \<noteq> None"
    by (simp_all add: demo_database_def stored_def empty_database_def store_state_def modify_def)
  ultimately show ?thesis
    using version_counts_commands [of "open_env" demo_database] by auto
qed

section \<open>Signed actions\<close>


text \<open>
  C29. A signature cannot be moved: actions with the same signed message agree in operation, nonce and
  time, and their bodies are the same up to the order of entries, or else are a collision of the hash.
\<close>

theorem signature_binds_action:
  assumes "canonical_json (action_signing_payload e operation nonce issued_at body)
      = canonical_json (action_signing_payload e operation' nonce' issued_at' body')"
  shows "operation = operation' \<and> nonce = nonce' \<and> issued_at = issued_at'
    \<and> (canon (JObject body) = canon (JObject body')
       \<or> canonical_json body \<noteq> canonical_json body'
         \<and> env_sha256 e (canonical_json body) = env_sha256 e (canonical_json body'))"
  using signed_message_binds [OF assms] hexdigest_inj canonical_json_unique by blast

theorem signature_binds_action_witness:
  "canon (JObject [(''b'', JInt 1), (''a'', JNull)]) = canon (JObject [(''a'', JNull), (''b'', JInt 1)])"
proof -
  have same: "canonical_json [(''b'', JInt 1), (''a'', JNull)] = canonical_json [(''a'', JNull), (''b'', JInt 1)]"
    by code_simp
  then have "canonical_json (action_signing_payload demo_env ''x'' ''n'' ''t'' [(''b'', JInt 1), (''a'', JNull)])
      = canonical_json (action_signing_payload demo_env ''x'' ''n'' ''t'' [(''a'', JNull), (''b'', JInt 1)])"
    by (simp add: action_signing_payload_def)
  from signature_binds_action [OF this] same show ?thesis by blast
qed

section \<open>The HTTP adapter\<close>

text \<open>
  C30. The body that a request is signed over, and digested as, does not depend on the order in which the
  process iterates its sets, so that another process recognises a repeated command.
\<close>

theorem signed_body_is_stable:
  assumes "iterates (web_iteration w)" "iterates it" "finite_sets p"
  shows "signed_body (w\<lparr>web_iteration := it\<rparr>) p = signed_body w p"
  by (rule signed_body_stable) (rule assms)+

theorem signed_body_is_stable_witness:
  "signed_body (demo_web\<lparr>web_iteration := (rev \<circ> sorted_list_of_set)\<rparr>) (Post_Consent ''x'' ''n'' {''a'', ''b''})
     = signed_body demo_web (Post_Consent ''x'' ''n'' {''a'', ''b''})"
  by (rule signed_body_is_stable) simp_all

text \<open>
  C31. Nothing changes without a signature: a request after which the database is another one was
  authorized, at the time, by a proof over its operation and body under the key that the stored core
  has for the participant concerned (or the key that is being enrolled), and was executed as a
  command not known before. The bootstrap request, moreover, came with the configured bootstrap token.
\<close>

theorem only_signed_actions_change:
  assumes "serve_post w p proof db = (x, db')" "db' \<noteq> db"
  shows "signed_change w p proof db db'
    \<and> (case p of
         Post_Bootstrap q c \<Rightarrow> \<exists>expected scheme supplied. web_bootstrap_token w = Some expected
           \<and> c = Some (scheme, supplied) \<and> map to_lower scheme = ''bearer'' \<and> supplied \<noteq> []
           \<and> encode supplied = expected
       | _ \<Rightarrow> True)"
  using only_signed_changes [OF assms] bootstrap_needs_token [OF _ assms(2)] assms(1)
  by (auto split: post.split)

theorem only_signed_actions_change_witness:
  "\<exists>expected. web_bootstrap_token demo_web = Some expected \<and> encode ''token'' = expected"
proof -
  obtain x db' where "serve_post demo_web (Post_Bootstrap demo_bootstrap_request (Some (''Bearer'', ''token'')))
      demo_proof empty_database = (Inr x, db')" "db' \<noteq> empty_database"
    using demo_bootstrap_served by blast
  from only_signed_actions_change [OF this] show ?thesis by auto
qed

section \<open>Deployment\<close>





text \<open>
  C34. A migration run that returns leaves every file recorded with the digest of its text, forgets no
  record, and reports the files that were not recorded before, in the order of their names; another run
  applies nothing and changes nothing.
\<close>

theorem migrations_run_once:
  assumes "distinct (dkeys files)" "migrate run sha256 u files servers = (Inr applied, servers')"
  shows "migrate run' sha256 u files servers' = (Inr [], servers')
    \<and> (\<exists>server st st'. u = Inr server \<and> dget servers (psycopg_url server) = Some st
      \<and> dget servers' (psycopg_url server) = Some st'
      \<and> pinned sha256 (migration_files files) (versions st') \<and> remembers (versions st) (versions st')
      \<and> applied = filter (\<lambda>name. dget (versions st) name = None) (map fst (migration_files files)))"
  using migration_effect [OF assms] migration_again [OF assms] by (auto simp: dict)

theorem migrations_run_once_witness:
  "migrate (\<lambda>sql d. Inl (ValueError sql)) demo_sha256 (Inr demo_url) demo_migrations demo_migrated = (Inr [], demo_migrated)"
  using migrations_run_once [OF demo_migrations_distinct demo_migrates] by blast

text \<open>
  C35. A file whose text was changed after it was applied is refused, and the run that finds it changes
  nothing, whatever it did before it came to that file.
\<close>

theorem changed_migration_stops_the_run:
  assumes "distinct (dkeys files)" "dget servers (psycopg_url u) = Some st"
    and "(name, content) \<in> set (migration_files files)" "read_text content = Inr sql"
    and "dget (versions st) name = Some digest" "digest \<noteq> digest_of sha256 sql"
  shows "\<exists>er. migrate run sha256 (Inr u) files servers = (Inl er, servers)"
  by (rule changed_migration_is_refused) (rule assms)+

theorem changed_migration_stops_the_run_witness:
  "\<exists>er. migrate demo_run demo_sha256 (Inr demo_url) [(''0001_kyn.sql'', ''DROP 1'')] demo_migrated = (Inl er, demo_migrated)"
proof (rule changed_migration_stops_the_run)
  show "dget demo_migrated (psycopg_url demo_url) = Some \<lparr>sto_data = [''SELECT 1''],
     sto_versions = Some [(''0001_kyn.sql'', digest_of demo_sha256 ''SELECT 1'')]\<rparr>"
  proof -
    have "psycopg_url demo_url = ''postgresql://db/kyn''" by code_simp
    then show ?thesis by (simp add: demo_migrated_def)
  qed
  show "(''0001_kyn.sql'', ''DROP 1'') \<in> set (migration_files [(''0001_kyn.sql'', ''DROP 1'')])" by code_simp
  show "read_text ''DROP 1'' = Inr ''DROP 1''" by code_simp
  show "digest_of demo_sha256 ''SELECT 1'' \<noteq> digest_of demo_sha256 ''DROP 1''" by code_simp
qed (simp_all add: versions_def)

text \<open>
  C36. Client and server agree on an activation: the request that is prepared from an accepted draft
  passes the client's own validation for as long as the authority it asks for lasts, and the server
  authorizes it, over the body it makes of the parsed request, within the window around its timestamp.
\<close>

theorem prepared_activation_is_accepted:
  assumes "pydantic_laws pyd" "accepted_draft d" "\<And>m. web_verify w (sgn_public g) (sgn_sign g m) m"
    and "length (random 0 18) = 18" "web_datetime_text w = pyd_datetime_text pyd"
    and "prepare_activation (web_env w) pyd random d g confirmation t = Inr p"
    and "not_after (dra_expires_at d) t' = Inr False"
    and "\<bar>web_now w - t\<bar> \<le> seconds (web_clock_skew_seconds w)"
  shows "validate_prepared (web_env w) (web_verify w) pyd p t' = Inr (pre_request p)
    \<and> (\<exists>nonce signature a. dget (pre_request p) ''proof'' = Some (JObject [(''nonce'', JStr nonce),
          (''issued_at'', JStr (isoformat_z t)), (''signature'', JStr signature)])
       \<and> authorize_request w (participant_key g) bootstrap_operation
           \<lparr>prf_nonce = nonce, prf_issued_at = Aware t, prf_signature = signature\<rparr>
           (activate_bootstrap_body w (input_of d (participant_key g))) = Inr a)"
  using prepared_is_validated [OF assms(1,2), of "web_verify w" g "web_env w" random confirmation t p t']
    server_authorizes_prepared [of w g pyd random d confirmation t p] assms(3-8) by blast

theorem prepared_activation_is_accepted_witness:
  "\<exists>p. validate_prepared (web_env demo_service) (web_verify demo_service) demo_pydantic p 5 = Inr (pre_request p)"
proof -
  obtain p where p: "prepare_activation (web_env demo_service) demo_pydantic demo_random demo_draft demo_signer
      demo_confirmation 0 = Inr p" using demo_prepared by blast
  have "validate_prepared (web_env demo_service) (web_verify demo_service) demo_pydantic p 5 = Inr (pre_request p)"
    by (rule prepared_activation_is_accepted [THEN conjunct1, OF demo_laws demo_accepted_draft _ _ _ p])
      (simp_all add: demo_service_def demo_random_def demo_draft_def not_after_def seconds_def)
  then show ?thesis by blast
qed

text \<open>
  C37. What was confirmed is what is submitted. After the prepare command has returned, the file that it
  made is read by the submit command as a request whose digest was shown on the console and whose confirmation was
  typed there, and the request passes the validation before it is sent, as long as the authority it
  asks for lasts.
\<close>

theorem confirmed_request_is_submitted:
  assumes "pydantic_laws (cli_pydantic c)" "json_laws (cli_pydantic c)" "seed_signs c"
    and "activation_main c (Prepare key_file draft_file output_path) s = (Inr (), t)"
  shows "\<exists>p u. read_prepared_file (cli_pydantic c) output_path (con_machine t) = (Inr p, con_machine t)
    \<and> ''Activation body digest: '' @ pre_activation_body_digest p \<in> set (con_shown t)
    \<and> ''ACTIVATE '' @ digest_tail (pre_activation_body_digest p) \<in> set (con_typed s)
    \<and> cli_now c < u
    \<and> (\<forall>now < u. validate_prepared (cli_env c) (cli_verify c) (cli_pydantic c) p now = Inr (pre_request p))"
  by (rule prepare_makes_request) (rule assms)+

theorem confirmed_request_is_submitted_witness:
  "\<exists>p t. activation_main demo_client demo_prepare demo_console = (Inr (), t)
    \<and> read_prepared_file demo_pydantic [''keys'', ''request.json''] (con_machine t) = (Inr p, con_machine t)
    \<and> validate_prepared (cli_env demo_client) (cli_verify demo_client) demo_pydantic p 0 = Inr (pre_request p)"
proof -
  have client: "cli_pydantic demo_client = demo_pydantic" "cli_now demo_client = 0" by (simp_all add: demo_client_def)
  obtain t where t: "activation_main demo_client demo_prepare demo_console = (Inr (), t)"
    using demo_prepare_runs by blast
  from confirmed_request_is_submitted [of demo_client, unfolded client, OF demo_laws demo_json_laws demo_seed_signs
      t [unfolded demo_prepare_def]] t
  show ?thesis by blast
qed

text \<open>
  C38. An activation is confirmed, valid and recorded. When the submit command returns, the request in
  its file carried a signature by its own key over the body that its digest is of, the confirmation
  that was typed names that digest, and the request was sent, with the token of a private file, to a
  trusted address whose answer was accepted. The request and the answer are in a new private
  file of evidence, and the receipt was shown.
\<close>

theorem submission_is_recorded:
  assumes "activation_main c (Submit api_url request token_file evidence_path) s = (Inr (), t)"
  shows "\<exists>p response line.
      read_prepared_file (cli_pydantic c) request (con_machine s) = (Inr p, con_machine s)
    \<and> con_typed s = (''SUBMIT '' @ digest_tail (pre_activation_body_digest p)) # con_typed t
    \<and> signed_request (cli_env c) (cli_verify c) (cli_pydantic c) p
    \<and> trusted_api (rstrip CHR ''/'' api_url)
    \<and> submitted c api_url token_file p response (con_machine s)
    \<and> \<not> exists_at (mch_files (con_machine s)) evidence_path
    \<and> recorded c api_url evidence_path p response (con_machine t)
    \<and> receipt_line response = Inr line \<and> con_shown t = con_shown s @ [ask_submit p, line]"
  by (rule submission_effect) (rule assms)

theorem submission_is_recorded_witness:
  "\<exists>(t :: string list console) p response.
     recorded demo_submitter ''https://kyn.example'' [''run'', ''evidence.json''] p response (con_machine t)"
proof -
  obtain s t :: "string list console" where "activation_main demo_submitter demo_submit s = (Inr (), t)"
    using demo_submits by blast
  from submission_is_recorded [OF this [unfolded demo_submit_def]] show ?thesis by blast
qed

text \<open>
  C39. The tools overwrite nothing: whatever is asked of the activation client or of the provisioning
  command, and whether or not it returns, the content of no file changes, and no link appears. The
  client leaves the database servers alone, its inspect command only reads, and so does a migration run, as far
  as the machine is concerned.
\<close>

theorem tools_overwrite_nothing:
  "extends_files (mch_files (con_machine s)) (mch_files (con_machine (snd (activation_main c asked s))))
   \<and> con_servers (snd (activation_main c asked s)) = con_servers s
   \<and> extends_files (mch_files (con_machine s)) (mch_files (con_machine (snd (provision_main random a s))))
   \<and> con_machine (snd (activation_main c (Inspect key_file draft_file) s)) = con_machine s
   \<and> con_machine (snd (migrate_main run sha256 environ dir s)) = con_machine s"
proof (intro conjI)
  have start: "holds (extending (mch_files (con_machine s))) (con_servers s) s"
    "holds (\<lambda>m. m = con_machine s) (con_servers s) s" by (simp_all add: holds_def extending_def)
  have "keeps (activation_main c (Inspect key_file draft_file)) (holds (\<lambda>m. m = con_machine s) (con_servers s))"
    by (simp add: keeps inspect_reads)
  from keepsD [OF extending_commands start(1)] keepsD [OF extending_provision_main start(1)] keepsD [OF this start(2)]
  show "extends_files (mch_files (con_machine s)) (mch_files (con_machine (snd (activation_main c asked s))))"
    "con_servers (snd (activation_main c asked s)) = con_servers s"
    "extends_files (mch_files (con_machine s)) (mch_files (con_machine (snd (provision_main random a s))))"
    "con_machine (snd (activation_main c (Inspect key_file draft_file) s)) = con_machine s"
    by (auto simp: holds_def extending_def)
  show "con_machine (snd (migrate_main run sha256 environ dir s)) = con_machine s"
    using keepsD [OF migrate_main_reads [of run sha256 environ dir "con_machine s"]] by simp
qed

text \<open>
  C40. A key file that was made is opened with its passphrase, and gives the signer whose public key was
  reported when it was made, for any cipher that decrypts what it encrypted.
\<close>

theorem key_file_round_trip:
  assumes "\<And>k n v a. tk_decrypt tk k n (tk_encrypt tk k n v a) a = Some v"
    and "create_encrypted_key tk random p secret given s = (Inr key, t)"
  shows "\<exists>g. load_encrypted_key tk p secret t = (Inr g, t) \<and> participant_key g = key"
  by (rule key_file_opens) (rule assms)+

theorem key_file_round_trip_witness:
  "\<exists>g t. load_encrypted_key demo_toolkit [''keys'', ''kc.json''] demo_passphrase t = (Inr g, t)"
proof -
  obtain key t where made: "create_encrypted_key demo_toolkit demo_random [''keys'', ''kc.json''] demo_passphrase None
      demo_machine = (Inr key, t)" using demo_key_made by blast
  from key_file_round_trip [OF _ this] show ?thesis by (auto simp: demo_toolkit_def)
qed

end
